(* ===== verification/Prelude.thy ===== *)
theory Prelude
  imports Main "HOL-Library.Monad_Syntax" "HOL-Library.Char_ord" "HOL-Library.List_Lexorder"
    "HOL-Library.Sublist" "HOL-Library.Multiset"
begin

text \<open>
  Generic material shared by all components: iteration in the option monad, splitting and
  joining of strings, and the theorem collections of the development.

  Throughout the development a C function is a HOL function into the \<open>option\<close> monad.
  \<open>None\<close> means that the C program has undefined behaviour at that point: it writes or
  reads outside of an array, dereferences \<open>NULL\<close>, or casts an object to a class it
  does not have. A pointer that may legally be \<open>NULL\<close> is an \<open>option\<close> value of its
  own; the two are never mixed in one level.
\<close>

named_theorems cdefs \<open>definitions of small C helpers, unfolded by the component proofs\<close>
named_theorems clen \<open>lengths of buffers after an operation\<close>

section \<open>Iteration in the option monad\<close>

primrec foldM :: "('s \<Rightarrow> 'a \<Rightarrow> 's option) \<Rightarrow> 's \<Rightarrow> 'a list \<Rightarrow> 's option" where
  "foldM f s [] = Some s"
| "foldM f s (x # xs) = do { s' \<leftarrow> f s x; foldM f s' xs }"

lemma foldM_append [simp]: "foldM f s (xs @ ys) = do { s' \<leftarrow> foldM f s xs; foldM f s' ys }"
  by (induction xs arbitrary: s) (auto split: Option.bind_splits)

lemma foldM_cong [fundef_cong]:
  "s = s' \<Longrightarrow> xs = ys \<Longrightarrow> (\<And>t x. x \<in> set ys \<Longrightarrow> f t x = g t x) \<Longrightarrow> foldM f s xs = foldM g s' ys"
proof (induction ys arbitrary: xs s s')
  case (Cons y ys)
  have "f s' y = g s' y" using Cons.prems by simp
  moreover have "foldM f t ys = foldM g t ys" for t
    by (rule Cons.IH) (use Cons.prems in auto)
  ultimately show ?case using Cons.prems by (auto split: Option.bind_splits)
qed simp

text \<open>A loop whose body is itself a sequence of steps is one long sequence of steps.\<close>

lemma foldM_concat: "foldM (\<lambda>s x. foldM f s (p x)) s xs = foldM f s (concat (map p xs))"
  by (induction xs arbitrary: s) (auto split: Option.bind_splits)

lemma foldM_map: "foldM f s (map g xs) = foldM (\<lambda>s x. f s (g x)) s xs"
  by (induction xs arbitrary: s) (auto split: Option.bind_splits)

text \<open>The invariant rule: a step that keeps \<open>I\<close> and always succeeds under \<open>I\<close>.\<close>

lemma foldM_total:
  assumes "I s" and "\<And>t x. I t \<Longrightarrow> x \<in> set xs \<Longrightarrow> \<exists>t'. f t x = Some t' \<and> I t'"
  shows "\<exists>s'. foldM f s xs = Some s' \<and> I s'"
  using assms
proof (induction xs arbitrary: s)
  case (Cons x xs)
  then obtain t where "f s x = Some t" "I t" by (meson list.set_intros(1))
  moreover have "\<exists>s'. foldM f t xs = Some s' \<and> I s'"
    using \<open>I t\<close> Cons.prems(2) by (intro Cons.IH) auto
  ultimately show ?case by auto
qed simp

lemma foldM_Some_fold:
  "(\<And>t x. x \<in> set xs \<Longrightarrow> f t x = Some (g x t)) \<Longrightarrow> foldM f s xs = Some (fold g xs s)"
  by (induction xs arbitrary: s) auto

lemma foldM_invariant:
  "foldM f s xs = Some s' \<Longrightarrow> I s \<Longrightarrow> (\<And>t x t'. x \<in> set xs \<Longrightarrow> I t \<Longrightarrow> f t x = Some t' \<Longrightarrow> I t') \<Longrightarrow> I s'"
proof (induction xs arbitrary: s)
  case (Cons x xs)
  from Cons.prems(1) obtain t where t: "f s x = Some t" "foldM f t xs = Some s'"
    by (auto simp: bind_eq_Some_conv)
  have "I t" by (rule Cons.prems(3)[OF _ Cons.prems(2) t(1)]) simp
  then show ?case by (rule Cons.IH[OF t(2)]) (use Cons.prems(3) in auto)
qed simp

lemma bind_Some_eqI: "m = Some x \<Longrightarrow> f x = r \<Longrightarrow> Option.bind m f = r"
  by simp

section \<open>Splitting and joining\<close>

text \<open>\<open>join_with sep [a, b, c]\<close> is \<open>a sep b sep c\<close>.\<close>

fun join_with :: "'a list \<Rightarrow> 'a list list \<Rightarrow> 'a list" where
  "join_with sep [] = []"
| "join_with sep [x] = x"
| "join_with sep (x # y # xs) = x @ sep @ join_with sep (y # xs)"

lemma join_with_Cons: "xs \<noteq> [] \<Longrightarrow> join_with sep (x # xs) = x @ sep @ join_with sep xs"
  by (cases xs) auto

lemma join_with_concat:
  "join_with sep (x # xs) = x @ concat (map (\<lambda>y. sep @ y) xs)"
  by (induction xs arbitrary: x) auto

lemma join_with_snoc: "xs \<noteq> [] \<Longrightarrow> join_with sep (xs @ [y]) = join_with sep xs @ sep @ y"
  by (induction sep xs rule: join_with.induct) auto

lemma set_join_with: "set (join_with sep xs) \<subseteq> set sep \<union> \<Union> (set ` set xs)"
  by (induction sep xs rule: join_with.induct) auto

text \<open>\<open>split_on c s\<close>: the pieces of \<open>s\<close> between the occurrences of \<open>c\<close>; never empty.\<close>

fun split_on :: "'a \<Rightarrow> 'a list \<Rightarrow> 'a list list" where
  "split_on c [] = [[]]"
| "split_on c (x # xs) =
     (if x = c then [] # split_on c xs
      else (case split_on c xs of [] \<Rightarrow> [[x]] | p # ps \<Rightarrow> (x # p) # ps))"

lemma split_on_nonempty [simp]: "split_on c s \<noteq> []"
  by (induction c s rule: split_on.induct) (auto split: list.splits)

lemma split_on_notin: "c \<notin> set s \<Longrightarrow> split_on c s = [s]"
  by (induction s) auto

lemma split_on_append: "c \<notin> set p \<Longrightarrow> split_on c (p @ c # s) = p # split_on c s"
  by (induction p) auto

lemma split_on_join:
  "xs \<noteq> [] \<Longrightarrow> \<forall>x \<in> set xs. c \<notin> set x \<Longrightarrow> split_on c (join_with [c] xs) = xs"
proof (induction "[c]" xs rule: join_with.induct)
  case (2 x)
  then show ?case by (simp add: split_on_notin)
next
  case (3 x y xs)
  then show ?case by (simp add: split_on_append)
qed simp

lemma split_on_pieces: "p \<in> set (split_on c s) \<Longrightarrow> c \<notin> set p"
  by (induction s arbitrary: p) (auto split: if_splits list.splits)

lemma split_on_subset: "p \<in> set (split_on c s) \<Longrightarrow> set p \<subseteq> set s"
  by (induction s arbitrary: p) (fastforce split: if_splits list.splits)+

lemma split_on_length: "p \<in> set (split_on c s) \<Longrightarrow> length p \<le> length s"
  by (induction s arbitrary: p) (fastforce split: if_splits list.splits)+

section \<open>List facts\<close>

lemma concat_map_enumerate_split:
  "concat (map (\<lambda>(i, x). (if 0 < i then sep else []) @ f x) (enumerate (Suc k) xs)) = concat (map (\<lambda>x. sep @ f x) xs)"
  by (induction xs arbitrary: k) auto

lemma join_with_enumerate:
  "concat (map (\<lambda>(i, x). (if 0 < i then sep else []) @ f x) (enumerate 0 xs)) = join_with sep (map f xs)"
proof (cases xs)
  case (Cons y ys)
  have "concat (map (\<lambda>(i, x). (if 0 < i then sep else []) @ f x) (enumerate (Suc 0) ys)) =
        concat (map (\<lambda>x. sep @ f x) ys)"
    by (rule concat_map_enumerate_split)
  then show ?thesis using Cons by (simp add: join_with_concat comp_def)
qed simp

lemma takeWhile_neq_append [simp]:
  "c \<notin> set xs \<Longrightarrow> takeWhile (\<lambda>x. x \<noteq> c) (xs @ c # ys) = xs"
  by (induction xs) auto

lemma takeWhile_neq_notin: "c \<notin> set xs \<Longrightarrow> takeWhile (\<lambda>x. x \<noteq> c) xs = xs"
  by (induction xs) auto

lemma takeWhile_neq_set: "c \<notin> set (takeWhile (\<lambda>x. x \<noteq> c) xs)"
  by (induction xs) auto

lemma length_takeWhile_neq: "c \<in> set xs \<Longrightarrow> length (takeWhile (\<lambda>x. x \<noteq> c) xs) < length xs"
  by (induction xs) auto

lemma split_at_first:
  "c \<in> set xs \<Longrightarrow> xs = takeWhile (\<lambda>x. x \<noteq> c) xs @ c # drop (Suc (length (takeWhile (\<lambda>x. x \<noteq> c) xs))) xs"
  by (induction xs) auto

lemma dropWhile_hd: "dropWhile P xs = y # ys \<Longrightarrow> \<not> P y"
  by (induction xs) (auto split: if_splits)

lemma dropWhile_hd_id: "xs = [] \<or> \<not> P (hd xs) \<Longrightarrow> dropWhile P xs = xs"
  by (cases xs) auto

lemma list_update_append_length [simp]: "(xs @ y # ys)[length xs := z] = xs @ z # ys"
  by (induction xs) auto

lemma sort_perm_eq: "mset xs = mset ys \<Longrightarrow> sort xs = sort ys"
  by (metis mset_sort properties_for_sort sorted_sort)

lemma sort_filter: "sort (filter P xs) = filter P (sort xs)"
  by (simp add: filter_sort)

text \<open>Evaluation of \<open>char_of\<close> on a numeral.\<close>

lemma bit_Suc_0_0: "bit (Suc 0) 0"
  by (simp add: bit_0)

lemmas char_code = char_of_def bit_Suc_0_0

end
