(* ===== verification/C_Runtime.thy ===== *)
theory C_Runtime
  imports Prelude
begin

text \<open>
  The part of the C standard library the client uses, over an explicit memory model.

  An array of \<open>char\<close> (a member of a struct, a local array, a heap block) is a
  \<open>buffer\<close>: the list of all its bytes, so its length is the size of the array. A write
  outside of the array is \<open>None\<close>. A pointer to a C string that is only read is a
  \<open>string\<close>, the bytes before the terminator; reading an array as a string is \<open>c_str\<close>,
  which is \<open>None\<close> when the array holds no terminator.
\<close>

type_synonym buffer = "char list"

abbreviation NUL :: char where "NUL \<equiv> CHR 0x00"

definition cstring :: "string \<Rightarrow> bool" where
  [cdefs]: "cstring s \<longleftrightarrow> NUL \<notin> set s"

lemma cstring_append [simp]: "cstring (s @ t) \<longleftrightarrow> cstring s \<and> cstring t"
  by (auto simp: cdefs)

lemma cstring_Cons [simp]: "cstring (c # s) \<longleftrightarrow> c \<noteq> NUL \<and> cstring s"
  by (auto simp: cdefs)

lemma cstring_Nil [simp]: "cstring []"
  by (simp add: cdefs)

lemma cstring_take: "cstring s \<Longrightarrow> cstring (take n s)"
  by (auto simp: cdefs dest: in_set_takeD)

lemma cstring_drop: "cstring s \<Longrightarrow> cstring (drop n s)"
  by (auto simp: cdefs dest: in_set_dropD)

lemma cstring_concat [simp]: "cstring (concat ss) \<longleftrightarrow> (\<forall>s \<in> set ss. cstring s)"
  by (auto simp: cdefs)

section \<open>Arrays\<close>

definition buf_write :: "buffer \<Rightarrow> nat \<Rightarrow> char list \<Rightarrow> buffer option" where
  "buf_write b off cs =
     (if off + length cs \<le> length b then Some (take off b @ cs @ drop (off + length cs) b) else None)"

definition buf_set :: "buffer \<Rightarrow> nat \<Rightarrow> char \<Rightarrow> buffer option" where
  "buf_set b i c = (if i < length b then Some (b[i := c]) else None)"

definition buf_get :: "buffer \<Rightarrow> nat \<Rightarrow> char option" where
  "buf_get b i = (if i < length b then Some (b ! i) else None)"

definition c_str :: "buffer \<Rightarrow> string option" where
  "c_str b = (if NUL \<in> set b then Some (takeWhile (\<lambda>c. c \<noteq> NUL) b) else None)"

text \<open>\<open>memset(p, 0, n)\<close> over a whole array of \<open>n\<close> bytes, and an array with arbitrary contents.\<close>

definition zeros :: "nat \<Rightarrow> buffer" where "zeros n = replicate n NUL"

lemma buf_write_length [clen]: "buf_write b off cs = Some b' \<Longrightarrow> length b' = length b"
  by (auto simp: buf_write_def split: if_splits)

lemma buf_set_length [clen]: "buf_set b i c = Some b' \<Longrightarrow> length b' = length b"
  by (auto simp: buf_set_def split: if_splits)

lemma buf_write_Some_iff: "(\<exists>b'. buf_write b off cs = Some b') \<longleftrightarrow> off + length cs \<le> length b"
  by (simp add: buf_write_def)

lemma buf_set_write: "buf_set b i c = buf_write b i [c]"
  by (auto simp: buf_set_def buf_write_def upd_conv_take_nth_drop)

lemma buf_write_Cons:
  "buf_write b i (c # cs) = do { b' \<leftarrow> buf_set b i c; buf_write b' (Suc i) cs }"
  by (auto simp: buf_write_def buf_set_def take_Suc_conv_app_nth drop_update_cancel upd_conv_take_nth_drop
      nth_append min_def add.commute)

lemma c_str_append_NUL [simp]: "cstring s \<Longrightarrow> c_str (s @ NUL # r) = Some s"
  by (simp add: c_str_def cdefs)

lemma c_str_append2_NUL [simp]: "cstring s \<Longrightarrow> cstring t \<Longrightarrow> c_str (s @ t @ NUL # r) = Some (s @ t)"
  using c_str_append_NUL[of "s @ t" r] by simp

lemma c_str_cstring: "c_str b = Some s \<Longrightarrow> cstring s"
  by (auto simp: c_str_def cdefs dest: set_takeWhileD split: if_splits)

lemma c_str_length: "c_str b = Some s \<Longrightarrow> length s < length b"
  by (auto simp: c_str_def length_takeWhile_neq split: if_splits)

lemma c_str_split: "c_str b = Some s \<Longrightarrow> b = s @ NUL # drop (Suc (length s)) b"
  using split_at_first[of NUL b] by (auto simp: c_str_def split: if_splits)

lemma c_str_zeros [simp]: "c_str (zeros n) = (if n = 0 then None else Some [])"
  by (cases n) (auto simp: c_str_def zeros_def)

lemma length_zeros [simp, clen]: "length (zeros n) = n"
  by (simp add: zeros_def)

text \<open>An array of \<open>n\<close> bytes that holds the string \<open>s\<close>, zero behind it.\<close>

definition text_buffer :: "nat \<Rightarrow> string \<Rightarrow> buffer" where
  "text_buffer n s = s @ zeros (n - length s)"

lemma c_str_text_buffer [simp]: "cstring s \<Longrightarrow> length s < n \<Longrightarrow> c_str (text_buffer n s) = Some s"
proof -
  assume s: "cstring s" "length s < n"
  then obtain m where "n - length s = Suc m" by (metis Suc_diff_Suc)
  then have "text_buffer n s = s @ NUL # zeros m" by (simp add: text_buffer_def zeros_def)
  then show ?thesis using s(1) by simp
qed

lemma length_text_buffer [simp]: "length s \<le> n \<Longrightarrow> length (text_buffer n s) = n"
  by (simp add: text_buffer_def)

section \<open>string.h\<close>

text \<open>\<open>strcpy(dst + off, src)\<close>.\<close>

definition strcpy_at :: "buffer \<Rightarrow> nat \<Rightarrow> string \<Rightarrow> buffer option" where
  "strcpy_at dst off src = buf_write dst off (src @ [NUL])"

abbreviation strcpy :: "buffer \<Rightarrow> string \<Rightarrow> buffer option" where
  "strcpy dst src \<equiv> strcpy_at dst 0 src"

text \<open>\<open>strncpy(dst, src, n)\<close> writes exactly \<open>n\<close> bytes: no terminator when \<open>n \<le> strlen(src)\<close>.\<close>

definition strncpy :: "buffer \<Rightarrow> string \<Rightarrow> nat \<Rightarrow> buffer option" where
  "strncpy dst src n = buf_write dst 0 (take n (src @ replicate n NUL))"

text \<open>\<open>snprintf(dst, n, "%s", text)\<close> with the formatted text given.\<close>

definition snprintf :: "buffer \<Rightarrow> nat \<Rightarrow> string \<Rightarrow> buffer option" where
  "snprintf dst n text =
     (if n = 0 then Some dst else buf_write dst 0 (take (n - 1) text @ [NUL]))"

text \<open>
  \<open>snprintf\<close> into a local array of \<open>n\<close> bytes that is then only read as a string: the text,
  cut after \<open>n - 1\<close> bytes.
\<close>

definition snprintf_text :: "nat \<Rightarrow> string \<Rightarrow> string" where
  "snprintf_text n text = take (n - 1) text"

lemma snprintf_c_str:
  "0 < n \<Longrightarrow> n \<le> length dst \<Longrightarrow> cstring text \<Longrightarrow>
   do { b \<leftarrow> snprintf dst n text; c_str b } = Some (snprintf_text n text)"
  by (simp add: snprintf_def buf_write_def snprintf_text_def cstring_take)

lemma snprintf_text_id: "length text < n \<Longrightarrow> snprintf_text n text = text"
  by (simp add: snprintf_text_def)

lemma strcpy_at_length [clen]: "strcpy_at b off s = Some b' \<Longrightarrow> length b' = length b"
  by (auto simp: strcpy_at_def clen)

lemma strncpy_length [clen]: "strncpy b s n = Some b' \<Longrightarrow> length b' = length b"
  by (auto simp: strncpy_def clen)

lemma strcpy_c_str:
  "cstring s \<Longrightarrow> strcpy b s = Some b' \<Longrightarrow> c_str b' = Some s"
  by (auto simp: strcpy_at_def buf_write_def split: if_splits)

lemma strcpy_ok: "length s < length b \<Longrightarrow> \<exists>b'. strcpy b s = Some b'"
  by (simp add: strcpy_at_def buf_write_def)

lemma strncpy_ok: "n \<le> length b \<Longrightarrow> \<exists>b'. strncpy b s n = Some b'"
  by (simp add: strncpy_def buf_write_def)

lemma strncpy_pad: "length s < n \<Longrightarrow> take n (s @ replicate n NUL) = s @ NUL # replicate (n - Suc (length s)) NUL"
proof -
  assume "length s < n"
  then have "n - length s = Suc (n - Suc (length s))" by simp
  then show ?thesis using \<open>length s < n\<close> by (simp add: take_replicate)
qed

lemma strncpy_c_str:
  assumes "cstring s" "length s < n" "strncpy b s n = Some b'"
  shows "c_str b' = Some s"
  using assms strncpy_pad[OF assms(2)]
  by (auto simp: strncpy_def buf_write_def simp del: take_append split: if_splits)

text \<open>A full \<open>strncpy\<close> of a string that does not fit leaves the array without a terminator.\<close>

lemma strncpy_unterminated:
  assumes "cstring s" "n \<le> length s" "length b = n"
  shows "do { b' \<leftarrow> strncpy b s n; c_str b' } = None"
proof -
  have "NUL \<notin> set (take n s)" using assms(1) by (auto simp: cdefs dest: in_set_takeD)
  then show ?thesis using assms(2,3) by (simp add: strncpy_def buf_write_def c_str_def)
qed

text \<open>\<open>strstr(hay, needle)\<close> as the offset of the first occurrence.\<close>

fun strstr :: "string \<Rightarrow> string \<Rightarrow> nat option" where
  "strstr [] needle = (if needle = [] then Some 0 else None)"
| "strstr (c # cs) needle =
     (if prefix needle (c # cs) then Some 0 else map_option Suc (strstr cs needle))"

lemma strstr_char:
  "strstr s [c] = (if c \<in> set s then Some (length (takeWhile (\<lambda>x. x \<noteq> c) s)) else None)"
  by (induction s) auto

lemma strstr_zero: "strstr s n = Some 0 \<longleftrightarrow> prefix n s"
  by (cases s) auto

text \<open>\<open>strcmp\<close> compares bytes as unsigned values; the shorter string is smaller.\<close>

fun strcmp :: "string \<Rightarrow> string \<Rightarrow> int" where
  "strcmp [] [] = 0"
| "strcmp [] (d # ds) = -1"
| "strcmp (c # cs) [] = 1"
| "strcmp (c # cs) (d # ds) =
     (if c = d then strcmp cs ds else if (of_char c :: nat) < of_char d then -1 else 1)"

lemma of_char_less: "(of_char (c::char) :: nat) < of_char d \<longleftrightarrow> c < d"
  by (simp add: less_char_def)

lemma strcmp_zero [simp]: "strcmp a b = 0 \<longleftrightarrow> a = b"
  by (induction a b rule: strcmp.induct) auto

lemma strcmp_less: "strcmp a b < 0 \<longleftrightarrow> a < b"
  by (induction a b rule: strcmp.induct) (auto simp: of_char_less)

lemma strcmp_le: "strcmp a b \<le> 0 \<longleftrightarrow> a \<le> b"
  by (metis le_less strcmp_less strcmp_zero)

section \<open>ctype.h, stdlib.h\<close>

definition tolower :: "char \<Rightarrow> char" where
  "tolower c = (let n = (of_char c :: nat) in if 65 \<le> n \<and> n \<le> 90 then char_of (n + 32) else c)"

lemma of_char_tolower:
  "(of_char (tolower c) :: nat) = (let n = of_char c in if 65 \<le> n \<and> n \<le> 90 then n + 32 else n)"
  by (auto simp: tolower_def Let_def)

lemma tolower_idem [simp]: "tolower (tolower c) = tolower c"
proof -
  have "tolower d = d" if "\<not> (65 \<le> (of_char d :: nat) \<and> (of_char d :: nat) \<le> 90)" for d
    using that by (auto simp: tolower_def Let_def)
  moreover have "\<not> (65 \<le> (of_char (tolower c) :: nat) \<and> (of_char (tolower c) :: nat) \<le> 90)"
    by (auto simp: of_char_tolower Let_def)
  ultimately show ?thesis by blast
qed

lemma tolower_eq_iff:
  assumes "(of_char d :: nat) < 65 \<or> 90 < (of_char d :: nat) \<and> (of_char d :: nat) < 97 \<or> 122 < (of_char d :: nat)"
  shows "tolower c = d \<longleftrightarrow> c = d"
proof
  assume "tolower c = d"
  then have "(of_char (tolower c) :: nat) = of_char d" by simp
  then have "(of_char c :: nat) = of_char d" using assms
    by (auto simp: of_char_tolower Let_def split: if_splits)
  then show "c = d" by simp
next
  assume "c = d"
  then show "tolower c = d" using assms by (auto simp: tolower_def Let_def)
qed

lemma tolower_special [simp]:
  "tolower c = CHR '':'' \<longleftrightarrow> c = CHR '':''" "tolower c = NUL \<longleftrightarrow> c = NUL"
  "tolower c = CHR '' '' \<longleftrightarrow> c = CHR '' ''"
  by (rule tolower_eq_iff, simp)+

text \<open>
  \<open>qsort\<close> with a comparison function. The C library does not say which algorithm it uses; for
  a comparison that is zero on equal elements only, as here, every sorting algorithm gives the
  same array.
\<close>

fun qsort_insert :: "('a \<Rightarrow> 'a \<Rightarrow> int) \<Rightarrow> 'a \<Rightarrow> 'a list \<Rightarrow> 'a list" where
  "qsort_insert cmp x [] = [x]"
| "qsort_insert cmp x (y # ys) = (if cmp x y \<le> 0 then x # y # ys else y # qsort_insert cmp x ys)"

primrec qsort :: "('a \<Rightarrow> 'a \<Rightarrow> int) \<Rightarrow> 'a list \<Rightarrow> 'a list" where
  "qsort cmp [] = []"
| "qsort cmp (x # xs) = qsort_insert cmp x (qsort cmp xs)"

lemma qsort_insert_insort:
  "(\<And>a b :: 'a::linorder. cmp a b \<le> 0 \<longleftrightarrow> a \<le> b) \<Longrightarrow> qsort_insert cmp x ys = insort x ys"
  by (induction ys) auto

lemma qsort_sort:
  "(\<And>a b :: 'a::linorder. cmp a b \<le> 0 \<longleftrightarrow> a \<le> b) \<Longrightarrow> qsort cmp xs = sort xs"
  by (induction xs) (auto simp: qsort_insert_insort)

section \<open>Numbers as text\<close>

abbreviation digit_char :: "nat \<Rightarrow> char" where "digit_char d \<equiv> char_of (48 + d)"

fun show_nat :: "nat \<Rightarrow> string" where
  "show_nat n = (if n < 10 then [digit_char n] else show_nat (n div 10) @ [digit_char (n mod 10)])"

declare show_nat.simps [simp del]

text \<open>\<open>%d\<close> and \<open>%PRId64\<close>.\<close>

definition show_int :: "int \<Rightarrow> string" where
  "show_int i = (if i < 0 then CHR ''-'' # show_nat (nat (- i)) else show_nat (nat i))"

definition is_digit :: "char \<Rightarrow> bool" where
  "is_digit c \<longleftrightarrow> 48 \<le> (of_char c :: nat) \<and> (of_char c :: nat) \<le> 57"

definition digit_val :: "char \<Rightarrow> nat" where
  "digit_val c = of_char c - 48"

definition is_space :: "char \<Rightarrow> bool" where
  "is_space c \<longleftrightarrow> (let n = (of_char c :: nat) in n = 32 \<or> 9 \<le> n \<and> n \<le> 13)"

definition read_nat :: "string \<Rightarrow> nat" where
  "read_nat s = foldl (\<lambda>v c. v * 10 + digit_val c) 0 (takeWhile is_digit s)"

text \<open>\<open>strtol(s, NULL, 10)\<close> and \<open>strtoll\<close>: a 64-bit result, saturated.\<close>

definition clamp64 :: "int \<Rightarrow> int" where
  "clamp64 v = max (- (2 ^ 63)) (min (2 ^ 63 - 1) v)"

definition strtoll :: "string \<Rightarrow> int" where
  "strtoll s = clamp64 (case dropWhile is_space s of
       [] \<Rightarrow> 0
     | c # cs \<Rightarrow>
         if c = CHR ''-'' then - int (read_nat cs)
         else if c = CHR ''+'' then int (read_nat cs)
         else int (read_nat (c # cs)))"

text \<open>The conversion of a \<open>long\<close> to \<open>int\<close> keeps the low 32 bits.\<close>

definition to_uint64 :: "int \<Rightarrow> int" where
  "to_uint64 v = v mod 2 ^ 64"

definition to_int64 :: "int \<Rightarrow> int" where
  "to_int64 v = (v + 2 ^ 63) mod 2 ^ 64 - 2 ^ 63"

lemma to_int64_id: "- (2 ^ 63) \<le> v \<Longrightarrow> v < 2 ^ 63 \<Longrightarrow> to_int64 v = v"
  by (simp add: to_int64_def)

lemma to_uint64_id: "0 \<le> v \<Longrightarrow> v < 2 ^ 64 \<Longrightarrow> to_uint64 v = v"
  by (simp add: to_uint64_def)

definition to_int32 :: "int \<Rightarrow> int" where
  "to_int32 v = (v + 2 ^ 31) mod 2 ^ 32 - 2 ^ 31"

lemma digit_char_props:
  assumes "d < 10"
  shows "is_digit (digit_char d)" "digit_val (digit_char d) = d" "\<not> is_space (digit_char d)"
  using assms by (auto simp: is_digit_def digit_val_def is_space_def Let_def)

lemma show_nat_digits: "c \<in> set (show_nat n) \<Longrightarrow> is_digit c"
proof (induction n rule: show_nat.induct)
  case (1 n)
  then show ?case
    by (subst (asm) show_nat.simps) (auto split: if_splits simp: digit_char_props)
qed

lemma show_nat_nonempty [simp]: "show_nat n \<noteq> []"
  by (subst show_nat.simps) simp

lemma read_nat_show_nat: "foldl (\<lambda>v c. v * 10 + digit_val c) 0 (show_nat n) = n"
proof (induction n rule: show_nat.induct)
  case (1 n)
  show ?case
  proof (cases "n < 10")
    case False
    then show ?thesis using 1 by (subst show_nat.simps) (simp add: digit_char_props)
  qed (subst show_nat.simps, simp add: digit_char_props)
qed

lemma read_nat_show [simp]: "read_nat (show_nat n) = n"
proof -
  have "takeWhile is_digit (show_nat n) = show_nat n"
    unfolding takeWhile_eq_all_conv by (blast intro: show_nat_digits)
  then show ?thesis unfolding read_nat_def by (simp only: read_nat_show_nat)
qed

lemma is_digit_not_special: "is_digit c \<Longrightarrow> c \<noteq> NUL \<and> c \<noteq> CHR ''-'' \<and> c \<noteq> CHR ''+'' \<and> \<not> is_space c"
  by (auto simp: is_digit_def is_space_def Let_def)

lemma cstring_show_nat [simp]: "cstring (show_nat n)"
  using show_nat_digits is_digit_not_special by (fastforce simp: cdefs)

lemma cstring_show_int [simp]: "cstring (show_int i)"
  by (simp add: show_int_def)

lemma show_nat_head: "\<exists>c cs. show_nat n = c # cs \<and> is_digit c"
  by (metis list.set_intros(1) neq_Nil_conv show_nat_digits show_nat_nonempty)

text \<open>Printing and parsing an \<open>int64_t\<close> is the identity.\<close>

lemma strtoll_show_int:
  assumes "- (2 ^ 63) \<le> i" "i < 2 ^ 63"
  shows "strtoll (show_int i) = i"
proof (cases "i < 0")
  case True
  have "dropWhile is_space (CHR ''-'' # show_nat (nat (- i))) = CHR ''-'' # show_nat (nat (- i))"
    by (simp add: is_space_def)
  then show ?thesis using True assms by (simp add: strtoll_def show_int_def clamp64_def)
next
  case False
  obtain c cs where c: "show_nat (nat i) = c # cs" "is_digit c" using show_nat_head by blast
  moreover have "read_nat (c # cs) = nat i" by (metis c(1) read_nat_show)
  ultimately show ?thesis using False assms is_digit_not_special[OF c(2)]
    by (simp add: strtoll_def show_int_def clamp64_def)
qed

lemma show_nat_length:
  "n < 10 ^ k \<Longrightarrow> 0 < k \<Longrightarrow> length (show_nat n) \<le> k"
proof (induction n arbitrary: k rule: show_nat.induct)
  case (1 n)
  show ?case
  proof (cases "n < 10")
    case True
    then show ?thesis using 1 by (subst show_nat.simps) simp
  next
    case False
    then obtain k' where k': "k = Suc k'" "0 < k'"
      using 1(2,3) by (cases k; cases "k - 1") auto
    then have "n div 10 < 10 ^ k'" using 1(2) by auto
    then have "length (show_nat (n div 10)) \<le> k'" using 1(1) False k' by blast
    then show ?thesis using False k' by (subst show_nat.simps) simp
  qed
qed

lemma show_int_length:
  assumes "\<bar>i\<bar> < 10 ^ k" "0 < k"
  shows "length (show_int i) \<le> Suc k"
proof -
  have "nat \<bar>i\<bar> < 10 ^ k" using assms(1)
    by (metis abs_ge_zero nat_less_iff of_nat_numeral of_nat_power)
  then have "length (show_nat (nat \<bar>i\<bar>)) \<le> k" using show_nat_length assms(2) by blast
  then show ?thesis by (auto simp: show_int_def abs_if split: if_splits)
qed

section \<open>stdio.h: reading from a file\<close>

text \<open>
  A \<open>FILE\<close>: its bytes, the position, and whether the handle can tell and set its position
  (a pipe cannot).
\<close>

record FILE =
  f_bytes :: "char list"
  f_pos :: nat
  f_seekable :: bool

definition fread :: "nat \<Rightarrow> FILE \<Rightarrow> char list \<times> FILE" where
  "fread n f = (let cs = take n (drop (f_pos f) (f_bytes f)) in (cs, f\<lparr>f_pos := f_pos f + length cs\<rparr>))"

definition ftello :: "FILE \<Rightarrow> int" where
  "ftello f = (if f_seekable f then int (f_pos f) else -1)"

definition fseeko :: "FILE \<Rightarrow> int \<Rightarrow> (int \<times> FILE)" where
  "fseeko f off = (if f_seekable f \<and> 0 \<le> off then (0, f\<lparr>f_pos := nat off\<rparr>) else (-1, f))"

lemma fread_pos: "f_pos (snd (fread n f)) = f_pos f + length (fst (fread n f))"
  by (simp add: fread_def Let_def)

lemma fread_bytes [simp]: "f_bytes (snd (fread n f)) = f_bytes f" "f_seekable (snd (fread n f)) = f_seekable f"
  by (simp_all add: fread_def Let_def)

lemma fread_add:
  "fread (m + n) f =
     (let (a, f1) = fread m f; (b, f2) = fread n f1 in (a @ b, f2))"
proof -
  have *: "take (m + n) xs = take m xs @ take n (drop (min m (length xs)) xs)" for xs :: "char list"
    by (cases "m \<le> length xs") (auto simp: take_add min_def)
  show ?thesis
    by (simp add: fread_def Let_def * drop_drop add.commute add.left_commute min.commute)
qed

section \<open>Arrays of structures, indexed by an \<open>int\<close>\<close>

definition arr_get :: "'a list \<Rightarrow> int \<Rightarrow> 'a option" where
  "arr_get xs i = (if 0 \<le> i \<and> i < int (length xs) then Some (xs ! nat i) else None)"

definition arr_set :: "'a list \<Rightarrow> int \<Rightarrow> 'a \<Rightarrow> 'a list option" where
  "arr_set xs i x = (if 0 \<le> i \<and> i < int (length xs) then Some (xs[nat i := x]) else None)"

lemma arr_set_length [clen]: "arr_set xs i x = Some ys \<Longrightarrow> length ys = length xs"
  by (auto simp: arr_set_def split: if_splits)

lemma arr_get_nat: "arr_get xs (int i) = (if i < length xs then Some (xs ! i) else None)"
  by (simp add: arr_get_def)

lemma arr_set_nat: "arr_set xs (int i) x = (if i < length xs then Some (xs[i := x]) else None)"
  by (simp add: arr_set_def)

text \<open>
  What an array with a count means: \<open>arr_holds view xs n L\<close> says that the first \<open>n\<close>
  elements are in the array and read as the abstract values \<open>L\<close>.
\<close>

definition arr_holds :: "('a \<Rightarrow> 'b option) \<Rightarrow> 'a list \<Rightarrow> int \<Rightarrow> 'b list \<Rightarrow> bool" where
  "arr_holds view xs n L \<longleftrightarrow> n = int (length L) \<and> length L \<le> length xs \<and>
     map view (take (length L) xs) = map Some L"

lemma arr_holds_Nil [simp]: "arr_holds view xs 0 []"
  by (simp add: arr_holds_def)

lemma arr_holds_snoc:
  assumes "arr_holds view xs n L" "arr_set xs n x = Some ys" "view x = Some y"
  shows "arr_holds view ys (n + 1) (L @ [y])"
proof -
  from assms(1,2) have "length L < length xs" "ys = xs[length L := x]" "n = int (length L)"
    by (auto simp: arr_holds_def arr_set_def split: if_splits)
  then show ?thesis using assms(1,3) by (simp add: arr_holds_def take_Suc_conv_app_nth)
qed

lemma arr_holds_view:
  assumes "arr_holds view xs n L" "y \<in> set L"
  shows "\<exists>x \<in> set xs. view x = Some y"
proof -
  from assms have "Some y \<in> set (map view (take (length L) xs))" by (auto simp: arr_holds_def)
  then obtain x where "x \<in> set (take (length L) xs)" "view x = Some y" by auto
  then show ?thesis by (auto dest: in_set_takeD)
qed

text \<open>A loop over the indices of an array is a loop over what the array holds.\<close>

lemma foldM_indices:
  assumes "n \<le> length xs"
  shows "foldM (\<lambda>s i. do { x \<leftarrow> arr_get xs (int i); g s i x }) s [0..<n] =
         foldM (\<lambda>s (i, x). g s i x) s (enumerate 0 (take n xs))"
  using assms
proof (induction n)
  case (Suc n)
  then have "take (Suc n) xs = take n xs @ [xs ! n]" by (simp add: take_Suc_conv_app_nth)
  then show ?case using Suc by (simp add: enumerate_append_eq arr_get_nat)
qed simp

lemma foldM_arr_holds:
  assumes "arr_holds view xs n L"
  shows "foldM (\<lambda>s i. do { x \<leftarrow> arr_get xs (int i); y \<leftarrow> view x; g s i y }) s [0..<nat n] =
         foldM (\<lambda>s (i, y). g s i y) s (enumerate 0 L)"
proof -
  have n: "nat n = length L" "length L \<le> length xs" and v: "map view (take (length L) xs) = map Some L"
    using assms by (auto simp: arr_holds_def)
  have "foldM (\<lambda>s (i, x). do { y \<leftarrow> view x; g s i y }) s (enumerate k ys) =
        foldM (\<lambda>s (i, y). g s i y) s (enumerate k M)" if "map view ys = map Some M" for ys M k
    using that
  proof (induction ys arbitrary: s M k)
    case (Cons y ys)
    then obtain m M' where "M = m # M'" "view y = Some m" "map view ys = map Some M'" by (cases M) auto
    then show ?case using Cons.IH by (cases "g s k m") auto
  qed simp
  note held = this
  show ?thesis unfolding n(1)
    by (rule trans[OF foldM_indices[OF n(2)] held[OF v]])
qed

text \<open>The elements in use: the first \<open>count\<close> of an array.\<close>

definition used :: "'a list \<Rightarrow> int \<Rightarrow> 'a list" where
  "used xs n = take (nat n) xs"

lemma used_arr_set:
  assumes "arr_set xs n x = Some ys"
  shows "used ys (n + 1) = used xs n @ [x]"
proof -
  from assms have n: "0 \<le> n" "nat n < length xs" "ys = xs[nat n := x]"
    by (auto simp: arr_set_def split: if_splits)
  then have "nat (n + 1) = Suc (nat n)" by simp
  then show ?thesis using n by (simp add: used_def take_Suc_conv_app_nth)
qed

end
