(* ===== verification/Atmos_Types.thy ===== *)
theory Atmos_Types
  imports C_Runtime
begin

text \<open>
  The constants of \<open>atmos_constants.h\<close> and the data of the client: enumerations, metadata,
  ACL entries, checksums, and the request and response objects.

  A request or response object is modelled with its dynamic class, as in C: the first part is
  the base structure of the REST library, followed by the parts its subclasses add. A cast of
  a pointer to a class the object does not have is then visible, and is \<open>None\<close>.
\<close>

section \<open>Constants\<close>

abbreviation ATMOS_UID_MAX :: nat where "ATMOS_UID_MAX \<equiv> 255"
abbreviation ATMOS_SECRET_MAX :: nat where "ATMOS_SECRET_MAX \<equiv> 64"
abbreviation ATMOS_ERROR_MAX :: nat where "ATMOS_ERROR_MAX \<equiv> 1024"
abbreviation ATMOS_PATH_MAX :: nat where "ATMOS_PATH_MAX \<equiv> 1024"
abbreviation ATMOS_META_VALUE_MAX :: nat where "ATMOS_META_VALUE_MAX \<equiv> 1024"
abbreviation ATMOS_META_NAME_MAX :: nat where "ATMOS_META_NAME_MAX \<equiv> 255"
abbreviation ATMOS_META_COUNT_MAX :: nat where "ATMOS_META_COUNT_MAX \<equiv> 127"
abbreviation ATMOS_SYSTEM_META_COUNT_MAX :: nat where "ATMOS_SYSTEM_META_COUNT_MAX \<equiv> 20"
abbreviation ATMOS_ACL_COUNT_MAX :: nat where "ATMOS_ACL_COUNT_MAX \<equiv> 64"
abbreviation ATMOS_CHECKSUM_MAX :: nat where "ATMOS_CHECKSUM_MAX \<equiv> 128"
abbreviation ATMOS_TOKEN_MAX :: nat where "ATMOS_TOKEN_MAX \<equiv> 1024"
abbreviation ATMOS_OID_LENGTH :: nat where "ATMOS_OID_LENGTH \<equiv> 65"
abbreviation ATMOS_SIMPLE_HEADER_MAX :: nat where "ATMOS_SIMPLE_HEADER_MAX \<equiv> 255"
abbreviation ATMOS_OID_LOCATION_PREFIX_SIZE :: nat where "ATMOS_OID_LOCATION_PREFIX_SIZE \<equiv> 14"

named_theorems literals \<open>the string constants of \<open>atmos_constants.h\<close>\<close>

definition ATMOS_HEADER_UID :: string where [literals]: "ATMOS_HEADER_UID = ''x-emc-uid''"
definition ATMOS_HEADER_SIGNATURE :: string where [literals]: "ATMOS_HEADER_SIGNATURE = ''x-emc-signature''"
definition ATMOS_HEADER_META :: string where [literals]: "ATMOS_HEADER_META = ''x-emc-meta''"
definition ATMOS_HEADER_LISTABLE_META :: string where [literals]: "ATMOS_HEADER_LISTABLE_META = ''x-emc-listable-meta''"
definition ATMOS_HEADER_SUPPORT_UTF8 :: string where [literals]: "ATMOS_HEADER_SUPPORT_UTF8 = ''x-emc-support-utf8''"
definition ATMOS_HEADER_UTF8 :: string where [literals]: "ATMOS_HEADER_UTF8 = ''x-emc-utf8''"
definition ATMOS_HEADER_USER_ACL :: string where [literals]: "ATMOS_HEADER_USER_ACL = ''x-emc-useracl''"
definition ATMOS_HEADER_GROUP_ACL :: string where [literals]: "ATMOS_HEADER_GROUP_ACL = ''x-emc-groupacl''"
definition ATMOS_HEADER_TAGS :: string where [literals]: "ATMOS_HEADER_TAGS = ''x-emc-tags''"
definition ATMOS_HEADER_PATH :: string where [literals]: "ATMOS_HEADER_PATH = ''x-emc-path''"
definition ATMOS_HEADER_FORCE :: string where [literals]: "ATMOS_HEADER_FORCE = ''x-emc-force''"
definition ATMOS_HEADER_TOKEN :: string where [literals]: "ATMOS_HEADER_TOKEN = ''x-emc-token''"
definition ATMOS_HEADER_INCLUDE_META :: string where [literals]: "ATMOS_HEADER_INCLUDE_META = ''x-emc-include-meta''"
definition ATMOS_HEADER_USER_TAGS :: string where [literals]: "ATMOS_HEADER_USER_TAGS = ''x-emc-user-tags''"
definition ATMOS_HEADER_SYSTEM_TAGS :: string where [literals]: "ATMOS_HEADER_SYSTEM_TAGS = ''x-emc-system-tags''"
definition ATMOS_HEADER_LIMIT :: string where [literals]: "ATMOS_HEADER_LIMIT = ''x-emc-limit''"
definition ATMOS_HEADER_LISTABLE_TAGS :: string where [literals]: "ATMOS_HEADER_LISTABLE_TAGS = ''x-emc-listable-tags''"
definition ATMOS_HEADER_VERSION_OID :: string where [literals]: "ATMOS_HEADER_VERSION_OID = ''x-emc-version-oid''"
definition ATMOS_HEADER_OBJECTID :: string where [literals]: "ATMOS_HEADER_OBJECTID = ''x-emc-objectid''"
definition ATMOS_HEADER_POOL :: string where [literals]: "ATMOS_HEADER_POOL = ''x-emc-pool''"
definition ATMOS_HEADER_WSCHECKSUM :: string where [literals]: "ATMOS_HEADER_WSCHECKSUM = ''x-emc-wschecksum''"
definition ATMOS_HEADER_GENERATE_CHECKSUM :: string where [literals]: "ATMOS_HEADER_GENERATE_CHECKSUM = ''x-emc-generate-checksum''"
definition ATMOS_HEADER_CONTENT_CHECKSUM :: string where [literals]: "ATMOS_HEADER_CONTENT_CHECKSUM = ''x-emc-content-checksum''"

definition ATMOS_ACL_PERMISSION_NONE :: string where [literals]: "ATMOS_ACL_PERMISSION_NONE = ''NONE''"
definition ATMOS_ACL_PERMISSION_READ :: string where [literals]: "ATMOS_ACL_PERMISSION_READ = ''READ''"
definition ATMOS_ACL_PERMISSION_READWRITE :: string where [literals]: "ATMOS_ACL_PERMISSION_READWRITE = ''WRITE''"
definition ATMOS_ACL_PERMISSION_FULL :: string where [literals]: "ATMOS_ACL_PERMISSION_FULL = ''FULL_CONTROL''"
definition ATMOS_ACL_PERMISSION_READ_ACL :: string where [literals]: "ATMOS_ACL_PERMISSION_READ_ACL = ''READ_ACL''"
definition ATMOS_ACL_PERMISSION_WRITE_ACL :: string where [literals]: "ATMOS_ACL_PERMISSION_WRITE_ACL = ''WRITE_ACL''"
definition ATMOS_ACL_PERMISSION_EXECUTE :: string where [literals]: "ATMOS_ACL_PERMISSION_EXECUTE = ''EXECUTE''"
definition ATMOS_ACL_GROUP_OTHER :: string where [literals]: "ATMOS_ACL_GROUP_OTHER = ''other''"

definition ATMOS_CHECKSUM_ALG_SHA0 :: string where [literals]: "ATMOS_CHECKSUM_ALG_SHA0 = ''sha0''"
definition ATMOS_CHECKSUM_ALG_SHA1 :: string where [literals]: "ATMOS_CHECKSUM_ALG_SHA1 = ''sha1''"
definition ATMOS_CHECKSUM_ALG_MD5 :: string where [literals]: "ATMOS_CHECKSUM_ALG_MD5 = ''md5''"

definition ATMOS_ACCESS_TOKEN_LOCATION_PREFIX :: string where
  [literals]: "ATMOS_ACCESS_TOKEN_LOCATION_PREFIX = ''/rest/accesstokens/''"

definition ATMOS_SYSTEM_META_ATIME :: string where [literals]: "ATMOS_SYSTEM_META_ATIME = ''atime''"
definition ATMOS_SYSTEM_META_CTIME :: string where [literals]: "ATMOS_SYSTEM_META_CTIME = ''ctime''"
definition ATMOS_SYSTEM_META_GID :: string where [literals]: "ATMOS_SYSTEM_META_GID = ''gid''"
definition ATMOS_SYSTEM_META_ITIME :: string where [literals]: "ATMOS_SYSTEM_META_ITIME = ''itime''"
definition ATMOS_SYSTEM_META_MTIME :: string where [literals]: "ATMOS_SYSTEM_META_MTIME = ''mtime''"
definition ATMOS_SYSTEM_META_NLINK :: string where [literals]: "ATMOS_SYSTEM_META_NLINK = ''nlink''"
definition ATMOS_SYSTEM_META_OBJECTID :: string where [literals]: "ATMOS_SYSTEM_META_OBJECTID = ''objectid''"
definition ATMOS_SYSTEM_META_OBJNAME :: string where [literals]: "ATMOS_SYSTEM_META_OBJNAME = ''objname''"
definition ATMOS_SYSTEM_META_POLICYNAME :: string where [literals]: "ATMOS_SYSTEM_META_POLICYNAME = ''policyname''"
definition ATMOS_SYSTEM_META_SIZE :: string where [literals]: "ATMOS_SYSTEM_META_SIZE = ''size''"
definition ATMOS_SYSTEM_META_TYPE :: string where [literals]: "ATMOS_SYSTEM_META_TYPE = ''type''"
definition ATMOS_SYSTEM_META_UID :: string where [literals]: "ATMOS_SYSTEM_META_UID = ''uid''"
definition ATMOS_SYSTEM_META_WSCHECKSUM :: string where [literals]: "ATMOS_SYSTEM_META_WSCHECKSUM = ''x-emc-wschecksum''"

definition ATMOS_TYPE_REGULAR :: string where [literals]: "ATMOS_TYPE_REGULAR = ''regular''"
definition ATMOS_TYPE_DIRECTORY :: string where [literals]: "ATMOS_TYPE_DIRECTORY = ''directory''"

definition ATMOS_SYSTEM_META_NAMES :: "string list" where
  "ATMOS_SYSTEM_META_NAMES = [ATMOS_SYSTEM_META_ATIME,
     ATMOS_SYSTEM_META_CTIME, ATMOS_SYSTEM_META_GID, ATMOS_SYSTEM_META_ITIME,
     ATMOS_SYSTEM_META_MTIME, ATMOS_SYSTEM_META_NLINK, ATMOS_SYSTEM_META_OBJECTID,
     ATMOS_SYSTEM_META_OBJNAME, ATMOS_SYSTEM_META_POLICYNAME, ATMOS_SYSTEM_META_SIZE,
     ATMOS_SYSTEM_META_TYPE, ATMOS_SYSTEM_META_UID, ATMOS_SYSTEM_META_WSCHECKSUM]"

definition ATMOS_SYSTEM_META_NAME_COUNT :: nat where "ATMOS_SYSTEM_META_NAME_COUNT = 13"

section \<open>Enumerations\<close>

text \<open>The order of the methods is that of the array \<open>methods\<close> in \<open>atmos_client.c\<close>.\<close>

datatype http_method = HTTP_POST | HTTP_GET | HTTP_PUT | HTTP_DELETE | HTTP_HEAD | HTTP_OPTIONS

datatype atmos_acl_principal_type = ATMOS_USER | ATMOS_GROUP

datatype atmos_acl_permission =
    ATMOS_PERM_NONE | ATMOS_PERM_READ | ATMOS_PERM_READ_WRITE | ATMOS_PERM_FULL
  | ATMOS_PERM_READ_ACL | ATMOS_PERM_WRITE_ACL | ATMOS_PERM_EXECUTE

datatype atmos_checksum_mode = ATMOS_WSCHECKSUM | ATMOS_GENERATE_CHECKSUM

datatype atmos_checksum_alg = ATMOS_ALG_SHA0 | ATMOS_ALG_SHA1 | ATMOS_ALG_MD5

text \<open>\<open>MD5_DIGEST_LENGTH\<close> and \<open>SHA_DIGEST_LENGTH\<close>.\<close>

fun digest_length :: "atmos_checksum_alg \<Rightarrow> nat" where
  "digest_length ATMOS_ALG_MD5 = 16"
| "digest_length ATMOS_ALG_SHA0 = 20"
| "digest_length ATMOS_ALG_SHA1 = 20"

section \<open>Metadata, ACLs, checksums\<close>

record AtmosMetadata =
  md_name :: buffer
  md_value :: buffer

record AtmosAclEntry =
  principal :: buffer
  acl_type :: atmos_acl_principal_type
  permission :: atmos_acl_permission

record AtmosSystemMetadata =
  sm_object_id :: buffer
  sm_objname :: buffer
  sm_atime :: int
  sm_ctime :: int
  sm_itime :: int
  sm_mtime :: int
  sm_size :: int
  sm_nlink :: int
  sm_type :: "string option"
  sm_uid :: buffer
  sm_gid :: buffer
  sm_policyname :: buffer
  sm_wschecksum :: buffer

record AtmosChecksum =
  ck_mode :: atmos_checksum_mode
  ck_alg :: atmos_checksum_alg
  ck_algorithm :: "string option"
  ck_offset :: int
  ck_internal_state :: "char list option"

definition zero_metadata :: AtmosMetadata where
  "zero_metadata = \<lparr>md_name = zeros ATMOS_META_NAME_MAX, md_value = zeros ATMOS_META_VALUE_MAX\<rparr>"

definition zero_acl_entry :: AtmosAclEntry where
  "zero_acl_entry = \<lparr>principal = zeros ATMOS_UID_MAX, acl_type = ATMOS_USER, permission = ATMOS_PERM_NONE\<rparr>"

definition zero_system_metadata :: AtmosSystemMetadata where
  "zero_system_metadata = \<lparr>sm_object_id = zeros ATMOS_OID_LENGTH, sm_objname = zeros ATMOS_PATH_MAX,
     sm_atime = 0, sm_ctime = 0, sm_itime = 0, sm_mtime = 0, sm_size = 0, sm_nlink = 0,
     sm_type = None, sm_uid = zeros ATMOS_UID_MAX, sm_gid = zeros ATMOS_UID_MAX,
     sm_policyname = zeros ATMOS_UID_MAX, sm_wschecksum = zeros ATMOS_CHECKSUM_MAX\<rparr>"

text \<open>What a metadata or ACL entry means: the strings its arrays hold, if they are terminated.\<close>

definition metadata_pair :: "AtmosMetadata \<Rightarrow> (string \<times> string) option" where
  "metadata_pair m = do { n \<leftarrow> c_str (md_name m); v \<leftarrow> c_str (md_value m); Some (n, v) }"

text \<open>A pair that fits the two arrays of an entry.\<close>

definition meta_fits :: "string \<times> string \<Rightarrow> bool" where
  "meta_fits p \<longleftrightarrow> cstring (fst p) \<and> length (fst p) < ATMOS_META_NAME_MAX \<and>
     cstring (snd p) \<and> length (snd p) < ATMOS_META_VALUE_MAX"

definition wf_metadata :: "AtmosMetadata \<Rightarrow> bool" where
  "wf_metadata m \<longleftrightarrow> length (md_name m) = ATMOS_META_NAME_MAX \<and> length (md_value m) = ATMOS_META_VALUE_MAX"

definition wf_acl_entry :: "AtmosAclEntry \<Rightarrow> bool" where
  "wf_acl_entry a \<longleftrightarrow> length (principal a) = ATMOS_UID_MAX"

lemma wf_zero_metadata [simp]: "wf_metadata zero_metadata"
  by (simp add: wf_metadata_def zero_metadata_def)

lemma wf_zero_acl_entry [simp]: "wf_acl_entry zero_acl_entry"
  by (simp add: wf_acl_entry_def zero_acl_entry_def)

section \<open>Structures of the REST library, as far as the client reads or writes them\<close>

record RestRequestBody =
  rb_body :: "char list"
  rb_file_body :: "FILE option"
  rb_data_size :: int

text \<open>The only file filter the client installs is \<open>AtmosWriteObjectRequest_checksum_filter\<close>.\<close>

datatype file_filter = AtmosWriteObjectRequest_checksum_filter_ptr

record RestRequest =
  rq_class_name :: string
  rq_uri :: string
  rq_method :: http_method
  rq_headers :: "string list"
  rq_body :: "RestRequestBody option"
  rq_uri_encoded :: int
  rq_file_filter :: "file_filter option"

record RestResponse =
  rs_class_name :: string
  http_code :: int
  http_status :: string
  rs_headers :: "string list"
  rs_body :: "char list"
  rs_content_length :: int
  rs_file_body :: "FILE option"
  rs_file_body_start_pos :: int

section \<open>The client\<close>

record AtmosClient =
  cl_class_name :: string
  cl_host :: string
  cl_port :: int
  cl_uid :: buffer
  cl_secret :: buffer
  cl_signature_debug :: int
  cl_enable_utf8_metadata :: int

section \<open>Requests\<close>

text \<open>The parts added by \<open>AtmosWriteObjectRequest\<close> and its subclasses.\<close>

record write_part =
  w_meta :: "AtmosMetadata list"
  w_meta_count :: int
  w_listable_meta :: "AtmosMetadata list"
  w_listable_meta_count :: int
  w_acl :: "AtmosAclEntry list"
  w_acl_count :: int
  w_checksum :: "AtmosChecksum option"

record create_part =
  cr_path :: buffer
  cr_pool :: buffer

record update_part =
  up_object_id :: buffer
  up_path :: buffer
  up_pool :: buffer
  up_range_start :: int
  up_range_end :: int

record set_user_meta_part =
  su_object_id :: buffer
  su_path :: buffer
  su_pool :: buffer

datatype write_sub =
    Write_only
  | Create_sub create_part
  | Update_sub update_part
  | SetUserMeta_sub set_user_meta_part

record read_part =
  rd_path :: buffer
  rd_pool :: buffer
  rd_object_id :: buffer
  rd_range_start :: int
  rd_range_end :: int

record meta_request_part =
  mr_object_id :: buffer
  mr_path :: buffer
  mr_pool :: buffer
  mr_tags :: "buffer list"
  mr_tag_count :: int

record page_part =
  pg_limit :: int
  pg_token :: buffer

record list_directory_part =
  ld_path :: buffer
  ld_include_meta :: int
  ld_user_tags :: "buffer list"
  ld_user_tag_count :: int
  ld_system_tags :: "buffer list"
  ld_system_tag_count :: int

record list_objects_part =
  lo_tag :: buffer
  lo_include_meta :: int
  lo_user_tags :: "buffer list"
  lo_user_tag_count :: int
  lo_system_tags :: "buffer list"
  lo_system_tag_count :: int

datatype page_sub =
    Page_only
  | ListDirectory_sub list_directory_part
  | ListObjects_sub list_objects_part
  | GetListableTags_sub buffer
  | ListVersions_sub buffer
  | ListAccessTokens_sub

record token_request_part =
  tk_object_id :: buffer
  tk_path :: buffer
  tk_meta :: "AtmosMetadata list"
  tk_meta_count :: int
  tk_listable_meta :: "AtmosMetadata list"
  tk_listable_meta_count :: int
  tk_acl :: "AtmosAclEntry list"
  tk_acl_count :: int
  tk_policy :: "string option"

text \<open>
  \<open>tk_policy\<close> is the \<open>Atmos_policyType\<close> object of the generated XML binding, which is not
  under \<open>src/\<close>; the client only passes it on, so it is an opaque token here.
\<close>

datatype request_sub =
    Rest_request
  | Write_request write_part write_sub
  | Read_request read_part
  | GetUserMeta_request meta_request_part
  | GetSystemMeta_request meta_request_part
  | Paginated_request page_part page_sub
  | CreateVersion_request buffer
  | CreateAccessToken_request token_request_part

record request =
  r_base :: RestRequest
  r_sub :: request_sub

section \<open>Responses\<close>

record read_response_part =
  rr_meta :: "AtmosMetadata list"
  rr_meta_count :: int
  rr_listable_metadata :: "AtmosMetadata list"
  rr_listable_meta_count :: int
  rr_acl :: "AtmosAclEntry list"
  rr_acl_count :: int
  rr_system_metadata :: AtmosSystemMetadata

record user_meta_response_part =
  um_meta :: "AtmosMetadata list"
  um_meta_count :: int
  um_listable_metadata :: "AtmosMetadata list"
  um_listable_meta_count :: int

record acl_response_part =
  ga_acl :: "AtmosAclEntry list"
  ga_acl_count :: int

record tags_response_part =
  gt_token :: "string option"
  gt_tags :: "(string option) list"

text \<open>Metadata of an object in a listing: the arrays are allocated by the parser.\<close>

record AtmosObjectMetadata =
  om_meta :: "AtmosMetadata list"
  om_meta_count :: int
  om_listable_meta :: "AtmosMetadata list"
  om_listable_meta_count :: int
  om_system_metadata :: AtmosSystemMetadata

record AtmosDirectoryEntry =
  de_parent :: AtmosObjectMetadata
  de_object_id :: buffer
  de_type :: "string option"
  de_filename :: buffer

record list_directory_response_part =
  dl_token :: "string option"
  dl_entries :: "AtmosDirectoryEntry list"
  dl_entry_count :: int

record AtmosObjectListing =
  ol_parent :: AtmosObjectMetadata
  ol_object_id :: buffer

record list_objects_response_part =
  or_token :: "string option"
  or_results :: "AtmosObjectListing list"
  or_result_count :: int

record AtmosVersion =
  av_object_id :: buffer
  av_version_number :: int
  av_itime :: int

record list_versions_response_part =
  lv_token :: "string option"
  lv_versions :: "AtmosVersion list"
  lv_version_count :: int

record AtmosReplicaInfo =
  ri_id :: int
  ri_type :: buffer
  ri_current :: int
  ri_location :: buffer
  ri_storage_type :: buffer

record object_info_part =
  oi_object_id :: buffer
  oi_selection :: buffer
  oi_replicas :: "AtmosReplicaInfo list"
  oi_replica_count :: int
  oi_retention_enabled :: int
  oi_retention_end :: int
  oi_expiration_enabled :: int
  oi_expiration_end :: int

record service_info_part =
  si_version :: buffer
  si_utf8_metadata_supported :: int

text \<open>The two token responses hold objects of the generated XML binding, opaque like \<open>tk_policy\<close>.\<close>

record list_tokens_response_part =
  lt_token :: "string option"
  lt_token_list :: "string option"

datatype response_sub =
    Plain_response
  | CreateObject_response buffer
  | Read_response read_response_part
  | ListDirectory_response read_response_part list_directory_response_part
  | GetUserMeta_response user_meta_response_part
  | GetSystemMeta_response AtmosSystemMetadata
  | GetAcl_response acl_response_part
  | GetObjectInfo_response object_info_part
  | GetListableTags_response tags_response_part
  | ListObjects_response list_objects_response_part
  | CreateVersion_response buffer
  | ListVersions_response list_versions_response_part
  | CreateAccessToken_response buffer
  | ListAccessTokens_response list_tokens_response_part
  | GetAccessTokenInfo_response "string option"
  | ServiceInfo_response service_info_part

record atmos_part =
  atmos_error :: int
  atmos_error_message :: buffer

text \<open>A bare \<open>RestResponse\<close> has no \<open>AtmosResponse\<close> part.\<close>

record response =
  s_base :: RestResponse
  s_atmos :: "(atmos_part \<times> response_sub) option"

section \<open>XML documents and filter chains\<close>

text \<open>
  What the client reads of a node of libxml2's tree: whether its type is \<open>XML_ELEMENT_NODE\<close>, its
  name, the result of \<open>xmlNodeGetContent\<close> (\<open>None\<close> for \<open>NULL\<close>) and its children in order.
\<close>

datatype xml_node = XmlNode (xn_element: bool) (xn_name: string) (xn_content: "string option") (xn_children: "xml_node list")

text \<open>
  A filter of the REST library gets the client, the next filter of its chain (if there is one)
  and the request and response objects, which it and the filters behind it modify.
\<close>

type_synonym handler = "request \<times> response \<Rightarrow> (request \<times> response) option"

type_synonym rest_http_filter = "AtmosClient \<Rightarrow> handler option \<Rightarrow> handler"

lemma cstring_literals [simp]:
  "cstring ATMOS_HEADER_UID" "cstring ATMOS_HEADER_SIGNATURE" "cstring ATMOS_HEADER_META"
  "cstring ATMOS_HEADER_LISTABLE_META" "cstring ATMOS_HEADER_UTF8" "cstring ATMOS_HEADER_USER_ACL"
  "cstring ATMOS_HEADER_GROUP_ACL" "cstring ATMOS_HEADER_TAGS" "cstring ATMOS_HEADER_TOKEN"
  "cstring ATMOS_HEADER_USER_TAGS" "cstring ATMOS_HEADER_SYSTEM_TAGS" "cstring ATMOS_HEADER_LIMIT"
  "cstring ATMOS_HEADER_WSCHECKSUM" "cstring ATMOS_HEADER_GENERATE_CHECKSUM"
  "cstring ATMOS_ACL_GROUP_OTHER" "cstring ATMOS_ACL_PERMISSION_NONE" "cstring ATMOS_ACL_PERMISSION_READ"
  "cstring ATMOS_ACL_PERMISSION_READWRITE" "cstring ATMOS_ACL_PERMISSION_FULL"
  "cstring ATMOS_ACL_PERMISSION_READ_ACL" "cstring ATMOS_ACL_PERMISSION_WRITE_ACL"
  "cstring ATMOS_ACL_PERMISSION_EXECUTE" "cstring ATMOS_CHECKSUM_ALG_SHA0"
  "cstring ATMOS_CHECKSUM_ALG_SHA1" "cstring ATMOS_CHECKSUM_ALG_MD5"
  by (simp_all add: literals)

end
