(* ===== verification/Platform.thy ===== *)
theory Platform
  imports Atmos_Types
begin

text \<open>
  Everything the client calls that is not under \<open>src/\<close>, as one record of functions that the
  model's definitions take as their argument \<open>E\<close>: the heap and the clock (\<open>time(NULL)\<close>) of the process, the
  REST library (\<open>rest-client-c\<close>), curl, OpenSSL and the XML binding. \<open>rest_client_ok\<close>
  and its kin state the documented behaviour that properties rely on; \<open>list_env\<close> is one
  concrete environment, used by the witnesses.
\<close>

record env =
  alloc_ok :: "nat \<Rightarrow> bool"
  sizeof :: "string \<Rightarrow> nat"
  junk :: char
  time_now :: int
  tz_west :: int
  have_tm_gmtoff :: bool
  mktime_uses_gmtoff :: bool
  HTTP_HEADER_CONTENT_TYPE :: string
  HTTP_HEADER_RANGE :: string
  HTTP_HEADER_CONTENT_RANGE :: string
  HTTP_HEADER_DATE :: string
  HTTP_HEADER_LOCATION :: string
  CLASS_REST_RESPONSE :: string
  RestRequest_init :: "string \<Rightarrow> http_method \<Rightarrow> RestRequest"
  RestRequest_destroy :: "RestRequest \<Rightarrow> RestRequest"
  RestRequest_add_header :: "RestRequest \<Rightarrow> string \<Rightarrow> RestRequest"
  RestRequest_get_header_value :: "RestRequest \<Rightarrow> string \<Rightarrow> string option"
  RestResponse_get_header_value :: "RestResponse \<Rightarrow> string \<Rightarrow> string option"
  RestRequest_set_array_body :: "RestRequest \<Rightarrow> char list \<Rightarrow> nat \<Rightarrow> string \<Rightarrow> RestRequest"
  RestRequest_set_file_body :: "RestRequest \<Rightarrow> FILE \<Rightarrow> int \<Rightarrow> string \<Rightarrow> RestRequest"
  RestResponse_init :: RestResponse
  RestResponse_destroy :: "RestResponse \<Rightarrow> RestResponse"
  RestFilter_set_content_headers :: rest_http_filter
  RestFilter_execute_curl_request :: "(file_filter \<Rightarrow> request \<Rightarrow> char list \<Rightarrow> (int \<times> request) option) \<Rightarrow> rest_http_filter"
  RestFilter_add :: "rest_http_filter list \<Rightarrow> rest_http_filter \<Rightarrow> rest_http_filter list"
  RestClient_execute_request :: "AtmosClient \<Rightarrow> rest_http_filter list \<Rightarrow> handler"
  RestClient_init :: "string \<Rightarrow> int \<Rightarrow> string \<times> int"
  RestClient_destroy :: "string \<times> int \<Rightarrow> string \<times> int"
  RestRequest_get_header :: "RestRequest \<Rightarrow> string \<Rightarrow> string option"
  RestRequest_set_file_filter :: "RestRequest \<Rightarrow> file_filter \<Rightarrow> RestRequest"
  xml_parse :: "char list \<Rightarrow> xml_node option"
  xml_read_size :: "nat \<Rightarrow> nat"
  xmlXPathEval :: "xml_node \<Rightarrow> bool \<Rightarrow> string \<Rightarrow> xml_node list option"
  Atmos_policyType_marshal :: "string \<Rightarrow> string option"
  Atmos_listAccessTokenResultType_unmarshal :: "char list \<Rightarrow> string option"
  Atmos_accessTokenType_unmarshal :: "char list \<Rightarrow> string option"
  curl_easy_escape :: "string \<Rightarrow> string option"
  curl_easy_unescape :: "string \<Rightarrow> string option"
  BIO_base64_decode :: "string \<Rightarrow> int \<times> char list"
  BIO_base64_encode :: "char list \<Rightarrow> (char list) option"
  HMAC_sha1 :: "char list \<Rightarrow> int \<Rightarrow> string \<Rightarrow> char list"
  digest_init :: "atmos_checksum_alg \<Rightarrow> (char list) option"
  digest_ctx_size :: "atmos_checksum_alg \<Rightarrow> nat"
  digest_update :: "atmos_checksum_alg \<Rightarrow> char list \<Rightarrow> char list \<Rightarrow> char list"
  digest_final :: "atmos_checksum_alg \<Rightarrow> char list \<Rightarrow> (char list) option"

text \<open>
  \<^item> \<open>alloc_ok n\<close>: an allocation of \<open>n\<close> bytes succeeds; \<open>sizeof\<close>: the sizes of the structures allocated in arrays; \<open>junk\<close>: the byte that fresh
    memory and uninitialised locals hold (every property holds for any value of it).
  \<^item> \<open>tz_west\<close>: the C library's \<open>timezone\<close>, seconds west of UTC; \<open>have_tm_gmtoff\<close>: the
    configure result \<open>HAVE_STRUCT_TM_TM_GMTOFF\<close>; \<open>mktime_uses_gmtoff\<close>: whether \<open>mktime\<close>
    honours the offset that \<open>strptime\<close> stored (as BSD does).
  \<^item> \<open>digest_init alg\<close>: the context after \<open>MD5_Init\<close>, \<open>SHA_Init\<close> or \<open>SHA1_Init\<close>, \<open>None\<close>
    when it returns 0, and \<open>digest_ctx_size\<close> the size of the context; \<open>digest_update alg ctx data\<close>: the context
    after the update function (its return value only decides a log line); \<open>digest_final\<close>: the
    digest, \<open>None\<close> when the function returns 0.
  \<^item> \<open>BIO_base64_decode s\<close>: the result of \<open>BIO_read\<close> and the bytes it stores;
    \<open>BIO_base64_encode\<close>: the memory BIO's contents, \<open>None\<close> when \<open>BIO_flush\<close> fails.
  \<^item> \<open>RestFilter_execute_curl_request\<close>: the transfer; its first argument is what calling the file
    filter of a request does. \<open>RestFilter_add\<close> and
    \<open>RestClient_execute_request\<close> build and run a chain of filters; a chain is the list of them.
  \<^item> \<open>xml_parse\<close>: the root of the document the XML parser builds from these bytes, \<open>None\<close> when
    they are not a document; \<open>xml_read_size n\<close>: the size of the buffer it offers in its \<open>n\<close>-th
    call of a read callback; \<open>xmlXPathEval root cos path\<close>: the node set of an XPath expression,
    with the prefix \<open>cos\<close> registered or not, \<open>None\<close> when it cannot be evaluated.
  \<^item> The \<open>marshal\<close> and \<open>unmarshal\<close> functions are those of the generated XML binding.
\<close>

definition mem_ok :: "env \<Rightarrow> bool" where
  "mem_ok E \<longleftrightarrow> (\<forall>n. alloc_ok E n)"

text \<open>The documented behaviour of the REST library's request functions.\<close>

definition rest_client_ok :: "env \<Rightarrow> bool" where
  "rest_client_ok E \<longleftrightarrow>
     (\<forall>r h. RestRequest_add_header E r h = r\<lparr>rq_headers := rq_headers r @ [h]\<rparr>) \<and>
     (\<forall>uri m. rq_uri (RestRequest_init E uri m) = uri \<and> rq_method (RestRequest_init E uri m) = m \<and>
        rq_headers (RestRequest_init E uri m) = [] \<and> rq_body (RestRequest_init E uri m) = None \<and>
        rq_uri_encoded (RestRequest_init E uri m) = 0 \<and> rq_file_filter (RestRequest_init E uri m) = None)"

lemma rest_add_header:
  "rest_client_ok E \<Longrightarrow> RestRequest_add_header E r h = r\<lparr>rq_headers := rq_headers r @ [h]\<rparr>"
  by (simp add: rest_client_ok_def)

lemma rest_init:
  assumes "rest_client_ok E"
  shows "rq_uri (RestRequest_init E uri m) = uri" "rq_method (RestRequest_init E uri m) = m"
    "rq_headers (RestRequest_init E uri m) = []" "rq_body (RestRequest_init E uri m) = None"
    "rq_uri_encoded (RestRequest_init E uri m) = 0" "rq_file_filter (RestRequest_init E uri m) = None"
  using assms by (simp_all add: rest_client_ok_def)

text \<open>
  Percent-encoding as curl documents it: every string can be encoded and decoding gives it back,
  an encoded byte takes at most three, and no separator of a header survives the encoding.
  \<open>curl_easy_unescape\<close> returns a C string for every C string.
\<close>

definition escape_total :: "env \<Rightarrow> bool" where
  "escape_total E \<longleftrightarrow> (\<forall>s. cstring s \<longrightarrow> (\<exists>e. curl_easy_escape E s = Some e \<and> cstring e))"

definition unescape_total :: "env \<Rightarrow> bool" where
  "unescape_total E \<longleftrightarrow> (\<forall>s. cstring s \<longrightarrow> (\<exists>d. curl_easy_unescape E s = Some d \<and> cstring d))"

definition curl_codec_ok :: "env \<Rightarrow> bool" where
  "curl_codec_ok E \<longleftrightarrow> unescape_total E \<and>
     (\<forall>s. cstring s \<longrightarrow> (\<exists>e. curl_easy_escape E s = Some e \<and> curl_easy_unescape E e = Some s \<and>
        cstring e \<and> length e \<le> 3 * length s \<and> (\<forall>c \<in> set e. c \<noteq> CHR '','' \<and> c \<noteq> CHR ''='' \<and> c \<noteq> CHR '' '')))"

lemma curl_codec_escape: "curl_codec_ok E \<Longrightarrow> escape_total E"
  unfolding curl_codec_ok_def escape_total_def by blast

text \<open>
  The base64 filter: the encoded text is a C string followed by a newline, decoding does not make
  the text longer.
\<close>

definition base64_ok :: "env \<Rightarrow> bool" where
  "base64_ok E \<longleftrightarrow> (\<forall>d. \<exists>t. BIO_base64_encode E d = Some (t @ [CHR 0x0A]) \<and> cstring t) \<and>
     (\<forall>s. length (snd (BIO_base64_decode E s)) \<le> length s)"

text \<open>
  The digest functions of OpenSSL: they do not fail on an initialised context, updating with two
  pieces is updating with their concatenation, updating with nothing changes nothing, and the
  digest has its documented length.
\<close>

definition digest_ok :: "env \<Rightarrow> bool" where
  "digest_ok E \<longleftrightarrow> (\<forall>alg. digest_init E alg \<noteq> None) \<and>
     (\<forall>alg c a b. digest_update E alg c (a @ b) = digest_update E alg (digest_update E alg c a) b) \<and>
     (\<forall>alg c. digest_update E alg c [] = c) \<and>
     (\<forall>alg c. \<exists>d. digest_final E alg c = Some d \<and> length d = digest_length alg)"

text \<open>
  Chains of filters: adding puts the new filter in front, executing calls the first filter, and
  every filter is handed the rest of the chain.
\<close>

fun run_chain :: "AtmosClient \<Rightarrow> rest_http_filter list \<Rightarrow> handler option" where
  "run_chain c [] = None"
| "run_chain c (f # fs) = Some (f c (run_chain c fs))"

definition rest_chain_ok :: "env \<Rightarrow> bool" where
  "rest_chain_ok E \<longleftrightarrow> (\<forall>chain f. RestFilter_add E chain f = f # chain) \<and>
     (\<forall>c f chain st. RestClient_execute_request E c (f # chain) st = f c (run_chain c chain) st)"

text \<open>How a filter passes on to the next one.\<close>

definition call_next :: "handler option \<Rightarrow> handler" where
  "call_next next st = (case next of None \<Rightarrow> Some st | Some f \<Rightarrow> f st)"

lemma call_next_simps [simp]: "call_next None st = Some st" "call_next (Some f) st = f st"
  by (simp_all add: call_next_def)

section \<open>Calls of library functions on the base part of an object\<close>

definition upd_base :: "(RestRequest \<Rightarrow> RestRequest) \<Rightarrow> request \<Rightarrow> request" where
  "upd_base f r = r\<lparr>r_base := f (r_base r)\<rparr>"

definition add_header :: "env \<Rightarrow> request \<Rightarrow> string \<Rightarrow> request" where
  "add_header E r h = upd_base (\<lambda>b. RestRequest_add_header E b h) r"

lemma r_sub_add_header [simp]: "r_sub (add_header E r h) = r_sub r"
  by (simp add: add_header_def upd_base_def)

lemma r_sub_upd_base [simp]: "r_sub (upd_base f r) = r_sub r"
  by (simp add: upd_base_def)

lemma r_base_upd_base [simp]: "r_base (upd_base f r) = f (r_base r)"
  by (simp add: upd_base_def)

definition add_headers :: "env \<Rightarrow> request \<Rightarrow> string list \<Rightarrow> request" where
  "add_headers E r hs = foldl (add_header E) r hs"

lemma add_headers_simps [simp]:
  "add_headers E r [] = r"
  "add_headers E r (h # hs) = add_headers E (add_header E r h) hs"
  by (simp_all add: add_headers_def)

lemma add_headers_append: "add_headers E r (xs @ ys) = add_headers E (add_headers E r xs) ys"
  by (simp add: add_headers_def)

lemma r_sub_add_headers [simp]: "r_sub (add_headers E r hs) = r_sub r"
  by (induction hs arbitrary: r) auto

text \<open>The headers an object carries; with the documented library, adding appends at the end.\<close>

abbreviation req_headers :: "request \<Rightarrow> string list" where
  "req_headers r \<equiv> rq_headers (r_base r)"

lemma add_header_ok:
  "rest_client_ok E \<Longrightarrow> add_header E r h = r\<lparr>r_base := (r_base r)\<lparr>rq_headers := req_headers r @ [h]\<rparr>\<rparr>"
  by (simp add: add_header_def upd_base_def rest_add_header)

lemma req_headers_add_headers:
  "rest_client_ok E \<Longrightarrow>
   add_headers E r hs = r\<lparr>r_base := (r_base r)\<lparr>rq_headers := req_headers r @ hs\<rparr>\<rparr>"
  by (induction hs arbitrary: r) (auto simp: add_header_ok)

section \<open>The two filters of the REST library\<close>

text \<open>
  \<open>content_headers_ok E hs\<close>: the content filter adds the headers \<open>hs\<close> that the body calls for and
  passes the request on.
\<close>

definition content_headers_ok :: "env \<Rightarrow> (request \<Rightarrow> string list) \<Rightarrow> bool" where
  "content_headers_ok E hs \<longleftrightarrow>
     (\<forall>c nxt rq rs. RestFilter_set_content_headers E c nxt (rq, rs) = call_next nxt (add_headers E rq (hs rq), rs))"

definition feed_blocks ::
    "(file_filter \<Rightarrow> request \<Rightarrow> char list \<Rightarrow> (int \<times> request) option) \<Rightarrow> request \<Rightarrow> char list list \<Rightarrow> request option" where
  "feed_blocks cb rq blocks =
     (case rq_file_filter (r_base rq) of
        None \<Rightarrow> Some rq
      | Some ff \<Rightarrow> foldM (\<lambda>rq b. map_option snd (cb ff rq b)) rq blocks)"

text \<open>
  \<open>transfers E c rq rs base body blocks\<close>: sending \<open>rq\<close> makes the base part of the response
  \<open>base\<close>, leaves the body as \<open>body\<close> (a file moves), and has handed the \<open>blocks\<close> it read from a
  file to the file filter of the request, if it has one. Nothing else of the two objects changes,
  and no filter behind it is called.
\<close>

definition transfers ::
    "env \<Rightarrow> AtmosClient \<Rightarrow> request \<Rightarrow> response \<Rightarrow> RestResponse \<Rightarrow> RestRequestBody option \<Rightarrow> char list list \<Rightarrow> bool" where
  "transfers E c rq rs base body blocks \<longleftrightarrow>
     (\<forall>cb nxt. RestFilter_execute_curl_request E cb c nxt (rq, rs) =
        map_option (\<lambda>rq'. (rq', rs\<lparr>s_base := base\<rparr>)) (feed_blocks cb (upd_base (\<lambda>b. b\<lparr>rq_body := body\<rparr>) rq) blocks))"

section \<open>A concrete environment\<close>

text \<open>Header names are compared without case, spaces after the colon are dropped.\<close>

fun lookup_header :: "string list \<Rightarrow> string \<Rightarrow> string option" where
  "lookup_header [] n = None"
| "lookup_header (h # hs) n =
     (case strstr h '':'' of
        None \<Rightarrow> lookup_header hs n
      | Some i \<Rightarrow> if map tolower (take i h) = map tolower n
                  then Some (dropWhile (\<lambda>c. c = CHR '' '') (drop (Suc i) h))
                  else lookup_header hs n)"

text \<open>The header lookup of the REST library: by name, without case, as \<open>lookup_header\<close> does it.\<close>

definition response_lookup_ok :: "env \<Rightarrow> bool" where
  "response_lookup_ok E \<longleftrightarrow> (\<forall>r n. RestResponse_get_header_value E r n = lookup_header (rs_headers r) n)"

definition request_lookup_ok :: "env \<Rightarrow> bool" where
  "request_lookup_ok E \<longleftrightarrow> (\<forall>r n. RestRequest_get_header_value E r n = lookup_header (rq_headers r) n)"

lemma lookup_header_line:
  assumes "CHR '':'' \<notin> set n"
  shows "lookup_header ((n @ CHR '':'' # v) # hs) m =
     (if map tolower n = map tolower m then Some (dropWhile (\<lambda>c. c = CHR '' '') v) else lookup_header hs m)"
proof -
  have "strstr (n @ CHR '':'' # v) '':'' = Some (length n)"
    using assms by (simp add: strstr_char)
  then show ?thesis by simp
qed

text \<open>Percent-encoding, for the concrete environment.\<close>

definition hex_char :: "nat \<Rightarrow> char" where
  "hex_char n = (if n < 10 then char_of (48 + n) else char_of (55 + n))"

definition hex_value :: "char \<Rightarrow> nat" where
  "hex_value c = (let n = of_char c in if n < 58 then n - 48 else n - 55)"

definition unreserved :: "char \<Rightarrow> bool" where
  "unreserved c \<longleftrightarrow> (let n = (of_char c :: nat) in
     48 \<le> n \<and> n \<le> 57 \<or> 65 \<le> n \<and> n \<le> 90 \<or> 97 \<le> n \<and> n \<le> 122 \<or> n \<in> {45, 46, 95, 126})"

primrec percent_encode :: "string \<Rightarrow> string" where
  "percent_encode [] = []"
| "percent_encode (c # cs) =
     (if unreserved c then c # percent_encode cs
      else CHR ''%'' # hex_char (of_char c div 16) # hex_char (of_char c mod 16) # percent_encode cs)"

fun percent_decode :: "string \<Rightarrow> string" where
  "percent_decode [] = []"
| "percent_decode (c # cs) =
     (if c = CHR ''%'' then
        (case cs of
           a # b # ds \<Rightarrow> char_of (16 * hex_value a + hex_value b) # percent_decode ds
         | _ \<Rightarrow> c # percent_decode cs)
      else c # percent_decode cs)"

lemma hex_value_char: "n < 16 \<Longrightarrow> hex_value (hex_char n) = n"
  by (auto simp: hex_value_def hex_char_def Let_def)

lemma unreserved_percent: "unreserved c \<Longrightarrow> c \<noteq> CHR ''%''"
  by (auto simp: unreserved_def Let_def)

lemma percent_decode_encode: "percent_decode (percent_encode s) = s"
proof (induction s)
  case (Cons c s)
  have "(of_char c :: nat) < 256" by simp
  then have "(of_char c :: nat) div 16 < 16" by (simp add: less_mult_imp_div_less)
  then show ?case using Cons unreserved_percent[of c] by (simp add: hex_value_char)
qed simp

definition header_safe :: "char \<Rightarrow> bool" where
  "header_safe c \<longleftrightarrow> c \<noteq> NUL \<and> c \<noteq> CHR '','' \<and> c \<noteq> CHR ''='' \<and> c \<noteq> CHR '' ''"

lemma header_safe_hex: "n < 16 \<Longrightarrow> header_safe (hex_char n)"
  by (auto simp: header_safe_def hex_char_def char_of_eq_iff take_bit_eq_mod)

lemma header_safe_unreserved: "unreserved c \<Longrightarrow> header_safe c"
  by (auto simp: header_safe_def unreserved_def Let_def)

lemma percent_encode_safe: "\<forall>c \<in> set (percent_encode s). header_safe c"
proof (induction s)
  case (Cons c s)
  have "(of_char c :: nat) < 256" by simp
  then have "(of_char c :: nat) div 16 < 16" by (simp add: less_mult_imp_div_less)
  then show ?case using Cons header_safe_unreserved[of c] header_safe_hex[of "of_char c div 16"]
      header_safe_hex[of "of_char c mod 16"] by (auto simp: header_safe_def)
qed simp

lemma length_percent_encode: "length (percent_encode s) \<le> 3 * length s"
  by (induction s) auto

text \<open>The transfer reads the announced number of bytes from a file in one block.\<close>

definition body_blocks :: "RestRequestBody option \<Rightarrow> char list list" where
  "body_blocks body =
     (case body of
        None \<Rightarrow> []
      | Some b \<Rightarrow> (case rb_file_body b of
            None \<Rightarrow> []
          | Some f \<Rightarrow> [fst (fread (nat (rb_data_size b)) f)]))"

definition body_after :: "RestRequestBody option \<Rightarrow> RestRequestBody option" where
  "body_after body =
     map_option (\<lambda>b. b\<lparr>rb_file_body := map_option (\<lambda>f. snd (fread (nat (rb_data_size b)) f)) (rb_file_body b)\<rparr>) body"

definition list_env :: env where
  "list_env = \<lparr>
     alloc_ok = (\<lambda>n. True),
     sizeof = (\<lambda>t. 1024),
     junk = CHR 0xAA,
     time_now = 1212683899,
     tz_west = 18000,
     have_tm_gmtoff = False,
     mktime_uses_gmtoff = False,
     HTTP_HEADER_CONTENT_TYPE = ''Content-Type'',
     HTTP_HEADER_RANGE = ''Range'',
     HTTP_HEADER_CONTENT_RANGE = ''Content-Range'',
     HTTP_HEADER_DATE = ''Date'',
     HTTP_HEADER_LOCATION = ''Location'',
     CLASS_REST_RESPONSE = ''RestResponse'',
     RestRequest_init = (\<lambda>uri m. \<lparr>rq_class_name = ''RestRequest'', rq_uri = uri, rq_method = m,
        rq_headers = [], rq_body = None, rq_uri_encoded = 0, rq_file_filter = None\<rparr>),
     RestRequest_destroy = (\<lambda>r. r\<lparr>rq_headers := [], rq_body := None\<rparr>),
     RestRequest_add_header = (\<lambda>r h. r\<lparr>rq_headers := rq_headers r @ [h]\<rparr>),
     RestRequest_get_header_value = (\<lambda>r n. lookup_header (rq_headers r) n),
     RestResponse_get_header_value = (\<lambda>r n. lookup_header (rs_headers r) n),
     RestRequest_set_array_body = (\<lambda>r d n ct. r\<lparr>rq_body := Some \<lparr>rb_body = d, rb_file_body = None,
        rb_data_size = int n\<rparr>\<rparr>),
     RestRequest_set_file_body = (\<lambda>r f n ct. r\<lparr>rq_body := Some \<lparr>rb_body = [], rb_file_body = Some f,
        rb_data_size = n\<rparr>\<rparr>),
     RestResponse_init = \<lparr>rs_class_name = ''RestResponse'', http_code = 0, http_status = [],
        rs_headers = [], rs_body = [], rs_content_length = 0, rs_file_body = None,
        rs_file_body_start_pos = 0\<rparr>,
     RestResponse_destroy = (\<lambda>r. r\<lparr>rs_headers := [], rs_body := []\<rparr>),
     RestFilter_set_content_headers = (\<lambda>c nxt st. call_next nxt st),
     RestFilter_execute_curl_request = (\<lambda>cb c nxt (rq, rs).
        map_option (\<lambda>rq'. (rq', rs\<lparr>s_base := (s_base rs)\<lparr>http_code := 201,
            rs_headers := [''Location: /rest/objects/0123456789'']\<rparr>\<rparr>))
          (feed_blocks cb (upd_base (\<lambda>b. b\<lparr>rq_body := body_after (rq_body b)\<rparr>) rq) (body_blocks (rq_body (r_base rq))))),
     RestFilter_add = (\<lambda>chain f. f # chain),
     RestClient_execute_request = (\<lambda>c chain st. (case run_chain c chain of None \<Rightarrow> None | Some h \<Rightarrow> h st)),
     RestClient_init = (\<lambda>endpoint port. (endpoint, port)),
     RestClient_destroy = (\<lambda>(host, port). ([], port)),
     RestRequest_get_header = (\<lambda>r n. lookup_header (rq_headers r) n),
     RestRequest_set_file_filter = (\<lambda>r f. r\<lparr>rq_file_filter := Some f\<rparr>),
     xml_parse = (\<lambda>b. if b = [] then None else Some (XmlNode True ''Error'' (Some []) [])),
     xml_read_size = (\<lambda>n. 4000),
     xmlXPathEval = (\<lambda>root cos path. Some (if path = ''/Error/Code'' then [XmlNode True ''Code'' (Some ''1003'') []] else [])),
     Atmos_policyType_marshal = (\<lambda>p. Some p),
     Atmos_listAccessTokenResultType_unmarshal = (\<lambda>b. Some (takeWhile (\<lambda>c. c \<noteq> NUL) b)),
     Atmos_accessTokenType_unmarshal = (\<lambda>b. Some (takeWhile (\<lambda>c. c \<noteq> NUL) b)),
     curl_easy_escape = (\<lambda>s. Some (percent_encode s)),
     curl_easy_unescape = (\<lambda>s. Some (takeWhile (\<lambda>c. c \<noteq> NUL) (percent_decode s))),
     BIO_base64_decode = (\<lambda>s. (int (length s), s)),
     BIO_base64_encode = (\<lambda>s. Some (percent_encode s @ [CHR 0x0A])),
     HMAC_sha1 = (\<lambda>k n d. ''sig''),
     digest_init = (\<lambda>a. Some []),
     digest_ctx_size = (\<lambda>a. 96),
     digest_update = (\<lambda>a c d. c @ d),
     digest_final = (\<lambda>a c. Some (take (digest_length a) (c @ replicate 20 NUL)))\<rparr>"

lemma rest_client_ok_list_env [simp]: "rest_client_ok list_env"
  by (simp add: rest_client_ok_def list_env_def)

lemma rest_chain_ok_list_env [simp]: "rest_chain_ok list_env"
  by (simp add: rest_chain_ok_def list_env_def)

lemma mem_ok_list_env [simp]: "mem_ok list_env"
  by (simp add: mem_ok_def list_env_def)

lemma content_headers_ok_list_env: "content_headers_ok list_env (\<lambda>rq. [])"
  by (simp add: content_headers_ok_def list_env_def)

lemma transfers_list_env:
  "transfers list_env c rq rs ((s_base rs)\<lparr>http_code := 201, rs_headers := [''Location: /rest/objects/0123456789'']\<rparr>)
     (body_after (rq_body (r_base rq))) (body_blocks (rq_body (r_base rq)))"
  by (simp add: transfers_def list_env_def upd_base_def)

lemma lookup_ok_list_env [simp]: "response_lookup_ok list_env" "request_lookup_ok list_env"
  by (simp_all add: response_lookup_ok_def request_lookup_ok_def list_env_def)

lemma base64_ok_list_env [simp]: "base64_ok list_env"
  using percent_encode_safe by (auto simp: base64_ok_def list_env_def cdefs header_safe_def)

lemma digest_ok_list_env [simp]: "digest_ok list_env"
proof -
  have "length (take (digest_length alg) (c @ replicate 20 NUL)) = digest_length alg" for alg c
    by (cases alg; cases "length c \<le> 16") (auto simp: min_def)
  then show ?thesis by (simp add: digest_ok_def list_env_def del: take_append)
qed

lemma curl_codec_ok_list_env [simp]: "curl_codec_ok list_env"
proof -
  have "cstring (takeWhile (\<lambda>c. c \<noteq> NUL) (percent_decode s))" for s
    by (auto simp: cdefs dest: set_takeWhileD)
  moreover have "takeWhile (\<lambda>c. c \<noteq> NUL) s = s" if "cstring s" for s
    using that by (simp add: cdefs takeWhile_neq_notin)
  ultimately show ?thesis
    using percent_encode_safe length_percent_encode
    by (auto simp: curl_codec_ok_def unescape_total_def list_env_def percent_decode_encode header_safe_def cdefs)
qed

end
