(* ===== verification/String_Builder.thy ===== *)
theory String_Builder
  imports Platform
begin

text \<open>
  The string primitives of \<open>atmos_util.c\<close>: bounded copy, comparison, and the growing heap
  string that every header, the string to sign and the shareable URL are built with.

  The contract of the growing string is the locale \<open>string_builder\<close>: its clients are proved
  against the contract, and \<open>AtmosUtil_cstring_append\<close> is an interpretation of it.
\<close>

section \<open>Bounded copy\<close>

text \<open>\<open>destsz\<close> is a \<open>size_t\<close>: \<open>destsz - 1\<close> wraps around to \<open>2 ^ 64 - 1\<close> for 0.\<close>

fun strlcpy_loop :: "nat \<Rightarrow> nat \<Rightarrow> buffer \<Rightarrow> string \<Rightarrow> buffer option" where
  "strlcpy_loop lim i dest [] = buf_set dest i NUL"
| "strlcpy_loop lim i dest (c # src) =
     (if i < lim then do { d \<leftarrow> buf_set dest i c; strlcpy_loop lim (Suc i) d src }
      else buf_set dest i NUL)"

definition AtmosUtil_strlcpy :: "buffer \<Rightarrow> string \<Rightarrow> nat \<Rightarrow> buffer option" where
  "AtmosUtil_strlcpy dest src destsz =
     strlcpy_loop (nat ((int destsz - 1) mod 2 ^ 64)) 0 dest src"

lemma strlcpy_loop_write: "strlcpy_loop lim i dest src = buf_write dest i (take (lim - i) src @ [NUL])"
proof (induction src arbitrary: i dest)
  case (Cons c src)
  show ?case
  proof (cases "i < lim")
    case True
    then have "lim - i = Suc (lim - Suc i)" by simp
    then show ?thesis using Cons True
      by (cases "buf_set dest i c") (simp_all add: buf_write_Cons)
  qed (simp add: buf_set_write)
qed (simp add: buf_set_write)

lemma AtmosUtil_strlcpy_write:
  assumes "0 < destsz" "destsz \<le> 2 ^ 64"
  shows "AtmosUtil_strlcpy dest src destsz = buf_write dest 0 (take (destsz - 1) src @ [NUL])"
proof -
  have "(int destsz - 1) mod 2 ^ 64 = int destsz - 1" using assms by simp
  then have "nat ((int destsz - 1) mod 2 ^ 64) = destsz - 1" using assms(1) by simp
  then show ?thesis unfolding AtmosUtil_strlcpy_def by (simp only: strlcpy_loop_write diff_zero)
qed

lemma AtmosUtil_strlcpy_length [clen]:
  "AtmosUtil_strlcpy d s n = Some d' \<Longrightarrow> length d' = length d"
  by (auto simp: AtmosUtil_strlcpy_def strlcpy_loop_write clen)

lemma AtmosUtil_strlcpy_c_str:
  assumes "0 < n" "n \<le> 2 ^ 64" "cstring s" "AtmosUtil_strlcpy d s n = Some d'"
  shows "c_str d' = Some (take (n - 1) s)"
  using assms
  by (auto simp: AtmosUtil_strlcpy_write buf_write_def cstring_take split: if_splits)

lemma AtmosUtil_strlcpy_Some:
  assumes "0 < n" "n \<le> 2 ^ 64" "min (length s) (n - 1) < length d"
  shows "\<exists>d'. AtmosUtil_strlcpy d s n = Some d'"
  using assms by (simp add: AtmosUtil_strlcpy_write buf_write_def Suc_le_eq)

section \<open>Comparison\<close>

definition AtmosUtil_cstring_cmp :: "string \<Rightarrow> string \<Rightarrow> int" where
  "AtmosUtil_cstring_cmp a b = strcmp a b"

lemma qsort_cstring_cmp: "qsort AtmosUtil_cstring_cmp xs = sort xs"
  by (rule qsort_sort) (simp add: AtmosUtil_cstring_cmp_def strcmp_le)

section \<open>The growing heap string\<close>

text \<open>The pointer (or \<open>NULL\<close>) with the size variable the caller keeps beside it.\<close>

type_synonym hstring = "buffer option \<times> nat"

abbreviation empty_hstring :: hstring where "empty_hstring \<equiv> (None, 0)"

text \<open>\<open>realloc\<close> keeps the old bytes; the new ones are not initialised.\<close>

definition realloc :: "env \<Rightarrow> buffer option \<Rightarrow> nat \<Rightarrow> buffer option" where
  "realloc E buf n =
     (if alloc_ok E n then
        (let old = (case buf of None \<Rightarrow> [] | Some b \<Rightarrow> b) in Some (take n old @ replicate (n - length old) (junk E)))
      else None)"

text \<open>\<open>strlen(buf)\<close>, with \<open>bufpos = 0\<close> for \<open>NULL\<close>.\<close>

definition hstring_pos :: "buffer option \<Rightarrow> nat option" where
  "hstring_pos buf = (case buf of None \<Rightarrow> Some 0 | Some b \<Rightarrow> map_option length (c_str b))"

text \<open>\<open>strcpy(buf + bufpos, str); buf[bufpos + strsz] = 0;\<close>\<close>

definition hstring_put :: "buffer option \<Rightarrow> nat \<Rightarrow> string \<Rightarrow> buffer option" where
  "hstring_put buf bufpos str =
     (case buf of
        None \<Rightarrow> None
      | Some b \<Rightarrow> do { b1 \<leftarrow> strcpy_at b bufpos str; buf_set b1 (bufpos + length str) NUL })"

definition AtmosUtil_cstring_append :: "env \<Rightarrow> hstring \<Rightarrow> string \<Rightarrow> hstring option" where
  "AtmosUtil_cstring_append E hs str = (case hs of (buf, bufsz) \<Rightarrow>
     let strsz = length str in
     do {
       bufpos \<leftarrow> hstring_pos buf;
       if buf = None \<or> bufpos + strsz + 1 > bufsz then
         (let newsize = bufsz + strsz + 256 in
          case realloc E buf newsize of
            None \<Rightarrow> Some (buf, bufsz)
          | Some buf2 \<Rightarrow> do { b \<leftarrow> hstring_put (Some buf2) bufpos str; Some (Some b, newsize) })
       else do { b \<leftarrow> hstring_put buf bufpos str; Some (Some b, bufsz) }
     })"

text \<open>The variant that percent-encodes the appended string first.\<close>

definition AtmosUtil_cstring_append_utf8 :: "env \<Rightarrow> hstring \<Rightarrow> string \<Rightarrow> hstring option" where
  "AtmosUtil_cstring_append_utf8 E hs str =
     (case curl_easy_escape E str of
        None \<Rightarrow> Some hs
      | Some encoded \<Rightarrow> (case hs of (buf, bufsz) \<Rightarrow>
          let strsz = length encoded in
          do {
            bufpos \<leftarrow> hstring_pos buf;
            if buf = None \<or> bufpos + strsz + 1 > bufsz then
              (let newsize = bufsz + strsz + 256 in
               case realloc E buf newsize of
                 None \<Rightarrow> Some (buf, bufsz)
               | Some buf2 \<Rightarrow> do { b \<leftarrow> hstring_put (Some buf2) bufpos encoded; Some (Some b, newsize) })
            else do { b \<leftarrow> hstring_put buf bufpos encoded; Some (Some b, bufsz) }
          }))"

lemma append_utf8_escape:
  "AtmosUtil_cstring_append_utf8 E hs str =
     (case curl_easy_escape E str of None \<Rightarrow> Some hs | Some e \<Rightarrow> AtmosUtil_cstring_append E hs e)"
  by (simp add: AtmosUtil_cstring_append_utf8_def AtmosUtil_cstring_append_def split: option.split)

text \<open>Consecutive calls of the append function, and the pointer read as a string at the end.\<close>

abbreviation AtmosUtil_cstring_append_all :: "env \<Rightarrow> hstring \<Rightarrow> string list \<Rightarrow> hstring option" where
  "AtmosUtil_cstring_append_all E \<equiv> foldM (AtmosUtil_cstring_append E)"

definition hstring_text :: "hstring \<Rightarrow> string option" where
  "hstring_text hs = Option.bind (fst hs) c_str"

text \<open>The invariant: the size variable is the size of the block, which holds a string.\<close>

definition hstring_inv :: "hstring \<Rightarrow> bool" where
  "hstring_inv hs \<longleftrightarrow> (case hs of
     (None, n) \<Rightarrow> n = 0
   | (Some b, n) \<Rightarrow> n = length b \<and> c_str b \<noteq> None)"

definition hstring_content :: "hstring \<Rightarrow> string" where
  "hstring_content hs = (case hstring_text hs of None \<Rightarrow> [] | Some s \<Rightarrow> s)"

lemma hstring_inv_empty [simp]: "hstring_inv empty_hstring"
  by (simp add: hstring_inv_def)

lemma hstring_content_empty [simp]: "hstring_content empty_hstring = []"
  by (simp add: hstring_content_def hstring_text_def)

lemma hstring_put_c_str:
  assumes "b = s @ NUL # r" "cstring s" "cstring str" "length s + length str < length b"
  shows "\<exists>b'. hstring_put (Some b) (length s) str = Some b' \<and> c_str b' = Some (s @ str) \<and>
           length b' = length b"
  using assms
  by (auto simp: hstring_put_def strcpy_at_def buf_write_def buf_set_def nth_append list_update_append)

lemma hstring_put_fresh:
  assumes "cstring str" "length str < length b"
  shows "\<exists>b'. hstring_put (Some b) 0 str = Some b' \<and> c_str b' = Some str \<and> length b' = length b"
  using assms by (auto simp: hstring_put_def strcpy_at_def buf_write_def buf_set_def list_update_append)

text \<open>The size passed to \<open>realloc\<close> always leaves room for the string and its terminator.\<close>

lemma AtmosUtil_cstring_append_ok:
  assumes "hstring_inv hs" "cstring str" "mem_ok E"
  shows "\<exists>hs'. AtmosUtil_cstring_append E hs str = Some hs' \<and> hstring_inv hs' \<and> fst hs' \<noteq> None \<and>
           hstring_content hs' = hstring_content hs @ str"
proof (cases hs)
  case (Pair buf n)
  show ?thesis
  proof (cases buf)
    case None
    have re: "realloc E None (length str + 256) = Some (replicate (length str + 256) (junk E))"
      using assms(3) by (simp add: realloc_def mem_ok_def)
    obtain b' where "hstring_put (Some (replicate (length str + 256) (junk E))) 0 str = Some b'"
      "c_str b' = Some str" "length b' = length str + 256"
      using hstring_put_fresh[OF assms(2), of "replicate (length str + 256) (junk E)"] by auto
    then show ?thesis using assms(1) re Pair None
      by (simp add: AtmosUtil_cstring_append_def hstring_inv_def hstring_pos_def hstring_content_def
          hstring_text_def)
  next
    case (Some b)
    with Pair assms(1) obtain s where s: "c_str b = Some s" "n = length b"
      by (auto simp: hstring_inv_def)
    have cs: "cstring s" and split: "b = s @ NUL # drop (Suc (length s)) b"
      using c_str_cstring c_str_split s(1) by blast+
    let ?m = "length b + length str + 256"
    let ?b2 = "b @ replicate (length str + 256) (junk E)"
    have re: "realloc E (Some b) ?m = Some ?b2"
      using assms(3) by (simp add: realloc_def mem_ok_def)
    have split2: "?b2 = s @ NUL # (drop (Suc (length s)) b @ replicate (length str + 256) (junk E))"
      by (subst split) simp
    have lt: "length s < length b" using c_str_length s(1) by blast
    show ?thesis
    proof (cases "length s + length str + 1 > length b")
      case True
      obtain b' where "hstring_put (Some ?b2) (length s) str = Some b'" "c_str b' = Some (s @ str)"
        "length b' = length ?b2"
        using hstring_put_c_str[OF split2 cs assms(2)] lt by auto
      then show ?thesis using True s Pair Some re
        by (simp add: AtmosUtil_cstring_append_def hstring_pos_def hstring_inv_def hstring_content_def
            hstring_text_def)
    next
      case False
      then obtain b' where "hstring_put (Some b) (length s) str = Some b'" "c_str b' = Some (s @ str)"
        "length b' = length b"
        using hstring_put_c_str[OF split cs assms(2)] by auto
      then show ?thesis using False s Pair Some
        by (simp add: AtmosUtil_cstring_append_def hstring_pos_def hstring_inv_def hstring_content_def
            hstring_text_def)
    qed
  qed
qed

text \<open>When the heap is exhausted the call is dropped: the string is returned unchanged.\<close>

lemma AtmosUtil_cstring_append_nomem:
  assumes "hstring_inv (buf, n)" "\<not> alloc_ok E (n + length str + 256)"
    "length (hstring_content (buf, n)) + length str + 1 > n"
  shows "AtmosUtil_cstring_append E (buf, n) str = Some (buf, n)"
  using assms
  by (cases buf)
     (auto simp: AtmosUtil_cstring_append_def hstring_pos_def hstring_inv_def realloc_def
       hstring_content_def hstring_text_def split: option.splits)

section \<open>The contract of a string builder\<close>

locale string_builder =
  fixes append :: "'b \<Rightarrow> string \<Rightarrow> 'b option"
    and content :: "'b \<Rightarrow> string"
    and inv :: "'b \<Rightarrow> bool"
    and present :: "'b \<Rightarrow> bool"
  assumes append_ok: "inv b \<Longrightarrow> cstring s \<Longrightarrow>
      \<exists>b'. append b s = Some b' \<and> inv b' \<and> present b' \<and> content b' = content b @ s"
begin

text \<open>A sequence of appends builds the concatenation.\<close>

lemma append_all_ok:
  assumes "inv b" "\<forall>s \<in> set ss. cstring s"
  shows "\<exists>b'. foldM append b ss = Some b' \<and> inv b' \<and> content b' = content b @ concat ss \<and>
           (present b \<or> ss \<noteq> [] \<longrightarrow> present b')"
  using assms
proof (induction ss arbitrary: b)
  case (Cons s ss)
  from Cons.prems have "cstring s" by simp
  from append_ok[OF Cons.prems(1) this] obtain b1
    where b1: "append b s = Some b1" "inv b1" "present b1" "content b1 = content b @ s" by blast
  then show ?case using Cons.IH[OF b1(2)] Cons.prems(2) by auto
qed simp

text \<open>A client that appends one piece at a time and one that appends the joined text agree.\<close>

lemma append_all_once:
  assumes "inv b" "\<forall>s \<in> set ss. cstring s" "foldM append b ss = Some b1" "append b (concat ss) = Some b2"
  shows "content b1 = content b2"
proof -
  have "cstring (concat ss)" using assms(2) by simp
  then show ?thesis
    using append_all_ok[OF assms(1,2)] append_ok[OF assms(1), of "concat ss"] assms(3,4) by auto
qed

end

interpretation hstr: string_builder "AtmosUtil_cstring_append E" hstring_content
    "\<lambda>hs. hstring_inv hs \<and> mem_ok E" "\<lambda>hs. fst hs \<noteq> None" for E
proof unfold_locales
  fix hs :: hstring and s :: string
  assume "hstring_inv hs \<and> mem_ok E" "cstring s"
  then show "\<exists>b'. AtmosUtil_cstring_append E hs s = Some b' \<and> (hstring_inv b' \<and> mem_ok E) \<and> fst b' \<noteq> None \<and>
      hstring_content b' = hstring_content hs @ s"
    using AtmosUtil_cstring_append_ok[of hs s E] by blast
qed

text \<open>The text of a sequence of appends, in the form the header builders use.\<close>

lemma append_all_text:
  assumes "mem_ok E" "\<forall>s \<in> set ss. cstring s" "ss \<noteq> []"
  shows "\<exists>hs. AtmosUtil_cstring_append_all E empty_hstring ss = Some hs \<and> hstring_inv hs \<and>
           hstring_text hs = Some (concat ss) \<and> 0 < snd hs"
proof -
  obtain hs where hs: "AtmosUtil_cstring_append_all E empty_hstring ss = Some hs" "hstring_inv hs"
    "hstring_content hs = concat ss" "fst hs \<noteq> None"
    using hstr.append_all_ok[of empty_hstring E ss] assms by auto
  then obtain b n where b: "hs = (Some b, n)" by (cases hs) auto
  with hs(2) obtain s where "c_str b = Some s" "n = length b" by (auto simp: hstring_inv_def)
  moreover from this have "0 < n" using c_str_length by fastforce
  ultimately show ?thesis using hs b by (simp add: hstring_content_def hstring_text_def)
qed

section \<open>Without enough memory\<close>

text \<open>Whatever \<open>realloc\<close> does, an append happens completely or not at all.\<close>

lemma AtmosUtil_cstring_append_whole:
  assumes "hstring_inv hs" "cstring str"
  shows "\<exists>hs'. AtmosUtil_cstring_append E hs str = Some hs' \<and> hstring_inv hs' \<and>
     hstring_content hs' \<in> {hstring_content hs, hstring_content hs @ str}"
proof -
  let ?E = "E\<lparr>alloc_ok := \<lambda>n. True\<rparr>"
  obtain hs' where hs': "AtmosUtil_cstring_append ?E hs str = Some hs'" "hstring_inv hs'" "hstring_content hs' = hstring_content hs @ str"
    using AtmosUtil_cstring_append_ok[OF assms, of ?E] by (auto simp: mem_ok_def)
  obtain pos where pos: "hstring_pos (fst hs) = Some pos"
    using assms(1) by (auto simp: hstring_inv_def hstring_pos_def split: prod.splits option.splits)
  have re: "realloc E b n = (if alloc_ok E n then realloc ?E b n else None)" for b n
    by (simp add: realloc_def)
  have "AtmosUtil_cstring_append E hs str = (if fst hs = None \<or> snd hs < pos + length str + 1
      then if alloc_ok E (snd hs + length str + 256) then AtmosUtil_cstring_append ?E hs str else Some hs
      else AtmosUtil_cstring_append ?E hs str)"
    using pos by (cases hs) (auto simp: AtmosUtil_cstring_append_def Let_def re)
  then have "AtmosUtil_cstring_append E hs str \<in> {Some hs, Some hs'}" unfolding hs'(1) by simp
  then have "AtmosUtil_cstring_append E hs str = Some hs \<or> AtmosUtil_cstring_append E hs str = Some hs'" by blast
  then show ?thesis using assms(1) hs'(2,3) by blast
qed

text \<open>
  C20: Running out of memory never makes the string builder write outside of its block: whatever allocations fail, any sequence of appends
  returns, keeps the invariant of the block and its size, and leaves a text made of whole pieces in their order; pieces whose
  allocation failed are missing.
\<close>

theorem appends_without_memory:
  assumes "hstring_inv hs" "\<forall>s \<in> set ss. cstring s"
  shows "\<exists>hs' ss'. AtmosUtil_cstring_append_all E hs ss = Some hs' \<and> hstring_inv hs' \<and> subseq ss' ss \<and>
     hstring_content hs' = hstring_content hs @ concat ss'"
  using assms
proof (induction ss arbitrary: hs)
  case Nil
  have "subseq [] []" by simp
  with Nil show ?case by (metis append_Nil2 concat.simps(1) foldM.simps(1))
next
  case (Cons s ss)
  then obtain h1 where h1: "AtmosUtil_cstring_append E hs s = Some h1" "hstring_inv h1"
    "hstring_content h1 \<in> {hstring_content hs, hstring_content hs @ s}"
    using AtmosUtil_cstring_append_whole[of hs s E] by auto
  obtain h2 ss' where h2: "AtmosUtil_cstring_append_all E h1 ss = Some h2" "hstring_inv h2" "subseq ss' ss"
    "hstring_content h2 = hstring_content h1 @ concat ss'"
    using Cons.IH[OF h1(2)] Cons.prems(2) by auto
  from h1(3) obtain ss'' where "subseq ss'' (s # ss)" "hstring_content h2 = hstring_content hs @ concat ss''"
  proof (elim insertE)
    assume "hstring_content h1 = hstring_content hs"
    with h2(3,4) show thesis by (intro that[of ss'] list_emb_Cons) simp_all
  next
    assume "hstring_content h1 = hstring_content hs @ s"
    with h2(3,4) show thesis by (intro that[of "s # ss'"]) simp_all
  qed simp
  then show ?case using h1(1) h2(1,2) by auto
qed

theorem appends_without_memory_witness:
  "\<exists>hs' ss'. AtmosUtil_cstring_append_all (list_env\<lparr>alloc_ok := \<lambda>n. n < 262\<rparr>) empty_hstring [''POST'', replicate 300 CHR ''a'', ''x''] = Some hs' \<and>
     hstring_inv hs' \<and> subseq ss' [''POST'', replicate 300 CHR ''a'', ''x''] \<and> hstring_content hs' = concat ss'"
  using appends_without_memory[of empty_hstring "[''POST'', replicate 300 CHR ''a'', ''x'']" "list_env\<lparr>alloc_ok := \<lambda>n. n < 262\<rparr>"]
  by (simp add: cdefs)

end
