(* ===== verification/Header_Text.thy ===== *)
theory Header_Text
  imports String_Builder
begin

text \<open>
  In-place rewriting of header text (\<open>atmos_util.c\<close>): white space normalisation and lower-casing,
  on byte arrays as the code does it, with the pure string functions they implement. Also the two
  character and name checks on metadata.
\<close>

section \<open>White space normalisation\<close>

text \<open>\<open>while (i + 1 < sz && header[i + 1] == ' ') i++;\<close>\<close>

function skip_spaces :: "nat \<Rightarrow> buffer \<Rightarrow> nat \<Rightarrow> nat" where
  "skip_spaces sz h i = (if i + 1 < sz \<and> h ! (i + 1) = CHR '' '' then skip_spaces sz h (i + 1) else i)"
  by pat_completeness auto
termination by (relation "measure (\<lambda>(sz, h, i). sz - i)") auto

declare skip_spaces.simps [simp del]

lemma skip_spaces_step:
  "i + 1 < sz \<and> h ! (i + 1) = CHR '' '' \<Longrightarrow> skip_spaces sz h i = skip_spaces sz h (Suc i)"
  "\<not> (i + 1 < sz \<and> h ! (i + 1) = CHR '' '') \<Longrightarrow> skip_spaces sz h i = i"
  using skip_spaces.simps[of sz h i] by auto

lemma skip_spaces_ge: "i \<le> skip_spaces sz h i"
proof (induction sz h i rule: skip_spaces.induct)
  case (1 sz h i)
  then show ?case
    by (cases "i + 1 < sz \<and> h ! (i + 1) = CHR '' ''") (auto simp: skip_spaces_step)
qed

text \<open>Whether a space at position \<open>i\<close> is dropped.\<close>

definition drops_space :: "nat \<Rightarrow> nat \<Rightarrow> bool \<Rightarrow> buffer \<Rightarrow> bool option" where
  "drops_space sz i sepfound h =
     (if i + 1 = sz then Some True
      else do { d \<leftarrow> buf_get h (i + 1);
                Some (d = CHR '' '' \<or> d = CHR '','' \<or> \<not> sepfound \<and> d = CHR '':'') })"

function normalize_loop :: "nat \<Rightarrow> nat \<Rightarrow> nat \<Rightarrow> bool \<Rightarrow> buffer \<Rightarrow> (buffer \<times> nat) option" where
  "normalize_loop sz i j sepfound header =
     (if i < sz then do {
        c \<leftarrow> buf_get header i;
        if c = CHR '' '' then do {
          dropped \<leftarrow> drops_space sz i sepfound header;
          if dropped then normalize_loop sz (i + 1) j sepfound header
          else do { h \<leftarrow> buf_set header j c; normalize_loop sz (i + 1) (j + 1) sepfound h }
        }
        else if c = CHR '':'' \<and> \<not> sepfound then do {
          h \<leftarrow> buf_set header j c;
          normalize_loop sz (skip_spaces sz h i + 1) (j + 1) True h
        }
        else do { h \<leftarrow> buf_set header j c; normalize_loop sz (i + 1) (j + 1) sepfound h }
      }
      else Some (header, j))"
  by pat_completeness auto
termination
  by (relation "measure (\<lambda>(sz, i, j, s, h). sz - i)")
     (auto intro: diff_less_mono2 le_less_trans[OF skip_spaces_ge] simp: less_Suc_eq_le skip_spaces_ge)

declare normalize_loop.simps [simp del]

definition AtmosUtil_normalize_whitespace :: "buffer \<Rightarrow> buffer option" where
  "AtmosUtil_normalize_whitespace header = do {
     s \<leftarrow> c_str header;
     (h, j) \<leftarrow> normalize_loop (length s) 0 0 False header;
     buf_set h j NUL
   }"

text \<open>The string function it computes.\<close>

definition drop_space_before :: "bool \<Rightarrow> string \<Rightarrow> bool" where
  "drop_space_before sep cs \<longleftrightarrow>
     (case cs of [] \<Rightarrow> True | d # _ \<Rightarrow> d = CHR '' '' \<or> d = CHR '','' \<or> \<not> sep \<and> d = CHR '':'')"

function normalize_ws :: "bool \<Rightarrow> string \<Rightarrow> string" where
  "normalize_ws sep [] = []"
| "normalize_ws sep (c # cs) =
     (if c = CHR '' '' then
        (if drop_space_before sep cs then normalize_ws sep cs else c # normalize_ws sep cs)
      else if c = CHR '':'' \<and> \<not> sep then c # normalize_ws True (dropWhile (\<lambda>x. x = CHR '' '') cs)
      else c # normalize_ws sep cs)"
  by pat_completeness auto
termination
  by (relation "measure (\<lambda>(s, cs). length cs)") (auto simp: le_imp_less_Suc length_dropWhile_le)

lemma set_normalize_ws: "set (normalize_ws sep s) \<subseteq> set s"
  by (induction sep s rule: normalize_ws.induct) (auto dest: set_dropWhileD)

lemma cstring_normalize_ws [simp]: "cstring s \<Longrightarrow> cstring (normalize_ws sep s)"
  using set_normalize_ws by (fastforce simp: cdefs)

lemma normalize_ws_length: "length (normalize_ws sep s) \<le> length s"
  by (induction sep s rule: normalize_ws.induct)
     (auto intro: le_trans[OF _ length_dropWhile_le] le_SucI)

subsection \<open>The array code implements the string function\<close>

text \<open>The unread part of the header at position \<open>i\<close>.\<close>

abbreviation unread :: "nat \<Rightarrow> buffer \<Rightarrow> nat \<Rightarrow> string" where
  "unread sz h i \<equiv> take (sz - i) (drop i h)"

lemma unread_Cons: "i < sz \<Longrightarrow> sz \<le> length h \<Longrightarrow> unread sz h i = h ! i # unread sz h (Suc i)"
  by (metis Cons_nth_drop_Suc Suc_diff_Suc order_less_le_trans take_Suc_Cons)

lemma unread_end [simp]: "\<not> i < sz \<Longrightarrow> unread sz h i = []"
  by simp

lemma unread_update: "j \<le> i \<Longrightarrow> unread sz (h[j := c]) (Suc i) = unread sz h (Suc i)"
  by (simp add: drop_update_cancel)

lemma skip_spaces_unread:
  "i < sz \<Longrightarrow> sz \<le> length h \<Longrightarrow>
   unread sz h (Suc (skip_spaces sz h i)) = dropWhile (\<lambda>x. x = CHR '' '') (unread sz h (Suc i))"
proof (induction sz h i rule: skip_spaces.induct)
  case (1 sz h i)
  show ?case
  proof (cases "i + 1 < sz \<and> h ! (i + 1) = CHR '' ''")
    case True
    then have "unread sz h (Suc i) = CHR '' '' # unread sz h (Suc (Suc i))"
      using unread_Cons[of "Suc i" sz h] 1(3) by simp
    then show ?thesis using 1 True by (simp add: skip_spaces_step(1))
  next
    case False
    have "dropWhile (\<lambda>x. x = CHR '' '') (unread sz h (Suc i)) = unread sz h (Suc i)"
    proof (cases "Suc i < sz")
      case True
      then show ?thesis using False unread_Cons[OF True 1(3)] by simp
    qed simp
    then show ?thesis using False by (simp add: skip_spaces_step(2))
  qed
qed

lemma drops_space_unread:
  assumes "i < sz" "sz \<le> length h"
  shows "drops_space sz i sep h = Some (drop_space_before sep (unread sz h (Suc i)))"
proof (cases "i + 1 = sz")
  case True
  then show ?thesis by (simp add: drops_space_def drop_space_before_def)
next
  case False
  then have "unread sz h (Suc i) = h ! Suc i # unread sz h (Suc (Suc i))"
    using assms unread_Cons[of "Suc i"] by simp
  then show ?thesis using False assms by (simp add: drops_space_def drop_space_before_def buf_get_def)
qed

text \<open>
  The loop invariant: the output written so far is \<open>take j h\<close>, it never overtakes the input
  (\<open>j \<le> i\<close>), and the rest of the output is \<open>normalize_ws\<close> of the unread part.
\<close>

lemma normalize_loop_refines:
  assumes "j \<le> i" "sz < length h"
  shows "\<exists>h' j'. normalize_loop sz i j sep h = Some (h', j') \<and> j' \<le> max sz j \<and>
           length h' = length h \<and> take j' h' = take j h @ normalize_ws sep (unread sz h i)"
  using assms
proof (induction sz i j sep h rule: normalize_loop.induct)
  case (1 sz i j sep h)
  show ?case
  proof (cases "i < sz")
    case False
    then show ?thesis by (subst normalize_loop.simps) simp
  next
    case True
    note lt = True
    have sz: "sz \<le> length h" and jl: "j < length h" using 1(5,6) True by auto
    have get: "buf_get h i = Some (h ! i)" and set: "buf_set h j c = Some (h[j := c])" for c
      using True 1(5,6) by (simp_all add: buf_get_def buf_set_def)
    have U: "unread sz h i = h ! i # unread sz h (Suc i)" using unread_Cons True sz by blast
    have tk: "take (Suc j) (h[j := c]) = take j h @ [c]" for c
      using jl by (simp add: take_Suc_conv_app_nth)
    have ij: "Suc j \<le> Suc i" using 1(5) by simp
    have sp: "drops_space sz i sep h = Some (drop_space_before sep (unread sz h (Suc i)))"
      using drops_space_unread True sz by blast
    show ?thesis
    proof (cases "h ! i = CHR '' ''")
      case space: True
      show ?thesis
      proof (cases "drop_space_before sep (unread sz h (Suc i))")
        case True
        have eq: "normalize_loop sz i j sep h = normalize_loop sz (Suc i) j sep h"
          by (subst normalize_loop.simps) (simp add: lt get sp space True)
        show ?thesis using 1(1)[OF lt get space sp True] 1(5,6) unfolding eq
          by (simp add: U space True)
      next
        case False
        let ?h = "h[j := h ! i]"
        have eq: "normalize_loop sz i j sep h = normalize_loop sz (Suc i) (Suc j) sep ?h"
          by (subst normalize_loop.simps) (simp add: lt get sp space False set)
        obtain h' j' where IH: "normalize_loop sz (Suc i) (Suc j) sep ?h = Some (h', j')" "j' \<le> max sz (Suc j)"
          "length h' = length h" "take j' h' = take (Suc j) ?h @ normalize_ws sep (unread sz ?h (Suc i))"
          using 1(2)[OF lt get space sp False set] ij 1(6) by auto
        moreover have "max sz (Suc j) = max sz j" using lt 1(5) by simp
        ultimately show ?thesis unfolding eq by (simp add: U space False tk unread_update 1(5))
      qed
    next
      case nospace: False
      show ?thesis
      proof (cases "h ! i = CHR '':'' \<and> \<not> sep")
        case True
        let ?h = "h[j := h ! i]"
        let ?i = "skip_spaces sz ?h i"
        have ge: "Suc j \<le> Suc ?i" using skip_spaces_ge[of i sz ?h] 1(5) by simp
        have un: "unread sz ?h (Suc ?i) = dropWhile (\<lambda>x. x = CHR '' '') (unread sz h (Suc i))"
          using skip_spaces_unread[OF lt, of ?h] sz unread_update[OF 1(5)] by simp
        have eq: "normalize_loop sz i j sep h = normalize_loop sz (Suc ?i) (Suc j) True ?h"
          by (subst normalize_loop.simps) (simp add: lt get nospace True set)
        obtain h' j' where IH: "normalize_loop sz (Suc ?i) (Suc j) True ?h = Some (h', j')" "j' \<le> max sz (Suc j)"
          "length h' = length h" "take j' h' = take (Suc j) ?h @ normalize_ws True (unread sz ?h (Suc ?i))"
          using 1(3)[OF lt get nospace True set] ge 1(6) by auto
        moreover have "max sz (Suc j) = max sz j" using lt 1(5) by simp
        ultimately show ?thesis unfolding eq un by (simp add: U True tk)
      next
        case False
        let ?h = "h[j := h ! i]"
        have eq: "normalize_loop sz i j sep h = normalize_loop sz (Suc i) (Suc j) sep ?h"
          by (subst normalize_loop.simps) (use nospace False in \<open>auto simp: lt get set\<close>)
        obtain h' j' where IH: "normalize_loop sz (Suc i) (Suc j) sep ?h = Some (h', j')" "j' \<le> max sz (Suc j)"
          "length h' = length h" "take j' h' = take (Suc j) ?h @ normalize_ws sep (unread sz ?h (Suc i))"
          using 1(4)[OF lt get nospace False set] ij 1(6) by auto
        moreover have "max sz (Suc j) = max sz j" using lt 1(5) by simp
        moreover have "normalize_ws sep (unread sz h i) = h ! i # normalize_ws sep (unread sz h (Suc i))"
          unfolding U using nospace False by auto
        ultimately show ?thesis unfolding eq by (simp add: tk unread_update 1(5))
      qed
    qed
  qed
qed

lemma normalize_whitespace_ok:
  assumes "c_str h = Some s"
  shows "\<exists>h'. AtmosUtil_normalize_whitespace h = Some h' \<and> length h' = length h \<and>
           c_str h' = Some (normalize_ws False s)"
proof -
  have lt: "length s < length h" using c_str_length assms by blast
  have "take (length s) h = s" using c_str_split[OF assms] by (metis append_eq_conv_conj)
  then obtain h' j' where h': "normalize_loop (length s) 0 0 False h = Some (h', j')" "j' \<le> length s"
    "length h' = length h" "take j' h' = normalize_ws False s"
    using normalize_loop_refines[of 0 0 "length s" h False] lt by auto
  have "cstring (take j' h')" using c_str_cstring[OF assms] h'(4) by simp
  moreover have "h'[j' := NUL] = take j' h' @ NUL # drop (Suc j') h'"
    using h'(2,3) lt by (simp add: upd_conv_take_nth_drop)
  ultimately have "c_str (h'[j' := NUL]) = Some (normalize_ws False s)"
    using h'(4) by simp
  then show ?thesis using h' lt assms
    by (simp add: AtmosUtil_normalize_whitespace_def buf_set_def)
qed

subsection \<open>Properties of the normal form\<close>

lemma drop_space_before_normalize:
  "\<not> drop_space_before sep cs \<Longrightarrow> \<not> drop_space_before sep (normalize_ws sep cs)"
  by (cases cs) (auto simp: drop_space_before_def)

lemma normalize_ws_hd_dropWhile:
  "dropWhile (\<lambda>x. x = CHR '' '') (normalize_ws True (dropWhile (\<lambda>x. x = CHR '' '') cs)) =
   normalize_ws True (dropWhile (\<lambda>x. x = CHR '' '') cs)"
proof (cases "dropWhile (\<lambda>x. x = CHR '' '') cs")
  case (Cons y ys)
  then have "y \<noteq> CHR '' ''" using dropWhile_hd[OF Cons] by simp
  then show ?thesis using Cons by simp
next
  case Nil
  then show ?thesis by (simp only: normalize_ws.simps dropWhile.simps)
qed

lemma normalize_ws_idem: "normalize_ws sep (normalize_ws sep s) = normalize_ws sep s"
  by (induction sep s rule: normalize_ws.induct)
     (auto simp: drop_space_before_normalize normalize_ws_hd_dropWhile)

text \<open>
  C21: The in-place normalisation of header text is the reference function on strings: on every array that holds a terminated
  string it returns, keeps the size of the array, and leaves the normal form of the string in it, which is never longer
  and is not changed by normalising it again.
\<close>

theorem normalize_whitespace_refines:
  assumes "c_str h = Some s"
  shows "\<exists>h'. AtmosUtil_normalize_whitespace h = Some h' \<and> length h' = length h \<and> c_str h' = Some (normalize_ws False s) \<and>
     length (normalize_ws False s) \<le> length s \<and>
     (\<exists>h''. AtmosUtil_normalize_whitespace h' = Some h'' \<and> c_str h'' = c_str h')"
proof -
  obtain h' where h': "AtmosUtil_normalize_whitespace h = Some h'" "length h' = length h" "c_str h' = Some (normalize_ws False s)"
    using normalize_whitespace_ok[OF assms] by blast
  moreover obtain h'' where "AtmosUtil_normalize_whitespace h' = Some h''" "c_str h'' = c_str h'"
    using normalize_whitespace_ok[OF h'(3)] h'(3) by (auto simp: normalize_ws_idem)
  ultimately show ?thesis using normalize_ws_length by blast
qed

theorem normalize_whitespace_refines_witness:
  "\<exists>h'. AtmosUtil_normalize_whitespace (''x-emc-meta :  a  b , c'' @ [NUL]) = Some h' \<and> c_str h' = Some ''x-emc-meta:a b, c''"
proof -
  have "c_str (''x-emc-meta :  a  b , c'' @ [NUL]) = Some ''x-emc-meta :  a  b , c''" by code_simp
  from normalize_whitespace_refines[OF this] obtain h' where
    "AtmosUtil_normalize_whitespace (''x-emc-meta :  a  b , c'' @ [NUL]) = Some h'" "c_str h' = Some (normalize_ws False ''x-emc-meta :  a  b , c'')" by blast
  moreover have "normalize_ws False ''x-emc-meta :  a  b , c'' = ''x-emc-meta:a b, c''" by code_simp
  ultimately show ?thesis by (intro exI[of _ h'] conjI) (assumption, simp only:)
qed

section \<open>Lower case\<close>

text \<open>\<open>AtmosUtil_lowercaseheader\<close> stops at a colon only: without one it runs off the array.\<close>

primrec AtmosUtil_lowercaseheader :: "buffer \<Rightarrow> buffer option" where
  "AtmosUtil_lowercaseheader [] = None"
| "AtmosUtil_lowercaseheader (c # cs) =
     (if c = CHR '':'' then Some (c # cs)
      else do { r \<leftarrow> AtmosUtil_lowercaseheader cs; Some (tolower c # r) })"

primrec AtmosUtil_lowercase :: "buffer \<Rightarrow> buffer option" where
  "AtmosUtil_lowercase [] = None"
| "AtmosUtil_lowercase (c # cs) =
     (if c = NUL then Some (c # cs)
      else do { r \<leftarrow> AtmosUtil_lowercase cs; Some (tolower c # r) })"

lemma lowercaseheader_colon:
  "CHR '':'' \<notin> set p \<Longrightarrow> AtmosUtil_lowercaseheader (p @ CHR '':'' # r) = Some (map tolower p @ CHR '':'' # r)"
  by (induction p) auto

lemma lowercaseheader_no_colon: "CHR '':'' \<notin> set b \<Longrightarrow> AtmosUtil_lowercaseheader b = None"
  by (induction b) auto

lemma lowercase_string:
  "cstring s \<Longrightarrow> AtmosUtil_lowercase (s @ NUL # r) = Some (map tolower s @ NUL # r)"
  by (induction s) auto

lemma cstring_map_tolower: "cstring (map tolower s) \<longleftrightarrow> cstring s"
  by (induction s) auto

text \<open>\<open>strdup\<close> followed by \<open>AtmosUtil_lowercase\<close>, read back as a string.\<close>

lemma lowercase_strdup:
  assumes "cstring s"
  shows "Option.bind (AtmosUtil_lowercase (s @ [NUL])) c_str = Some (map tolower s)"
proof -
  have "cstring (map tolower s)" using assms by (simp add: cstring_map_tolower)
  then show ?thesis using lowercase_string[OF assms, of "[]"] by simp
qed

section \<open>Checks on metadata names and values\<close>

text \<open>\<open>str[i] < 32\<close> compares a signed \<open>char\<close>; bytes from 0x80 are caught there or by the mask.\<close>

primrec meta_char_loop :: "string \<Rightarrow> int" where
  "meta_char_loop [] = 0"
| "meta_char_loop (c # cs) =
     (if c = CHR '','' \<or> c = CHR 0x0A \<or> c = CHR ''='' then 1
      else if (of_char c :: nat) < 32 then 1
      else if 128 \<le> (of_char c :: nat) then 1
      else meta_char_loop cs)"

definition AtmosUtil_meta_char_check :: "string \<Rightarrow> int" where
  "AtmosUtil_meta_char_check str = meta_char_loop str"

definition meta_char_ok :: "char \<Rightarrow> bool" where
  "meta_char_ok c \<longleftrightarrow> c \<noteq> CHR '','' \<and> c \<noteq> CHR ''='' \<and> 32 \<le> (of_char c :: nat) \<and> (of_char c :: nat) < 128"

lemma meta_char_check_iff: "AtmosUtil_meta_char_check s = 0 \<longleftrightarrow> (\<forall>c \<in> set s. meta_char_ok c)"
  unfolding AtmosUtil_meta_char_check_def
  by (induction s) (auto simp: meta_char_ok_def)

primrec system_meta_name_loop :: "string list \<Rightarrow> string \<Rightarrow> int" where
  "system_meta_name_loop [] name = 0"
| "system_meta_name_loop (n # ns) name = (if strcmp n name = 0 then 1 else system_meta_name_loop ns name)"

definition AtmosUtil_is_system_meta_name :: "string \<Rightarrow> int" where
  "AtmosUtil_is_system_meta_name name =
     system_meta_name_loop (take ATMOS_SYSTEM_META_NAME_COUNT ATMOS_SYSTEM_META_NAMES) name"

lemma is_system_meta_name_iff:
  "AtmosUtil_is_system_meta_name name \<noteq> 0 \<longleftrightarrow> name \<in> set ATMOS_SYSTEM_META_NAMES"
proof -
  have "system_meta_name_loop ns name \<noteq> 0 \<longleftrightarrow> name \<in> set ns" for ns
    by (induction ns) auto
  then show ?thesis
    by (simp add: AtmosUtil_is_system_meta_name_def ATMOS_SYSTEM_META_NAME_COUNT_def ATMOS_SYSTEM_META_NAMES_def)
qed

end
