(* ===== verification/Signing.thy ===== *)
theory Signing
  imports Header_Text
begin

text \<open>
  The signature of a request (\<open>atmos_client.c\<close>, \<open>atmos_util.c\<close>): the canonical string, base64 and
  HMAC-SHA1 around it, and the shareable URL. The abstract specification is \<open>canonical_string\<close>;
  \<open>AtmosClient_canonicalize_request\<close> is proved to compute it, and to be independent of the order
  of the headers.
\<close>

section \<open>Base64 and HMAC\<close>

text \<open>\<open>strdup\<close>, where the caller dereferences the result at once.\<close>

definition strdup :: "env \<Rightarrow> string \<Rightarrow> buffer option" where
  "strdup E s = (if alloc_ok E (length s + 1) then Some (s @ [NUL]) else None)"

text \<open>The decoded bytes at the start of a zeroed block, and the result of \<open>BIO_read\<close>.\<close>

definition AtmosUtil_base64decode :: "env \<Rightarrow> string \<Rightarrow> nat \<Rightarrow> (buffer \<times> int) option" where
  "AtmosUtil_base64decode E base64encoded len =
     (if \<not> alloc_ok E len then None
      else (case BIO_base64_decode E (take len base64encoded) of
        (decoded_len, bytes) \<Rightarrow> do { buffer \<leftarrow> buf_write (zeros len) 0 bytes; Some (buffer, decoded_len) }))"

text \<open>
  The result \<open>Some None\<close> is \<open>NULL\<close>. The encoder's output ends in a newline, which the
  terminator replaces.
\<close>

definition AtmosUtil_base64encode :: "env \<Rightarrow> char list \<Rightarrow> buffer option option" where
  "AtmosUtil_base64encode E normal =
     (case BIO_base64_encode E normal of
        None \<Rightarrow> Some None
      | Some membuff \<Rightarrow>
          if \<not> alloc_ok E (length membuff) \<or> membuff = [] then None
          else do { buff \<leftarrow> buf_set membuff (length membuff - 1) NUL; Some (Some buff) })"

definition AtmosUtil_HMACSHA1 :: "env \<Rightarrow> string \<Rightarrow> string \<Rightarrow> nat \<Rightarrow> buffer option option" where
  "AtmosUtil_HMACSHA1 E hash_string key key_len = do {
     (newkey, decoded_len) \<leftarrow> AtmosUtil_base64decode E key key_len;
     AtmosUtil_base64encode E (HMAC_sha1 E newkey decoded_len hash_string)
   }"

definition AtmosClient_sign :: "env \<Rightarrow> AtmosClient \<Rightarrow> string \<Rightarrow> buffer option option" where
  "AtmosClient_sign E self hash_string = do {
     secret \<leftarrow> c_str (cl_secret self);
     AtmosUtil_HMACSHA1 E hash_string secret (length secret)
   }"

section \<open>The string to sign\<close>

fun method_name :: "http_method \<Rightarrow> string" where
  "method_name HTTP_POST = ''POST''"
| "method_name HTTP_GET = ''GET''"
| "method_name HTTP_PUT = ''PUT''"
| "method_name HTTP_DELETE = ''DELETE''"
| "method_name HTTP_HEAD = ''HEAD''"
| "method_name HTTP_OPTIONS = ''OPTIONS''"

definition canonical_header :: "env \<Rightarrow> string \<Rightarrow> string option" where
  "canonical_header E header = do {
     b \<leftarrow> strdup E header;
     b \<leftarrow> AtmosUtil_lowercaseheader b;
     b \<leftarrow> AtmosUtil_normalize_whitespace b;
     c_str b
   }"

text \<open>\<open>if (header) hash_string = AtmosUtil_cstring_append(...)\<close>.\<close>

definition append_opt :: "env \<Rightarrow> hstring \<Rightarrow> string option \<Rightarrow> hstring option" where
  "append_opt E hs header = (case header of None \<Rightarrow> Some hs | Some h \<Rightarrow> AtmosUtil_cstring_append E hs h)"

abbreviation newline :: string where "newline \<equiv> [CHR 0x0A]"

definition emc_header_step :: "env \<Rightarrow> hstring \<times> bool \<Rightarrow> string \<Rightarrow> (hstring \<times> bool) option" where
  "emc_header_step E st h = (case st of (hs, firstheader) \<Rightarrow>
     if strstr h ''x-emc'' = Some 0 then do {
       hs \<leftarrow> (if \<not> firstheader then AtmosUtil_cstring_append E hs newline else Some hs);
       hs \<leftarrow> AtmosUtil_cstring_append E hs h;
       Some (hs, False)
     } else Some st)"

definition AtmosClient_canonicalize_request :: "env \<Rightarrow> AtmosClient \<Rightarrow> RestRequest \<Rightarrow> hstring option" where
  "AtmosClient_canonicalize_request E self request = do {
     emc_headers \<leftarrow> foldM (\<lambda>acc h. do { h \<leftarrow> canonical_header E h; Some (acc @ [h]) }) [] (rq_headers request);
     emc_headers \<leftarrow> (if alloc_ok E (8 * length (rq_headers request)) \<or> rq_headers request = [] then Some emc_headers else None);
     (let emc_sorted_headers = qsort AtmosUtil_cstring_cmp emc_headers in do {
       hs \<leftarrow> AtmosUtil_cstring_append E empty_hstring (method_name (rq_method request));
       hs \<leftarrow> AtmosUtil_cstring_append E hs newline;
       hs \<leftarrow> append_opt E hs (RestRequest_get_header_value E request (HTTP_HEADER_CONTENT_TYPE E));
       hs \<leftarrow> AtmosUtil_cstring_append E hs newline;
       hs \<leftarrow> append_opt E hs
              (case RestRequest_get_header_value E request (HTTP_HEADER_RANGE E) of
                 Some h \<Rightarrow> Some h
               | None \<Rightarrow> RestRequest_get_header_value E request (HTTP_HEADER_CONTENT_RANGE E));
       hs \<leftarrow> AtmosUtil_cstring_append E hs newline;
       hs \<leftarrow> append_opt E hs (RestRequest_get_header_value E request (HTTP_HEADER_DATE E));
       hs \<leftarrow> AtmosUtil_cstring_append E hs newline;
       loweruri \<leftarrow> strdup E (rq_uri request);
       loweruri \<leftarrow> AtmosUtil_lowercase loweruri;
       loweruri \<leftarrow> c_str loweruri;
       hs \<leftarrow> AtmosUtil_cstring_append E hs loweruri;
       hs \<leftarrow> AtmosUtil_cstring_append E hs newline;
       (hs, firstheader) \<leftarrow> foldM (emc_header_step E) (hs, True) emc_sorted_headers;
       Some hs
     })
   }"

definition AtmosClient_sign_request :: "env \<Rightarrow> AtmosClient \<Rightarrow> RestRequest \<Rightarrow> buffer option option" where
  "AtmosClient_sign_request E self request = do {
     hs \<leftarrow> AtmosClient_canonicalize_request E self request;
     string_to_sign \<leftarrow> hstring_text hs;
     AtmosClient_sign E self string_to_sign
   }"

subsection \<open>Specification\<close>

definition lower_name :: "string \<Rightarrow> string" where
  "lower_name h = map tolower (takeWhile (\<lambda>c. c \<noteq> CHR '':'') h) @ dropWhile (\<lambda>c. c \<noteq> CHR '':'') h"

definition canonical_form :: "string \<Rightarrow> string" where
  "canonical_form h = normalize_ws False (lower_name h)"

definition emc_headers :: "string list \<Rightarrow> string list" where
  "emc_headers hs = sort (filter (prefix ''x-emc'') (map canonical_form hs))"

definition opt_text :: "string option \<Rightarrow> string" where
  "opt_text h = (case h of None \<Rightarrow> [] | Some s \<Rightarrow> s)"

definition range_value :: "env \<Rightarrow> RestRequest \<Rightarrow> string option" where
  "range_value E r = (case RestRequest_get_header_value E r (HTTP_HEADER_RANGE E) of
      Some h \<Rightarrow> Some h | None \<Rightarrow> RestRequest_get_header_value E r (HTTP_HEADER_CONTENT_RANGE E))"

definition canonical_string :: "env \<Rightarrow> RestRequest \<Rightarrow> string" where
  "canonical_string E r = join_with newline
     [method_name (rq_method r),
      opt_text (RestRequest_get_header_value E r (HTTP_HEADER_CONTENT_TYPE E)),
      opt_text (range_value E r),
      opt_text (RestRequest_get_header_value E r (HTTP_HEADER_DATE E)),
      map tolower (rq_uri r),
      join_with newline (emc_headers (rq_headers r))]"

text \<open>
  The requests the canonical string is defined for: C strings, header lines with a colon. Header
  lookups give C strings.
\<close>

definition signable :: "env \<Rightarrow> RestRequest \<Rightarrow> bool" where
  "signable E r \<longleftrightarrow> cstring (rq_uri r) \<and> (\<forall>h \<in> set (rq_headers r). cstring h \<and> CHR '':'' \<in> set h) \<and>
     (\<forall>n v. RestRequest_get_header_value E r n = Some v \<longrightarrow> cstring v)"

lemma lower_name_buffer:
  assumes "CHR '':'' \<in> set h"
  shows "AtmosUtil_lowercaseheader (h @ [NUL]) = Some (lower_name h @ [NUL])"
proof -
  obtain p r where h: "h = p @ CHR '':'' # r" "CHR '':'' \<notin> set p"
    using assms by (metis in_set_conv_decomp_first)
  have "dropWhile (\<lambda>c. c \<noteq> CHR '':'') h = CHR '':'' # r"
    using h by (subst h(1), subst dropWhile_append2) auto
  moreover have "takeWhile (\<lambda>c. c \<noteq> CHR '':'') h = p" using h by simp
  ultimately show ?thesis using lowercaseheader_colon[OF h(2), of "r @ [NUL]"] h(1) by (simp add: lower_name_def)
qed

lemma cstring_lower_name: "cstring h \<Longrightarrow> cstring (lower_name h)"
  unfolding lower_name_def cstring_append cstring_map_tolower
  by (auto simp: cdefs dest: set_takeWhileD set_dropWhileD)

lemma cstring_canonical_form: "cstring h \<Longrightarrow> cstring (canonical_form h)"
  by (simp add: canonical_form_def cstring_lower_name)

lemma canonical_header_ok:
  assumes "mem_ok E" "cstring h" "CHR '':'' \<in> set h"
  shows "canonical_header E h = Some (canonical_form h)"
proof -
  have "c_str (lower_name h @ [NUL]) = Some (lower_name h)" using cstring_lower_name[OF assms(2)] by simp
  from normalize_whitespace_ok[OF this] obtain b
    where "AtmosUtil_normalize_whitespace (lower_name h @ [NUL]) = Some b" "c_str b = Some (canonical_form h)"
    by (auto simp: canonical_form_def)
  then show ?thesis
    using assms by (simp add: canonical_header_def strdup_def mem_ok_def lower_name_buffer)
qed

lemma foldM_collect:
  "(\<And>x. x \<in> set xs \<Longrightarrow> f x = Some (g x)) \<Longrightarrow>
   foldM (\<lambda>acc x. do { y \<leftarrow> f x; Some (acc @ [y]) }) acc xs = Some (acc @ map g xs)"
  by (induction xs arbitrary: acc) auto

lemma emc_header_loop:
  "foldM (emc_header_step E) (hs, first) hds =
   do { hs \<leftarrow> AtmosUtil_cstring_append_all E hs
          (concat (map (\<lambda>(i, h). (if first \<and> i = 0 then [] else [newline]) @ [h])
             (enumerate 0 (filter (prefix ''x-emc'') hds))));
        Some (hs, first \<and> filter (prefix ''x-emc'') hds = []) }"
proof (induction hds arbitrary: hs first)
  case (Cons h hds)
  have later: "concat (map (\<lambda>(i, h). (if False \<and> i = 0 then [] else [newline]) @ [h]) (enumerate 0 xs)) =
     concat (map (\<lambda>(i, h). (if first \<and> i = (0::nat) then [] else [newline]) @ [h]) (enumerate (Suc 0) xs))" for xs
  proof -
    have "concat (map (\<lambda>(i, h). (if first \<and> i = (0::nat) then [] else [newline]) @ [h]) (enumerate (Suc k) xs)) =
          concat (map (\<lambda>(i, h). (if False \<and> i = 0 then [] else [newline]) @ [h]) (enumerate m xs))" for k m
      by (induction xs arbitrary: k m) auto
    then show ?thesis by metis
  qed
  show ?case
    using Cons.IH[of _ False] Cons.IH[of hs first] later[of "filter (prefix ''x-emc'') hds"]
    by (cases "prefix ''x-emc'' h"; cases first)
       (auto simp: emc_header_step_def strstr_zero split: Option.bind_splits)
qed simp

lemma qsort_emc_headers:
  "filter (prefix ''x-emc'') (qsort AtmosUtil_cstring_cmp (map canonical_form hs)) = emc_headers hs"
  by (simp add: qsort_cstring_cmp emc_headers_def sort_filter)

definition opt_piece :: "string option \<Rightarrow> string list" where
  "opt_piece h = (case h of None \<Rightarrow> [] | Some s \<Rightarrow> [s])"

lemma append_opt_pieces: "append_opt E hs h = AtmosUtil_cstring_append_all E hs (opt_piece h)"
  by (cases h) (simp_all add: append_opt_def opt_piece_def)

lemma concat_opt_piece: "concat (opt_piece h) = opt_text h"
  by (cases h) (simp_all add: opt_piece_def opt_text_def)

definition emc_pieces :: "string list \<Rightarrow> string list" where
  "emc_pieces hs = concat (map (\<lambda>(i, h). (if i = 0 then [] else [newline]) @ [h]) (enumerate 0 hs))"

lemma concat_emc_pieces: "concat (emc_pieces hs) = join_with newline hs"
proof -
  have "concat (concat (map (\<lambda>(i, h). (if i = (0::nat) then [] else [newline]) @ [h]) (enumerate k hs))) =
        concat (map (\<lambda>(i, h). (if 0 < i then newline else []) @ h) (enumerate k hs))" for k
    by (induction hs arbitrary: k) auto
  then show ?thesis using join_with_enumerate[of newline "\<lambda>h. h" hs] by (simp add: emc_pieces_def)
qed

lemma set_emc_pieces: "set (emc_pieces hs) \<subseteq> insert newline (set hs)"
  by (auto simp: emc_pieces_def in_set_enumerate_eq split: if_splits)

text \<open>The appends of the code, as one sequence of pieces.\<close>

definition canonical_pieces :: "env \<Rightarrow> RestRequest \<Rightarrow> string list" where
  "canonical_pieces E r =
     [method_name (rq_method r), newline] @
     opt_piece (RestRequest_get_header_value E r (HTTP_HEADER_CONTENT_TYPE E)) @ [newline] @
     opt_piece (range_value E r) @ [newline] @
     opt_piece (RestRequest_get_header_value E r (HTTP_HEADER_DATE E)) @ [newline] @
     [map tolower (rq_uri r), newline] @ emc_pieces (emc_headers (rq_headers r))"

lemma concat_canonical_pieces: "concat (canonical_pieces E r) = canonical_string E r"
  by (simp add: canonical_pieces_def canonical_string_def concat_opt_piece concat_emc_pieces)

lemma canonicalize_pieces:
  assumes "mem_ok E" "signable E r"
  shows "AtmosClient_canonicalize_request E self r = AtmosUtil_cstring_append_all E empty_hstring (canonical_pieces E r)"
proof -
  have "foldM (\<lambda>acc h. do { h \<leftarrow> canonical_header E h; Some (acc @ [h]) }) [] (rq_headers r) =
      Some ([] @ map canonical_form (rq_headers r))"
    by (rule foldM_collect) (use assms canonical_header_ok in \<open>auto simp: signable_def\<close>)
  moreover have "Option.bind (AtmosUtil_lowercase (rq_uri r @ [NUL])) c_str = Some (map tolower (rq_uri r))"
    by (rule lowercase_strdup) (use assms(2) in \<open>simp add: signable_def\<close>)
  then obtain b where "AtmosUtil_lowercase (rq_uri r @ [NUL]) = Some b" "c_str b = Some (map tolower (rq_uri r))"
    by (auto simp: bind_eq_Some_conv)
  ultimately show ?thesis using assms(1)
    by (simp add: AtmosClient_canonicalize_request_def canonical_pieces_def mem_ok_def strdup_def append_opt_pieces
        emc_header_loop qsort_emc_headers emc_pieces_def range_value_def[symmetric] bind_assoc)
qed

lemma cstring_emc_headers: "\<forall>h \<in> set hs. cstring h \<Longrightarrow> \<forall>h \<in> set (emc_headers hs). cstring h"
  by (auto simp: emc_headers_def cstring_canonical_form)

lemma cstring_method_name [simp]: "cstring (method_name m)"
  by (cases m) simp_all

lemma cstring_canonical_pieces:
  assumes "signable E r"
  shows "\<forall>s \<in> set (canonical_pieces E r). cstring s"
proof -
  have opt: "\<forall>s \<in> set (opt_piece (RestRequest_get_header_value E r n)). cstring s" for n
    using assms by (auto simp: signable_def opt_piece_def split: option.splits)
  have "\<forall>s \<in> set (opt_piece (range_value E r)). cstring s"
    using opt[of "HTTP_HEADER_RANGE E"] opt[of "HTTP_HEADER_CONTENT_RANGE E"]
    by (cases "RestRequest_get_header_value E r (HTTP_HEADER_RANGE E)") (simp_all add: range_value_def)
  moreover have "\<forall>s \<in> set (emc_pieces (emc_headers (rq_headers r))). cstring s"
    using set_emc_pieces cstring_emc_headers[of "rq_headers r"] assms by (fastforce simp: signable_def)
  ultimately show ?thesis using opt assms by (auto simp: canonical_pieces_def signable_def cstring_map_tolower)
qed

lemma canonicalize_string:
  assumes "mem_ok E" "signable E r"
  shows "\<exists>hs. AtmosClient_canonicalize_request E self r = Some hs \<and> hstring_text hs = Some (canonical_string E r)"
proof -
  have "canonical_pieces E r \<noteq> []" by (simp add: canonical_pieces_def)
  from append_all_text[OF assms(1) cstring_canonical_pieces[OF assms(2)] this]
  show ?thesis unfolding canonicalize_pieces[OF assms] concat_canonical_pieces by blast
qed

section \<open>Properties of the string to sign\<close>

text \<open>
  C5: The string to sign is the one the service specifies: verb, content type, range (or content range), date,
  lower-case URI, and the \<open>x-emc\<close> headers with lower-case names and normalised white space, in
  sorted order, one per line.
\<close>

theorem canonicalize_request_spec:
  assumes "mem_ok E" "signable E r"
  shows "Option.bind (AtmosClient_canonicalize_request E self r) hstring_text = Some (canonical_string E r)"
proof -
  obtain hs where "AtmosClient_canonicalize_request E self r = Some hs" "hstring_text hs = Some (canonical_string E r)"
    using canonicalize_string[OF assms] by blast
  then show ?thesis by simp
qed

definition sample_signed_request :: RestRequest where
  "sample_signed_request = (RestRequest_init list_env ''/rest/objects/ABC'' HTTP_GET)
     \<lparr>rq_headers := [''X-EMC-Uid:u1'', ''Date:today'', ''x-emc-meta: a=1,  b=2''] \<rparr>"

definition sample_client :: AtmosClient where
  "sample_client = \<lparr>cl_class_name = ''AtmosClient'', cl_host = ''https://host'', cl_port = 443, cl_uid = text_buffer 255 ''u1'',
     cl_secret = text_buffer 64 ''secret'', cl_signature_debug = 0, cl_enable_utf8_metadata = 0\<rparr>"

lemma cstring_lookup_header: "\<forall>h \<in> set hs. cstring h \<Longrightarrow> lookup_header hs n = Some v \<Longrightarrow> cstring v"
proof (induction hs)
  case (Cons h hs)
  have "cstring (dropWhile (\<lambda>c. c = CHR '' '') (drop (Suc i) h))" for i
    using Cons.prems(1) by (auto simp: cdefs dest!: set_dropWhileD in_set_dropD)
  then show ?case using Cons by (auto split: option.splits if_splits)
qed simp

lemma signable_list_env:
  assumes "cstring (rq_uri r)" "\<forall>h \<in> set (rq_headers r). cstring h \<and> CHR '':'' \<in> set h"
  shows "signable list_env r"
  using assms cstring_lookup_header[of "rq_headers r"] lookup_ok_list_env(2)
  by (auto simp: signable_def request_lookup_ok_def)

lemma sample_signable: "signable list_env sample_signed_request"
  by (rule signable_list_env) (simp_all add: sample_signed_request_def list_env_def)

theorem canonicalize_request_spec_witness:
  "Option.bind (AtmosClient_canonicalize_request list_env sample_client sample_signed_request) hstring_text =
     Some (canonical_string list_env sample_signed_request)"
  by (rule canonicalize_request_spec[OF mem_ok_list_env sample_signable])

text \<open>
  C19: The signature does not depend on the order in which the headers were added: two requests with the same
  headers, URI, verb and header lookups have the same string to sign, byte for byte, and the same signature.
\<close>

theorem signature_order_independent:
  assumes "mem_ok E" "signable E r" "signable E r'"
    and "mset (rq_headers r) = mset (rq_headers r')" "rq_uri r = rq_uri r'" "rq_method r = rq_method r'"
    and "\<forall>n \<in> {HTTP_HEADER_CONTENT_TYPE E, HTTP_HEADER_RANGE E, HTTP_HEADER_CONTENT_RANGE E, HTTP_HEADER_DATE E}.
           RestRequest_get_header_value E r n = RestRequest_get_header_value E r' n"
  shows "AtmosClient_sign_request E self r = AtmosClient_sign_request E self r'"
proof -
  have "mset (filter (prefix ''x-emc'') (map canonical_form (rq_headers r))) =
        mset (filter (prefix ''x-emc'') (map canonical_form (rq_headers r')))"
    using assms(4) by (simp add: mset_filter)
  then have "emc_headers (rq_headers r) = emc_headers (rq_headers r')"
    unfolding emc_headers_def by (rule sort_perm_eq)
  then have "canonical_string E r = canonical_string E r'"
    using assms(5-7) unfolding canonical_string_def range_value_def by (simp only: ball_simps insert_iff)
  moreover obtain hs where "AtmosClient_canonicalize_request E self r = Some hs" "hstring_text hs = Some (canonical_string E r)"
    using canonicalize_string[OF assms(1,2)] by blast
  moreover obtain hs' where "AtmosClient_canonicalize_request E self r' = Some hs'" "hstring_text hs' = Some (canonical_string E r')"
    using canonicalize_string[OF assms(1,3)] by blast
  ultimately show ?thesis by (simp add: AtmosClient_sign_request_def)
qed

theorem signature_order_independent_witness:
  "AtmosClient_sign_request list_env sample_client sample_signed_request =
   AtmosClient_sign_request list_env sample_client
     (sample_signed_request\<lparr>rq_headers := rev (rq_headers sample_signed_request)\<rparr>)"
proof (rule signature_order_independent[OF mem_ok_list_env sample_signable])
  show "signable list_env (sample_signed_request\<lparr>rq_headers := rev (rq_headers sample_signed_request)\<rparr>)"
    by (rule signable_list_env) (simp_all add: sample_signed_request_def list_env_def)
  show "\<forall>n \<in> {HTTP_HEADER_CONTENT_TYPE list_env, HTTP_HEADER_RANGE list_env, HTTP_HEADER_CONTENT_RANGE list_env,
      HTTP_HEADER_DATE list_env}.
    RestRequest_get_header_value list_env sample_signed_request n =
    RestRequest_get_header_value list_env (sample_signed_request\<lparr>rq_headers := rev (rq_headers sample_signed_request)\<rparr>) n"
    by code_simp
qed simp_all

text \<open>
  A header line without a colon cannot be signed: the lower-casing loop has no other end than a colon,
  so it runs past the end of the string.
\<close>

lemma header_without_colon_undefined:
  assumes "h \<in> set (rq_headers r)" "CHR '':'' \<notin> set h"
  shows "AtmosClient_sign_request E self r = None"
proof -
  have "canonical_header E h = None"
    using lowercaseheader_no_colon[of "h @ [NUL]"] assms(2) by (simp add: canonical_header_def strdup_def)
  then have "foldM (\<lambda>acc h. do { h \<leftarrow> canonical_header E h; Some (acc @ [h]) }) acc (rq_headers r) = None" for acc
    using assms(1)
  proof (induction "rq_headers r" arbitrary: acc r)
    case (Cons x xs)
    have "foldM (\<lambda>acc h. do { h \<leftarrow> canonical_header E h; Some (acc @ [h]) }) acc xs = None" if "h \<in> set xs" for acc
      using Cons.hyps(1)[of "r\<lparr>rq_headers := xs\<rparr>" acc] Cons.prems(1) that by simp
    then show ?case using Cons.hyps(2)[symmetric] Cons.prems by (auto split: Option.bind_splits)
  qed simp
  then show ?thesis by (simp add: AtmosClient_sign_request_def AtmosClient_canonicalize_request_def)
qed

lemma header_without_colon_undefined_witness:
  "AtmosClient_sign_request list_env sample_client (sample_signed_request\<lparr>rq_headers := [''Date:today'', ''x-emc-uid'']\<rparr>) = None"
  by (rule header_without_colon_undefined[of "''x-emc-uid''"]) simp_all

section \<open>Signatures and shareable URLs\<close>

definition signature_text :: "env \<Rightarrow> string \<Rightarrow> string \<Rightarrow> string" where
  "signature_text E secret s =
     (let (n, key) = BIO_base64_decode E secret in
      butlast (the (BIO_base64_encode E (HMAC_sha1 E (key @ zeros (length secret - length key)) n s))))"

lemma sign_text:
  assumes "mem_ok E" "base64_ok E" "c_str (cl_secret self) = Some secret"
  shows "\<exists>b. AtmosClient_sign E self s = Some (Some b) \<and> c_str b = Some (signature_text E secret s)"
proof -
  obtain n key where dec: "BIO_base64_decode E secret = (n, key)" by (cases "BIO_base64_decode E secret")
  have "length key \<le> length secret" using assms(2) dec unfolding base64_ok_def by (metis snd_conv)
  then have decode: "AtmosUtil_base64decode E secret (length secret) = Some (key @ zeros (length secret - length key), n)"
    using assms(1) dec by (simp add: AtmosUtil_base64decode_def mem_ok_def buf_write_def zeros_def)
  let ?h = "HMAC_sha1 E (key @ zeros (length secret - length key)) n s"
  obtain t where t: "BIO_base64_encode E ?h = Some (t @ [CHR 0x0A])" "cstring t"
    using assms(2) unfolding base64_ok_def by blast
  have "signature_text E secret s = t" using dec t by (simp add: signature_text_def)
  moreover have "AtmosUtil_base64encode E ?h = Some (Some (t @ [NUL]))"
    using t assms(1) by (simp add: AtmosUtil_base64encode_def mem_ok_def buf_set_def)
  ultimately show ?thesis using decode t(2) assms(3) by (simp add: AtmosClient_sign_def AtmosUtil_HMACSHA1_def)
qed

definition AtmosClient_get_shareable_url_internal ::
    "env \<Rightarrow> AtmosClient \<Rightarrow> string \<Rightarrow> int \<Rightarrow> string option \<Rightarrow> hstring option" where
  "AtmosClient_get_shareable_url_internal E self uri expires disposition = (
     let expires_str = snprintf_text ATMOS_SIMPLE_HEADER_MAX (show_int expires) in do {
       hash_string \<leftarrow> AtmosUtil_cstring_append E empty_hstring (''GET'' @ newline);
       uri_lower \<leftarrow> strdup E uri;
       uri_lower \<leftarrow> AtmosUtil_lowercase uri_lower;
       uri_lower \<leftarrow> c_str uri_lower;
       hash_string \<leftarrow> AtmosUtil_cstring_append E hash_string uri_lower;
       hash_string \<leftarrow> AtmosUtil_cstring_append E hash_string newline;
       uid \<leftarrow> c_str (cl_uid self);
       hash_string \<leftarrow> AtmosUtil_cstring_append E hash_string uid;
       hash_string \<leftarrow> AtmosUtil_cstring_append E hash_string newline;
       hash_string \<leftarrow> AtmosUtil_cstring_append E hash_string expires_str;
       hash_string \<leftarrow> (case disposition of
            None \<Rightarrow> Some hash_string
          | Some d \<Rightarrow> do { hs \<leftarrow> AtmosUtil_cstring_append E hash_string newline; AtmosUtil_cstring_append E hs d });
       hash_text \<leftarrow> hstring_text hash_string;
       signature \<leftarrow> AtmosClient_sign E self hash_text;
       url \<leftarrow> AtmosUtil_cstring_append E empty_hstring (cl_host self);
       url \<leftarrow> (if cl_port self \<noteq> -1
                then AtmosUtil_cstring_append E url (snprintf_text ATMOS_SIMPLE_HEADER_MAX ('':'' @ show_int (cl_port self)))
                else Some url);
       url \<leftarrow> AtmosUtil_cstring_append E url uri;
       url \<leftarrow> AtmosUtil_cstring_append E url ''?uid='';
       url \<leftarrow> AtmosUtil_cstring_append_utf8 E url uid;
       url \<leftarrow> AtmosUtil_cstring_append E url ''&expires='';
       url \<leftarrow> AtmosUtil_cstring_append E url expires_str;
       url \<leftarrow> AtmosUtil_cstring_append E url ''&signature='';
       signature \<leftarrow> Option.bind signature c_str;
       url \<leftarrow> AtmosUtil_cstring_append_utf8 E url signature;
       (case disposition of
          None \<Rightarrow> Some url
        | Some d \<Rightarrow> do { url \<leftarrow> AtmosUtil_cstring_append E url ''&disposition='';
                         AtmosUtil_cstring_append_utf8 E url d })
     })"

definition AtmosClient_get_shareable_url ::
    "env \<Rightarrow> AtmosClient \<Rightarrow> string \<Rightarrow> int \<Rightarrow> string option \<Rightarrow> hstring option" where
  "AtmosClient_get_shareable_url E self object_id expires disposition =
     AtmosClient_get_shareable_url_internal E self (snprintf_text ATMOS_PATH_MAX (''/rest/objects/'' @ object_id)) expires disposition"

definition AtmosClient_get_shareable_url_ns ::
    "env \<Rightarrow> AtmosClient \<Rightarrow> string \<Rightarrow> int \<Rightarrow> string option \<Rightarrow> hstring option" where
  "AtmosClient_get_shareable_url_ns E self path expires disposition =
     AtmosClient_get_shareable_url_internal E self (snprintf_text ATMOS_PATH_MAX (''/rest/namespace'' @ path)) expires disposition"

text \<open>What is signed for a URL, and the URL.\<close>

definition url_string_to_sign :: "string \<Rightarrow> string \<Rightarrow> int \<Rightarrow> string option \<Rightarrow> string" where
  "url_string_to_sign uri uid expires disposition =
     join_with newline ([''GET'', map tolower uri, uid, show_int expires] @ (case disposition of None \<Rightarrow> [] | Some d \<Rightarrow> [d]))"

definition shareable_url :: "env \<Rightarrow> string \<Rightarrow> int \<Rightarrow> string \<Rightarrow> string \<Rightarrow> int \<Rightarrow> string \<Rightarrow> string option \<Rightarrow> string" where
  "shareable_url E host port uri uid expires signature disposition =
     host @ (if port \<noteq> -1 then '':'' @ show_int port else []) @ uri @
     ''?uid='' @ the (curl_easy_escape E uid) @ ''&expires='' @ show_int expires @
     ''&signature='' @ the (curl_easy_escape E signature) @
     (case disposition of None \<Rightarrow> [] | Some d \<Rightarrow> ''&disposition='' @ the (curl_easy_escape E d))"

lemma show_int_bound: "\<bar>i\<bar> \<le> 2 ^ 63 \<Longrightarrow> length (show_int i) \<le> 20"
  using show_int_length[of i 19] by simp

text \<open>The pieces the two string builders of the function put together: the string to sign and the URL.\<close>

definition hash_pieces :: "string \<Rightarrow> string \<Rightarrow> int \<Rightarrow> string option \<Rightarrow> string list" where
  "hash_pieces uri uid expires disposition = [''GET'' @ newline, map tolower uri, newline, uid, newline, show_int expires] @
     (case disposition of None \<Rightarrow> [] | Some d \<Rightarrow> [newline, d])"

definition url_pieces :: "env \<Rightarrow> string \<Rightarrow> int \<Rightarrow> string \<Rightarrow> string \<Rightarrow> int \<Rightarrow> string \<Rightarrow> string option \<Rightarrow> string list" where
  "url_pieces E host port uri uid expires sig disposition =
     [host] @ (if port \<noteq> -1 then ['':'' @ show_int port] else []) @
     [uri, ''?uid='', the (curl_easy_escape E uid), ''&expires='', show_int expires, ''&signature'' @ ''='', the (curl_easy_escape E sig)] @
     (case disposition of None \<Rightarrow> [] | Some d \<Rightarrow> [''&disposition='', the (curl_easy_escape E d)])"

lemma url_pieces_text:
  "concat (hash_pieces uri uid expires disposition) = url_string_to_sign uri uid expires disposition"
  "concat (url_pieces E host port uri uid expires sig disposition) = shareable_url E host port uri uid expires sig disposition"
  by (simp_all add: hash_pieces_def url_string_to_sign_def url_pieces_def shareable_url_def split: option.split)

lemma escape_cstring:
  assumes "escape_total E" "cstring s"
  shows "cstring (the (curl_easy_escape E s))"
    "AtmosUtil_cstring_append_utf8 E hs s = AtmosUtil_cstring_append E hs (the (curl_easy_escape E s))"
proof -
  obtain t where "curl_easy_escape E s = Some t" "cstring t" using assms unfolding escape_total_def by blast
  then show "cstring (the (curl_easy_escape E s))"
    "AtmosUtil_cstring_append_utf8 E hs s = AtmosUtil_cstring_append E hs (the (curl_easy_escape E s))"
    using append_utf8_escape[of E hs s] by simp_all
qed

lemma shareable_url_builds:
  assumes "mem_ok E" "escape_total E" "c_str (cl_uid self) = Some uid" "cstring uri"
    and "\<bar>expires\<bar> \<le> 2 ^ 63" "\<bar>cl_port self\<bar> \<le> 2 ^ 31" "\<forall>d. disposition = Some d \<longrightarrow> cstring d"
    and "AtmosUtil_cstring_append_all E empty_hstring (hash_pieces uri uid expires disposition) = Some hs" "hstring_text hs = Some text"
    and "AtmosClient_sign E self text = Some (Some b)" "c_str b = Some sig"
  shows "AtmosClient_get_shareable_url_internal E self uri expires disposition =
     AtmosUtil_cstring_append_all E empty_hstring (url_pieces E (cl_host self) (cl_port self) uri uid expires sig disposition)"
proof -
  have uid: "cstring uid" and sig: "cstring sig" by (rule c_str_cstring[OF assms(3)] c_str_cstring[OF assms(11)])+
  have e: "snprintf_text ATMOS_SIMPLE_HEADER_MAX (show_int expires) = show_int expires"
    using show_int_bound[OF assms(5)] by (intro snprintf_text_id) simp
  have p: "snprintf_text ATMOS_SIMPLE_HEADER_MAX (CHR '':'' # show_int (cl_port self)) = CHR '':'' # show_int (cl_port self)"
    using show_int_bound[of "cl_port self"] assms(6) by (intro snprintf_text_id) simp
  obtain lb where lb: "AtmosUtil_lowercase (uri @ [NUL]) = Some lb" "c_str lb = Some (map tolower uri)"
    using lowercase_strdup[OF assms(4)] by (auto simp: bind_eq_Some_conv)
  note app = escape_cstring(2)[OF assms(2)]
  have "AtmosClient_get_shareable_url_internal E self uri expires disposition =
     do { hs \<leftarrow> AtmosUtil_cstring_append_all E empty_hstring (hash_pieces uri uid expires disposition);
          t \<leftarrow> hstring_text hs;
          sg \<leftarrow> AtmosClient_sign E self t;
          url \<leftarrow> AtmosUtil_cstring_append_all E empty_hstring
             ([cl_host self] @ (if cl_port self \<noteq> -1 then ['':'' @ show_int (cl_port self)] else []) @
              [uri, ''?uid='', the (curl_easy_escape E uid), ''&expires='', show_int expires, ''&signature'' @ ''='']);
          sg \<leftarrow> Option.bind sg c_str;
          url \<leftarrow> AtmosUtil_cstring_append_utf8 E url sg;
          (case disposition of None \<Rightarrow> Some url
           | Some d \<Rightarrow> do { url \<leftarrow> AtmosUtil_cstring_append E url ''&disposition=''; AtmosUtil_cstring_append_utf8 E url d }) }"
    using assms(1,3) lb
    by (cases disposition; cases "cl_port self = -1")
       (simp_all add: AtmosClient_get_shareable_url_internal_def Let_def e p strdup_def mem_ok_def hash_pieces_def app[OF uid] bind_assoc)
  then show ?thesis using assms(7-11) sig
    by (cases disposition; cases "cl_port self = -1") (simp_all add: url_pieces_def app bind_assoc)
qed

text \<open>
  C22: The shareable URL carries the user, the expiry time and a signature over verb, lower-case path, user,
  expiry and disposition; user, signature and disposition are percent-encoded in the URL, and every piece
  that is signed is the piece that appears in it.
\<close>

theorem shareable_url_spec:
  assumes "mem_ok E" "base64_ok E" "escape_total E"
    and "c_str (cl_secret self) = Some secret" "c_str (cl_uid self) = Some uid" "cstring (cl_host self)" "cstring uri"
    and "\<bar>expires\<bar> \<le> 2 ^ 63" "\<bar>cl_port self\<bar> \<le> 2 ^ 31" "\<forall>d. disposition = Some d \<longrightarrow> cstring d"
  shows "Option.bind (AtmosClient_get_shareable_url_internal E self uri expires disposition) hstring_text =
     Some (shareable_url E (cl_host self) (cl_port self) uri uid expires
       (signature_text E secret (url_string_to_sign uri uid expires disposition)) disposition)"
proof -
  let ?hp = "hash_pieces uri uid expires disposition" and ?sig = "signature_text E secret (url_string_to_sign uri uid expires disposition)"
  let ?up = "url_pieces E (cl_host self) (cl_port self) uri uid expires ?sig disposition"
  have uid: "cstring uid" by (rule c_str_cstring[OF assms(5)])
  have "\<forall>s \<in> set ?hp. cstring s" "?hp \<noteq> []"
    using uid assms(7,10) by (auto simp: hash_pieces_def cstring_map_tolower split: option.splits)
  then obtain hs where hs: "AtmosUtil_cstring_append_all E empty_hstring ?hp = Some hs" "hstring_text hs = Some (concat ?hp)"
    using append_all_text[OF assms(1), of ?hp] by blast
  obtain b where b: "AtmosClient_sign E self (concat ?hp) = Some (Some b)" "c_str b = Some ?sig"
    using sign_text[OF assms(1,2,4), of "concat ?hp"] unfolding url_pieces_text(1) by blast
  note esc = escape_cstring(1)[OF assms(3)]
  have "\<forall>s \<in> set ?up. cstring s" "?up \<noteq> []"
    using uid assms(6,7,10) esc c_str_cstring[OF b(2)] by (auto simp: url_pieces_def split: option.splits if_splits)
  then obtain url where url: "AtmosUtil_cstring_append_all E empty_hstring ?up = Some url" "hstring_text url = Some (concat ?up)"
    using append_all_text[OF assms(1), of ?up] by blast
  then show ?thesis using shareable_url_builds[OF assms(1,3,5,7-10) hs b] by (simp add: url_pieces_text(2))
qed

theorem shareable_url_spec_witness:
  "Option.bind (AtmosClient_get_shareable_url_internal list_env sample_client ''/rest/objects/A'' 100 (Some ''inline'')) hstring_text =
     Some (shareable_url list_env ''https://host'' 443 ''/rest/objects/A'' ''u1'' 100
       (signature_text list_env ''secret'' (url_string_to_sign ''/rest/objects/A'' ''u1'' 100 (Some ''inline''))) (Some ''inline''))"
  using shareable_url_spec[OF mem_ok_list_env base64_ok_list_env curl_codec_escape[OF curl_codec_ok_list_env],
      of sample_client "''secret''" "''u1''" "''/rest/objects/A''" 100 "Some ''inline''"]
  by (simp add: sample_client_def)

end
