(* ===== verification/Checksum.thy ===== *)
theory Checksum
  imports Header_Text
begin

text \<open>
  The checksum object of \<open>atmos_common.c\<close>: incremental digests of the data sent or received,
  the text of a digest, and the check of the checksum header of a response. The digest
  functions are parameters of the environment.
\<close>

section \<open>Construction and updates\<close>

definition algorithm_name :: "atmos_checksum_alg \<Rightarrow> string" where
  "algorithm_name alg = (case alg of
     ATMOS_ALG_MD5 \<Rightarrow> ATMOS_CHECKSUM_ALG_MD5
   | ATMOS_ALG_SHA0 \<Rightarrow> ATMOS_CHECKSUM_ALG_SHA0
   | ATMOS_ALG_SHA1 \<Rightarrow> ATMOS_CHECKSUM_ALG_SHA1)"

text \<open>The result of \<open>malloc\<close> is handed to the digest library without a check.\<close>

definition AtmosChecksum_init :: "env \<Rightarrow> atmos_checksum_mode \<Rightarrow> atmos_checksum_alg \<Rightarrow> AtmosChecksum option" where
  "AtmosChecksum_init E mode algorithm =
     (if \<not> alloc_ok E (digest_ctx_size E algorithm) then None
      else Some \<lparr>ck_mode = mode, ck_alg = algorithm, ck_algorithm = Some (algorithm_name algorithm),
                 ck_offset = 0, ck_internal_state = digest_init E algorithm\<rparr>)"

text \<open>\<open>OBJECT_ZERO\<close>: the first constant of each enumeration is 0.\<close>

definition AtmosChecksum_destroy :: "AtmosChecksum \<Rightarrow> AtmosChecksum" where
  "AtmosChecksum_destroy self =
     \<lparr>ck_mode = ATMOS_WSCHECKSUM, ck_alg = ATMOS_ALG_SHA0, ck_algorithm = None, ck_offset = 0,
      ck_internal_state = None\<rparr>"

definition AtmosChecksum_update :: "env \<Rightarrow> AtmosChecksum \<Rightarrow> char list \<Rightarrow> AtmosChecksum" where
  "AtmosChecksum_update E self data =
     (case ck_internal_state self of
        None \<Rightarrow> self
      | Some ctx \<Rightarrow> self\<lparr>ck_internal_state := Some (digest_update E (ck_alg self) ctx data),
                        ck_offset := to_int64 (ck_offset self + int (length data))\<rparr>)"

text \<open>
  The loop of \<open>AtmosChecksum_update_file\<close>. \<open>read + sizeof(buffer) > count\<close> compares unsigned
  64-bit numbers, \<open>read < count\<close> signed ones. Reading more than the buffer holds is \<open>None\<close>.
\<close>

abbreviation file_chunk :: nat where "file_chunk \<equiv> 65536"

function update_file_loop ::
    "env \<Rightarrow> AtmosChecksum \<Rightarrow> FILE \<Rightarrow> int \<Rightarrow> int \<Rightarrow> (AtmosChecksum \<times> FILE \<times> int) option" where
  "update_file_loop E self data cnt read =
     (let (buffer, data) =
            (if to_uint64 (read + int file_chunk) > to_uint64 cnt
             then fread (nat (to_uint64 (cnt - read))) data
             else fread file_chunk data) in
      if file_chunk < length buffer then None
      else if buffer = [] then Some (self, data, read)
      else (let self = AtmosChecksum_update E self buffer; read' = read + int (length buffer) in
            if read' < cnt then update_file_loop E self data cnt read' else Some (self, data, read')))"
  by pat_completeness auto
termination
  by (relation "measure (\<lambda>(E, self, data, cnt, read). nat (cnt - read))") auto

declare update_file_loop.simps [simp del]

definition AtmosChecksum_update_file :: "env \<Rightarrow> AtmosChecksum \<Rightarrow> FILE \<Rightarrow> int \<Rightarrow> (AtmosChecksum \<times> FILE) option" where
  "AtmosChecksum_update_file E self data cnt = do {
     (self, data, read) \<leftarrow> update_file_loop E self data cnt 0;
     Some (self, data)
   }"

section \<open>The text of a digest\<close>

definition AtmosChecksum_nibble_to_hex_char :: "nat \<Rightarrow> char" where
  "AtmosChecksum_nibble_to_hex_char nibble =
     (if nibble < 10 then char_of (48 + nibble) else char_of (97 + (nibble - 10)))"

definition AtmosChecksum_to_hex_string :: "char list \<Rightarrow> buffer \<Rightarrow> nat \<Rightarrow> buffer option" where
  "AtmosChecksum_to_hex_string bytes buffer bytecount = do {
     buffer \<leftarrow> foldM (\<lambda>buffer i. do {
         b \<leftarrow> buf_get bytes i;
         (let high = of_char b div 16; low = of_char b mod 16 in do {
            buffer \<leftarrow> buf_set buffer (i * 2) (AtmosChecksum_nibble_to_hex_char high);
            buf_set buffer (i * 2 + 1) (AtmosChecksum_nibble_to_hex_char low)
         })
       }) buffer [0..<bytecount];
     buf_set buffer (bytecount * 2) NUL
   }"

text \<open>
  The result \<open>Some None\<close> is \<open>NULL\<close>. The context is copied first, so the digest of a
  checksum can be taken while it is still being updated; copying from \<open>NULL\<close> is \<open>None\<close>.
\<close>

definition AtmosChecksum_get_value :: "env \<Rightarrow> AtmosChecksum \<Rightarrow> string option option" where
  "AtmosChecksum_get_value E self = do {
     ctx \<leftarrow> ck_internal_state self;
     (case digest_final E (ck_alg self) ctx of
        None \<Rightarrow> Some None
      | Some digest \<Rightarrow> do {
          hex \<leftarrow> AtmosChecksum_to_hex_string digest (replicate (digest_length (ck_alg self) * 2 + 1) (junk E))
                   (digest_length (ck_alg self));
          s \<leftarrow> c_str hex;
          Some (if alloc_ok E (length s + 1) then Some s else None)
        })
   }"

definition AtmosChecksum_get_state :: "env \<Rightarrow> AtmosChecksum \<Rightarrow> string option option" where
  "AtmosChecksum_get_state E self = do {
     value \<leftarrow> AtmosChecksum_get_value E self;
     (case value of
        None \<Rightarrow> Some None
      | Some value \<Rightarrow> do {
          offsetbuf \<leftarrow> strcpy (replicate ATMOS_SIMPLE_HEADER_MAX (junk E)) (show_int (ck_offset self));
          offsettext \<leftarrow> c_str offsetbuf;
          algorithm \<leftarrow> ck_algorithm self;
          (let outsz = length value + length offsettext + 7 in
           if \<not> alloc_ok E outsz then None
           else do {
             state \<leftarrow> snprintf (replicate outsz (junk E)) outsz (algorithm @ ''/'' @ offsettext @ ''/'' @ value);
             s \<leftarrow> c_str state;
             Some (Some s)
           })
        })
   }"

text \<open>
  The mode test reads \<open>!self->mode == ATMOS_GENERATE_CHECKSUM\<close>: the negation of the mode is
  compared. With the two modes numbered 0 and 1 that is the test it means to be.
\<close>

definition mode_number :: "atmos_checksum_mode \<Rightarrow> int" where
  "mode_number m = (case m of ATMOS_WSCHECKSUM \<Rightarrow> 0 | ATMOS_GENERATE_CHECKSUM \<Rightarrow> 1)"

definition AtmosChecksum_verify_response :: "env \<Rightarrow> AtmosChecksum \<Rightarrow> RestResponse \<Rightarrow> int option" where
  "AtmosChecksum_verify_response E self response =
     (if (if mode_number (ck_mode self) = 0 then 1 else 0) = mode_number ATMOS_GENERATE_CHECKSUM then Some 1
      else (case RestResponse_get_header_value E response ATMOS_HEADER_CONTENT_CHECKSUM of
        None \<Rightarrow> Some 0
      | Some rvalue \<Rightarrow> do {
          lvalue \<leftarrow> AtmosChecksum_get_value E self;
          (case lvalue of
             None \<Rightarrow> Some 0
           | Some lvalue \<Rightarrow> do {
               algorithm \<leftarrow> ck_algorithm self;
               value \<leftarrow> (if alloc_ok E (length rvalue + 1) then Some (rvalue @ [NUL]) else None);
               value \<leftarrow> AtmosUtil_lowercase value;
               value \<leftarrow> c_str value;
               (let buffer = snprintf_text ATMOS_SIMPLE_HEADER_MAX (algorithm @ ''/'' @ lvalue) in
                Some (if strcmp buffer value \<noteq> 0 then 0 else 1))
             })
        }))"

section \<open>Incremental digests\<close>

lemma update_append:
  assumes "digest_ok E"
  shows "AtmosChecksum_update E (AtmosChecksum_update E self a) b = AtmosChecksum_update E self (a @ b)"
proof (cases "ck_internal_state self")
  case (Some ctx)
  have "to_int64 (to_int64 (k + i) + j) = to_int64 (k + (i + j))" for k i j
    by (simp add: to_int64_def mod_simps ac_simps)
  moreover have "digest_update E alg c (a @ b) = digest_update E alg (digest_update E alg c a) b" for alg c
    using assms by (simp add: digest_ok_def)
  ultimately show ?thesis using Some by (simp add: AtmosChecksum_update_def)
qed (simp add: AtmosChecksum_update_def)

lemma fread_split:
  assumes "n \<le> m" "fread n f = (b, f1)" "fread (m - length b) f1 = (c, f2)"
  shows "fread m f = (b @ c, f2)"
proof -
  let ?xs = "drop (f_pos f) (f_bytes f)"
  have b: "b = take n ?xs" "f1 = f\<lparr>f_pos := f_pos f + length b\<rparr>" using assms(2) by (auto simp: fread_def Let_def)
  have c: "c = take (m - length b) (drop (length b) ?xs)" "f2 = f1\<lparr>f_pos := f_pos f1 + length c\<rparr>"
    using assms(3) b(2) by (auto simp: fread_def Let_def add.commute)
  have "take m ?xs = b @ c"
  proof (cases "n \<le> length ?xs")
    case True
    then have "length b = n" using b(1) by simp
    then show ?thesis using b(1) c(1) assms(1) by (metis le_add_diff_inverse take_add)
  next
    case False
    then have "b = ?xs" "c = []" using b(1) c(1) by auto
    then show ?thesis using False assms(1) by simp
  qed
  then show ?thesis using b c by (simp add: fread_def Let_def add.assoc)
qed

definition fed :: "env \<Rightarrow> AtmosChecksum \<Rightarrow> char list \<Rightarrow> AtmosChecksum" where
  "fed E self bytes = (if bytes = [] then self else AtmosChecksum_update E self bytes)"

lemma fed_append: "digest_ok E \<Longrightarrow> fed E (fed E self a) b = fed E self (a @ b)"
  by (simp add: fed_def update_append)

lemma update_file_loop_fread:
  assumes "digest_ok E" "0 \<le> read" "read \<le> cnt" "cnt < 2 ^ 63"
  shows "update_file_loop E self data cnt read =
     (let (bytes, data') = fread (nat (cnt - read)) data in
      Some (fed E self bytes, data', read + int (length bytes)))"
  using assms(2,3)
proof (induction "nat (cnt - read)" arbitrary: self data read rule: less_induct)
  case less
  define n where "n = (if to_uint64 (read + int file_chunk) > to_uint64 cnt
      then nat (to_uint64 (cnt - read)) else file_chunk)"
  obtain b f1 where b: "fread n data = (b, f1)" by (cases "fread n data")
  have u: "to_uint64 (read + int file_chunk) = read + int file_chunk" "to_uint64 cnt = cnt"
    "to_uint64 (cnt - read) = cnt - read"
    using less.prems assms(4) by (simp_all add: to_uint64_id)
  have n: "n \<le> nat (cnt - read)" "n \<le> file_chunk" "n = nat (cnt - read) \<or> n = file_chunk"
    using less.prems u by (auto simp: n_def)
  have len: "length b \<le> n" using b by (auto simp: fread_def Let_def)
  have step: "update_file_loop E self data cnt read =
      (if b = [] then Some (self, f1, read)
       else if read + int (length b) < cnt
            then update_file_loop E (AtmosChecksum_update E self b) f1 cnt (read + int (length b))
            else Some (AtmosChecksum_update E self b, f1, read + int (length b)))"
    using len n(2) b by (subst update_file_loop.simps) (simp add: n_def Let_def split: if_splits)
  obtain c f2 where c: "fread (nat (cnt - read) - length b) f1 = (c, f2)" by (cases "fread (nat (cnt - read) - length b) f1")
  have whole: "fread (nat (cnt - read)) data = (b @ c, f2)" by (rule fread_split[OF n(1) b c])
  show ?case
  proof (cases "b = []")
    case True
    then have "c = [] \<and> f2 = f1"
      using b c n less.prems by (auto simp: fread_def Let_def)
    then show ?thesis using True step whole by (simp add: fed_def)
  next
    case False
    show ?thesis
    proof (cases "read + int (length b) < cnt")
      case True
      have "nat (cnt - (read + int (length b))) = nat (cnt - read) - length b" by simp
      moreover have "nat (cnt - (read + int (length b))) < nat (cnt - read)" using True \<open>b \<noteq> []\<close> by simp
      ultimately have "update_file_loop E (AtmosChecksum_update E self b) f1 cnt (read + int (length b)) =
          Some (fed E (AtmosChecksum_update E self b) c, f2, read + int (length b) + int (length c))"
        using less.hyps[of "read + int (length b)" "AtmosChecksum_update E self b" f1] less.prems True c by simp
      moreover have "fed E (AtmosChecksum_update E self b) c = fed E self (b @ c)"
        using fed_append[OF assms(1), of self b c] \<open>b \<noteq> []\<close> by (simp add: fed_def)
      ultimately show ?thesis using True \<open>b \<noteq> []\<close> step whole by simp
    next
      case False
      then have "nat (cnt - read) - length b = 0" by simp
      then have "c = [] \<and> f2 = f1" using c by (simp add: fread_def Let_def)
      then show ?thesis using False \<open>b \<noteq> []\<close> step whole by (simp add: fed_def)
    qed
  qed
qed

lemma AtmosChecksum_update_file_fread:
  assumes "digest_ok E" "0 \<le> cnt" "cnt < 2 ^ 63"
  shows "AtmosChecksum_update_file E self data cnt =
     (let (bytes, data') = fread (nat cnt) data in Some (fed E self bytes, data'))"
  using update_file_loop_fread[OF assms(1) order_refl assms(2,3), of self data]
  by (cases "fread (nat cnt) data") (simp add: AtmosChecksum_update_file_def)

text \<open>
  C26: \<open>AtmosChecksum_update_file\<close>, which reads a file in pieces of 64 KiB, gives exactly the checksum of
  one \<open>AtmosChecksum_update\<close> with all the bytes the file has left, up to the count asked for, and
  leaves the file behind those bytes; it never overruns its buffer.
\<close>

theorem update_file_is_update:
  assumes "digest_ok E" "0 \<le> cnt" "cnt < 2 ^ 63" "bytes = take (nat cnt) (drop (f_pos data) (f_bytes data))" "bytes \<noteq> []"
  shows "AtmosChecksum_update_file E self data cnt =
     Some (AtmosChecksum_update E self bytes, data\<lparr>f_pos := f_pos data + length bytes\<rparr>)"
  using AtmosChecksum_update_file_fread[OF assms(1-3), of self data] assms(4,5)
  by (simp add: fread_def Let_def fed_def)

definition sample_checksum :: AtmosChecksum where
  "sample_checksum = \<lparr>ck_mode = ATMOS_WSCHECKSUM, ck_alg = ATMOS_ALG_MD5, ck_algorithm = Some ATMOS_CHECKSUM_ALG_MD5,
     ck_offset = 0, ck_internal_state = Some []\<rparr>"

theorem update_file_is_update_witness:
  "AtmosChecksum_update_file list_env sample_checksum \<lparr>f_bytes = ''hello world'', f_pos = 1, f_seekable = True\<rparr> 4 =
     Some (AtmosChecksum_update list_env sample_checksum ''ello'', \<lparr>f_bytes = ''hello world'', f_pos = 5, f_seekable = True\<rparr>)"
  using update_file_is_update[of list_env 4 "''ello''" "\<lparr>f_bytes = ''hello world'', f_pos = 1, f_seekable = True\<rparr>" sample_checksum]
  by simp

text \<open>
  A negative count is not refused: as an unsigned number it is large, so one whole buffer is read
  before the signed comparison ends the loop.
\<close>

lemma update_file_negative:
  assumes "-(2 ^ 63) \<le> cnt" "cnt < 0"
  shows "AtmosChecksum_update_file E self data cnt =
     (let (bytes, data') = fread file_chunk data in Some (fed E self bytes, data'))"
proof -
  have "to_uint64 cnt = cnt + 2 ^ 64" using assms
    using mod_pos_pos_trivial[of "cnt + 2 ^ 64" "2 ^ 64"] by (simp add: to_uint64_def)
  then have "\<not> to_uint64 (0 + int file_chunk) > to_uint64 cnt" using assms(1) by (simp add: to_uint64_def)
  then show ?thesis using assms(2)
    by (simp add: AtmosChecksum_update_file_def update_file_loop.simps[of E self data cnt 0] fread_def Let_def fed_def)
qed

section \<open>Hexadecimal text\<close>

definition hex_text :: "char list \<Rightarrow> string" where
  "hex_text bytes = concat (map (\<lambda>b. [AtmosChecksum_nibble_to_hex_char (of_char b div 16),
     AtmosChecksum_nibble_to_hex_char (of_char b mod 16)]) bytes)"

lemma length_hex_text [simp]: "length (hex_text bytes) = 2 * length bytes"
  by (induction bytes) (auto simp: hex_text_def)

lemma nibble_lower_hex:
  assumes "n < 16"
  shows "AtmosChecksum_nibble_to_hex_char n \<in> set ''0123456789abcdef''"
proof -
  have "n \<in> set [0..<16]" using assms by simp
  moreover have "\<forall>n \<in> set [0..<16]. AtmosChecksum_nibble_to_hex_char n \<in> set ''0123456789abcdef''"
    by code_simp
  ultimately show ?thesis by blast
qed

lemma of_char_nibbles: "(of_char (c :: char) :: nat) div 16 < 16" "(of_char (c :: char) :: nat) mod 16 < 16"
proof -
  have "(of_char c :: nat) < 256" by simp
  then show "(of_char c :: nat) div 16 < 16" by (simp add: less_mult_imp_div_less)
qed simp

lemma hex_text_chars: "c \<in> set (hex_text bytes) \<Longrightarrow> c \<in> set ''0123456789abcdef''"
proof -
  assume "c \<in> set (hex_text bytes)"
  then obtain b :: char where "c = AtmosChecksum_nibble_to_hex_char (of_char b div 16) \<or>
      c = AtmosChecksum_nibble_to_hex_char (of_char b mod 16)" by (auto simp: hex_text_def)
  then show ?thesis using nibble_lower_hex[OF of_char_nibbles(1)] nibble_lower_hex[OF of_char_nibbles(2)] by metis
qed

lemma cstring_hex_text [simp]: "cstring (hex_text bytes)"
  using hex_text_chars[of NUL bytes] by (auto simp: cdefs)

lemma lower_hex_text [simp]: "map tolower (hex_text bytes) = hex_text bytes"
proof (rule map_idI)
  have "\<forall>c \<in> set ''0123456789abcdef''. tolower c = c" by code_simp
  then show "tolower c = c" if "c \<in> set (hex_text bytes)" for c using hex_text_chars[OF that] by blast
qed

text \<open>Different digests have different texts.\<close>

lemma nibble_inj:
  assumes "AtmosChecksum_nibble_to_hex_char m = AtmosChecksum_nibble_to_hex_char n" "m < 16" "n < 16"
  shows "m = n"
proof -
  have "\<forall>m \<in> set [0..<16]. \<forall>n \<in> set [0..<16].
      AtmosChecksum_nibble_to_hex_char m = AtmosChecksum_nibble_to_hex_char n \<longrightarrow> m = n" by code_simp
  moreover have "m \<in> set [0..<16]" "n \<in> set [0..<16]" using assms(2,3) by simp_all
  ultimately show ?thesis using assms(1) by blast
qed

lemma hex_text_inj: "hex_text a = hex_text b \<longleftrightarrow> a = b"
proof (induction a arbitrary: b)
  case Nil
  then show ?case by (cases b) (auto simp: hex_text_def)
next
  case (Cons x a)
  show ?case
  proof (cases b)
    case (Cons y c)
    have "x = y" if "(of_char x :: nat) div 16 = of_char y div 16" "(of_char x :: nat) mod 16 = of_char y mod 16"
      using that by (metis div_mult_mod_eq of_char_eq_iff)
    then show ?thesis using Cons.IH[of c] \<open>b = y # c\<close> nibble_inj of_char_nibbles
      by (auto simp: hex_text_def)
  qed (auto simp: hex_text_def)
qed

lemma to_hex_string_loop:
  assumes "n \<le> length bytes" "2 * n < length buffer"
  shows "\<exists>b'. foldM (\<lambda>buffer i. do {
         b \<leftarrow> buf_get bytes i;
         (let high = of_char b div 16; low = of_char b mod 16 in do {
            buffer \<leftarrow> buf_set buffer (i * 2) (AtmosChecksum_nibble_to_hex_char high);
            buf_set buffer (i * 2 + 1) (AtmosChecksum_nibble_to_hex_char low)
         }) }) buffer [0..<n] = Some b' \<and> length b' = length buffer \<and> take (2 * n) b' = hex_text (take n bytes)"
  using assms
proof (induction n)
  case (Suc n)
  then obtain b1 where b1: "foldM (\<lambda>buffer i. do {
         b \<leftarrow> buf_get bytes i;
         (let high = of_char b div 16; low = of_char b mod 16 in do {
            buffer \<leftarrow> buf_set buffer (i * 2) (AtmosChecksum_nibble_to_hex_char high);
            buf_set buffer (i * 2 + 1) (AtmosChecksum_nibble_to_hex_char low)
         }) }) buffer [0..<n] = Some b1" "length b1 = length buffer" "take (2 * n) b1 = hex_text (take n bytes)"
    by auto
  let ?h = "AtmosChecksum_nibble_to_hex_char (of_char (bytes ! n) div 16)"
  let ?l = "AtmosChecksum_nibble_to_hex_char (of_char (bytes ! n) mod 16)"
  let ?b = "b1[2 * n := ?h, Suc (2 * n) := ?l]"
  have len: "Suc (Suc (2 * n)) \<le> length b1" using Suc.prems(2) b1(2) by simp
  have "take (2 * Suc n) ?b = take (2 * n) b1 @ [?h, ?l]"
    using len by (simp add: take_Suc_conv_app_nth nth_list_update)
  moreover have "hex_text (take (Suc n) bytes) = hex_text (take n bytes) @ [?h, ?l]"
    using Suc.prems(1) by (simp add: hex_text_def take_Suc_conv_app_nth)
  ultimately show ?case using b1 len Suc.prems(1)
    by (simp add: buf_get_def buf_set_def Let_def mult.commute)
qed (simp add: hex_text_def)

lemma to_hex_string_ok:
  assumes "length bytes = n" "length buffer = 2 * n + 1"
  shows "\<exists>b'. AtmosChecksum_to_hex_string bytes buffer n = Some b' \<and> c_str b' = Some (hex_text bytes)"
proof -
  obtain b1 where b1: "foldM (\<lambda>buffer i. do {
         b \<leftarrow> buf_get bytes i;
         (let high = of_char b div 16; low = of_char b mod 16 in do {
            buffer \<leftarrow> buf_set buffer (i * 2) (AtmosChecksum_nibble_to_hex_char high);
            buf_set buffer (i * 2 + 1) (AtmosChecksum_nibble_to_hex_char low)
         }) }) buffer [0..<n] = Some b1" "length b1 = length buffer" "take (2 * n) b1 = hex_text (take n bytes)"
    using to_hex_string_loop[of n bytes buffer] assms by auto
  have "b1[n * 2 := NUL] = take (2 * n) b1 @ [NUL]"
    using b1(2) assms(2) by (simp add: upd_conv_take_nth_drop mult.commute)
  then have "b1[n * 2 := NUL] = hex_text bytes @ [NUL]" using b1(3) assms(1) by simp
  then have "c_str (b1[n * 2 := NUL]) = Some (hex_text bytes)" by simp
  then show ?thesis using b1(1,2) assms(2) by (simp add: AtmosChecksum_to_hex_string_def buf_set_def)
qed

lemma get_value_hex:
  assumes "mem_ok E" "digest_ok E" "ck_internal_state self = Some ctx"
  shows "AtmosChecksum_get_value E self = Some (Some (hex_text (the (digest_final E (ck_alg self) ctx))))"
proof -
  obtain d where d: "digest_final E (ck_alg self) ctx = Some d" "length d = digest_length (ck_alg self)"
    using assms(2) unfolding digest_ok_def by blast
  obtain b where "AtmosChecksum_to_hex_string d (replicate (digest_length (ck_alg self) * 2 + 1) (junk E))
      (digest_length (ck_alg self)) = Some b" "c_str b = Some (hex_text d)"
    using to_hex_string_ok[OF d(2), of "replicate (digest_length (ck_alg self) * 2 + 1) (junk E)"] by auto
  then show ?thesis using assms(1,3) d by (simp add: AtmosChecksum_get_value_def mem_ok_def)
qed

section \<open>State and verification\<close>

text \<open>The invariant of a checksum object between its constructor and its destructor.\<close>

definition checksum_inv :: "AtmosChecksum \<Rightarrow> bool" where
  "checksum_inv self \<longleftrightarrow> ck_algorithm self = Some (algorithm_name (ck_alg self)) \<and>
     ck_internal_state self \<noteq> None \<and> - (2 ^ 63) \<le> ck_offset self \<and> ck_offset self < 2 ^ 63"

definition checksum_hex :: "env \<Rightarrow> AtmosChecksum \<Rightarrow> string" where
  "checksum_hex E self = hex_text (the (digest_final E (ck_alg self) (the (ck_internal_state self))))"

lemma to_int64_range: "- (2 ^ 63) \<le> to_int64 v" "to_int64 v < 2 ^ 63"
  by (simp_all add: to_int64_def)

lemma checksum_inv_init: "digest_ok E \<Longrightarrow> AtmosChecksum_init E mode alg = Some self \<Longrightarrow> checksum_inv self"
  by (auto simp: AtmosChecksum_init_def checksum_inv_def digest_ok_def split: if_splits)

lemma checksum_inv_update: "checksum_inv ck \<Longrightarrow> checksum_inv (AtmosChecksum_update E ck bytes)"
  using to_int64_range by (auto simp: checksum_inv_def AtmosChecksum_update_def)

text \<open>
  The objects a program can get: those of the constructor, and those of an update from memory or from a file, each with
  the bytes it has been given so far; those of a file lie between its positions before and after.
\<close>

inductive checksum_reached :: "env \<Rightarrow> atmos_checksum_mode \<Rightarrow> atmos_checksum_alg \<Rightarrow> char list \<Rightarrow> AtmosChecksum \<Rightarrow> bool"
  for E mode alg where
  init: "AtmosChecksum_init E mode alg = Some self \<Longrightarrow> checksum_reached E mode alg [] self"
| update: "checksum_reached E mode alg bytes self \<Longrightarrow> checksum_reached E mode alg (bytes @ data) (AtmosChecksum_update E self data)"
| update_file: "checksum_reached E mode alg bytes self \<Longrightarrow> 0 \<le> cnt \<Longrightarrow> cnt < 2 ^ 63 \<Longrightarrow>
    AtmosChecksum_update_file E self f cnt = Some (self', f') \<Longrightarrow>
    checksum_reached E mode alg (bytes @ take (f_pos f' - f_pos f) (drop (f_pos f) (f_bytes f))) self'"

text \<open>What such an object knows of the bytes.\<close>

definition checksum_of :: "env \<Rightarrow> atmos_checksum_mode \<Rightarrow> atmos_checksum_alg \<Rightarrow> char list \<Rightarrow> AtmosChecksum \<Rightarrow> bool" where
  "checksum_of E mode alg bytes self \<longleftrightarrow> checksum_inv self \<and> ck_mode self = mode \<and> ck_alg self = alg \<and>
     ck_offset self = to_int64 (int (length bytes)) \<and>
     ck_internal_state self = Some (digest_update E alg (the (digest_init E alg)) bytes)"

lemma checksum_of_init:
  assumes "digest_ok E" "AtmosChecksum_init E mode alg = Some self"
  shows "checksum_of E mode alg [] self"
  using assms checksum_inv_init[OF assms]
  by (auto simp: checksum_of_def AtmosChecksum_init_def digest_ok_def to_int64_def split: if_splits)

lemma checksum_of_update:
  assumes "digest_ok E" "checksum_of E mode alg bytes self"
  shows "checksum_of E mode alg (bytes @ data) (AtmosChecksum_update E self data)"
proof -
  have "to_int64 (to_int64 k + j) = to_int64 (k + j)" for k j by (simp add: to_int64_def mod_simps ac_simps)
  then show ?thesis using assms checksum_inv_update[of self E data]
    by (auto simp: checksum_of_def AtmosChecksum_update_def digest_ok_def)
qed

lemma checksum_of_update_file:
  assumes "digest_ok E" "checksum_of E mode alg bytes self" "0 \<le> cnt" "cnt < 2 ^ 63"
    and "AtmosChecksum_update_file E self f cnt = Some (self', f')"
  shows "checksum_of E mode alg (bytes @ take (f_pos f' - f_pos f) (drop (f_pos f) (f_bytes f))) self'"
proof -
  let ?b = "take (nat cnt) (drop (f_pos f) (f_bytes f))"
  have "self' = fed E self ?b" "f_pos f' - f_pos f = length ?b"
    using AtmosChecksum_update_file_fread[OF assms(1,3,4), of self f] assms(5) by (auto simp: fread_def Let_def)
  moreover have "take (length ?b) (drop (f_pos f) (f_bytes f)) = ?b" by (simp add: min_def)
  ultimately show ?thesis using checksum_of_update[OF assms(1,2), of ?b] assms(2) by (simp add: fed_def split: if_splits)
qed

text \<open>
  C29: A checksum object is at all times the checksum of the bytes it was given: whatever mixture of updates from memory and
  from files follows the constructor, the object keeps its mode and its algorithm, with the algorithm's name and a digest
  context, the context is that of all the bytes so far in order, and the offset is their number, as an \<open>int64_t\<close>.
\<close>

theorem checksum_invariant:
  assumes "digest_ok E" "checksum_reached E mode alg bytes self"
  shows "checksum_inv self \<and> ck_mode self = mode \<and> ck_alg self = alg \<and> ck_offset self = to_int64 (int (length bytes)) \<and>
     ck_internal_state self = Some (digest_update E alg (the (digest_init E alg)) bytes)"
  using assms(2) unfolding checksum_of_def[symmetric]
  by induction (use assms(1) checksum_of_init checksum_of_update checksum_of_update_file in blast)+

theorem checksum_invariant_witness:
  "ck_offset (AtmosChecksum_update list_env (AtmosChecksum_update list_env sample_checksum ''some'') ''data'') = 8"
proof -
  have "AtmosChecksum_init list_env ATMOS_WSCHECKSUM ATMOS_ALG_MD5 = Some sample_checksum"
    by (simp add: AtmosChecksum_init_def list_env_def sample_checksum_def algorithm_name_def)
  from checksum_reached.update[OF checksum_reached.update[OF checksum_reached.init[OF this]], of "''some''" "''data''"]
  show ?thesis using checksum_invariant[OF digest_ok_list_env] by (fastforce simp: to_int64_def)
qed

lemma hex_text_zeros: "hex_text (replicate n NUL) = replicate (2 * n) CHR ''0''"
  by (induction n) (simp_all add: hex_text_def AtmosChecksum_nibble_to_hex_char_def char_code)

lemma cstring_algorithm_name [simp]: "cstring (algorithm_name alg)"
  by (cases alg; simp add: algorithm_name_def literals)

lemma length_algorithm_name: "length (algorithm_name alg) \<le> 4"
  by (cases alg; simp add: algorithm_name_def literals)

lemma get_state_text:
  assumes "mem_ok E" "digest_ok E" "checksum_inv self"
  shows "AtmosChecksum_get_state E self =
     Some (Some (algorithm_name (ck_alg self) @ ''/'' @ show_int (ck_offset self) @ ''/'' @ checksum_hex E self))"
proof -
  obtain ctx where ctx: "ck_internal_state self = Some ctx" using assms(3) by (auto simp: checksum_inv_def)
  have v: "AtmosChecksum_get_value E self = Some (Some (checksum_hex E self))"
    using get_value_hex[OF assms(1,2) ctx] ctx by (simp add: checksum_hex_def)
  let ?o = "show_int (ck_offset self)"
  have "length ?o \<le> Suc 19"
    by (rule show_int_length) (use assms(3) in \<open>auto simp: checksum_inv_def\<close>)
  then obtain b where b: "strcpy (replicate ATMOS_SIMPLE_HEADER_MAX (junk E)) ?o = Some b"
    using strcpy_ok[of ?o "replicate ATMOS_SIMPLE_HEADER_MAX (junk E)"] by auto
  have ob: "c_str b = Some ?o" by (rule strcpy_c_str[OF _ b]) simp
  let ?t = "algorithm_name (ck_alg self) @ ''/'' @ ?o @ ''/'' @ checksum_hex E self"
  define n where "n = length (checksum_hex E self) + length ?o + 7"
  have "do { s \<leftarrow> snprintf (replicate n (junk E)) n ?t; c_str s } = Some (snprintf_text n ?t)"
    by (rule snprintf_c_str) (auto simp: n_def checksum_hex_def)
  moreover have "length ?t < n" using length_algorithm_name[of "ck_alg self"] by (simp add: n_def)
  ultimately have "do { s \<leftarrow> snprintf (replicate n (junk E)) n ?t; c_str s } = Some ?t"
    by (simp only: snprintf_text_id)
  then obtain s where "snprintf (replicate n (junk E)) n ?t = Some s" "c_str s = Some ?t"
    by (auto simp: bind_eq_Some_conv)
  then show ?thesis using assms(1,3) v b ob
    by (simp add: AtmosChecksum_get_state_def checksum_inv_def mem_ok_def n_def)
qed

text \<open>
  C28: \<open>AtmosChecksum_get_state\<close> returns the complete text \<open>algorithm/offset/hex digest\<close>: the block it
  allocates is large enough for every algorithm and every offset, so nothing is cut off.
\<close>

theorem get_state_complete:
  assumes "mem_ok E" "digest_ok E" "checksum_inv self"
  shows "AtmosChecksum_get_state E self =
     Some (Some (algorithm_name (ck_alg self) @ ''/'' @ show_int (ck_offset self) @ ''/'' @ checksum_hex E self))"
  by (rule get_state_text[OF assms])

theorem get_state_complete_witness:
  "AtmosChecksum_get_state list_env (sample_checksum\<lparr>ck_offset := 65536\<rparr>) =
     Some (Some (''md5/65536/'' @ replicate 32 CHR ''0''))"
proof -
  have inv: "checksum_inv (sample_checksum\<lparr>ck_offset := 65536\<rparr>)"
    by (simp add: checksum_inv_def sample_checksum_def algorithm_name_def)
  have hex: "checksum_hex list_env (sample_checksum\<lparr>ck_offset := 65536\<rparr>) = replicate 32 CHR ''0''"
    using hex_text_zeros[of 16] by (simp add: checksum_hex_def sample_checksum_def list_env_def)
  have "show_int 65536 = ''65536''" by (simp add: show_int_def show_nat.simps char_code)
  then show ?thesis using get_state_complete[OF mem_ok_list_env digest_ok_list_env inv]
    unfolding hex by (simp add: sample_checksum_def algorithm_name_def literals)
qed

text \<open>The pieces fed to a checksum object count only by their concatenation.\<close>

lemma update_nothing: "digest_ok E \<Longrightarrow> checksum_inv self \<Longrightarrow> AtmosChecksum_update E self [] = self"
  by (cases self) (auto simp: AtmosChecksum_update_def checksum_inv_def digest_ok_def to_int64_id)

text \<open>
  The contract of an object that bytes are fed into: only the concatenation of the pieces counts. The digest library has
  it by assumption, the checksum object of the client because it keeps it.
\<close>

locale accumulator =
  fixes feed :: "'c \<Rightarrow> char list \<Rightarrow> 'c" and ok :: "'c \<Rightarrow> bool"
  assumes feed_append: "ok c \<Longrightarrow> feed (feed c a) b = feed c (a @ b)"
    and feed_nothing: "ok c \<Longrightarrow> feed c [] = c"
    and feed_keeps: "ok c \<Longrightarrow> ok (feed c a)"
begin

lemma feed_pieces: "ok c \<Longrightarrow> foldl feed c pieces = feed c (concat pieces)"
  by (induction pieces rule: rev_induct) (simp_all add: feed_nothing feed_append)

lemma pieces_keep: "ok c \<Longrightarrow> ok (foldl feed c pieces)"
  by (simp add: feed_pieces feed_keeps)

end

interpretation digest: accumulator "digest_update E alg" "\<lambda>c. digest_ok E" for E alg
  by unfold_locales (simp_all add: digest_ok_def)

interpretation updates: accumulator "AtmosChecksum_update E" "\<lambda>ck. digest_ok E \<and> checksum_inv ck" for E
  by unfold_locales (simp_all add: update_append update_nothing checksum_inv_update)

lemma update_pieces:
  assumes "digest_ok E" "checksum_inv self"
  shows "foldl (AtmosChecksum_update E) self pieces = AtmosChecksum_update E self (concat pieces)"
  using updates.feed_pieces assms by blast

text \<open>
  C25: A checksum object implements the one-shot digest: whatever pieces the data come in, the value of the object
  that \<open>AtmosChecksum_init\<close> made and the updates changed is the hexadecimal text of the digest of all the
  bytes together, and taking it does not disturb the object.
\<close>

theorem checksum_refines_digest:
  assumes "mem_ok E" "digest_ok E" "AtmosChecksum_init E mode alg = Some self"
  shows "AtmosChecksum_get_value E (foldl (AtmosChecksum_update E) self pieces) =
     Some (Some (hex_text (the (digest_final E alg (digest_update E alg (the (digest_init E alg)) (concat pieces))))))"
proof -
  have "ck_alg self = alg" "ck_internal_state self = digest_init E alg" "ck_internal_state self \<noteq> None"
    using assms(2,3) by (auto simp: AtmosChecksum_init_def digest_ok_def bind_eq_Some_conv split: if_splits option.splits)
  then have "ck_internal_state (AtmosChecksum_update E self (concat pieces)) =
      Some (digest_update E alg (the (digest_init E alg)) (concat pieces))"
    "ck_alg (AtmosChecksum_update E self (concat pieces)) = alg"
    by (auto simp: AtmosChecksum_update_def)
  then show ?thesis
    using get_value_hex[OF assms(1,2)] update_pieces[OF assms(2) checksum_inv_init[OF assms(2,3)]] by simp
qed

theorem checksum_refines_digest_witness:
  "AtmosChecksum_get_value list_env (foldl (AtmosChecksum_update list_env) sample_checksum [''he'', ''llo'']) =
     Some (Some (hex_text (take 16 (''hello'' @ replicate 20 NUL))))"
proof -
  have "AtmosChecksum_init list_env ATMOS_WSCHECKSUM ATMOS_ALG_MD5 = Some sample_checksum"
    by (simp add: AtmosChecksum_init_def list_env_def sample_checksum_def algorithm_name_def)
  note checksum_refines_digest[OF mem_ok_list_env digest_ok_list_env this, of "[''he'', ''llo'']"]
  then show ?thesis by (simp add: list_env_def)
qed

lemma verify_response_result:
  assumes "mem_ok E" "digest_ok E" "checksum_inv self"
    and "\<And>v. RestResponse_get_header_value E response ATMOS_HEADER_CONTENT_CHECKSUM = Some v \<Longrightarrow> cstring v"
  shows "AtmosChecksum_verify_response E self response =
     Some (if ck_mode self = ATMOS_GENERATE_CHECKSUM \<and>
              (case RestResponse_get_header_value E response ATMOS_HEADER_CONTENT_CHECKSUM of
                 None \<Rightarrow> True
               | Some v \<Rightarrow> map tolower v \<noteq> algorithm_name (ck_alg self) @ ''/'' @ checksum_hex E self)
           then 0 else 1)"
proof (cases "RestResponse_get_header_value E response ATMOS_HEADER_CONTENT_CHECKSUM")
  case None
  then show ?thesis by (cases "ck_mode self") (simp_all add: AtmosChecksum_verify_response_def mode_number_def)
next
  case (Some v)
  obtain ctx where ctx: "ck_internal_state self = Some ctx" using assms(3) by (auto simp: checksum_inv_def)
  obtain d where d: "digest_final E (ck_alg self) ctx = Some d" "length d = digest_length (ck_alg self)"
    using assms(2) unfolding digest_ok_def by blast
  have hex: "checksum_hex E self = hex_text d" using ctx d by (simp add: checksum_hex_def)
  have val: "AtmosChecksum_get_value E self = Some (Some (hex_text d))"
    using get_value_hex[OF assms(1,2) ctx] d by simp
  have "length d \<le> 20" using d(2) by (cases "ck_alg self") simp_all
  then have t: "snprintf_text ATMOS_SIMPLE_HEADER_MAX (algorithm_name (ck_alg self) @ ''/'' @ hex_text d) =
      algorithm_name (ck_alg self) @ ''/'' @ hex_text d"
    using length_algorithm_name[of "ck_alg self"] by (intro snprintf_text_id) simp
  have low: "Option.bind (AtmosUtil_lowercase (v @ [NUL])) c_str = Some (map tolower v)"
    by (rule lowercase_strdup[OF assms(4)[OF Some]])
  then obtain lv where "AtmosUtil_lowercase (v @ [NUL]) = Some lv" "c_str lv = Some (map tolower v)"
    by (auto simp: bind_eq_Some_conv)
  then show ?thesis using Some assms(1,3) val t hex
    by (cases "ck_mode self")
       (auto simp: AtmosChecksum_verify_response_def mode_number_def checksum_inv_def mem_ok_def)
qed

text \<open>
  C27: In the mode \<open>ATMOS_GENERATE_CHECKSUM\<close>, \<open>AtmosChecksum_verify_response\<close> returns 1 exactly when the
  response has a checksum header whose value, in lower case, is \<open>algorithm/hex digest\<close> of the
  local data; in the other mode it always returns 1.
\<close>

theorem verify_response_iff:
  assumes "mem_ok E" "digest_ok E" "checksum_inv self"
    and "\<And>v. RestResponse_get_header_value E response ATMOS_HEADER_CONTENT_CHECKSUM = Some v \<Longrightarrow> cstring v"
  shows "AtmosChecksum_verify_response E self response =
     Some (if ck_mode self = ATMOS_GENERATE_CHECKSUM \<and>
              (case RestResponse_get_header_value E response ATMOS_HEADER_CONTENT_CHECKSUM of
                 None \<Rightarrow> True
               | Some v \<Rightarrow> map tolower v \<noteq> algorithm_name (ck_alg self) @ ''/'' @ checksum_hex E self)
           then 0 else 1)"
  by (rule verify_response_result[OF assms])

theorem verify_response_iff_witness:
  "AtmosChecksum_verify_response list_env (sample_checksum\<lparr>ck_mode := ATMOS_GENERATE_CHECKSUM\<rparr>)
     ((RestResponse_init list_env)\<lparr>rs_headers := [ATMOS_HEADER_CONTENT_CHECKSUM @ '': MD5/'' @ replicate 32 CHR ''0'']\<rparr>) = Some 1"
proof -
  let ?c = "sample_checksum\<lparr>ck_mode := ATMOS_GENERATE_CHECKSUM\<rparr>"
  let ?r = "(RestResponse_init list_env)\<lparr>rs_headers := [ATMOS_HEADER_CONTENT_CHECKSUM @ '': MD5/'' @ replicate 32 CHR ''0'']\<rparr>"
  have inv: "checksum_inv ?c" by (simp add: checksum_inv_def sample_checksum_def algorithm_name_def)
  have v: "RestResponse_get_header_value list_env ?r ATMOS_HEADER_CONTENT_CHECKSUM = Some (''MD5/'' @ replicate 32 CHR ''0'')"
    using lookup_header_line[of ATMOS_HEADER_CONTENT_CHECKSUM "'' MD5/'' @ replicate 32 CHR ''0''" "[]" ATMOS_HEADER_CONTENT_CHECKSUM]
    by (simp add: list_env_def ATMOS_HEADER_CONTENT_CHECKSUM_def del: list.map)
  have hex: "checksum_hex list_env ?c = replicate 32 CHR ''0''"
    using hex_text_zeros[of 16] by (simp add: checksum_hex_def sample_checksum_def list_env_def)
  have low: "map tolower (''MD5/'' @ replicate 32 CHR ''0'') = ''md5/'' @ replicate 32 CHR ''0''"
    by (simp add: tolower_def char_code)
  have cs: "cstring (''MD5/'' @ replicate 32 CHR ''0'')" by (simp add: cdefs)
  have "AtmosChecksum_verify_response list_env ?c ?r = Some (if ck_mode ?c = ATMOS_GENERATE_CHECKSUM \<and>
      (case RestResponse_get_header_value list_env ?r ATMOS_HEADER_CONTENT_CHECKSUM of None \<Rightarrow> True
       | Some v \<Rightarrow> map tolower v \<noteq> algorithm_name (ck_alg ?c) @ ''/'' @ checksum_hex list_env ?c) then 0 else 1)"
  proof (rule verify_response_iff[OF mem_ok_list_env digest_ok_list_env inv])
    fix w assume "RestResponse_get_header_value list_env ?r ATMOS_HEADER_CONTENT_CHECKSUM = Some w"
    then show "cstring w" using cs unfolding v by (simp only: option.inject)
  qed
  moreover have "algorithm_name (ck_alg ?c) = ''md5''" by (simp add: sample_checksum_def algorithm_name_def literals)
  ultimately show ?thesis unfolding v hex option.case low by simp
qed

end
