(* ===== verification/Header_Writers.thy ===== *)
theory Header_Writers
  imports Header_Text
begin

text \<open>
  The request headers the client generates from metadata, ACLs and tags (\<open>atmos_util.c\<close>), with
  the text each of them adds to a request. All of them drive the growing string through the
  contract of \<open>String_Builder\<close>: a loop of appends is one sequence of appended pieces.
\<close>

section \<open>Metadata\<close>

text \<open>One round of the loop of \<open>AtmosUtil_set_metadata_header\<close>.\<close>

definition metadata_header_entry :: "env \<Rightarrow> int \<Rightarrow> hstring \<Rightarrow> nat \<Rightarrow> string \<times> string \<Rightarrow> hstring option" where
  "metadata_header_entry E utf8 hs i entry = (case entry of (name, value) \<Rightarrow>
     if utf8 = 0 \<and> (AtmosUtil_meta_char_check name \<noteq> 0 \<or> AtmosUtil_meta_char_check value \<noteq> 0)
     then Some hs
     else do {
       hs \<leftarrow> (if 0 < i then AtmosUtil_cstring_append E hs '','' else Some hs);
       if utf8 \<noteq> 0 then do {
         enc \<leftarrow> curl_easy_escape E name;
         hs \<leftarrow> AtmosUtil_cstring_append E hs enc;
         hs \<leftarrow> AtmosUtil_cstring_append E hs ''='';
         enc \<leftarrow> curl_easy_escape E value;
         AtmosUtil_cstring_append E hs enc
       } else do {
         hs \<leftarrow> AtmosUtil_cstring_append E hs name;
         hs \<leftarrow> AtmosUtil_cstring_append E hs ''='';
         AtmosUtil_cstring_append E hs value
       }
     })"

definition AtmosUtil_set_metadata_header ::
    "env \<Rightarrow> AtmosMetadata list \<Rightarrow> int \<Rightarrow> bool \<Rightarrow> int \<Rightarrow> request \<Rightarrow> request option" where
  "AtmosUtil_set_metadata_header E meta meta_count listable utf8 request =
     (if meta_count < 1 then Some request
      else do {
        hs \<leftarrow> AtmosUtil_cstring_append E empty_hstring
               (if \<not> listable then ATMOS_HEADER_META else ATMOS_HEADER_LISTABLE_META);
        hs \<leftarrow> AtmosUtil_cstring_append E hs '': '';
        hs \<leftarrow> foldM (\<lambda>hs i. do {
                 m \<leftarrow> arr_get meta (int i);
                 entry \<leftarrow> metadata_pair m;
                 metadata_header_entry E utf8 hs i entry }) hs [0..<nat meta_count];
        meta_header \<leftarrow> hstring_text hs;
        Some (add_header E request meta_header)
      })"

text \<open>An entry the header can carry as it is, and the pieces one entry appends.\<close>

definition meta_pair_ok :: "string \<times> string \<Rightarrow> bool" where
  "meta_pair_ok p \<longleftrightarrow> (\<forall>c \<in> set (fst p). meta_char_ok c) \<and> (\<forall>c \<in> set (snd p). meta_char_ok c)"

definition meta_entry_text :: "string \<times> string \<Rightarrow> string" where
  "meta_entry_text p = fst p @ ''='' @ snd p"

definition plain_pieces :: "nat \<Rightarrow> string \<times> string \<Rightarrow> string list" where
  "plain_pieces i p =
     (if meta_pair_ok p then (if 0 < i then ['',''] else []) @ [fst p, ''='', snd p] else [])"

definition utf8_pieces :: "env \<Rightarrow> nat \<Rightarrow> string \<times> string \<Rightarrow> string list" where
  "utf8_pieces E i p =
     (if 0 < i then ['',''] else []) @
     [the (curl_easy_escape E (fst p)), ''='', the (curl_easy_escape E (snd p))]"

lemma metadata_entry_plain:
  "metadata_header_entry E 0 hs i p = AtmosUtil_cstring_append_all E hs (plain_pieces i p)"
  by (cases p) (auto simp: metadata_header_entry_def plain_pieces_def meta_pair_ok_def meta_char_check_iff
      split: Option.bind_splits)

lemma metadata_entry_utf8:
  assumes "escape_total E" "utf8 \<noteq> 0" "cstring (fst p)" "cstring (snd p)"
  shows "metadata_header_entry E utf8 hs i p = AtmosUtil_cstring_append_all E hs (utf8_pieces E i p)"
proof -
  obtain n v where p: "p = (n, v)" by (cases p)
  obtain en ev where e: "curl_easy_escape E n = Some en" "curl_easy_escape E v = Some ev"
    using assms(1,3,4) p unfolding escape_total_def by (metis fst_conv snd_conv)
  show ?thesis using assms(2)
    by (auto simp: metadata_header_entry_def utf8_pieces_def p e split: Option.bind_splits)
qed

text \<open>The header line a list of entries yields; entry \<open>i\<close> is preceded by a comma iff \<open>0 < i\<close>.\<close>

definition metadata_header_line :: "bool \<Rightarrow> (nat \<Rightarrow> string \<times> string \<Rightarrow> string list) \<Rightarrow> (string \<times> string) list \<Rightarrow> string" where
  "metadata_header_line listable pieces L =
     (if \<not> listable then ATMOS_HEADER_META else ATMOS_HEADER_LISTABLE_META) @ '': '' @
     concat (concat (map (\<lambda>(i, p). pieces i p) (enumerate 0 L)))"

lemma metadata_pair_cstring:
  "metadata_pair m = Some p \<Longrightarrow> cstring (fst p) \<and> cstring (snd p)"
  by (auto simp: metadata_pair_def bind_eq_Some_conv c_str_cstring)

lemma arr_holds_cstring:
  assumes "arr_holds metadata_pair meta n L" "p \<in> set L"
  shows "cstring (fst p) \<and> cstring (snd p)"
  using arr_holds_view[OF assms] metadata_pair_cstring by blast

lemma set_metadata_header_pieces:
  assumes "mem_ok E" "arr_holds metadata_pair meta n L" "L \<noteq> []"
    and "\<And>hs i p. p \<in> set L \<Longrightarrow> metadata_header_entry E utf8 hs i p = AtmosUtil_cstring_append_all E hs (pieces i p)"
    and "\<And>i p s. p \<in> set L \<Longrightarrow> s \<in> set (pieces i p) \<Longrightarrow> cstring s"
  shows "AtmosUtil_set_metadata_header E meta n listable utf8 request =
           Some (add_header E request (metadata_header_line listable pieces L))"
proof -
  let ?h = "if \<not> listable then ATMOS_HEADER_META else ATMOS_HEADER_LISTABLE_META"
  let ?ps = "concat (map (\<lambda>(i, p). pieces i p) (enumerate 0 L))"
  have n: "\<not> n < 1" using assms(2,3) by (cases L) (auto simp: arr_holds_def)
  have "foldM (\<lambda>hs i. do { m \<leftarrow> arr_get meta (int i); p \<leftarrow> metadata_pair m; metadata_header_entry E utf8 hs i p })
          hs [0..<nat n] = AtmosUtil_cstring_append_all E hs ?ps" for hs
    unfolding foldM_arr_holds[OF assms(2)] foldM_concat[symmetric]
    by (rule foldM_cong [OF refl refl]) (clarsimp simp: in_set_enumerate_eq, metis assms(4) nth_mem)
  then have step: "do { hs \<leftarrow> AtmosUtil_cstring_append E empty_hstring ?h;
          hs \<leftarrow> AtmosUtil_cstring_append E hs '': '';
          foldM (\<lambda>hs i. do { m \<leftarrow> arr_get meta (int i); p \<leftarrow> metadata_pair m; metadata_header_entry E utf8 hs i p })
            hs [0..<nat n] } = AtmosUtil_cstring_append_all E empty_hstring (?h # '': '' # ?ps)"
    by simp
  have "\<forall>s \<in> set ?ps. cstring s"
    by (clarsimp simp: in_set_enumerate_eq) (metis assms(5) nth_mem)
  then have "\<forall>s \<in> set (?h # '': '' # ?ps). cstring s" by simp
  from append_all_text[OF assms(1) this]
  obtain hs where "AtmosUtil_cstring_append_all E empty_hstring (?h # '': '' # ?ps) = Some hs"
    "hstring_text hs = Some (metadata_header_line listable pieces L)"
    by (auto simp: metadata_header_line_def)
  then show ?thesis using step n
    by (cases hs) (auto simp: AtmosUtil_set_metadata_header_def bind_eq_Some_conv simp flip: step)
qed

lemma set_metadata_header_none:
  "arr_holds metadata_pair meta n [] \<Longrightarrow> AtmosUtil_set_metadata_header E meta n listable utf8 request = Some request"
  by (simp add: arr_holds_def AtmosUtil_set_metadata_header_def)

text \<open>When every entry is clean, the line lists them all, separated by commas.\<close>

lemma metadata_line_clean:
  assumes "\<forall>p \<in> set L. meta_pair_ok p"
  shows "metadata_header_line listable plain_pieces L =
     (if \<not> listable then ATMOS_HEADER_META else ATMOS_HEADER_LISTABLE_META) @ '': '' @
     join_with '','' (map meta_entry_text L)"
proof -
  have "concat (concat (map (\<lambda>(i, p). plain_pieces i p) (enumerate k L))) =
        concat (map (\<lambda>(i, p). (if 0 < i then '','' else []) @ meta_entry_text p) (enumerate k L))" for k
    using assms by (induction L arbitrary: k) (auto simp: plain_pieces_def meta_entry_text_def)
  then show ?thesis by (simp add: metadata_header_line_def join_with_enumerate)
qed

lemma metadata_line_utf8:
  "metadata_header_line listable (utf8_pieces E) L =
     (if \<not> listable then ATMOS_HEADER_META else ATMOS_HEADER_LISTABLE_META) @ '': '' @
     join_with '','' (map (\<lambda>p. the (curl_easy_escape E (fst p)) @ ''='' @ the (curl_easy_escape E (snd p))) L)"
proof -
  have "concat (concat (map (\<lambda>(i, p). utf8_pieces E i p) (enumerate k L))) =
        concat (map (\<lambda>(i, p). (if 0 < i then '','' else []) @
          (the (curl_easy_escape E (fst p)) @ ''='' @ the (curl_easy_escape E (snd p)))) (enumerate k L))" for k
    by (induction L arbitrary: k) (auto simp: utf8_pieces_def)
  then show ?thesis by (simp add: metadata_header_line_def join_with_enumerate)
qed

section \<open>ACLs\<close>

fun AtmosUtil_get_permission_string :: "atmos_acl_permission \<Rightarrow> string" where
  "AtmosUtil_get_permission_string ATMOS_PERM_EXECUTE = ATMOS_ACL_PERMISSION_EXECUTE"
| "AtmosUtil_get_permission_string ATMOS_PERM_WRITE_ACL = ATMOS_ACL_PERMISSION_WRITE_ACL"
| "AtmosUtil_get_permission_string ATMOS_PERM_READ_ACL = ATMOS_ACL_PERMISSION_READ_ACL"
| "AtmosUtil_get_permission_string ATMOS_PERM_FULL = ATMOS_ACL_PERMISSION_FULL"
| "AtmosUtil_get_permission_string ATMOS_PERM_READ = ATMOS_ACL_PERMISSION_READ"
| "AtmosUtil_get_permission_string ATMOS_PERM_READ_WRITE = ATMOS_ACL_PERMISSION_READWRITE"
| "AtmosUtil_get_permission_string ATMOS_PERM_NONE = ATMOS_ACL_PERMISSION_NONE"

lemma cstring_permission [simp]: "cstring (AtmosUtil_get_permission_string p)"
  by (cases p) simp_all

text \<open>An ACL entry as the header code reads it.\<close>

type_synonym acl_view = "string \<times> atmos_acl_principal_type \<times> atmos_acl_permission"

definition acl_entry_view :: "AtmosAclEntry \<Rightarrow> acl_view option" where
  "acl_entry_view a = do { p \<leftarrow> c_str (principal a); Some (p, acl_type a, permission a) }"

record acl_state =
  user_acl_header :: hstring
  group_acl_header :: hstring
  first_user :: bool
  first_group :: bool

definition acl_header_entry :: "env \<Rightarrow> acl_state \<Rightarrow> acl_view \<Rightarrow> acl_state option" where
  "acl_header_entry E s entry = (case entry of (p, t, perm) \<Rightarrow>
     case t of
       ATMOS_GROUP \<Rightarrow>
         if strcmp ATMOS_ACL_GROUP_OTHER p \<noteq> 0 then Some s
         else do {
           hs \<leftarrow> (if \<not> first_group s then AtmosUtil_cstring_append E (group_acl_header s) '', ''
                  else do { hs \<leftarrow> AtmosUtil_cstring_append E (group_acl_header s) ATMOS_HEADER_GROUP_ACL;
                            AtmosUtil_cstring_append E hs '': '' });
           hs \<leftarrow> AtmosUtil_cstring_append E hs p;
           hs \<leftarrow> AtmosUtil_cstring_append E hs ''='';
           hs \<leftarrow> AtmosUtil_cstring_append E hs (AtmosUtil_get_permission_string perm);
           Some (s\<lparr>group_acl_header := hs, first_group := False\<rparr>)
         }
     | ATMOS_USER \<Rightarrow> do {
           hs \<leftarrow> (if \<not> first_user s then AtmosUtil_cstring_append E (user_acl_header s) '', ''
                  else do { hs \<leftarrow> AtmosUtil_cstring_append E (user_acl_header s) ATMOS_HEADER_USER_ACL;
                            AtmosUtil_cstring_append E hs '': '' });
           hs \<leftarrow> AtmosUtil_cstring_append E hs p;
           hs \<leftarrow> AtmosUtil_cstring_append E hs ''='';
           hs \<leftarrow> AtmosUtil_cstring_append E hs (AtmosUtil_get_permission_string perm);
           Some (s\<lparr>user_acl_header := hs, first_user := False\<rparr>)
         })"

definition acl_state_init :: acl_state where
  "acl_state_init = \<lparr>user_acl_header = empty_hstring, group_acl_header = empty_hstring,
     first_user = True, first_group = True\<rparr>"

definition AtmosUtil_set_acl_header :: "env \<Rightarrow> AtmosAclEntry list \<Rightarrow> int \<Rightarrow> request \<Rightarrow> request option" where
  "AtmosUtil_set_acl_header E acl acl_count request =
     (if acl_count < 1 then Some request
      else do {
        s \<leftarrow> foldM (\<lambda>s i. do { a \<leftarrow> arr_get acl (int i); entry \<leftarrow> acl_entry_view a; acl_header_entry E s entry })
               acl_state_init [0..<nat acl_count];
        request \<leftarrow> (if 0 < snd (user_acl_header s)
                     then do { h \<leftarrow> hstring_text (user_acl_header s); Some (add_header E request h) }
                     else Some request);
        if 0 < snd (group_acl_header s)
        then do { h \<leftarrow> hstring_text (group_acl_header s); Some (add_header E request h) }
        else Some request
      })"

text \<open>The entries that go into each of the two headers, and the header lines.\<close>

definition acl_users :: "acl_view list \<Rightarrow> acl_view list" where
  "acl_users L = filter (\<lambda>(p, t, perm). t = ATMOS_USER) L"

definition acl_groups :: "acl_view list \<Rightarrow> acl_view list" where
  "acl_groups L = filter (\<lambda>(p, t, perm). t = ATMOS_GROUP \<and> p = ATMOS_ACL_GROUP_OTHER) L"

definition acl_text :: "acl_view \<Rightarrow> string" where
  "acl_text e = (case e of (p, t, perm) \<Rightarrow> p @ ''='' @ AtmosUtil_get_permission_string perm)"

definition acl_line :: "string \<Rightarrow> acl_view list \<Rightarrow> string" where
  "acl_line name L = name @ '': '' @ join_with '', '' (map acl_text L)"

definition acl_header_lines :: "acl_view list \<Rightarrow> string list" where
  "acl_header_lines L =
     (if acl_users L = [] then [] else [acl_line ATMOS_HEADER_USER_ACL (acl_users L)]) @
     (if acl_groups L = [] then [] else [acl_line ATMOS_HEADER_GROUP_ACL (acl_groups L)])"

text \<open>The state of one of the two strings after the entries \<open>L\<close> went into it.\<close>

definition acl_hs_inv :: "string \<Rightarrow> acl_view list \<Rightarrow> hstring \<Rightarrow> bool \<Rightarrow> bool" where
  "acl_hs_inv name L hs first \<longleftrightarrow> hstring_inv hs \<and> first = (L = []) \<and>
     (if L = [] then hs = empty_hstring else fst hs \<noteq> None \<and> hstring_content hs = acl_line name L)"

definition acl_pieces :: "string \<Rightarrow> bool \<Rightarrow> acl_view \<Rightarrow> string list" where
  "acl_pieces name first e = (case e of (p, t, perm) \<Rightarrow>
     (if \<not> first then ['', ''] else [name, '': '']) @ [p, ''='', AtmosUtil_get_permission_string perm])"

lemma acl_header_entry_pieces:
  "acl_header_entry E s (p, t, perm) =
     (case t of
        ATMOS_GROUP \<Rightarrow>
          if p \<noteq> ATMOS_ACL_GROUP_OTHER then Some s
          else do { hs \<leftarrow> AtmosUtil_cstring_append_all E (group_acl_header s)
                           (acl_pieces ATMOS_HEADER_GROUP_ACL (first_group s) (p, t, perm));
                    Some (s\<lparr>group_acl_header := hs, first_group := False\<rparr>) }
      | ATMOS_USER \<Rightarrow>
          do { hs \<leftarrow> AtmosUtil_cstring_append_all E (user_acl_header s)
                           (acl_pieces ATMOS_HEADER_USER_ACL (first_user s) (p, t, perm));
               Some (s\<lparr>user_acl_header := hs, first_user := False\<rparr>) })"
  by (cases t) (auto simp: acl_header_entry_def acl_pieces_def)

lemma acl_hs_append:
  assumes "acl_hs_inv name L hs first" "mem_ok E" "cstring name" "cstring p" "e = (p, t, perm)"
  shows "\<exists>hs'. AtmosUtil_cstring_append_all E hs (acl_pieces name first e) = Some hs' \<and>
           acl_hs_inv name (L @ [e]) hs' False"
proof -
  have inv: "hstring_inv hs \<and> mem_ok E" using assms(1,2) by (simp add: acl_hs_inv_def)
  have cs: "\<forall>s \<in> set (acl_pieces name first e). cstring s" using assms(3-5) by (auto simp: acl_pieces_def)
  from hstr.append_all_ok[OF inv cs] obtain hs'
    where hs': "AtmosUtil_cstring_append_all E hs (acl_pieces name first e) = Some hs'" "hstring_inv hs'"
      "hstring_content hs' = hstring_content hs @ concat (acl_pieces name first e)" "fst hs' \<noteq> None"
    by (auto simp: acl_pieces_def split: prod.splits)
  have "hstring_content hs' = acl_line name (L @ [e])"
    using hs'(3) assms(1,5)
    by (cases "L = []") (auto simp: acl_hs_inv_def acl_line_def acl_pieces_def acl_text_def join_with_snoc)
  then show ?thesis using hs' by (auto simp: acl_hs_inv_def)
qed

definition acl_state_inv :: "acl_view list \<Rightarrow> acl_state \<Rightarrow> bool" where
  "acl_state_inv L s \<longleftrightarrow>
     acl_hs_inv ATMOS_HEADER_USER_ACL (acl_users L) (user_acl_header s) (first_user s) \<and>
     acl_hs_inv ATMOS_HEADER_GROUP_ACL (acl_groups L) (group_acl_header s) (first_group s)"

lemma acl_header_loop:
  assumes "mem_ok E" "\<forall>e \<in> set L. cstring (fst e)"
  shows "\<exists>s. foldM (acl_header_entry E) acl_state_init L = Some s \<and> acl_state_inv L s"
  using assms(2)
proof (induction L rule: rev_induct)
  case Nil
  then show ?case
    by (simp add: acl_state_inv_def acl_hs_inv_def acl_users_def acl_groups_def acl_state_init_def)
next
  case (snoc e L)
  obtain p t perm where e: "e = (p, t, perm)" by (cases e)
  have p: "cstring p" using snoc.prems e by auto
  from snoc obtain s where s: "foldM (acl_header_entry E) acl_state_init L = Some s" "acl_state_inv L s" by auto
  have "\<exists>s'. acl_header_entry E s e = Some s' \<and> acl_state_inv (L @ [e]) s'"
  proof (cases t)
    case ATMOS_USER
    then show ?thesis
      using acl_hs_append[OF _ assms(1) _ p e, of ATMOS_HEADER_USER_ACL "acl_users L" "user_acl_header s" "first_user s"] s(2)
      by (auto simp: acl_state_inv_def acl_users_def acl_groups_def e acl_header_entry_pieces)
  next
    case ATMOS_GROUP
    then show ?thesis
      using acl_hs_append[OF _ assms(1) _ p e, of ATMOS_HEADER_GROUP_ACL "acl_groups L" "group_acl_header s" "first_group s"] s(2)
      by (auto simp: acl_state_inv_def acl_users_def acl_groups_def e acl_header_entry_pieces)
  qed
  then show ?case using s(1) by auto
qed

lemma acl_hs_size: "acl_hs_inv name L hs first \<Longrightarrow> 0 < snd hs \<longleftrightarrow> L \<noteq> []"
proof -
  assume a: "acl_hs_inv name L hs first"
  obtain buf n where hs: "hs = (buf, n)" by (cases hs)
  show ?thesis
  proof (cases buf)
    case (Some b)
    then have "c_str b \<noteq> None" "n = length b" using a hs by (auto simp: acl_hs_inv_def hstring_inv_def)
    then have "0 < n" using c_str_length by fastforce
    then show ?thesis using a hs by (auto simp: acl_hs_inv_def)
  qed (use a hs in \<open>auto simp: acl_hs_inv_def split: if_splits\<close>)
qed

lemma acl_hs_text: "acl_hs_inv name L hs first \<Longrightarrow> L \<noteq> [] \<Longrightarrow> hstring_text hs = Some (acl_line name L)"
  by (cases hs) (auto simp: acl_hs_inv_def hstring_inv_def hstring_content_def hstring_text_def)

lemma acl_view_cstring:
  assumes "arr_holds acl_entry_view acl n L" "e \<in> set L"
  shows "cstring (fst e)"
  using arr_holds_view[OF assms] by (auto simp: acl_entry_view_def bind_eq_Some_conv c_str_cstring)

lemma foldM_enumerate_snd: "foldM (\<lambda>s (i, y). g s y) s (enumerate k L) = foldM g s L"
  by (induction L arbitrary: k s) (auto split: Option.bind_splits)

lemma set_acl_header_lines:
  assumes "mem_ok E" "arr_holds acl_entry_view acl n L"
  shows "AtmosUtil_set_acl_header E acl n request = Some (add_headers E request (acl_header_lines L))"
proof (cases "L = []")
  case True
  then show ?thesis using assms(2)
    by (simp add: arr_holds_def AtmosUtil_set_acl_header_def acl_header_lines_def acl_users_def acl_groups_def)
next
  case False
  then have n: "\<not> n < 1" using assms(2) by (cases L) (auto simp: arr_holds_def)
  have "\<forall>e \<in> set L. cstring (fst e)" using acl_view_cstring[OF assms(2)] by blast
  then obtain s where s: "foldM (acl_header_entry E) acl_state_init L = Some s" "acl_state_inv L s"
    using acl_header_loop[OF assms(1)] by blast
  then have u: "acl_hs_inv ATMOS_HEADER_USER_ACL (acl_users L) (user_acl_header s) (first_user s)"
    and g: "acl_hs_inv ATMOS_HEADER_GROUP_ACL (acl_groups L) (group_acl_header s) (first_group s)"
    by (auto simp: acl_state_inv_def)
  have "foldM (\<lambda>s i. do { a \<leftarrow> arr_get acl (int i); entry \<leftarrow> acl_entry_view a; acl_header_entry E s entry })
          acl_state_init [0..<nat n] = Some s"
    using foldM_arr_holds[OF assms(2), of "\<lambda>s i. acl_header_entry E s"] s(1) by (simp add: foldM_enumerate_snd)
  then show ?thesis
    using n acl_hs_size[OF u] acl_hs_size[OF g] acl_hs_text[OF u] acl_hs_text[OF g]
    by (simp add: AtmosUtil_set_acl_header_def acl_header_lines_def)
qed

section \<open>Tags\<close>

text \<open>
  The two functions differ in the type of the array only: \<open>AtmosUtil_set_tags_header\<close> takes fixed
  arrays, \<open>AtmosUtil_set_tags_header2\<close> an array of pointers (\<open>NULL\<close> or a list of strings).
\<close>

definition tags_header_entry :: "env \<Rightarrow> int \<Rightarrow> hstring \<Rightarrow> nat \<Rightarrow> string \<Rightarrow> hstring option" where
  "tags_header_entry E utf8 header i tag = do {
     header \<leftarrow> (if 0 < i then AtmosUtil_cstring_append E header '', '' else Some header);
     if utf8 \<noteq> 0 then
       (case curl_easy_escape E tag of
          None \<Rightarrow> Some header
        | Some encoded_tag \<Rightarrow> AtmosUtil_cstring_append E header encoded_tag)
     else AtmosUtil_cstring_append E header tag
   }"

definition AtmosUtil_set_tags_header :: "env \<Rightarrow> request \<Rightarrow> buffer list \<Rightarrow> int \<Rightarrow> int \<Rightarrow> request option" where
  "AtmosUtil_set_tags_header E request tags tag_count utf8 =
     (if tag_count < 1 then Some request
      else do {
        header \<leftarrow> AtmosUtil_cstring_append E empty_hstring (ATMOS_HEADER_TAGS @ '': '');
        header \<leftarrow> foldM (\<lambda>hs i. do { b \<leftarrow> arr_get tags (int i); tag \<leftarrow> c_str b; tags_header_entry E utf8 hs i tag })
                    header [0..<nat tag_count];
        text \<leftarrow> hstring_text header;
        Some (add_header E request text)
      })"

definition AtmosUtil_set_tags_header2 :: "env \<Rightarrow> request \<Rightarrow> string list option \<Rightarrow> int \<Rightarrow> int \<Rightarrow> request option" where
  "AtmosUtil_set_tags_header2 E request tags tag_count utf8 =
     (case tags of None \<Rightarrow> Some request | Some tags \<Rightarrow>
      if tag_count < 1 then Some request
      else do {
        header \<leftarrow> AtmosUtil_cstring_append E empty_hstring (ATMOS_HEADER_TAGS @ '': '');
        header \<leftarrow> foldM (\<lambda>hs i. do { tag \<leftarrow> arr_get tags (int i); tags_header_entry E utf8 hs i tag })
                    header [0..<nat tag_count];
        text \<leftarrow> hstring_text header;
        Some (add_header E request text)
      })"

definition tag_text :: "env \<Rightarrow> int \<Rightarrow> string \<Rightarrow> string" where
  "tag_text E utf8 tag = (if utf8 \<noteq> 0 then the (curl_easy_escape E tag) else tag)"

definition tags_line :: "env \<Rightarrow> int \<Rightarrow> string list \<Rightarrow> string" where
  "tags_line E utf8 L = ATMOS_HEADER_TAGS @ '': '' @ join_with '', '' (map (tag_text E utf8) L)"

lemma tags_loop:
  assumes "mem_ok E" "utf8 \<noteq> 0 \<Longrightarrow> escape_total E" "\<forall>t \<in> set L. cstring t"
  shows "\<exists>hs. do { hs \<leftarrow> AtmosUtil_cstring_append E empty_hstring (ATMOS_HEADER_TAGS @ '': '');
                   foldM (\<lambda>s (i, y). tags_header_entry E utf8 s i y) hs (enumerate 0 L) } = Some hs \<and>
              hstring_text hs = Some (tags_line E utf8 L)"
proof -
  let ?p = "\<lambda>(i, t). (if (0::nat) < i then ['', ''] else []) @ [tag_text E utf8 t]"
  have enc: "utf8 = 0 \<or> curl_easy_escape E t = Some (tag_text E utf8 t) \<and> cstring (tag_text E utf8 t)" if "cstring t" for t
    using assms(2) that by (auto simp: tag_text_def escape_total_def) (metis option.sel)+
  have step: "(case x of (i, y) \<Rightarrow> tags_header_entry E utf8 s i y) = AtmosUtil_cstring_append_all E s (?p x)"
    if "cstring (snd x)" for s x
    using enc[OF that]
    by (cases x; cases "curl_easy_escape E (snd x)") (auto simp: tags_header_entry_def tag_text_def)
  have cs: "cstring (snd x)" if "x \<in> set (enumerate 0 L)" for x
  proof -
    have "snd x \<in> set L" using that by (auto simp: in_set_enumerate_eq dest!: sym[of "L ! _"])
    then show ?thesis using assms(3) by blast
  qed
  have "foldM (\<lambda>s (i, y). tags_header_entry E utf8 s i y) hs (enumerate 0 L) =
        foldM (\<lambda>s x. AtmosUtil_cstring_append_all E s (?p x)) hs (enumerate 0 L)" for hs
    by (rule foldM_cong[OF refl refl]) (use step cs in blast)
  then have "foldM (\<lambda>s (i, y). tags_header_entry E utf8 s i y) hs (enumerate 0 L) =
        AtmosUtil_cstring_append_all E hs (concat (map ?p (enumerate 0 L)))" for hs
    by (simp only: foldM_concat)
  moreover have "cstring (tag_text E utf8 t)" if "t \<in> set L" for t
    using enc[of t] assms(3) that by (auto simp: tag_text_def)
  then have "\<forall>s \<in> set ((ATMOS_HEADER_TAGS @ '': '') # concat (map ?p (enumerate 0 L))). cstring s"
    by (auto simp: in_set_enumerate_eq split: if_splits)
  moreover have "concat (concat (map ?p (enumerate 0 L))) = join_with '', '' (map (tag_text E utf8) L)"
  proof -
    have flat: "concat (concat (map ?p xs)) = concat (map (\<lambda>(i, t). (if 0 < i then '', '' else []) @ tag_text E utf8 t) xs)" for xs
      by (induction xs) auto
    show ?thesis by (rule trans[OF flat join_with_enumerate])
  qed
  ultimately show ?thesis
    using append_all_text[OF assms(1), of "(ATMOS_HEADER_TAGS @ '': '') # concat (map ?p (enumerate 0 L))"]
    by (auto simp: tags_line_def)
qed

lemma arr_holds_c_str_cstring:
  assumes "arr_holds c_str tags n L" "t \<in> set L"
  shows "cstring t"
  using arr_holds_view[OF assms] by (auto simp: c_str_cstring)

lemma set_tags_header_line:
  assumes "mem_ok E" "utf8 \<noteq> 0 \<Longrightarrow> escape_total E" "arr_holds c_str tags n L" "L \<noteq> []"
  shows "AtmosUtil_set_tags_header E request tags n utf8 = Some (add_header E request (tags_line E utf8 L))"
proof -
  have n: "\<not> n < 1" using assms(3,4) by (cases L) (auto simp: arr_holds_def)
  have "\<forall>t \<in> set L. cstring t" using arr_holds_c_str_cstring[OF assms(3)] by blast
  from tags_loop[of E utf8 L, OF assms(1,2) this] show ?thesis using n
    by (auto simp: AtmosUtil_set_tags_header_def foldM_arr_holds[OF assms(3)] bind_eq_Some_conv)
qed

lemma set_tags_header2_line:
  assumes "mem_ok E" "utf8 \<noteq> 0 \<Longrightarrow> escape_total E" "\<forall>t \<in> set L. cstring t" "L \<noteq> []"
  shows "AtmosUtil_set_tags_header2 E request (Some L) (int (length L)) utf8 =
           Some (add_header E request (tags_line E utf8 L))"
proof -
  have h: "arr_holds Some L (int (length L)) L" by (simp add: arr_holds_def)
  have n: "\<not> int (length L) < 1" using assms(4) by (cases L) auto
  from tags_loop[of E utf8 L, OF assms(1,2,3)] show ?thesis using n
    by (auto simp: AtmosUtil_set_tags_header2_def foldM_arr_holds[OF h, simplified] bind_eq_Some_conv)
qed

end
