(* ===== verification/Requests.thy ===== *)
theory Requests
  imports Checksum Header_Writers
begin

text \<open>
  The request objects (\<open>atmos_common.c\<close>, \<open>atmos_create.c\<close>, \<open>atmos_update.c\<close>,
  \<open>atmos_read.c\<close>, \<open>atmos_versions.c\<close>, \<open>atmos_access_tokens.c\<close>): their constructors
  and the operations that add metadata, ACL entries, tags and ranges.

  A constructor returns \<open>Some None\<close> for \<open>NULL\<close> (it refuses the path) and
  \<open>Some (Some r)\<close> for the object; \<open>None\<close> is undefined behaviour, as everywhere. The
  operations that add to an array share a contract, the locale \<open>array_field\<close>.
\<close>

section \<open>Zeroed parts\<close>

definition zero_write_part :: write_part where
  "zero_write_part = \<lparr>w_meta = replicate ATMOS_META_COUNT_MAX zero_metadata, w_meta_count = 0,
     w_listable_meta = replicate ATMOS_META_COUNT_MAX zero_metadata, w_listable_meta_count = 0,
     w_acl = replicate ATMOS_ACL_COUNT_MAX zero_acl_entry, w_acl_count = 0, w_checksum = None\<rparr>"

definition zero_update_part :: update_part where
  "zero_update_part = \<lparr>up_object_id = zeros ATMOS_UID_MAX, up_path = zeros ATMOS_PATH_MAX,
     up_pool = zeros ATMOS_PATH_MAX, up_range_start = 0, up_range_end = 0\<rparr>"

definition zero_set_user_meta_part :: set_user_meta_part where
  "zero_set_user_meta_part = \<lparr>su_object_id = zeros ATMOS_UID_MAX, su_path = zeros ATMOS_PATH_MAX,
     su_pool = zeros ATMOS_PATH_MAX\<rparr>"

definition zero_read_part :: read_part where
  "zero_read_part = \<lparr>rd_path = zeros ATMOS_PATH_MAX, rd_pool = zeros ATMOS_PATH_MAX,
     rd_object_id = zeros ATMOS_OID_LENGTH, rd_range_start = 0, rd_range_end = 0\<rparr>"

definition zero_meta_request_part :: meta_request_part where
  "zero_meta_request_part = \<lparr>mr_object_id = zeros ATMOS_OID_LENGTH, mr_path = zeros ATMOS_PATH_MAX,
     mr_pool = zeros ATMOS_PATH_MAX, mr_tags = replicate ATMOS_META_COUNT_MAX (zeros ATMOS_META_NAME_MAX),
     mr_tag_count = 0\<rparr>"

definition zero_page_part :: page_part where
  "zero_page_part = \<lparr>pg_limit = 0, pg_token = zeros ATMOS_TOKEN_MAX\<rparr>"

definition zero_list_directory_part :: list_directory_part where
  "zero_list_directory_part = \<lparr>ld_path = zeros ATMOS_PATH_MAX, ld_include_meta = 0,
     ld_user_tags = replicate ATMOS_META_COUNT_MAX (zeros ATMOS_META_NAME_MAX), ld_user_tag_count = 0,
     ld_system_tags = replicate ATMOS_SYSTEM_META_COUNT_MAX (zeros ATMOS_META_NAME_MAX), ld_system_tag_count = 0\<rparr>"

definition zero_list_objects_part :: list_objects_part where
  "zero_list_objects_part = \<lparr>lo_tag = zeros ATMOS_PATH_MAX, lo_include_meta = 0,
     lo_user_tags = replicate ATMOS_META_COUNT_MAX (zeros ATMOS_META_NAME_MAX), lo_user_tag_count = 0,
     lo_system_tags = replicate ATMOS_SYSTEM_META_COUNT_MAX (zeros ATMOS_META_NAME_MAX), lo_system_tag_count = 0\<rparr>"

definition zero_token_request_part :: token_request_part where
  "zero_token_request_part = \<lparr>tk_object_id = zeros ATMOS_OID_LENGTH, tk_path = zeros ATMOS_PATH_MAX,
     tk_meta = replicate ATMOS_META_COUNT_MAX zero_metadata, tk_meta_count = 0,
     tk_listable_meta = replicate ATMOS_META_COUNT_MAX zero_metadata, tk_listable_meta_count = 0,
     tk_acl = replicate ATMOS_ACL_COUNT_MAX zero_acl_entry, tk_acl_count = 0, tk_policy = None\<rparr>"

section \<open>Requests that write objects\<close>

definition new_request :: "env \<Rightarrow> string \<Rightarrow> http_method \<Rightarrow> string \<Rightarrow> request_sub \<Rightarrow> request" where
  "new_request E uri m cls sub = \<lparr>r_base = (RestRequest_init E uri m)\<lparr>rq_class_name := cls\<rparr>, r_sub = sub\<rparr>"

definition set_class :: "string \<Rightarrow> request \<Rightarrow> request" where
  "set_class cls r = upd_base (\<lambda>b. b\<lparr>rq_class_name := cls\<rparr>) r"

text \<open>
  \<open>sub\<close> is the rest of the object that the constructor is called on, which it leaves alone; the
  subclasses' constructors set it afterwards.
\<close>

definition AtmosWriteObjectRequest_init :: "env \<Rightarrow> write_sub \<Rightarrow> string \<Rightarrow> http_method \<Rightarrow> request" where
  "AtmosWriteObjectRequest_init E sub uri m =
     new_request E uri m ''AtmosWriteObjectRequest'' (Write_request zero_write_part sub)"

definition AtmosWriteObjectRequest_destroy :: "env \<Rightarrow> request \<Rightarrow> request option" where
  "AtmosWriteObjectRequest_destroy E self =
     (case r_sub self of
        Write_request w sub \<Rightarrow> Some \<lparr>r_base = RestRequest_destroy E (r_base self), r_sub = Write_request zero_write_part sub\<rparr>
      | _ \<Rightarrow> None)"

definition push_metadata :: "AtmosMetadata list \<Rightarrow> int \<Rightarrow> string \<Rightarrow> string \<Rightarrow> (AtmosMetadata list \<times> int) option" where
  "push_metadata meta i name value = do {
     m \<leftarrow> arr_get meta i;
     n \<leftarrow> strncpy (md_name m) name ATMOS_META_NAME_MAX;
     v \<leftarrow> strncpy (md_value m) value ATMOS_META_VALUE_MAX;
     meta \<leftarrow> arr_set meta i (m\<lparr>md_name := n, md_value := v\<rparr>);
     Some (meta, i + 1)
   }"

definition AtmosWriteObjectRequest_add_metadata :: "request \<Rightarrow> string \<Rightarrow> string \<Rightarrow> int \<Rightarrow> request option" where
  "AtmosWriteObjectRequest_add_metadata self name value listable =
     (case r_sub self of
        Write_request w sub \<Rightarrow>
          if listable \<noteq> 0 then do {
            (meta, n) \<leftarrow> push_metadata (w_listable_meta w) (w_listable_meta_count w) name value;
            Some (self\<lparr>r_sub := Write_request (w\<lparr>w_listable_meta := meta, w_listable_meta_count := n\<rparr>) sub\<rparr>)
          } else do {
            (meta, n) \<leftarrow> push_metadata (w_meta w) (w_meta_count w) name value;
            Some (self\<lparr>r_sub := Write_request (w\<lparr>w_meta := meta, w_meta_count := n\<rparr>) sub\<rparr>)
          }
      | _ \<Rightarrow> None)"

definition AtmosWriteObjectRequest_add_acl ::
    "request \<Rightarrow> string \<Rightarrow> atmos_acl_principal_type \<Rightarrow> atmos_acl_permission \<Rightarrow> request option" where
  "AtmosWriteObjectRequest_add_acl self p type perm =
     (case r_sub self of
        Write_request w sub \<Rightarrow> do {
          a \<leftarrow> arr_get (w_acl w) (w_acl_count w);
          b \<leftarrow> strcpy (principal a) p;
          acl \<leftarrow> arr_set (w_acl w) (w_acl_count w) (a\<lparr>permission := perm, acl_type := type, principal := b\<rparr>);
          Some (self\<lparr>r_sub := Write_request (w\<lparr>w_acl := acl, w_acl_count := w_acl_count w + 1\<rparr>) sub\<rparr>)
        }
      | _ \<Rightarrow> None)"

text \<open>
  The filter the REST library calls on every block it sends from a file. The checksum object is
  the one the request points to.
\<close>

definition AtmosWriteObjectRequest_checksum_filter :: "env \<Rightarrow> request \<Rightarrow> char list \<Rightarrow> (int \<times> request) option" where
  "AtmosWriteObjectRequest_checksum_filter E request data =
     (case r_sub request of
        Write_request w sub \<Rightarrow>
          (case w_checksum w of
             None \<Rightarrow> Some (1, request)
           | Some c \<Rightarrow> Some (1, request\<lparr>r_sub := Write_request (w\<lparr>w_checksum := Some (AtmosChecksum_update E c data)\<rparr>) sub\<rparr>))
      | _ \<Rightarrow> None)"

subsection \<open>Create\<close>

text \<open>
  \<open>AtmosCreateObjectRequest_common_init\<close> means to zero the members \<open>path\<close> and \<open>pool\<close>, but
  its \<open>memset\<close> starts behind the \<open>RestRequest\<close>: it zeroes that many bytes of the metadata
  array, which is zero already, and leaves \<open>path\<close> and \<open>pool\<close> as they were.
\<close>

definition junk_create_part :: "env \<Rightarrow> create_part" where
  "junk_create_part E = \<lparr>cr_path = replicate ATMOS_PATH_MAX (junk E), cr_pool = replicate ATMOS_PATH_MAX (junk E)\<rparr>"

definition AtmosCreateObjectRequest_common_init :: "request \<Rightarrow> request" where
  "AtmosCreateObjectRequest_common_init self = set_class ''AtmosCreateObjectRequest'' self"

definition AtmosCreateObjectRequest_init :: "env \<Rightarrow> request" where
  "AtmosCreateObjectRequest_init E =
     AtmosCreateObjectRequest_common_init
       (AtmosWriteObjectRequest_init E (Create_sub (junk_create_part E)) ''/rest/objects'' HTTP_POST)"

definition starts_with_slash :: "string \<Rightarrow> bool" where
  "starts_with_slash path \<longleftrightarrow> (case path of [] \<Rightarrow> False | c # _ \<Rightarrow> c = CHR ''/'')"

definition AtmosCreateObjectRequest_init_ns :: "env \<Rightarrow> string \<Rightarrow> request option option" where
  "AtmosCreateObjectRequest_init_ns E path =
     (if \<not> starts_with_slash path then Some None
      else do {
        p \<leftarrow> strncpy (cr_path (junk_create_part E)) path ATMOS_PATH_MAX;
        Some (Some (AtmosCreateObjectRequest_common_init
          (AtmosWriteObjectRequest_init E (Create_sub ((junk_create_part E)\<lparr>cr_path := p\<rparr>))
             (snprintf_text ATMOS_PATH_MAX (''/rest/namespace'' @ path)) HTTP_POST)))
      })"

definition pool_header :: "string \<Rightarrow> string" where
  "pool_header pool = snprintf_text ATMOS_PATH_MAX (ATMOS_HEADER_POOL @ '': '' @ pool)"

definition AtmosCreateObjectRequest_init_keypool :: "env \<Rightarrow> string \<Rightarrow> string \<Rightarrow> request option" where
  "AtmosCreateObjectRequest_init_keypool E pool key = do {
     p \<leftarrow> strncpy (cr_path (junk_create_part E)) key ATMOS_PATH_MAX;
     q \<leftarrow> strncpy (cr_pool (junk_create_part E)) pool ATMOS_PATH_MAX;
     Some (add_header E
       (AtmosCreateObjectRequest_common_init
          (AtmosWriteObjectRequest_init E (Create_sub \<lparr>cr_path = p, cr_pool = q\<rparr>)
             (snprintf_text ATMOS_PATH_MAX (''/rest/namespace/'' @ key)) HTTP_POST))
       (pool_header pool))
   }"

definition AtmosCreateObjectRequest_add_metadata :: "request \<Rightarrow> string \<Rightarrow> string \<Rightarrow> int \<Rightarrow> request option" where
  "AtmosCreateObjectRequest_add_metadata self name value listable =
     AtmosWriteObjectRequest_add_metadata self name value listable"

definition AtmosCreateObjectRequest_add_acl ::
    "request \<Rightarrow> string \<Rightarrow> atmos_acl_principal_type \<Rightarrow> atmos_acl_permission \<Rightarrow> request option" where
  "AtmosCreateObjectRequest_add_acl self p type perm = AtmosWriteObjectRequest_add_acl self p type perm"

definition AtmosCreateObjectRequest_destroy :: "env \<Rightarrow> request \<Rightarrow> request option" where
  "AtmosCreateObjectRequest_destroy E self =
     (case r_sub self of
        Write_request w (Create_sub c) \<Rightarrow>
          AtmosWriteObjectRequest_destroy E
            (self\<lparr>r_sub := Write_request w (Create_sub \<lparr>cr_path = zeros ATMOS_PATH_MAX, cr_pool = zeros ATMOS_PATH_MAX\<rparr>)\<rparr>)
      | _ \<Rightarrow> None)"

subsection \<open>Update\<close>

text \<open>
  The constructors build the base and write part, zero all of it again
  (\<open>OBJECT_ZERO(self, AtmosUpdateObjectRequest, RestRequest)\<close>) and set the range to none.
\<close>

definition AtmosUpdateObjectRequest_init_common :: "request \<Rightarrow> request" where
  "AtmosUpdateObjectRequest_init_common self =
     set_class ''AtmosUpdateObjectRequest''
       (self\<lparr>r_sub := Write_request zero_write_part
           (Update_sub (zero_update_part\<lparr>up_range_start := -1, up_range_end := -1\<rparr>))\<rparr>)"

definition upd_update :: "(update_part \<Rightarrow> update_part option) \<Rightarrow> request \<Rightarrow> request option" where
  "upd_update f self =
     (case r_sub self of
        Write_request w (Update_sub u) \<Rightarrow> do { u' \<leftarrow> f u; Some (self\<lparr>r_sub := Write_request w (Update_sub u')\<rparr>) }
      | _ \<Rightarrow> None)"

definition AtmosUpdateObjectRequest_init :: "env \<Rightarrow> string \<Rightarrow> request option" where
  "AtmosUpdateObjectRequest_init E object_id =
     upd_update (\<lambda>u. do { b \<leftarrow> strncpy (up_object_id u) object_id ATMOS_OID_LENGTH; Some (u\<lparr>up_object_id := b\<rparr>) })
       (AtmosUpdateObjectRequest_init_common
          (AtmosWriteObjectRequest_init E Write_only
             (snprintf_text (ATMOS_OID_LENGTH + 64) (''/rest/objects/'' @ object_id)) HTTP_PUT))"

definition AtmosUpdateObjectRequest_init_ns :: "env \<Rightarrow> string \<Rightarrow> request option option" where
  "AtmosUpdateObjectRequest_init_ns E path =
     (if \<not> starts_with_slash path then Some None
      else map_option Some
        (upd_update (\<lambda>u. do { b \<leftarrow> strncpy (up_path u) path ATMOS_PATH_MAX; Some (u\<lparr>up_path := b\<rparr>) })
          (AtmosUpdateObjectRequest_init_common
             (AtmosWriteObjectRequest_init E Write_only
                (snprintf_text (ATMOS_PATH_MAX + 64) (''/rest/namespace'' @ path)) HTTP_PUT))))"

definition AtmosUpdateObjectRequest_init_keypool :: "env \<Rightarrow> string \<Rightarrow> string \<Rightarrow> request option" where
  "AtmosUpdateObjectRequest_init_keypool E pool key =
     upd_update (\<lambda>u. do { p \<leftarrow> strncpy (up_path u) key ATMOS_PATH_MAX;
                          q \<leftarrow> strncpy (up_pool u) pool ATMOS_PATH_MAX;
                          Some (u\<lparr>up_path := p, up_pool := q\<rparr>) })
       (add_header E
          (AtmosUpdateObjectRequest_init_common
             (AtmosWriteObjectRequest_init E Write_only
                (snprintf_text (ATMOS_PATH_MAX + 64) (''/rest/namespace/'' @ key)) HTTP_PUT))
          (pool_header pool))"

definition AtmosUpdateObjectRequest_add_metadata :: "request \<Rightarrow> string \<Rightarrow> string \<Rightarrow> int \<Rightarrow> request option" where
  "AtmosUpdateObjectRequest_add_metadata self name value listable =
     AtmosWriteObjectRequest_add_metadata self name value listable"

definition AtmosUpdateObjectRequest_add_acl ::
    "request \<Rightarrow> string \<Rightarrow> atmos_acl_principal_type \<Rightarrow> atmos_acl_permission \<Rightarrow> request option" where
  "AtmosUpdateObjectRequest_add_acl self p type perm = AtmosWriteObjectRequest_add_acl self p type perm"

definition AtmosUpdateObjectRequest_set_range :: "request \<Rightarrow> int \<Rightarrow> int \<Rightarrow> request option" where
  "AtmosUpdateObjectRequest_set_range self range_start range_end =
     upd_update (\<lambda>u. Some (u\<lparr>up_range_start := range_start, up_range_end := range_end\<rparr>)) self"

text \<open>\<open>offset + size - 1\<close> in \<open>int64_t\<close>: signed overflow is undefined.\<close>

definition range_last :: "int \<Rightarrow> int \<Rightarrow> int option" where
  "range_last offset sz =
     (if offset + sz = to_int64 (offset + sz) \<and> offset + sz - 1 = to_int64 (offset + sz - 1)
      then Some (offset + sz - 1) else None)"

definition AtmosUpdateObjectRequest_set_range_offset_size :: "request \<Rightarrow> int \<Rightarrow> int \<Rightarrow> request option" where
  "AtmosUpdateObjectRequest_set_range_offset_size self offset sz =
     upd_update (\<lambda>u. do { e \<leftarrow> range_last offset sz; Some (u\<lparr>up_range_start := offset, up_range_end := e\<rparr>) }) self"

definition AtmosUpdateObjectRequest_destroy :: "env \<Rightarrow> request \<Rightarrow> request option" where
  "AtmosUpdateObjectRequest_destroy E self =
     Option.bind (upd_update (\<lambda>u. Some zero_update_part) self) (AtmosWriteObjectRequest_destroy E)"

subsection \<open>Set user metadata\<close>

definition AtmosSetUserMetaRequest_init_common :: "request \<Rightarrow> request option" where
  "AtmosSetUserMetaRequest_init_common self =
     (case r_sub self of
        Write_request w sub \<Rightarrow>
          Some (set_class ''AtmosSetUserMetaRequest'' (self\<lparr>r_sub := Write_request w (SetUserMeta_sub zero_set_user_meta_part)\<rparr>))
      | _ \<Rightarrow> None)"

definition upd_set_user_meta :: "(set_user_meta_part \<Rightarrow> set_user_meta_part option) \<Rightarrow> request \<Rightarrow> request option" where
  "upd_set_user_meta f self =
     (case r_sub self of
        Write_request w (SetUserMeta_sub u) \<Rightarrow> do { u' \<leftarrow> f u; Some (self\<lparr>r_sub := Write_request w (SetUserMeta_sub u')\<rparr>) }
      | _ \<Rightarrow> None)"

definition AtmosSetUserMetaRequest_init :: "env \<Rightarrow> string \<Rightarrow> request option" where
  "AtmosSetUserMetaRequest_init E object_id = do {
     self \<leftarrow> AtmosSetUserMetaRequest_init_common
       (AtmosWriteObjectRequest_init E Write_only
          (snprintf_text (ATMOS_OID_LENGTH + 64) (''/rest/objects/'' @ object_id @ ''?metadata/user'')) HTTP_POST);
     upd_set_user_meta (\<lambda>u. do { b \<leftarrow> strncpy (su_object_id u) object_id ATMOS_OID_LENGTH; Some (u\<lparr>su_object_id := b\<rparr>) }) self
   }"

definition AtmosSetUserMetaRequest_init_ns :: "env \<Rightarrow> string \<Rightarrow> request option option" where
  "AtmosSetUserMetaRequest_init_ns E path =
     (if \<not> starts_with_slash path then Some None
      else do {
        self \<leftarrow> AtmosSetUserMetaRequest_init_common
          (AtmosWriteObjectRequest_init E Write_only
             (snprintf_text (ATMOS_PATH_MAX + 64) (''/rest/namespace'' @ path @ ''?metadata/user'')) HTTP_POST);
        self \<leftarrow> upd_set_user_meta (\<lambda>u. do { b \<leftarrow> strncpy (su_path u) path ATMOS_PATH_MAX; Some (u\<lparr>su_path := b\<rparr>) }) self;
        Some (Some self)
      })"

definition AtmosSetUserMetaRequest_init_keypool :: "env \<Rightarrow> string \<Rightarrow> string \<Rightarrow> request option" where
  "AtmosSetUserMetaRequest_init_keypool E pool key = do {
     self \<leftarrow> AtmosSetUserMetaRequest_init_common
       (AtmosWriteObjectRequest_init E Write_only
          (snprintf_text (ATMOS_PATH_MAX + 64) (''/rest/namespace/'' @ key @ ''?metadata/user'')) HTTP_POST);
     upd_set_user_meta (\<lambda>u. do { p \<leftarrow> strncpy (su_path u) key ATMOS_PATH_MAX;
                                 q \<leftarrow> strncpy (su_pool u) pool ATMOS_PATH_MAX;
                                 Some (u\<lparr>su_path := p, su_pool := q\<rparr>) })
       (add_header E self (pool_header pool))
   }"

definition AtmosSetUserMetaRequest_add_metadata :: "request \<Rightarrow> string \<Rightarrow> string \<Rightarrow> int \<Rightarrow> request option" where
  "AtmosSetUserMetaRequest_add_metadata self name value listable =
     AtmosWriteObjectRequest_add_metadata self name value listable"

definition AtmosSetUserMetaRequest_destroy :: "env \<Rightarrow> request \<Rightarrow> request option" where
  "AtmosSetUserMetaRequest_destroy E self =
     Option.bind (upd_set_user_meta (\<lambda>u. Some zero_set_user_meta_part) self) (AtmosWriteObjectRequest_destroy E)"

section \<open>The contract of the operations that add to an array\<close>

text \<open>
  \<open>holds r L\<close>: the array of the object \<open>r\<close> contains \<open>L\<close>. An operation adds an element that
  fits at the end while there is room. Nothing checks for room: with a full array it writes
  outside of it.
\<close>

locale array_field =
  fixes add :: "'r \<Rightarrow> 'x \<Rightarrow> 'r option"
    and holds :: "'r \<Rightarrow> 'x list \<Rightarrow> bool"
    and fits :: "'x \<Rightarrow> bool"
    and capacity :: nat
  assumes add_ok: "holds r L \<Longrightarrow> fits x \<Longrightarrow> length L < capacity \<Longrightarrow> \<exists>r'. add r x = Some r' \<and> holds r' (L @ [x])"
    and add_full: "holds r L \<Longrightarrow> length L = capacity \<Longrightarrow> add r x = None"
begin

lemma add_all:
  assumes "holds r L" "\<forall>x \<in> set xs. fits x" "length L + length xs \<le> capacity"
  shows "\<exists>r'. foldM add r xs = Some r' \<and> holds r' (L @ xs)"
  using assms
proof (induction xs arbitrary: r L)
  case (Cons x xs)
  have "fits x" "length L < capacity" using Cons.prems(2,3) by simp_all
  from add_ok[OF Cons.prems(1) this] obtain r1 where r1: "add r x = Some r1" "holds r1 (L @ [x])" by blast
  then show ?case using Cons.IH[OF r1(2)] Cons.prems(2,3) by simp
qed simp

lemma add_too_many:
  assumes "holds r L" "\<forall>x \<in> set xs. fits x" "length L \<le> capacity" "capacity < length L + length xs"
  shows "foldM add r xs = None"
proof -
  define ys where "ys = take (capacity - length L) xs"
  obtain z zs where xs: "xs = ys @ z # zs"
    using assms(4) unfolding ys_def
    by (metis add.commute id_take_nth_drop less_diff_conv2 assms(3))
  have len: "length L + length ys = capacity" using assms(3,4) by (simp add: ys_def)
  have "\<forall>x \<in> set ys. fits x" using assms(2) xs by simp
  then obtain r' where "foldM add r ys = Some r'" "holds r' (L @ ys)"
    using add_all[OF assms(1)] len by auto
  moreover have "add r' z = None" by (rule add_full[OF \<open>holds r' (L @ ys)\<close>]) (use len in simp)
  ultimately show ?thesis using xs by simp
qed

end

lemma strncpy_fits:
  assumes "cstring s" "length s < n" "length b = n"
  shows "\<exists>b'. strncpy b s n = Some b' \<and> length b' = n \<and> c_str b' = Some s"
proof -
  obtain b' where b': "strncpy b s n = Some b'" using strncpy_ok[of n b s] assms(3) by auto
  then show ?thesis using strncpy_c_str[OF assms(1,2) b'] strncpy_length[OF b'] assms(3) by simp
qed

text \<open>An array of \<open>N\<close> well-formed elements whose first \<open>n\<close> ones mean \<open>L\<close>.\<close>

definition array_inv :: "('a \<Rightarrow> 'b option) \<Rightarrow> ('a \<Rightarrow> bool) \<Rightarrow> nat \<Rightarrow> 'a list \<Rightarrow> int \<Rightarrow> 'b list \<Rightarrow> bool" where
  "array_inv view ok N xs n L \<longleftrightarrow> arr_holds view xs n L \<and> length xs = N \<and> (\<forall>x \<in> set xs. ok x)"

lemma array_inv_zero: "ok z \<Longrightarrow> array_inv view ok N (replicate N z) 0 []"
  by (auto simp: array_inv_def)

lemma array_inv_get:
  assumes "array_inv view ok N xs n L" "length L < N"
  shows "\<exists>x. arr_get xs n = Some x \<and> ok x"
  using assms by (auto simp: array_inv_def arr_get_def arr_holds_def)

lemma array_inv_full:
  assumes "array_inv view ok N xs n L" "length L = N"
  shows "arr_get xs n = None"
  using assms by (auto simp: array_inv_def arr_get_def arr_holds_def)

lemma array_inv_push:
  assumes "array_inv view ok N xs n L" "length L < N" "view x = Some y" "ok x"
  shows "\<exists>ys. arr_set xs n x = Some ys \<and> array_inv view ok N ys (n + 1) (L @ [y])"
proof -
  have h: "arr_holds view xs n L" "length xs = N" "\<forall>x \<in> set xs. ok x" "n = int (length L)"
    using assms(1) by (auto simp: array_inv_def arr_holds_def)
  have set: "arr_set xs n x = Some (xs[length L := x])" using h assms(2) by (simp add: arr_set_def)
  have "\<forall>z \<in> set (xs[length L := x]). ok z"
    using h(3) assms(4) set_update_subset_insert[of xs "length L" x] by auto
  then show ?thesis using arr_holds_snoc[OF h(1) set assms(3)] set h(2) by (auto simp: array_inv_def)
qed

abbreviation meta_array_inv :: "AtmosMetadata list \<Rightarrow> int \<Rightarrow> (string \<times> string) list \<Rightarrow> bool" where
  "meta_array_inv \<equiv> array_inv metadata_pair wf_metadata ATMOS_META_COUNT_MAX"

abbreviation acl_array_inv :: "AtmosAclEntry list \<Rightarrow> int \<Rightarrow> acl_view list \<Rightarrow> bool" where
  "acl_array_inv \<equiv> array_inv acl_entry_view wf_acl_entry ATMOS_ACL_COUNT_MAX"

lemma push_metadata_ok:
  assumes "meta_array_inv meta n L" "meta_fits (name, value)" "length L < ATMOS_META_COUNT_MAX"
  shows "\<exists>meta'. push_metadata meta n name value = Some (meta', n + 1) \<and> meta_array_inv meta' (n + 1) (L @ [(name, value)])"
proof -
  obtain m where m: "arr_get meta n = Some m" "wf_metadata m" using array_inv_get[OF assms(1,3)] by blast
  obtain nb where nb: "strncpy (md_name m) name ATMOS_META_NAME_MAX = Some nb" "length nb = ATMOS_META_NAME_MAX"
      "c_str nb = Some name"
    using strncpy_fits[of name ATMOS_META_NAME_MAX "md_name m"] assms(2) m(2) by (auto simp: meta_fits_def wf_metadata_def)
  obtain vb where vb: "strncpy (md_value m) value ATMOS_META_VALUE_MAX = Some vb" "length vb = ATMOS_META_VALUE_MAX"
      "c_str vb = Some value"
    using strncpy_fits[of "value" ATMOS_META_VALUE_MAX "md_value m"] assms(2) m(2) by (auto simp: meta_fits_def wf_metadata_def)
  let ?m = "m\<lparr>md_name := nb, md_value := vb\<rparr>"
  have "metadata_pair ?m = Some (name, value)" "wf_metadata ?m"
    using nb vb by (simp_all add: metadata_pair_def wf_metadata_def)
  from array_inv_push[OF assms(1,3) this] show ?thesis using m nb vb by (auto simp: push_metadata_def)
qed

definition holds_meta :: "request \<Rightarrow> (string \<times> string) list \<Rightarrow> bool" where
  "holds_meta r L \<longleftrightarrow> (\<exists>w sub. r_sub r = Write_request w sub \<and> meta_array_inv (w_meta w) (w_meta_count w) L)"

definition holds_listable_meta :: "request \<Rightarrow> (string \<times> string) list \<Rightarrow> bool" where
  "holds_listable_meta r L \<longleftrightarrow>
     (\<exists>w sub. r_sub r = Write_request w sub \<and> meta_array_inv (w_listable_meta w) (w_listable_meta_count w) L)"

definition holds_acl :: "request \<Rightarrow> acl_view list \<Rightarrow> bool" where
  "holds_acl r L \<longleftrightarrow> (\<exists>w sub. r_sub r = Write_request w sub \<and> acl_array_inv (w_acl w) (w_acl_count w) L)"

definition acl_fits :: "acl_view \<Rightarrow> bool" where
  "acl_fits e \<longleftrightarrow> cstring (fst e) \<and> length (fst e) < ATMOS_UID_MAX"

interpretation meta_field: array_field
  "\<lambda>r p. AtmosWriteObjectRequest_add_metadata r (fst p) (snd p) 0" holds_meta meta_fits ATMOS_META_COUNT_MAX
proof unfold_locales
  fix r :: request and L :: "(string \<times> string) list" and x
  assume a: "holds_meta r L"
  then obtain w sub where w: "r_sub r = Write_request w sub" "meta_array_inv (w_meta w) (w_meta_count w) L"
    by (auto simp: holds_meta_def)
  show "\<exists>r'. AtmosWriteObjectRequest_add_metadata r (fst x) (snd x) 0 = Some r' \<and> holds_meta r' (L @ [x])"
    if "meta_fits x" "length L < ATMOS_META_COUNT_MAX"
    using push_metadata_ok[OF w(2), of "fst x" "snd x"] that w(1)
    by (auto simp: AtmosWriteObjectRequest_add_metadata_def holds_meta_def)
  show "AtmosWriteObjectRequest_add_metadata r (fst x) (snd x) 0 = None" if "length L = ATMOS_META_COUNT_MAX"
    using array_inv_full[OF w(2) that] w(1)
    by (simp add: AtmosWriteObjectRequest_add_metadata_def push_metadata_def)
qed

interpretation listable_field: array_field
  "\<lambda>r p. AtmosWriteObjectRequest_add_metadata r (fst p) (snd p) 1" holds_listable_meta meta_fits ATMOS_META_COUNT_MAX
proof unfold_locales
  fix r :: request and L :: "(string \<times> string) list" and x
  assume a: "holds_listable_meta r L"
  then obtain w sub where w: "r_sub r = Write_request w sub"
      "meta_array_inv (w_listable_meta w) (w_listable_meta_count w) L"
    by (auto simp: holds_listable_meta_def)
  show "\<exists>r'. AtmosWriteObjectRequest_add_metadata r (fst x) (snd x) 1 = Some r' \<and> holds_listable_meta r' (L @ [x])"
    if "meta_fits x" "length L < ATMOS_META_COUNT_MAX"
    using push_metadata_ok[OF w(2), of "fst x" "snd x"] that w(1)
    by (auto simp: AtmosWriteObjectRequest_add_metadata_def holds_listable_meta_def)
  show "AtmosWriteObjectRequest_add_metadata r (fst x) (snd x) 1 = None" if "length L = ATMOS_META_COUNT_MAX"
    using array_inv_full[OF w(2) that] w(1)
    by (simp add: AtmosWriteObjectRequest_add_metadata_def push_metadata_def)
qed

interpretation acl_field: array_field
  "\<lambda>r e. AtmosWriteObjectRequest_add_acl r (fst e) (fst (snd e)) (snd (snd e))" holds_acl acl_fits ATMOS_ACL_COUNT_MAX
proof unfold_locales
  fix r :: request and L :: "acl_view list" and x
  assume a: "holds_acl r L"
  then obtain w sub where w: "r_sub r = Write_request w sub" "acl_array_inv (w_acl w) (w_acl_count w) L"
    by (auto simp: holds_acl_def)
  show "\<exists>r'. AtmosWriteObjectRequest_add_acl r (fst x) (fst (snd x)) (snd (snd x)) = Some r' \<and> holds_acl r' (L @ [x])"
    if fit: "acl_fits x" and room: "length L < ATMOS_ACL_COUNT_MAX"
  proof -
    obtain m where m: "arr_get (w_acl w) (w_acl_count w) = Some m" "wf_acl_entry m"
      using array_inv_get[OF w(2) room] by blast
    obtain b where b: "strcpy (principal m) (fst x) = Some b" "length b = ATMOS_UID_MAX" "c_str b = Some (fst x)"
      using strcpy_ok[of "fst x" "principal m"] strcpy_c_str[of "fst x" "principal m"] strcpy_at_length[of "principal m" 0 "fst x"]
        fit m(2) by (auto simp: acl_fits_def wf_acl_entry_def)
    let ?m = "m\<lparr>permission := snd (snd x), acl_type := fst (snd x), principal := b\<rparr>"
    have "acl_entry_view ?m = Some x" "wf_acl_entry ?m" using b by (simp_all add: acl_entry_view_def wf_acl_entry_def)
    from array_inv_push[OF w(2) room this] show ?thesis using m b w(1)
      by (auto simp: AtmosWriteObjectRequest_add_acl_def holds_acl_def)
  qed
  show "AtmosWriteObjectRequest_add_acl r (fst x) (fst (snd x)) (snd (snd x)) = None" if "length L = ATMOS_ACL_COUNT_MAX"
    using array_inv_full[OF w(2) that] w(1) by (simp add: AtmosWriteObjectRequest_add_acl_def)
qed

text \<open>The three arrays of a request are independent of each other, and of the rest of the object.\<close>

lemma add_metadata_frame:
  assumes "AtmosWriteObjectRequest_add_metadata r name value listable = Some r'"
  shows "r_base r' = r_base r" "holds_acl r' A \<longleftrightarrow> holds_acl r A"
    "listable \<noteq> 0 \<Longrightarrow> holds_meta r' L \<longleftrightarrow> holds_meta r L"
    "listable = 0 \<Longrightarrow> holds_listable_meta r' L \<longleftrightarrow> holds_listable_meta r L"
  using assms
  by (auto simp: AtmosWriteObjectRequest_add_metadata_def holds_acl_def holds_meta_def holds_listable_meta_def
      bind_eq_Some_conv split: request_sub.splits if_splits)

lemma add_acl_frame:
  assumes "AtmosWriteObjectRequest_add_acl r p type perm = Some r'"
  shows "r_base r' = r_base r" "holds_meta r' L \<longleftrightarrow> holds_meta r L" "holds_listable_meta r' L \<longleftrightarrow> holds_listable_meta r L"
  using assms
  by (auto simp: AtmosWriteObjectRequest_add_acl_def holds_meta_def holds_listable_meta_def
      bind_eq_Some_conv split: request_sub.splits)

section \<open>Building a request\<close>

definition empty_write_request :: "request \<Rightarrow> bool" where
  "empty_write_request r \<longleftrightarrow> (\<exists>sub. r_sub r = Write_request zero_write_part sub)"

lemma empty_write_request_holds:
  "empty_write_request r \<Longrightarrow> holds_meta r [] \<and> holds_listable_meta r [] \<and> holds_acl r []"
  unfolding empty_write_request_def holds_meta_def holds_listable_meta_def holds_acl_def zero_write_part_def
  by (auto simp: array_inv_zero)

lemma create_init_empty: "empty_write_request (AtmosCreateObjectRequest_init E)"
  by (simp add: empty_write_request_def AtmosCreateObjectRequest_init_def AtmosCreateObjectRequest_common_init_def
      set_class_def AtmosWriteObjectRequest_init_def new_request_def)

lemma strncpy_zeros: "\<exists>b. strncpy (zeros n) s n = Some b"
  by (rule strncpy_ok) simp

lemma update_init_ns_empty:
  assumes "starts_with_slash path"
  shows "\<exists>r. AtmosUpdateObjectRequest_init_ns E path = Some (Some r) \<and> empty_write_request r"
proof -
  obtain b where "strncpy (zeros ATMOS_PATH_MAX) path ATMOS_PATH_MAX = Some b" using strncpy_zeros by blast
  then show ?thesis using assms
    by (simp add: AtmosUpdateObjectRequest_init_ns_def upd_update_def AtmosUpdateObjectRequest_init_common_def set_class_def
        zero_update_part_def empty_write_request_def upd_base_def)
qed

text \<open>The calls that fill a request: plain metadata, listable metadata, ACL entries.\<close>

definition fill_write_request ::
    "request \<Rightarrow> (string \<times> string) list \<Rightarrow> (string \<times> string) list \<Rightarrow> acl_view list \<Rightarrow> request option" where
  "fill_write_request r M LM A = do {
     r \<leftarrow> foldM (\<lambda>r p. AtmosWriteObjectRequest_add_metadata r (fst p) (snd p) 0) r M;
     r \<leftarrow> foldM (\<lambda>r p. AtmosWriteObjectRequest_add_metadata r (fst p) (snd p) 1) r LM;
     foldM (\<lambda>r e. AtmosWriteObjectRequest_add_acl r (fst e) (fst (snd e)) (snd (snd e))) r A
   }"

lemma fill_metadata_frame:
  assumes "foldM (\<lambda>r p. AtmosWriteObjectRequest_add_metadata r (fst p) (snd p) k) r M = Some r'"
  shows "r_base r' = r_base r" "holds_acl r' A = holds_acl r A"
    "k \<noteq> 0 \<Longrightarrow> holds_meta r' L = holds_meta r L" "k = 0 \<Longrightarrow> holds_listable_meta r' L = holds_listable_meta r L"
proof -
  show "r_base r' = r_base r"
    by (rule foldM_invariant[OF assms, where I = "\<lambda>t. r_base t = r_base r"]) (auto dest: add_metadata_frame(1))
  show "holds_acl r' A = holds_acl r A"
    by (rule foldM_invariant[OF assms, where I = "\<lambda>t. holds_acl t A = holds_acl r A"]) (auto dest: add_metadata_frame(2))
  show "holds_meta r' L = holds_meta r L" if "k \<noteq> 0"
    by (rule foldM_invariant[OF assms, where I = "\<lambda>t. holds_meta t L = holds_meta r L"])
      (use that in \<open>auto dest: add_metadata_frame(3)\<close>)
  show "holds_listable_meta r' L = holds_listable_meta r L" if "k = 0"
    by (rule foldM_invariant[OF assms, where I = "\<lambda>t. holds_listable_meta t L = holds_listable_meta r L"])
      (use that in \<open>auto dest: add_metadata_frame(4)\<close>)
qed

lemma fill_acl_frame:
  assumes "foldM (\<lambda>r e. AtmosWriteObjectRequest_add_acl r (fst e) (fst (snd e)) (snd (snd e))) r A = Some r'"
  shows "r_base r' = r_base r \<and> holds_meta r' L = holds_meta r L \<and> holds_listable_meta r' M = holds_listable_meta r M"
proof (rule foldM_invariant[OF assms, where
        I = "\<lambda>t. r_base t = r_base r \<and> holds_meta t L = holds_meta r L \<and> holds_listable_meta t M = holds_listable_meta r M"])
  fix t x t'
  assume "AtmosWriteObjectRequest_add_acl t (fst x) (fst (snd x)) (snd (snd x)) = Some t'"
  from add_acl_frame[OF this]
  show "r_base t = r_base r \<and> holds_meta t L = holds_meta r L \<and> holds_listable_meta t M = holds_listable_meta r M \<Longrightarrow>
      r_base t' = r_base r \<and> holds_meta t' L = holds_meta r L \<and> holds_listable_meta t' M = holds_listable_meta r M" by simp
qed simp

lemma fill_write_request_ok:
  assumes "empty_write_request r"
    and "\<forall>p \<in> set M. meta_fits p" "length M \<le> ATMOS_META_COUNT_MAX"
    and "\<forall>p \<in> set LM. meta_fits p" "length LM \<le> ATMOS_META_COUNT_MAX"
    and "\<forall>e \<in> set A. acl_fits e" "length A \<le> ATMOS_ACL_COUNT_MAX"
  shows "\<exists>r'. fill_write_request r M LM A = Some r' \<and> r_base r' = r_base r \<and>
           holds_meta r' M \<and> holds_listable_meta r' LM \<and> holds_acl r' A"
proof -
  note empty = empty_write_request_holds[OF assms(1)]
  obtain r1 where r1: "foldM (\<lambda>r p. AtmosWriteObjectRequest_add_metadata r (fst p) (snd p) 0) r M = Some r1" "holds_meta r1 M"
    using meta_field.add_all[of r "[]" M] empty assms(2,3) by auto
  have "holds_listable_meta r1 []" using fill_metadata_frame(4)[OF r1(1)] empty by simp
  then obtain r2 where r2: "foldM (\<lambda>r p. AtmosWriteObjectRequest_add_metadata r (fst p) (snd p) 1) r1 LM = Some r2"
      "holds_listable_meta r2 LM"
    using listable_field.add_all[of r1 "[]" LM] assms(4,5) by auto
  have "holds_acl r2 []" "holds_meta r2 M"
    using fill_metadata_frame[OF r2(1)] fill_metadata_frame[OF r1(1)] r1(2) empty by auto
  then obtain r3 where r3: "foldM (\<lambda>r e. AtmosWriteObjectRequest_add_acl r (fst e) (fst (snd e)) (snd (snd e))) r2 A = Some r3"
      "holds_acl r3 A"
    using acl_field.add_all[of r2 "[]" A] assms(6,7) by auto
  have "r_base r3 = r_base r" "holds_meta r3 M" "holds_listable_meta r3 LM"
    using fill_acl_frame[OF r3(1)] fill_metadata_frame(1)[OF r1(1)] fill_metadata_frame(1)[OF r2(1)] r2(2) \<open>holds_meta r2 M\<close>
    by auto
  then show ?thesis using r1(1) r2(1) r3 by (simp add: fill_write_request_def)
qed

text \<open>
  The arrays are not guarded: adding more metadata to a request than its array holds, 127 pairs, is
  undefined behaviour (a write outside of the array), whatever the pairs are.
\<close>

lemma metadata_overflow_undefined:
  assumes "\<forall>p \<in> set M. meta_fits p" "ATMOS_META_COUNT_MAX < length M"
  shows "foldM (\<lambda>r p. AtmosWriteObjectRequest_add_metadata r (fst p) (snd p) 0) (AtmosCreateObjectRequest_init E) M = None"
  using meta_field.add_too_many[of "AtmosCreateObjectRequest_init E" "[]" M] empty_write_request_holds[OF create_init_empty[of E]]
    assms by simp

text \<open>
  C39: A new object-creation request holds exactly the metadata, then listable metadata, then ACL entries added to it,
  each kind in order, up to 127 pairs of each kind and 64 entries; the calls do not disturb each other or the
  headers and URI of the request. The arrays are not guarded: one pair of metadata more than there is room for and the calls
  run into undefined behaviour, a write outside of the array.
\<close>

theorem create_request_contents:
  assumes "\<forall>p \<in> set M. meta_fits p" "length M \<le> ATMOS_META_COUNT_MAX"
    and "\<forall>p \<in> set LM. meta_fits p" "length LM \<le> ATMOS_META_COUNT_MAX"
    and "\<forall>e \<in> set A. acl_fits e" "length A \<le> ATMOS_ACL_COUNT_MAX"
    and "\<forall>p \<in> set M'. meta_fits p" "ATMOS_META_COUNT_MAX < length M'"
  shows "(\<exists>r. fill_write_request (AtmosCreateObjectRequest_init E) M LM A = Some r \<and>
           r_base r = r_base (AtmosCreateObjectRequest_init E) \<and>
           holds_meta r M \<and> holds_listable_meta r LM \<and> holds_acl r A) \<and>
     foldM (\<lambda>r p. AtmosWriteObjectRequest_add_metadata r (fst p) (snd p) 0) (AtmosCreateObjectRequest_init E) M' = None"
  using fill_write_request_ok[OF create_init_empty assms(1-6)] metadata_overflow_undefined[OF assms(7,8)] by blast

theorem create_request_contents_witness:
  "(\<exists>r. fill_write_request (AtmosCreateObjectRequest_init list_env) [(''k'', ''v''), (''k2'', [])] [(''l'', ''w'')]
           [(''other'', ATMOS_GROUP, ATMOS_PERM_READ)] = Some r \<and>
       r_base r = r_base (AtmosCreateObjectRequest_init list_env) \<and>
       holds_meta r [(''k'', ''v''), (''k2'', [])] \<and> holds_listable_meta r [(''l'', ''w'')] \<and>
       holds_acl r [(''other'', ATMOS_GROUP, ATMOS_PERM_READ)]) \<and>
   foldM (\<lambda>r p. AtmosWriteObjectRequest_add_metadata r (fst p) (snd p) 0) (AtmosCreateObjectRequest_init list_env)
     (replicate 128 (''n'', ''v'')) = None"
  by (rule create_request_contents) (simp_all add: meta_fits_def acl_fits_def)

end
