(* ===== verification/Read_Requests.thy ===== *)
theory Read_Requests
  imports Requests
begin

text \<open>
  The constructors and modifiers of the request objects that do not carry object data:
  \<open>atmos_read.c\<close>, \<open>atmos_versions.c\<close>, \<open>atmos_access_tokens.c\<close>.
\<close>

section \<open>Read\<close>

definition AtmosReadObjectRequest_init_common :: "request \<Rightarrow> request" where
  "AtmosReadObjectRequest_init_common self =
     set_class ''AtmosReadObjectRequest''
       (self\<lparr>r_sub := Read_request (zero_read_part\<lparr>rd_range_start := -1, rd_range_end := -1\<rparr>)\<rparr>)"

definition rest_request :: "env \<Rightarrow> string \<Rightarrow> http_method \<Rightarrow> request" where
  "rest_request E uri m = \<lparr>r_base = RestRequest_init E uri m, r_sub = Rest_request\<rparr>"

definition upd_read :: "(read_part \<Rightarrow> read_part option) \<Rightarrow> request \<Rightarrow> request option" where
  "upd_read f self =
     (case r_sub self of
        Read_request p \<Rightarrow> do { p' \<leftarrow> f p; Some (self\<lparr>r_sub := Read_request p'\<rparr>) }
      | _ \<Rightarrow> None)"

text \<open>The three addressing forms, for the method the six constructors pass.\<close>

definition read_init :: "env \<Rightarrow> http_method \<Rightarrow> string \<Rightarrow> request option" where
  "read_init E m object_id =
     upd_read (\<lambda>p. do { b \<leftarrow> strncpy (rd_object_id p) object_id ATMOS_OID_LENGTH; Some (p\<lparr>rd_object_id := b\<rparr>) })
       (AtmosReadObjectRequest_init_common
          (rest_request E (snprintf_text (15 + ATMOS_OID_LENGTH) (''/rest/objects/'' @ object_id)) m))"

definition read_init_ns :: "env \<Rightarrow> http_method \<Rightarrow> string \<Rightarrow> request option option" where
  "read_init_ns E m path =
     (if \<not> starts_with_slash path then Some None
      else map_option Some
        (upd_read (\<lambda>p. do { b \<leftarrow> strncpy (rd_path p) path ATMOS_PATH_MAX; Some (p\<lparr>rd_path := b\<rparr>) })
          (AtmosReadObjectRequest_init_common
             (rest_request E (snprintf_text (ATMOS_PATH_MAX + 15) (''/rest/namespace'' @ path)) m))))"

definition read_init_keypool :: "env \<Rightarrow> http_method \<Rightarrow> string \<Rightarrow> string \<Rightarrow> request option" where
  "read_init_keypool E m pool key =
     upd_read (\<lambda>p. do { b \<leftarrow> strncpy (rd_path p) key ATMOS_PATH_MAX;
                        q \<leftarrow> strncpy (rd_pool p) pool ATMOS_PATH_MAX;
                        Some (p\<lparr>rd_path := b, rd_pool := q\<rparr>) })
       (add_header E
          (AtmosReadObjectRequest_init_common
             (rest_request E (snprintf_text (ATMOS_PATH_MAX + 15) (''/rest/namespace/'' @ key)) m))
          (pool_header pool))"

definition AtmosReadObjectRequest_init :: "env \<Rightarrow> string \<Rightarrow> request option" where
  "AtmosReadObjectRequest_init E object_id = read_init E HTTP_GET object_id"

definition AtmosReadObjectRequest_init_ns :: "env \<Rightarrow> string \<Rightarrow> request option option" where
  "AtmosReadObjectRequest_init_ns E path = read_init_ns E HTTP_GET path"

definition AtmosReadObjectRequest_init_keypool :: "env \<Rightarrow> string \<Rightarrow> string \<Rightarrow> request option" where
  "AtmosReadObjectRequest_init_keypool E pool key = read_init_keypool E HTTP_GET pool key"

definition AtmosReadObjectRequest_init_head :: "env \<Rightarrow> string \<Rightarrow> request option" where
  "AtmosReadObjectRequest_init_head E object_id = read_init E HTTP_HEAD object_id"

definition AtmosReadObjectRequest_init_ns_head :: "env \<Rightarrow> string \<Rightarrow> request option option" where
  "AtmosReadObjectRequest_init_ns_head E path = read_init_ns E HTTP_HEAD path"

definition AtmosReadObjectRequest_init_keypool_head :: "env \<Rightarrow> string \<Rightarrow> string \<Rightarrow> request option" where
  "AtmosReadObjectRequest_init_keypool_head E pool key = read_init_keypool E HTTP_HEAD pool key"

definition AtmosReadObjectRequest_destroy :: "env \<Rightarrow> request \<Rightarrow> request option" where
  "AtmosReadObjectRequest_destroy E self = do {
     self \<leftarrow> upd_read (\<lambda>p. do {
         b \<leftarrow> buf_set (rd_object_id p) 0 NUL;
         q \<leftarrow> buf_set (rd_path p) 0 NUL;
         Some (p\<lparr>rd_object_id := b, rd_path := q, rd_range_start := -1, rd_range_end := -1\<rparr>) }) self;
     Some (upd_base (RestRequest_destroy E) self)
   }"

definition AtmosReadObjectRequest_set_range :: "request \<Rightarrow> int \<Rightarrow> int \<Rightarrow> request option" where
  "AtmosReadObjectRequest_set_range self range_start range_end =
     upd_read (\<lambda>p. Some (p\<lparr>rd_range_start := range_start, rd_range_end := range_end\<rparr>)) self"

definition AtmosReadObjectRequest_set_range_offset_size :: "request \<Rightarrow> int \<Rightarrow> int \<Rightarrow> request option" where
  "AtmosReadObjectRequest_set_range_offset_size self offset sz =
     upd_read (\<lambda>p. do { e \<leftarrow> range_last offset sz; Some (p\<lparr>rd_range_start := offset, rd_range_end := e\<rparr>) }) self"

section \<open>Metadata requests\<close>

text \<open>
  The user and system metadata requests have the same members. \<open>mk\<close> is the class of the
  object, \<open>suffix\<close> the end of the URI.
\<close>

definition upd_meta_part :: "(meta_request_part \<Rightarrow> meta_request_part option) \<Rightarrow> meta_request_part \<Rightarrow>
    (meta_request_part \<Rightarrow> request_sub) \<Rightarrow> request \<Rightarrow> request option" where
  "upd_meta_part f p mk self = do { p' \<leftarrow> f p; Some (self\<lparr>r_sub := mk p'\<rparr>) }"

definition upd_user_meta :: "(meta_request_part \<Rightarrow> meta_request_part option) \<Rightarrow> request \<Rightarrow> request option" where
  "upd_user_meta f self =
     (case r_sub self of GetUserMeta_request p \<Rightarrow> upd_meta_part f p GetUserMeta_request self | _ \<Rightarrow> None)"

definition upd_system_meta :: "(meta_request_part \<Rightarrow> meta_request_part option) \<Rightarrow> request \<Rightarrow> request option" where
  "upd_system_meta f self =
     (case r_sub self of GetSystemMeta_request p \<Rightarrow> upd_meta_part f p GetSystemMeta_request self | _ \<Rightarrow> None)"

definition set_meta_oid :: "string \<Rightarrow> meta_request_part \<Rightarrow> meta_request_part option" where
  "set_meta_oid object_id p = do { b \<leftarrow> strncpy (mr_object_id p) object_id ATMOS_OID_LENGTH; Some (p\<lparr>mr_object_id := b\<rparr>) }"

definition set_meta_path :: "string \<Rightarrow> meta_request_part \<Rightarrow> meta_request_part option" where
  "set_meta_path path p = do { b \<leftarrow> strncpy (mr_path p) path ATMOS_PATH_MAX; Some (p\<lparr>mr_path := b\<rparr>) }"

definition set_meta_pool :: "string \<Rightarrow> meta_request_part \<Rightarrow> meta_request_part option" where
  "set_meta_pool pool p = do { b \<leftarrow> strncpy (mr_pool p) pool ATMOS_PATH_MAX; Some (p\<lparr>mr_pool := b\<rparr>) }"

definition AtmosGetUserMetaRequest_common_init :: "request \<Rightarrow> request" where
  "AtmosGetUserMetaRequest_common_init self =
     set_class ''AtmosGetUserMetaRequest'' (self\<lparr>r_sub := GetUserMeta_request zero_meta_request_part\<rparr>)"

definition AtmosGetUserMetaRequest_init :: "env \<Rightarrow> string \<Rightarrow> request option" where
  "AtmosGetUserMetaRequest_init E object_id =
     upd_user_meta (set_meta_oid object_id)
       (AtmosGetUserMetaRequest_common_init
          (rest_request E (snprintf_text (ATMOS_OID_LENGTH + 64) (''/rest/objects/'' @ object_id @ ''?metadata/user'')) HTTP_GET))"

definition AtmosGetUserMetaRequest_init_ns :: "env \<Rightarrow> string \<Rightarrow> request option option" where
  "AtmosGetUserMetaRequest_init_ns E path =
     (if \<not> starts_with_slash path then Some None
      else map_option Some
        (upd_user_meta (set_meta_path path)
          (AtmosGetUserMetaRequest_common_init
             (rest_request E (snprintf_text (ATMOS_PATH_MAX + 64) (''/rest/namespace'' @ path @ ''?metadata/user'')) HTTP_GET))))"

definition AtmosGetUserMetaRequest_init_keypool :: "env \<Rightarrow> string \<Rightarrow> string \<Rightarrow> request option" where
  "AtmosGetUserMetaRequest_init_keypool E pool key = do {
     self \<leftarrow> upd_user_meta (set_meta_path key)
       (add_header E
          (AtmosGetUserMetaRequest_common_init
             (rest_request E (snprintf_text (ATMOS_PATH_MAX + 64) (''/rest/namespace/'' @ key @ ''?metadata/user'')) HTTP_GET))
          (pool_header pool));
     upd_user_meta (set_meta_pool pool) self
   }"

definition AtmosGetUserMetaRequest_destroy :: "env \<Rightarrow> request \<Rightarrow> request option" where
  "AtmosGetUserMetaRequest_destroy E self =
     map_option (upd_base (RestRequest_destroy E)) (upd_user_meta (\<lambda>p. Some zero_meta_request_part) self)"

definition AtmosGetSystemMetaRequest_init_common :: "request \<Rightarrow> request" where
  "AtmosGetSystemMetaRequest_init_common self =
     set_class ''AtmosGetSystemMetaRequest'' (self\<lparr>r_sub := GetSystemMeta_request zero_meta_request_part\<rparr>)"

definition AtmosGetSystemMetaRequest_init :: "env \<Rightarrow> string \<Rightarrow> request option" where
  "AtmosGetSystemMetaRequest_init E object_id =
     upd_system_meta (set_meta_oid object_id)
       (AtmosGetSystemMetaRequest_init_common
          (rest_request E (snprintf_text (ATMOS_OID_LENGTH + 64) (''/rest/objects/'' @ object_id @ ''?metadata/system'')) HTTP_GET))"

definition AtmosGetSystemMetaRequest_init_ns :: "env \<Rightarrow> string \<Rightarrow> request option option" where
  "AtmosGetSystemMetaRequest_init_ns E path =
     (if \<not> starts_with_slash path then Some None
      else map_option Some
        (upd_system_meta (set_meta_path path)
          (AtmosGetSystemMetaRequest_init_common
             (rest_request E (snprintf_text (ATMOS_PATH_MAX + 64) (''/rest/namespace'' @ path @ ''?metadata/system'')) HTTP_GET))))"

definition AtmosGetSystemMetaRequest_init_keypool :: "env \<Rightarrow> string \<Rightarrow> string \<Rightarrow> request option" where
  "AtmosGetSystemMetaRequest_init_keypool E pool key = do {
     self \<leftarrow> upd_system_meta (set_meta_path key)
       (add_header E
          (AtmosGetSystemMetaRequest_init_common
             (rest_request E (snprintf_text (ATMOS_PATH_MAX + 64) (''/rest/namespace/'' @ key @ ''?metadata/system'')) HTTP_GET))
          (pool_header pool));
     upd_system_meta (set_meta_pool pool) self
   }"

definition AtmosGetSystemMetaRequest_destroy :: "env \<Rightarrow> request \<Rightarrow> request option" where
  "AtmosGetSystemMetaRequest_destroy E self =
     map_option (upd_base (RestRequest_destroy E)) (upd_system_meta (\<lambda>p. Some zero_meta_request_part) self)"

section \<open>Tags\<close>

text \<open>\<open>strncpy(tags[count++], tag, ATMOS_META_NAME_MAX)\<close>.\<close>

definition push_tag :: "buffer list \<Rightarrow> int \<Rightarrow> string \<Rightarrow> (buffer list \<times> int) option" where
  "push_tag tags n tag = do {
     b \<leftarrow> arr_get tags n;
     b \<leftarrow> strncpy b tag ATMOS_META_NAME_MAX;
     tags \<leftarrow> arr_set tags n b;
     Some (tags, n + 1)
   }"

definition push_meta_tag :: "string \<Rightarrow> meta_request_part \<Rightarrow> meta_request_part option" where
  "push_meta_tag tag p = do {
     (tags, n) \<leftarrow> push_tag (mr_tags p) (mr_tag_count p) tag;
     Some (p\<lparr>mr_tags := tags, mr_tag_count := n\<rparr>)
   }"

definition AtmosGetUserMetaRequest_add_tag :: "request \<Rightarrow> string \<Rightarrow> request option" where
  "AtmosGetUserMetaRequest_add_tag self tag = upd_user_meta (push_meta_tag tag) self"

definition AtmosGetSystemMetaRequest_add_tag :: "request \<Rightarrow> string \<Rightarrow> request option" where
  "AtmosGetSystemMetaRequest_add_tag self tag = upd_system_meta (push_meta_tag tag) self"

section \<open>Paginated requests\<close>

definition AtmosPaginatedRequest_init :: "env \<Rightarrow> page_sub \<Rightarrow> string \<Rightarrow> http_method \<Rightarrow> request" where
  "AtmosPaginatedRequest_init E sub uri m = new_request E uri m ''AtmosPaginatedRequest'' (Paginated_request zero_page_part sub)"

definition AtmosPaginatedRequest_destroy :: "env \<Rightarrow> request \<Rightarrow> request option" where
  "AtmosPaginatedRequest_destroy E self =
     (case r_sub self of
        Paginated_request p sub \<Rightarrow> Some \<lparr>r_base = RestRequest_destroy E (r_base self), r_sub = Paginated_request zero_page_part sub\<rparr>
      | _ \<Rightarrow> None)"

definition ends_with_slash :: "string \<Rightarrow> bool" where
  "ends_with_slash path \<longleftrightarrow> path \<noteq> [] \<and> last path = CHR ''/''"

text \<open>The member \<open>path\<close> is zeroed and never set.\<close>

definition AtmosListDirectoryRequest_init :: "env \<Rightarrow> string \<Rightarrow> request option option" where
  "AtmosListDirectoryRequest_init E path =
     (if \<not> starts_with_slash path then Some None
      else if \<not> ends_with_slash path then Some None
      else Some (Some (set_class ''AtmosListDirectoryRequest''
        (AtmosPaginatedRequest_init E (ListDirectory_sub zero_list_directory_part)
           (snprintf_text (ATMOS_PATH_MAX + 15) (''/rest/namespace'' @ path)) HTTP_GET))))"

definition upd_list_directory :: "(list_directory_part \<Rightarrow> list_directory_part option) \<Rightarrow> request \<Rightarrow> request option" where
  "upd_list_directory f self =
     (case r_sub self of
        Paginated_request p (ListDirectory_sub d) \<Rightarrow> do { d' \<leftarrow> f d; Some (self\<lparr>r_sub := Paginated_request p (ListDirectory_sub d')\<rparr>) }
      | _ \<Rightarrow> None)"

definition AtmosListDirectoryRequest_add_user_tag :: "request \<Rightarrow> string \<Rightarrow> request option" where
  "AtmosListDirectoryRequest_add_user_tag self tag =
     upd_list_directory (\<lambda>d. do {
       (tags, n) \<leftarrow> push_tag (ld_user_tags d) (ld_user_tag_count d) tag;
       Some (d\<lparr>ld_user_tags := tags, ld_user_tag_count := n\<rparr>) }) self"

definition AtmosListDirectoryRequest_add_system_tag :: "request \<Rightarrow> string \<Rightarrow> request option" where
  "AtmosListDirectoryRequest_add_system_tag self tag =
     upd_list_directory (\<lambda>d. do {
       (tags, n) \<leftarrow> push_tag (ld_system_tags d) (ld_system_tag_count d) tag;
       Some (d\<lparr>ld_system_tags := tags, ld_system_tag_count := n\<rparr>) }) self"

definition AtmosListDirectoryRequest_destroy :: "env \<Rightarrow> request \<Rightarrow> request option" where
  "AtmosListDirectoryRequest_destroy E self =
     Option.bind (upd_list_directory (\<lambda>d. Some zero_list_directory_part) self) (AtmosPaginatedRequest_destroy E)"

text \<open>
  \<open>AtmosListObjectsRequest_init\<close> zeroes the object with the size, and gives it the class name, of an
  \<open>AtmosListDirectoryRequest\<close>, which has the same members.
\<close>

definition upd_list_objects :: "(list_objects_part \<Rightarrow> list_objects_part option) \<Rightarrow> request \<Rightarrow> request option" where
  "upd_list_objects f self =
     (case r_sub self of
        Paginated_request p (ListObjects_sub d) \<Rightarrow> do { d' \<leftarrow> f d; Some (self\<lparr>r_sub := Paginated_request p (ListObjects_sub d')\<rparr>) }
      | _ \<Rightarrow> None)"

definition AtmosListObjectsRequest_init :: "env \<Rightarrow> string \<Rightarrow> request option" where
  "AtmosListObjectsRequest_init E tag =
     upd_list_objects (\<lambda>d. do { b \<leftarrow> strncpy (lo_tag d) tag ATMOS_PATH_MAX; Some (d\<lparr>lo_tag := b\<rparr>) })
       (set_class ''AtmosListDirectoryRequest''
          (AtmosPaginatedRequest_init E (ListObjects_sub zero_list_objects_part) ''/rest/objects'' HTTP_GET))"

definition AtmosListObjectsRequest_add_user_tag :: "request \<Rightarrow> string \<Rightarrow> request option" where
  "AtmosListObjectsRequest_add_user_tag self tag =
     upd_list_objects (\<lambda>d. do {
       (tags, n) \<leftarrow> push_tag (lo_user_tags d) (lo_user_tag_count d) tag;
       Some (d\<lparr>lo_user_tags := tags, lo_user_tag_count := n\<rparr>) }) self"

definition AtmosListObjectsRequest_add_system_tag :: "request \<Rightarrow> string \<Rightarrow> request option" where
  "AtmosListObjectsRequest_add_system_tag self tag =
     upd_list_objects (\<lambda>d. do {
       (tags, n) \<leftarrow> push_tag (lo_system_tags d) (lo_system_tag_count d) tag;
       Some (d\<lparr>lo_system_tags := tags, lo_system_tag_count := n\<rparr>) }) self"

definition AtmosListObjectsRequest_destroy :: "env \<Rightarrow> request \<Rightarrow> request option" where
  "AtmosListObjectsRequest_destroy E self =
     Option.bind (upd_list_objects (\<lambda>d. Some zero_list_objects_part) self) (AtmosPaginatedRequest_destroy E)"

definition AtmosGetListableTagsRequest_init :: "env \<Rightarrow> string option \<Rightarrow> request option" where
  "AtmosGetListableTagsRequest_init E parent_tag = do {
     b \<leftarrow> (case parent_tag of None \<Rightarrow> Some (zeros ATMOS_PATH_MAX)
           | Some t \<Rightarrow> strncpy (zeros ATMOS_PATH_MAX) t ATMOS_PATH_MAX);
     Some (set_class ''AtmosGetListableTagsRequest''
       (AtmosPaginatedRequest_init E (GetListableTags_sub b) ''/rest/objects?listabletags'' HTTP_GET))
   }"

definition AtmosGetListableTagsRequest_destroy :: "env \<Rightarrow> request \<Rightarrow> request option" where
  "AtmosGetListableTagsRequest_destroy E self =
     (case r_sub self of
        Paginated_request p (GetListableTags_sub b) \<Rightarrow>
          AtmosPaginatedRequest_destroy E (self\<lparr>r_sub := Paginated_request p (GetListableTags_sub (zeros ATMOS_PATH_MAX))\<rparr>)
      | _ \<Rightarrow> None)"

section \<open>Versions\<close>

text \<open>The members \<open>object_id\<close> of the two version requests are zeroed and never set.\<close>

definition AtmosCreateVersionRequest_init :: "env \<Rightarrow> string \<Rightarrow> request" where
  "AtmosCreateVersionRequest_init E object_id =
     new_request E (snprintf_text ATMOS_PATH_MAX (''/rest/objects/'' @ object_id @ ''?versions'')) HTTP_POST
       ''AtmosCreateVersionRequest'' (CreateVersion_request (zeros ATMOS_OID_LENGTH))"

definition AtmosCreateVersionRequest_destroy :: "env \<Rightarrow> request \<Rightarrow> request option" where
  "AtmosCreateVersionRequest_destroy E self =
     (case r_sub self of
        CreateVersion_request b \<Rightarrow>
          Some \<lparr>r_base = RestRequest_destroy E (r_base self), r_sub = CreateVersion_request (zeros ATMOS_OID_LENGTH)\<rparr>
      | _ \<Rightarrow> None)"

definition AtmosListVersionsRequest_init :: "env \<Rightarrow> string \<Rightarrow> request" where
  "AtmosListVersionsRequest_init E object_id =
     set_class ''AtmosListVersionsRequest''
       (AtmosPaginatedRequest_init E (ListVersions_sub (zeros ATMOS_OID_LENGTH))
          (snprintf_text ATMOS_PATH_MAX (''/rest/objects/'' @ object_id @ ''?versions'')) HTTP_GET)"

definition AtmosListVersionsRequest_destroy :: "env \<Rightarrow> request \<Rightarrow> request option" where
  "AtmosListVersionsRequest_destroy E self =
     (case r_sub self of
        Paginated_request p (ListVersions_sub b) \<Rightarrow>
          AtmosPaginatedRequest_destroy E (self\<lparr>r_sub := Paginated_request p (ListVersions_sub (zeros ATMOS_OID_LENGTH))\<rparr>)
      | _ \<Rightarrow> None)"

section \<open>Access tokens\<close>

definition AtmosCreateAccessTokenRequest_init_common :: "request \<Rightarrow> request" where
  "AtmosCreateAccessTokenRequest_init_common self =
     set_class ''AtmosCreateAccessTokenRequest'' (self\<lparr>r_sub := CreateAccessToken_request zero_token_request_part\<rparr>)"

definition upd_token_request :: "(token_request_part \<Rightarrow> token_request_part option) \<Rightarrow> request \<Rightarrow> request option" where
  "upd_token_request f self =
     (case r_sub self of
        CreateAccessToken_request p \<Rightarrow> do { p' \<leftarrow> f p; Some (self\<lparr>r_sub := CreateAccessToken_request p'\<rparr>) }
      | _ \<Rightarrow> None)"

definition AtmosCreateAccessTokenRequest_init :: "env \<Rightarrow> request" where
  "AtmosCreateAccessTokenRequest_init E =
     AtmosCreateAccessTokenRequest_init_common (rest_request E ''/rest/accesstokens'' HTTP_POST)"

definition AtmosCreateAccessTokenRequest_init_obj :: "env \<Rightarrow> string \<Rightarrow> request option" where
  "AtmosCreateAccessTokenRequest_init_obj E object_id =
     upd_token_request (\<lambda>p. do { b \<leftarrow> strncpy (tk_object_id p) object_id ATMOS_OID_LENGTH; Some (p\<lparr>tk_object_id := b\<rparr>) })
       (AtmosCreateAccessTokenRequest_init_common (rest_request E ''/rest/accesstokens'' HTTP_POST))"

definition AtmosCreateAccessTokenRequest_init_ns :: "env \<Rightarrow> string \<Rightarrow> request option" where
  "AtmosCreateAccessTokenRequest_init_ns E path =
     upd_token_request (\<lambda>p. do { b \<leftarrow> strncpy (tk_path p) path ATMOS_PATH_MAX; Some (p\<lparr>tk_path := b\<rparr>) })
       (AtmosCreateAccessTokenRequest_init_common (rest_request E ''/rest/accesstokens'' HTTP_POST))"

definition AtmosCreateAccessTokenRequest_destroy :: "env \<Rightarrow> request \<Rightarrow> request option" where
  "AtmosCreateAccessTokenRequest_destroy E self =
     map_option (upd_base (RestRequest_destroy E)) (upd_token_request (\<lambda>p. Some zero_token_request_part) self)"

definition AtmosListAccessTokensRequest_init :: "env \<Rightarrow> request" where
  "AtmosListAccessTokensRequest_init E =
     set_class ''AtmosListAccessTokensRequest''
       (AtmosPaginatedRequest_init E ListAccessTokens_sub ''/rest/accesstokens'' HTTP_GET)"

definition AtmosListAccessTokensRequest_destroy :: "env \<Rightarrow> request \<Rightarrow> request option" where
  "AtmosListAccessTokensRequest_destroy E self =
     (case r_sub self of Paginated_request p ListAccessTokens_sub \<Rightarrow> AtmosPaginatedRequest_destroy E self | _ \<Rightarrow> None)"

section \<open>Tags: the array contract\<close>

definition tag_fits :: "string \<Rightarrow> bool" where
  "tag_fits t \<longleftrightarrow> cstring t \<and> length t < ATMOS_META_NAME_MAX"

abbreviation tag_array_inv :: "nat \<Rightarrow> buffer list \<Rightarrow> int \<Rightarrow> string list \<Rightarrow> bool" where
  "tag_array_inv \<equiv> array_inv c_str (\<lambda>b. length b = ATMOS_META_NAME_MAX)"

definition holds_tags :: "(request \<Rightarrow> (buffer list \<times> int) option) \<Rightarrow> nat \<Rightarrow> request \<Rightarrow> string list \<Rightarrow> bool" where
  "holds_tags sel N r L \<longleftrightarrow> (\<exists>tags n. sel r = Some (tags, n) \<and> tag_array_inv N tags n L)"

lemma push_tag_ok:
  assumes "tag_array_inv N tags n L" "tag_fits t" "length L < N"
  shows "\<exists>tags'. push_tag tags n t = Some (tags', n + 1) \<and> tag_array_inv N tags' (n + 1) (L @ [t])"
proof -
  obtain b where b: "arr_get tags n = Some b" "length b = ATMOS_META_NAME_MAX" using array_inv_get[OF assms(1,3)] by blast
  obtain b' where b': "strncpy b t ATMOS_META_NAME_MAX = Some b'" "length b' = ATMOS_META_NAME_MAX" "c_str b' = Some t"
    using strncpy_fits[of t ATMOS_META_NAME_MAX b] assms(2) b(2) by (auto simp: tag_fits_def)
  from array_inv_push[OF assms(1,3) b'(3,2)] show ?thesis using b b' by (auto simp: push_tag_def)
qed

text \<open>An operation that pushes a tag into the array \<open>sel\<close> selects meets the contract.\<close>

lemma tag_array_field:
  assumes "\<And>r t. add r t = (case sel r of None \<Rightarrow> None
              | Some (tags, n) \<Rightarrow> do { (tags, n) \<leftarrow> push_tag tags n t; Some (put r tags n) })"
    and "\<And>r x tags n. sel r = Some x \<Longrightarrow> sel (put r tags n) = Some (tags, n)"
  shows "array_field add (holds_tags sel N) tag_fits N"
proof
  fix r L and t :: string
  assume "holds_tags sel N r L"
  then obtain tags n where h: "sel r = Some (tags, n)" "tag_array_inv N tags n L" by (auto simp: holds_tags_def)
  show "\<exists>r'. add r t = Some r' \<and> holds_tags sel N r' (L @ [t])" if "tag_fits t" "length L < N"
    using push_tag_ok[OF h(2) that] h(1) assms(2)[OF h(1)] by (auto simp: assms(1) holds_tags_def)
  show "add r t = None" if "length L = N"
    using array_inv_full[OF h(2) that] h(1) by (simp add: assms(1) push_tag_def)
qed

definition user_meta_tags :: "request \<Rightarrow> (buffer list \<times> int) option" where
  "user_meta_tags r = (case r_sub r of GetUserMeta_request p \<Rightarrow> Some (mr_tags p, mr_tag_count p) | _ \<Rightarrow> None)"

definition system_meta_tags :: "request \<Rightarrow> (buffer list \<times> int) option" where
  "system_meta_tags r = (case r_sub r of GetSystemMeta_request p \<Rightarrow> Some (mr_tags p, mr_tag_count p) | _ \<Rightarrow> None)"

definition directory_user_tags :: "request \<Rightarrow> (buffer list \<times> int) option" where
  "directory_user_tags r = (case r_sub r of
     Paginated_request p (ListDirectory_sub d) \<Rightarrow> Some (ld_user_tags d, ld_user_tag_count d) | _ \<Rightarrow> None)"

definition directory_system_tags :: "request \<Rightarrow> (buffer list \<times> int) option" where
  "directory_system_tags r = (case r_sub r of
     Paginated_request p (ListDirectory_sub d) \<Rightarrow> Some (ld_system_tags d, ld_system_tag_count d) | _ \<Rightarrow> None)"

definition objects_user_tags :: "request \<Rightarrow> (buffer list \<times> int) option" where
  "objects_user_tags r = (case r_sub r of
     Paginated_request p (ListObjects_sub d) \<Rightarrow> Some (lo_user_tags d, lo_user_tag_count d) | _ \<Rightarrow> None)"

definition objects_system_tags :: "request \<Rightarrow> (buffer list \<times> int) option" where
  "objects_system_tags r = (case r_sub r of
     Paginated_request p (ListObjects_sub d) \<Rightarrow> Some (lo_system_tags d, lo_system_tag_count d) | _ \<Rightarrow> None)"

lemmas tag_defs = user_meta_tags_def system_meta_tags_def directory_user_tags_def directory_system_tags_def
  objects_user_tags_def objects_system_tags_def upd_meta_part_def push_meta_tag_def
  AtmosGetUserMetaRequest_add_tag_def upd_user_meta_def AtmosGetSystemMetaRequest_add_tag_def upd_system_meta_def
  AtmosListDirectoryRequest_add_user_tag_def AtmosListDirectoryRequest_add_system_tag_def upd_list_directory_def
  AtmosListObjectsRequest_add_user_tag_def AtmosListObjectsRequest_add_system_tag_def upd_list_objects_def

interpretation user_meta_tag_field: array_field AtmosGetUserMetaRequest_add_tag
    "holds_tags user_meta_tags ATMOS_META_COUNT_MAX" tag_fits ATMOS_META_COUNT_MAX
  by (rule tag_array_field[where put = "\<lambda>r tags n. case r_sub r of
        GetUserMeta_request p \<Rightarrow> r\<lparr>r_sub := GetUserMeta_request (p\<lparr>mr_tags := tags, mr_tag_count := n\<rparr>)\<rparr> | _ \<Rightarrow> r"])
     (auto simp: tag_defs split: request_sub.splits Option.bind_splits)

interpretation system_meta_tag_field: array_field AtmosGetSystemMetaRequest_add_tag
    "holds_tags system_meta_tags ATMOS_META_COUNT_MAX" tag_fits ATMOS_META_COUNT_MAX
  by (rule tag_array_field[where put = "\<lambda>r tags n. case r_sub r of
        GetSystemMeta_request p \<Rightarrow> r\<lparr>r_sub := GetSystemMeta_request (p\<lparr>mr_tags := tags, mr_tag_count := n\<rparr>)\<rparr> | _ \<Rightarrow> r"])
     (auto simp: tag_defs split: request_sub.splits Option.bind_splits)

interpretation directory_user_tag_field: array_field AtmosListDirectoryRequest_add_user_tag
    "holds_tags directory_user_tags ATMOS_META_COUNT_MAX" tag_fits ATMOS_META_COUNT_MAX
  by (rule tag_array_field[where put = "\<lambda>r tags n. case r_sub r of
        Paginated_request p (ListDirectory_sub d) \<Rightarrow>
          r\<lparr>r_sub := Paginated_request p (ListDirectory_sub (d\<lparr>ld_user_tags := tags, ld_user_tag_count := n\<rparr>))\<rparr> | _ \<Rightarrow> r"])
     (auto simp: tag_defs split: request_sub.splits page_sub.splits Option.bind_splits)

interpretation directory_system_tag_field: array_field AtmosListDirectoryRequest_add_system_tag
    "holds_tags directory_system_tags ATMOS_SYSTEM_META_COUNT_MAX" tag_fits ATMOS_SYSTEM_META_COUNT_MAX
  by (rule tag_array_field[where put = "\<lambda>r tags n. case r_sub r of
        Paginated_request p (ListDirectory_sub d) \<Rightarrow>
          r\<lparr>r_sub := Paginated_request p (ListDirectory_sub (d\<lparr>ld_system_tags := tags, ld_system_tag_count := n\<rparr>))\<rparr> | _ \<Rightarrow> r"])
     (auto simp: tag_defs split: request_sub.splits page_sub.splits Option.bind_splits)

interpretation objects_user_tag_field: array_field AtmosListObjectsRequest_add_user_tag
    "holds_tags objects_user_tags ATMOS_META_COUNT_MAX" tag_fits ATMOS_META_COUNT_MAX
  by (rule tag_array_field[where put = "\<lambda>r tags n. case r_sub r of
        Paginated_request p (ListObjects_sub d) \<Rightarrow>
          r\<lparr>r_sub := Paginated_request p (ListObjects_sub (d\<lparr>lo_user_tags := tags, lo_user_tag_count := n\<rparr>))\<rparr> | _ \<Rightarrow> r"])
     (auto simp: tag_defs split: request_sub.splits page_sub.splits Option.bind_splits)

interpretation objects_system_tag_field: array_field AtmosListObjectsRequest_add_system_tag
    "holds_tags objects_system_tags ATMOS_SYSTEM_META_COUNT_MAX" tag_fits ATMOS_SYSTEM_META_COUNT_MAX
  by (rule tag_array_field[where put = "\<lambda>r tags n. case r_sub r of
        Paginated_request p (ListObjects_sub d) \<Rightarrow>
          r\<lparr>r_sub := Paginated_request p (ListObjects_sub (d\<lparr>lo_system_tags := tags, lo_system_tag_count := n\<rparr>))\<rparr> | _ \<Rightarrow> r"])
     (auto simp: tag_defs split: request_sub.splits page_sub.splits Option.bind_splits)

section \<open>Constructors\<close>

lemma user_meta_init:
  "\<exists>r. AtmosGetUserMetaRequest_init E object_id = Some r \<and> holds_tags user_meta_tags ATMOS_META_COUNT_MAX r [] \<and>
     r_base r = (RestRequest_init E (snprintf_text 129 (''/rest/objects/'' @ object_id @ ''?metadata/user'')) HTTP_GET)
       \<lparr>rq_class_name := ''AtmosGetUserMetaRequest''\<rparr>"
proof -
  obtain b where "strncpy (zeros ATMOS_OID_LENGTH) object_id ATMOS_OID_LENGTH = Some b"
    using strncpy_ok[of ATMOS_OID_LENGTH "zeros ATMOS_OID_LENGTH"] by auto
  then show ?thesis
    by (simp add: AtmosGetUserMetaRequest_init_def AtmosGetUserMetaRequest_common_init_def set_class_def upd_base_def
        upd_user_meta_def upd_meta_part_def set_meta_oid_def zero_meta_request_part_def rest_request_def
        holds_tags_def user_meta_tags_def array_inv_zero)
qed

lemma list_directory_init:
  assumes "starts_with_slash path" "ends_with_slash path"
  shows "\<exists>r. AtmosListDirectoryRequest_init E path = Some (Some r) \<and>
     holds_tags directory_user_tags ATMOS_META_COUNT_MAX r [] \<and>
     holds_tags directory_system_tags ATMOS_SYSTEM_META_COUNT_MAX r []"
  using assms
  by (simp add: AtmosListDirectoryRequest_init_def set_class_def upd_base_def AtmosPaginatedRequest_init_def
      new_request_def zero_list_directory_part_def holds_tags_def directory_user_tags_def directory_system_tags_def
      array_inv_zero)

text \<open>
  The path constructors accept exactly the paths the service allows: those of objects must start with a
  slash, those of directories must also end with one; any other path gives \<open>NULL\<close>, never an object
  and never undefined behaviour.
\<close>

lemma path_constructors_validate:
  "(\<exists>r. AtmosReadObjectRequest_init_ns E path = Some r) \<and>
   (AtmosReadObjectRequest_init_ns E path = Some None \<longleftrightarrow> (path = [] \<or> hd path \<noteq> CHR ''/'')) \<and>
   (\<exists>r. AtmosListDirectoryRequest_init E path = Some r) \<and>
   (AtmosListDirectoryRequest_init E path = Some None \<longleftrightarrow>
      (path = [] \<or> hd path \<noteq> CHR ''/'' \<or> last path \<noteq> CHR ''/''))"
proof -
  have s: "starts_with_slash path \<longleftrightarrow> path \<noteq> [] \<and> hd path = CHR ''/''"
    by (cases path) (auto simp: starts_with_slash_def)
  obtain b where "strncpy (zeros ATMOS_PATH_MAX) path ATMOS_PATH_MAX = Some b" using strncpy_zeros by blast
  then have "AtmosReadObjectRequest_init_ns E path \<noteq> None \<and>
      (AtmosReadObjectRequest_init_ns E path = Some None \<longleftrightarrow> \<not> starts_with_slash path)"
    by (auto simp: AtmosReadObjectRequest_init_ns_def read_init_ns_def upd_read_def
        AtmosReadObjectRequest_init_common_def set_class_def upd_base_def zero_read_part_def)
  then show ?thesis
    by (auto simp: s AtmosListDirectoryRequest_init_def ends_with_slash_def)
qed

lemma path_constructors_validate_witness:
  "AtmosReadObjectRequest_init_ns list_env ''photo.jpg'' = Some None \<and>
   AtmosReadObjectRequest_init_ns list_env ''/photo.jpg'' \<noteq> Some None \<and>
   AtmosListDirectoryRequest_init list_env ''/photos'' = Some None"
  using path_constructors_validate[of list_env "''photo.jpg''"] path_constructors_validate[of list_env "''/photo.jpg''"]
    path_constructors_validate[of list_env "''/photos''"] by simp

text \<open>
  \<open>set_range_offset_size\<close> asks for the bytes from \<open>offset\<close> to \<open>offset + size - 1\<close>: for a positive
  size these are exactly \<open>size\<close> bytes. Where the sum leaves the range of \<open>int64_t\<close> the C code
  is undefined.
\<close>

lemma range_offset_size:
  assumes "r_sub self = Read_request p" "- (2 ^ 63) \<le> offset" "0 < sz" "sz < 2 ^ 63"
  shows "AtmosReadObjectRequest_set_range_offset_size self offset sz =
     (if offset + sz < 2 ^ 63
      then Some (self\<lparr>r_sub := Read_request (p\<lparr>rd_range_start := offset, rd_range_end := offset + sz - 1\<rparr>)\<rparr>)
      else None) \<and>
    card {offset .. offset + sz - 1} = nat sz"
proof -
  have "offset + sz = to_int64 (offset + sz) \<longleftrightarrow> offset + sz < 2 ^ 63"
  proof
    assume "offset + sz = to_int64 (offset + sz)"
    then show "offset + sz < 2 ^ 63" using to_int64_range(2)[of "offset + sz"] by simp
  next
    assume "offset + sz < 2 ^ 63"
    then show "offset + sz = to_int64 (offset + sz)" using to_int64_id[of "offset + sz"] assms(2,3) by simp
  qed
  moreover have "offset + sz - 1 = to_int64 (offset + sz - 1)" if "offset + sz < 2 ^ 63"
    using to_int64_id[of "offset + sz - 1"] that assms(2,3) by simp
  ultimately have "range_last offset sz = (if offset + sz < 2 ^ 63 then Some (offset + sz - 1) else None)"
    by (auto simp: range_last_def)
  then show ?thesis
    using assms(1) by (simp add: AtmosReadObjectRequest_set_range_offset_size_def upd_read_def)
qed

end
