(* ===== verification/Datetime.thy ===== *)
theory Datetime
  imports String_Builder
begin

text \<open>
  Dates: the \<open>Date\<close> header (\<open>AtmosUtil_get_date\<close>) and the ISO timestamps of system metadata
  (\<open>AtmosUtil_parse_xml_datetime\<close>), with the C library functions they use: \<open>gmtime\<close> and
  \<open>strftime\<close> with the conversions the format uses, \<open>strptime\<close> for \<open>%FT%T%Z\<close>, and \<open>mktime\<close>.
\<close>

section \<open>The calendar\<close>

record tm =
  tm_year :: int
  tm_mon :: int
  tm_mday :: int
  tm_hour :: int
  tm_min :: int
  tm_sec :: int

text \<open>
  Days since 1970-01-01 of a civil date (\<open>tm_year\<close> is the full year and \<open>tm_mon\<close> counts from 1
  here); a day number past the end of the month continues into the next one, as \<open>mktime\<close> does.
\<close>

definition days_from_civil :: "int \<Rightarrow> int \<Rightarrow> int \<Rightarrow> int" where
  "days_from_civil y m d =
     (let y' = (if m \<le> 2 then y - 1 else y);
          mp = (if m \<le> 2 then m + 9 else m - 3);
          yoe = y' mod 400;
          doy = (153 * mp + 2) div 5 + d - 1
      in y' div 400 * 146097 + (yoe * 365 + yoe div 4 - yoe div 100 + doy) - 719468)"

definition timegm :: "tm \<Rightarrow> int" where
  "timegm t = days_from_civil (tm_year t) (tm_mon t) (tm_mday t) * 86400 +
              tm_hour t * 3600 + tm_min t * 60 + tm_sec t"

definition gmtime :: "int \<Rightarrow> tm" where
  "gmtime s =
     (let days = s div 86400; secs = s mod 86400;
          z = days + 719468;
          doe = z mod 146097;
          yoe = (doe - doe div 1460 + doe div 36524 - doe div 146096) div 365;
          doy = doe - (365 * yoe + yoe div 4 - yoe div 100);
          mp = (5 * doy + 2) div 153;
          m = (if mp < 10 then mp + 3 else mp - 9)
      in \<lparr>tm_year = yoe + z div 146097 * 400 + (if m \<le> 2 then 1 else 0),
          tm_mon = m,
          tm_mday = doy - (153 * mp + 2) div 5 + 1,
          tm_hour = secs div 3600,
          tm_min = secs mod 3600 div 60,
          tm_sec = secs mod 60\<rparr>)"

definition weekday :: "int \<Rightarrow> int" where
  "weekday s = (s div 86400 + 4) mod 7"

section \<open>The \<open>Date\<close> header\<close>

text \<open>\<open>%02d\<close>.\<close>

definition pad2 :: "int \<Rightarrow> string" where
  "pad2 n = (if n < 10 then CHR ''0'' # show_int n else show_int n)"

definition day_name :: "int \<Rightarrow> string" where
  "day_name d = [''Sun'', ''Mon'', ''Tue'', ''Wed'', ''Thu'', ''Fri'', ''Sat''] ! nat d"

definition month_name :: "int \<Rightarrow> string" where
  "month_name m = [''Jan'', ''Feb'', ''Mar'', ''Apr'', ''May'', ''Jun'', ''Jul'', ''Aug'', ''Sep'',
     ''Oct'', ''Nov'', ''Dec''] ! nat (m - 1)"

text \<open>
  The conversions of \<open>strftime\<close> in the C locale, as far as a date needs them (a conversion that is not listed
  gives nothing), and the text of a format: what is not a conversion is copied.
\<close>

definition conversion :: "int \<Rightarrow> tm \<Rightarrow> char \<Rightarrow> string" where
  "conversion wday t c =
     (if c = CHR ''a'' then day_name wday
      else if c = CHR ''b'' then month_name (tm_mon t)
      else if c = CHR ''d'' then pad2 (tm_mday t)
      else if c = CHR ''m'' then pad2 (tm_mon t)
      else if c = CHR ''Y'' then show_int (tm_year t)
      else if c = CHR ''H'' then pad2 (tm_hour t)
      else if c = CHR ''M'' then pad2 (tm_min t)
      else if c = CHR ''S'' then pad2 (tm_sec t)
      else if c = CHR ''%'' then ''%''
      else [])"

fun strftime_text :: "int \<Rightarrow> tm \<Rightarrow> string \<Rightarrow> string" where
  "strftime_text wday t [] = []"
| "strftime_text wday t [c] = [c]"
| "strftime_text wday t (c # d # fmt) =
     (if c = CHR ''%'' then conversion wday t d @ strftime_text wday t fmt else c # strftime_text wday t (d # fmt))"

text \<open>
  \<open>strftime\<close> is given a size of 256 while the array of the only caller has 255 bytes; the text
  is written only when it fits the given size.
\<close>

definition AtmosUtil_get_date :: "env \<Rightarrow> buffer \<Rightarrow> buffer option" where
  "AtmosUtil_get_date E formated_time =
     (let t = time_now E; text = strftime_text (weekday t) (gmtime t) ''%a, %d %b %Y %H:%M:%S GMT''
      in if length text < 256 then strcpy formated_time text else Some formated_time)"

text \<open>What \<open>strftime\<close> makes of the format of \<open>AtmosUtil_get_date\<close>.\<close>

definition strftime_http :: "int \<Rightarrow> tm \<Rightarrow> string" where
  "strftime_http wday t =
     day_name wday @ '', '' @ pad2 (tm_mday t) @ '' '' @ month_name (tm_mon t) @ '' '' @
     show_int (tm_year t) @ '' '' @ pad2 (tm_hour t) @ '':'' @ pad2 (tm_min t) @ '':'' @
     pad2 (tm_sec t) @ '' GMT''"

lemma strftime_text_http: "strftime_text wday t ''%a, %d %b %Y %H:%M:%S GMT'' = strftime_http wday t"
  by (simp add: conversion_def strftime_http_def)

declare strftime_text.simps [simp del]

lemma date_example: "strftime_http (weekday 1212683899) (gmtime 1212683899) = ''Thu, 05 Jun 2008 16:38:19 GMT''"
  by code_simp

lemma show_int_small: "0 \<le> n \<Longrightarrow> n < 10 ^ k \<Longrightarrow> 0 < k \<Longrightarrow> length (show_int n) \<le> k"
  using show_nat_length[of "nat n" k] by (simp add: show_int_def nat_less_iff)

lemma pad2_length: "0 \<le> n \<Longrightarrow> n < 100 \<Longrightarrow> length (pad2 n) \<le> 2"
  using show_int_small[of n 1] show_int_small[of n 2] by (auto simp: pad2_def)

lemma nth_length_le: "i < length xs \<Longrightarrow> (\<forall>x \<in> set xs. length x \<le> k) \<Longrightarrow> length (xs ! i) \<le> k"
  by simp

lemma day_name_length: "0 \<le> d \<Longrightarrow> d < 7 \<Longrightarrow> length (day_name d) \<le> 3"
  unfolding day_name_def by (rule nth_length_le) auto

lemma month_name_length: "1 \<le> m \<Longrightarrow> m \<le> 12 \<Longrightarrow> length (month_name m) \<le> 3"
  unfolding month_name_def by (rule nth_length_le) auto

section \<open>ISO timestamps\<close>

text \<open>
  The number parser of \<open>strptime\<close>: leading spaces are skipped, at most \<open>n\<close> digits are read
  while the value can still stay below the limit.
\<close>

primrec get_digits :: "nat \<Rightarrow> nat \<Rightarrow> nat \<Rightarrow> string \<Rightarrow> nat \<times> string" where
  "get_digits 0 to v s = (v, s)"
| "get_digits (Suc n) to v s =
     (case s of
        [] \<Rightarrow> (v, s)
      | c # cs \<Rightarrow> if v * 10 \<le> to \<and> is_digit c then get_digits n to (v * 10 + digit_val c) cs else (v, s))"

definition get_number :: "nat \<Rightarrow> nat \<Rightarrow> nat \<Rightarrow> string \<Rightarrow> (nat \<times> string) option" where
  "get_number from to n s =
     (case dropWhile (\<lambda>c. c = CHR '' '') s of
        [] \<Rightarrow> None
      | c # cs \<Rightarrow>
          if is_digit c then
            (let (v, r) = get_digits (n - 1) to (digit_val c) cs in
             if from \<le> v \<and> v \<le> to then Some (v, r) else None)
          else None)"

definition match_char :: "char \<Rightarrow> string \<Rightarrow> string option" where
  "match_char c s = (case s of [] \<Rightarrow> None | d # r \<Rightarrow> if c = d then Some r else None)"

text \<open>\<open>strptime(s, "%FT%T%Z", &t)\<close>; \<open>%Z\<close> skips a zone name and never fails.\<close>

definition strptime_FTZ :: "string \<Rightarrow> tm option" where
  "strptime_FTZ s = do {
     (y, s) \<leftarrow> get_number 0 9999 4 s;
     s \<leftarrow> match_char CHR ''-'' s;
     (mo, s) \<leftarrow> get_number 1 12 2 s;
     s \<leftarrow> match_char CHR ''-'' s;
     (d, s) \<leftarrow> get_number 1 31 2 s;
     s \<leftarrow> match_char CHR ''T'' s;
     (h, s) \<leftarrow> get_number 0 23 2 s;
     s \<leftarrow> match_char CHR '':'' s;
     (mi, s) \<leftarrow> get_number 0 59 2 s;
     s \<leftarrow> match_char CHR '':'' s;
     (sec, s) \<leftarrow> get_number 0 61 2 s;
     Some \<lparr>tm_year = int y, tm_mon = int mo, tm_mday = int d,
           tm_hour = int h, tm_min = int mi, tm_sec = int sec\<rparr>
   }"

text \<open>\<open>mktime\<close> of a broken-down time whose \<open>tm_isdst\<close> is 0: standard time of the zone.\<close>

definition mktime :: "env \<Rightarrow> tm \<Rightarrow> int" where
  "mktime E t = timegm t + (if mktime_uses_gmtoff E then 0 else tz_west E)"

definition AtmosUtil_parse_xml_datetime :: "env \<Rightarrow> string \<Rightarrow> int option" where
  "AtmosUtil_parse_xml_datetime E value = do {
     buffer \<leftarrow> AtmosUtil_strlcpy (replicate ATMOS_SIMPLE_HEADER_MAX (junk E)) value ATMOS_SIMPLE_HEADER_MAX;
     s \<leftarrow> c_str buffer;
     buffer \<leftarrow> (if length s = 0 then None else buf_set buffer (length s - 1) NUL);
     s \<leftarrow> c_str buffer;
     buffer \<leftarrow> strcpy_at buffer (length s) ''GMT'';
     s \<leftarrow> c_str buffer;
     (case strptime_FTZ s of
        None \<Rightarrow> Some 0
      | Some t \<Rightarrow> Some (mktime E t - (if have_tm_gmtoff E then 0 else tz_west E)))
   }"

text \<open>The text the timestamp code hands to \<open>strptime\<close>: the last byte replaced by \<open>GMT\<close>.\<close>

lemma parse_xml_datetime_text:
  assumes "cstring v" "v \<noteq> []" "length v \<le> 252"
  shows "AtmosUtil_parse_xml_datetime E v =
     (case strptime_FTZ (butlast v @ ''GMT'') of
        None \<Rightarrow> Some 0
      | Some t \<Rightarrow> Some (mktime E t - (if have_tm_gmtoff E then 0 else tz_west E)))"
proof -
  define k where "k = 255 - length v"
  obtain u c where v: "v = u @ [c]" using assms(2) by (cases v rule: rev_cases) auto
  have u: "cstring u" using assms(1) v by simp
  let ?j = "replicate (254 - length v) (junk E)"
  have len: "length u \<le> 251" using assms(3) v by simp
  have b1: "AtmosUtil_strlcpy (replicate ATMOS_SIMPLE_HEADER_MAX (junk E)) v ATMOS_SIMPLE_HEADER_MAX
       = Some (v @ NUL # ?j)"
    using assms(3) by (simp add: AtmosUtil_strlcpy_write buf_write_def)
  have b2: "buf_set (v @ NUL # ?j) (length v - 1) NUL = Some (u @ NUL # NUL # ?j)"
    using v by (simp add: buf_set_def list_update_append)
  have b3: "strcpy_at (u @ NUL # NUL # ?j) (length u) ''GMT'' =
       Some (u @ ''GMT'' @ NUL # drop 4 (NUL # NUL # ?j))"
    using v len by (simp add: strcpy_at_def buf_write_def)
  have "cstring (u @ ''GMT'')" using u by simp
  then have b4: "c_str (u @ ''GMT'' @ NUL # drop 4 (NUL # NUL # ?j)) = Some (u @ ''GMT'')"
    using c_str_append_NUL[of "u @ ''GMT''"] by (simp del: cstring_append)
  have bl: "butlast v = u" "length v \<noteq> 0" using v by auto
  note [simp del] = append.simps drop_Cons_numeral One_nat_def
  show ?thesis
    unfolding AtmosUtil_parse_xml_datetime_def b1 bl(1) bind.bind_lunit c_str_append_NUL[OF assms(1)] if_not_P[OF bl(2)]
      b2 c_str_append_NUL[OF u] b3 b4 by (rule refl)
qed

text \<open>An empty value makes the code write before the start of its buffer.\<close>

lemma parse_xml_datetime_empty: "AtmosUtil_parse_xml_datetime E [] = None"
  by (simp add: AtmosUtil_parse_xml_datetime_def AtmosUtil_strlcpy_write buf_write_def c_str_def)

subsection \<open>Parsing what a server prints\<close>

fun digits_of :: "nat \<Rightarrow> nat \<Rightarrow> string" where
  "digits_of 0 n = []"
| "digits_of (Suc k) n = digits_of k (n div 10) @ [digit_char (n mod 10)]"

definition iso_text :: "tm \<Rightarrow> string" where
  "iso_text t = digits_of 4 (nat (tm_year t)) @ ''-'' @ digits_of 2 (nat (tm_mon t)) @ ''-'' @
     digits_of 2 (nat (tm_mday t)) @ ''T'' @ digits_of 2 (nat (tm_hour t)) @ '':'' @
     digits_of 2 (nat (tm_min t)) @ '':'' @ digits_of 2 (nat (tm_sec t))"

definition tm_ok :: "tm \<Rightarrow> bool" where
  "tm_ok t \<longleftrightarrow> 0 \<le> tm_year t \<and> tm_year t \<le> 9999 \<and> 1 \<le> tm_mon t \<and> tm_mon t \<le> 12 \<and>
     1 \<le> tm_mday t \<and> tm_mday t \<le> 31 \<and> 0 \<le> tm_hour t \<and> tm_hour t \<le> 23 \<and>
     0 \<le> tm_min t \<and> tm_min t \<le> 59 \<and> 0 \<le> tm_sec t \<and> tm_sec t \<le> 61"

lemma digit_space: "d < 10 \<Longrightarrow> digit_char d \<noteq> CHR '' ''"
  using digit_char_props(3)[of d] by (auto simp: is_space_def[of "CHR '' ''"] Let_def)

lemma get_number_2:
  assumes "n \<le> to" "from \<le> n" "to < 100" "10 \<le> to"
  shows "get_number from to 2 (digits_of 2 n @ r) = Some (n, r)"
proof -
  have d: "n div 10 mod 10 = n div 10" "n div 10 < 10" "n mod 10 < 10" using assms by auto
  have le: "n div 10 * 10 \<le> to" using assms(1) by (meson div_times_less_eq_dividend le_trans)
  have "digits_of 2 n = [digit_char (n div 10), digit_char (n mod 10)]"
    by (simp add: numeral_2_eq_2 d)
  then show ?thesis using assms le d digit_space[of "n div 10"]
    by (simp add: get_number_def digit_char_props)
qed

lemma get_digits_3:
  fixes a b c d n :: nat
  assumes "((a * 10 + b) * 10 + c) * 10 + d = n" "n \<le> to" "b < 10" "c < 10" "d < 10"
  shows "get_digits 3 to a (digit_char b # digit_char c # digit_char d # r) = (n, r)"
proof -
  have l3: "((a * 10 + b) * 10 + c) * 10 \<le> to" using assms(1,2) by simp
  then have l2: "(a * 10 + b) * 10 \<le> to" by simp
  then have l1: "a * 10 \<le> to" by simp
  note l3 l2 l1
  moreover have "10 * ((a * 10 + b) * 10 + c) + d = n" using assms(1) by simp
  ultimately show ?thesis using assms(3-5) by (simp add: numeral_3_eq_3 digit_char_props mult.commute)
qed

lemma get_number_4:
  assumes "n \<le> 9999"
  shows "get_number 0 9999 4 (digits_of 4 n @ r) = Some (n, r)"
proof -
  let ?a = "n div 1000" and ?b = "n div 100 mod 10" and ?c = "n div 10 mod 10" and ?d = "n mod 10"
  have a: "?a < 10" "?b < 10" "?c < 10" "?d < 10" using assms by auto
  have dv: "n div 10 div 10 = n div 100" "n div 100 div 10 = n div 1000" by (simp_all add: div_mult2_eq[symmetric])
  have four: "4 = Suc (Suc (Suc (Suc 0)))" by simp
  have "digits_of 4 n = [digit_char (n div 1000 mod 10), digit_char ?b, digit_char ?c, digit_char ?d]"
    unfolding four digits_of.simps dv by simp
  moreover have "?a mod 10 = ?a" using a by simp
  ultimately have s: "digits_of 4 n = [digit_char ?a, digit_char ?b, digit_char ?c, digit_char ?d]" by simp
  have v: "((?a * 10 + ?b) * 10 + ?c) * 10 + ?d = n"
    using div_mult_mod_eq[of "n div 100" 10] div_mult_mod_eq[of "n div 10" 10] div_mult_mod_eq[of n 10]
    unfolding dv by simp
  have "get_digits 3 9999 ?a (digit_char ?b # digit_char ?c # digit_char ?d # r) = (n, r)"
    using get_digits_3[OF v assms a(2-4)] .
  then show ?thesis using a(1) assms digit_space[OF a(1)]
    by (simp add: get_number_def s digit_char_props)
qed

lemma match_char_same [simp]: "match_char c (c # r) = Some r"
  by (simp add: match_char_def)

lemma strptime_iso:
  assumes "tm_ok t"
  shows "strptime_FTZ (iso_text t @ r) = Some t"
proof -
  have n: "nat (tm_year t) \<le> 9999" "nat (tm_mon t) \<le> 12" "1 \<le> nat (tm_mon t)" "nat (tm_mday t) \<le> 31"
    "1 \<le> nat (tm_mday t)" "nat (tm_hour t) \<le> 23" "nat (tm_min t) \<le> 59" "nat (tm_sec t) \<le> 61"
    using assms by (auto simp: tm_ok_def)
  show ?thesis using assms
    by (simp add: strptime_FTZ_def iso_text_def get_number_4[OF n(1)] get_number_2[OF n(2,3)]
        get_number_2[OF n(4,5)] get_number_2[OF n(6)] get_number_2[OF n(7)] get_number_2[OF n(8)] tm_ok_def
        del: digits_of.simps One_nat_def)
qed

lemma length_digits_of [simp]: "length (digits_of k n) = k"
  by (induction k arbitrary: n) auto

lemma cstring_digits_of [simp]: "cstring (digits_of k n)"
proof (induction k arbitrary: n)
  case (Suc k)
  have "digit_char (n mod 10) \<noteq> NUL"
    using is_digit_not_special[OF digit_char_props(1)[of "n mod 10"]] by simp
  then show ?case using Suc by simp
qed simp

lemma cstring_iso_text [simp]: "cstring (iso_text t)"
  by (simp add: iso_text_def del: digits_of.simps)

lemma length_iso_text [simp]: "length (iso_text t) = 19"
  by (simp add: iso_text_def del: digits_of.simps)

lemma parse_iso_datetime:
  assumes "tm_ok t" "z \<noteq> NUL"
  shows "AtmosUtil_parse_xml_datetime E (iso_text t @ [z]) =
     Some (mktime E t - (if have_tm_gmtoff E then 0 else tz_west E))"
proof -
  have "AtmosUtil_parse_xml_datetime E (iso_text t @ [z]) =
     (case strptime_FTZ (butlast (iso_text t @ [z]) @ ''GMT'') of
        None \<Rightarrow> Some 0
      | Some t \<Rightarrow> Some (mktime E t - (if have_tm_gmtoff E then 0 else tz_west E)))"
    by (rule parse_xml_datetime_text) (use assms(2) in simp_all)
  then show ?thesis by (simp only: butlast_snoc strptime_iso[OF assms(1)] option.case)
qed

text \<open>
  C30: An ISO timestamp \<open>yyyy-mm-ddThh:mm:ssZ\<close> is read as the UTC time it names, in every time zone,
  where \<open>configure\<close> and \<open>mktime\<close> agree on \<open>tm_gmtoff\<close> (BSD: both know it; Linux as
  the code expects it: neither does).
\<close>

theorem parse_xml_datetime_utc:
  assumes "tm_ok t" "z \<noteq> NUL" "have_tm_gmtoff E = mktime_uses_gmtoff E"
  shows "AtmosUtil_parse_xml_datetime E (iso_text t @ [z]) = Some (timegm t)"
  using parse_iso_datetime[OF assms(1,2), of E] assms(3) by (simp add: mktime_def)

theorem parse_xml_datetime_utc_witness:
  "AtmosUtil_parse_xml_datetime list_env ''2012-03-29T19:01:11Z'' = Some 1333047671"
proof -
  let ?t = "\<lparr>tm_year = 2012, tm_mon = 3, tm_mday = 29, tm_hour = 19, tm_min = 1, tm_sec = 11\<rparr>"
  have "iso_text ?t @ ''Z'' = ''2012-03-29T19:01:11Z''" "timegm ?t = 1333047671" by code_simp+
  moreover have "tm_ok ?t" "have_tm_gmtoff list_env = mktime_uses_gmtoff list_env"
    by (simp_all add: tm_ok_def list_env_def)
  ultimately show ?thesis using parse_xml_datetime_utc[of ?t "CHR ''Z''" list_env] by simp
qed

text \<open>
  Where \<open>configure\<close> finds the member \<open>tm_gmtoff\<close> but \<open>mktime\<close> ignores it, as with the
  GNU C library, the result is off by the zone of the process.
\<close>

lemma parse_xml_datetime_gnu:
  assumes "tm_ok t" "z \<noteq> NUL" "have_tm_gmtoff E" "\<not> mktime_uses_gmtoff E"
  shows "AtmosUtil_parse_xml_datetime E (iso_text t @ [z]) = Some (timegm t + tz_west E)"
  using parse_iso_datetime[OF assms(1,2), of E] assms(3,4) by (simp add: mktime_def)

end
