(* ===== verification/Header_Parsers.thy ===== *)
theory Header_Parsers
  imports Header_Writers Datetime
begin

text \<open>
  The response headers the client reads (\<open>atmos_util.c\<close>): comma-separated lists of
  \<open>name=value\<close> entries for user metadata, system metadata and ACLs. The three loops have the
  same shape; the locale \<open>comma_list\<close> states it once and turns a loop into an iteration over
  the pieces between the commas. It is interpreted on each of the three.
\<close>

section \<open>One entry\<close>

text \<open>
  Without a \<open>=\<close> the entry is the name and \<open>value\<close> is left alone. The stores are those of
  \<open>strcpy\<close>, which the size of the caller's arrays does not bound.
\<close>

definition AtmosUtil_parse_meta_header_entry :: "string \<Rightarrow> buffer \<Rightarrow> buffer \<Rightarrow> (buffer \<times> buffer) option" where
  "AtmosUtil_parse_meta_header_entry entry name value =
     (let entry = dropWhile (\<lambda>c. c = CHR '' '') entry in
      case strstr entry ''='' of
        None \<Rightarrow> do { name \<leftarrow> strcpy name entry; Some (name, value) }
      | Some namesz \<Rightarrow> do {
          name \<leftarrow> AtmosUtil_strlcpy name entry (namesz + 1);
          (let valpos = dropWhile (\<lambda>c. c = CHR '' '') (drop (namesz + 1) entry) in do {
            value \<leftarrow> strcpy value valpos;
            Some (name, value)
          })
        })"

text \<open>
  The first half of a round of each of the three loops: the entry up to the next comma is copied
  into the local array \<open>entry\<close> (the last one is parsed in place), and \<open>entry_name\<close> and
  \<open>entry_value\<close> receive its two parts. Their first byte is reset in every round; what earlier
  rounds left behind the terminators is never read, so the arrays are taken with arbitrary bytes.
\<close>

definition next_entry :: "env \<Rightarrow> nat \<Rightarrow> nat \<Rightarrow> nat \<Rightarrow> string \<Rightarrow> (string \<times> string) option" where
  "next_entry E entrysz namesz valuesz value = do {
     entry_name \<leftarrow> buf_set (replicate namesz (junk E)) 0 NUL;
     entry_value \<leftarrow> buf_set (replicate valuesz (junk E)) 0 NUL;
     (entry_name, entry_value) \<leftarrow>
       (case strstr value '','' of
          None \<Rightarrow> AtmosUtil_parse_meta_header_entry value entry_name entry_value
        | Some n \<Rightarrow> do {
            entry \<leftarrow> AtmosUtil_strlcpy (replicate entrysz (junk E)) value (n + 1);
            entry \<leftarrow> c_str entry;
            AtmosUtil_parse_meta_header_entry entry entry_name entry_value
          });
     n \<leftarrow> c_str entry_name;
     v \<leftarrow> c_str entry_value;
     Some (n, v)
   }"

text \<open>What an entry means.\<close>

definition entry_parts :: "string \<Rightarrow> string \<times> string" where
  "entry_parts p =
     (let e = dropWhile (\<lambda>c. c = CHR '' '') p in
      if CHR ''='' \<in> set e
      then (takeWhile (\<lambda>c. c \<noteq> CHR ''='') e,
            dropWhile (\<lambda>c. c = CHR '' '') (drop (Suc (length (takeWhile (\<lambda>c. c \<noteq> CHR ''='') e))) e))
      else (e, []))"

definition entry_fits :: "nat \<Rightarrow> nat \<Rightarrow> nat \<Rightarrow> string \<Rightarrow> bool" where
  "entry_fits entrysz namesz valuesz p \<longleftrightarrow>
     length p < entrysz \<and> length (fst (entry_parts p)) < namesz \<and> length (snd (entry_parts p)) < valuesz"

lemma cstring_dropWhile: "cstring s \<Longrightarrow> cstring (dropWhile P s)"
  by (auto simp: cdefs dest: set_dropWhileD)

lemma cstring_takeWhile: "cstring s \<Longrightarrow> cstring (takeWhile P s)"
  by (auto simp: cdefs dest: set_takeWhileD)

lemma entry_parts_cstring:
  "cstring p \<Longrightarrow> cstring (fst (entry_parts p)) \<and> cstring (snd (entry_parts p))"
  by (auto simp: entry_parts_def Let_def intro!: cstring_dropWhile cstring_takeWhile cstring_drop)

lemma entry_parts_pair:
  assumes "CHR ''='' \<notin> set n" "n = [] \<or> hd n \<noteq> CHR '' ''" "v = [] \<or> hd v \<noteq> CHR '' ''"
  shows "entry_parts (n @ ''='' @ v) = (n, v)"
proof -
  have "dropWhile (\<lambda>c. c = CHR '' '') (n @ ''='' @ v) = n @ ''='' @ v"
    by (rule dropWhile_hd_id) (use assms(2) in \<open>cases n; auto\<close>)
  then show ?thesis using assms(1,3)
    by (simp add: entry_parts_def dropWhile_hd_id[of v])
qed

lemma entry_parts_space [simp]: "entry_parts (CHR '' '' # p) = entry_parts p"
  by (simp add: entry_parts_def)

lemma copy_c_str:
  assumes "length s < length b"
  shows "strcpy b s = Some (s @ NUL # drop (Suc (length s)) b)"
  using assms by (simp add: strcpy_at_def buf_write_def)

lemma strlcpy_prefix:
  assumes "n \<le> length s" "n < length b" "length b \<le> 2 ^ 64"
  shows "AtmosUtil_strlcpy b s (n + 1) = Some (take n s @ NUL # drop (Suc n) b)"
  using assms by (simp add: AtmosUtil_strlcpy_write buf_write_def)

lemma parse_entry_ok:
  assumes "cstring p" "length (fst (entry_parts p)) < length nb" "length (snd (entry_parts p)) < length vb"
    "length nb \<le> 2 ^ 64" "c_str vb = Some []"
  shows "\<exists>nb' vb'. AtmosUtil_parse_meta_header_entry p nb vb = Some (nb', vb') \<and>
           c_str nb' = Some (fst (entry_parts p)) \<and> c_str vb' = Some (snd (entry_parts p))"
proof -
  define e where "e = dropWhile (\<lambda>c. c = CHR '' '') p"
  have e: "cstring e" unfolding e_def by (rule cstring_dropWhile[OF assms(1)])
  show ?thesis
  proof (cases "CHR ''='' \<in> set e")
    case False
    then have "entry_parts p = (e, [])" by (simp add: entry_parts_def e_def)
    then show ?thesis using assms False e
      by (auto simp: AtmosUtil_parse_meta_header_entry_def Let_def e_def[symmetric] strstr_char copy_c_str c_str_append_NUL[OF e])
  next
    case True
    define k where "k = length (takeWhile (\<lambda>c. c \<noteq> CHR ''='') e)"
    define v where "v = dropWhile (\<lambda>c. c = CHR '' '') (drop (Suc k) e)"
    have tk: "takeWhile (\<lambda>c. c \<noteq> CHR ''='') e = take k e"
      unfolding k_def by (rule takeWhile_eq_take)
    have k: "k \<le> length e" unfolding k_def by (rule length_takeWhile_le)
    have parts: "entry_parts p = (take k e, v)"
      using True k by (simp add: entry_parts_def Let_def e_def[symmetric] tk v_def)
    have kn: "k < length nb" using assms(2) k parts by simp
    have cs: "cstring (take k e)" "cstring v"
      unfolding v_def by (auto intro: cstring_take cstring_dropWhile cstring_drop e)
    have "AtmosUtil_strlcpy nb e (k + 1) = Some (take k e @ NUL # drop (Suc k) nb)"
      by (rule strlcpy_prefix[OF k kn assms(4)])
    moreover have "strcpy vb v = Some (v @ NUL # drop (Suc (length v)) vb)"
      by (rule copy_c_str) (use assms(3) parts in simp)
    moreover have "strstr e ''='' = Some k" using True by (simp add: strstr_char k_def)
    ultimately have "AtmosUtil_parse_meta_header_entry p nb vb =
        Some (take k e @ NUL # drop (Suc k) nb, v @ NUL # drop (Suc (length v)) vb)"
      by (simp add: AtmosUtil_parse_meta_header_entry_def Let_def e_def[symmetric] v_def[symmetric])
    then show ?thesis using cs parts by simp
  qed
qed

text \<open>The entry a round reads is the text before the next comma.\<close>

abbreviation first_piece :: "string \<Rightarrow> string" where
  "first_piece v \<equiv> takeWhile (\<lambda>c. c \<noteq> CHR '','') v"

lemma next_entry_ok:
  assumes "cstring v" "entry_fits entrysz namesz valuesz (first_piece v)"
    "entrysz \<le> 2 ^ 64" "namesz \<le> 2 ^ 64"
  shows "next_entry E entrysz namesz valuesz v = Some (entry_parts (first_piece v))"
proof -
  let ?p = "first_piece v"
  have p: "cstring ?p" by (rule cstring_takeWhile[OF assms(1)])
  have fit: "length ?p < entrysz" "length (fst (entry_parts ?p)) < namesz" "length (snd (entry_parts ?p)) < valuesz"
    using assms(2) by (auto simp: entry_fits_def)
  obtain m where m: "namesz = Suc m" using fit(2) by (cases namesz) auto
  obtain k where k: "valuesz = Suc k" using fit(3) by (cases valuesz) auto
  have set0: "buf_set (replicate namesz (junk E)) 0 NUL = Some (NUL # replicate m (junk E))"
    "buf_set (replicate valuesz (junk E)) 0 NUL = Some (NUL # replicate k (junk E))"
    using m k by (simp_all add: buf_set_def)
  have "\<exists>nb vb. AtmosUtil_parse_meta_header_entry ?p (NUL # replicate m (junk E)) (NUL # replicate k (junk E)) = Some (nb, vb) \<and>
    c_str nb = Some (fst (entry_parts ?p)) \<and> c_str vb = Some (snd (entry_parts ?p))"
    by (rule parse_entry_ok[OF p]) (use fit assms(4) m k in \<open>simp_all add: c_str_def\<close>)
  then obtain nb vb where pe: "AtmosUtil_parse_meta_header_entry ?p (NUL # replicate m (junk E)) (NUL # replicate k (junk E)) = Some (nb, vb)"
    "c_str nb = Some (fst (entry_parts ?p))" "c_str vb = Some (snd (entry_parts ?p))" by blast
  show ?thesis
  proof (cases "CHR '','' \<in> set v")
    case False
    then have pv: "?p = v" by (rule takeWhile_neq_notin)
    show ?thesis using False pe unfolding pv by (simp add: next_entry_def set0 strstr_char)
  next
    case True
    have "AtmosUtil_strlcpy (replicate entrysz (junk E)) v (length ?p + 1) =
        Some (take (length ?p) v @ NUL # drop (Suc (length ?p)) (replicate entrysz (junk E)))"
      by (rule strlcpy_prefix) (use fit(1) assms(3) length_takeWhile_le in auto)
    then have "AtmosUtil_strlcpy (replicate entrysz (junk E)) v (length ?p + 1) =
        Some (?p @ NUL # drop (Suc (length ?p)) (replicate entrysz (junk E)))"
      unfolding takeWhile_eq_take[symmetric] .
    then show ?thesis using True pe p by (simp add: next_entry_def set0 strstr_char)
  qed
qed

section \<open>Loops over comma-separated lists\<close>

text \<open>
  \<open>loop value s\<close> does \<open>step\<close> on what \<open>value\<close> starts with and goes on behind the next comma, as
  long as there is one.
\<close>

locale comma_list =
  fixes loop :: "string \<Rightarrow> 's \<Rightarrow> 's option"
    and step :: "string \<Rightarrow> 's \<Rightarrow> 's option"
  assumes loop_rec: "loop v s = do { s \<leftarrow> step v s;
      (case strstr v '','' of None \<Rightarrow> Some s | Some n \<Rightarrow> loop (drop (n + 1) v) s) }"
begin

text \<open>When a step only looks at the piece before the comma, the loop is a fold over the pieces.\<close>

lemma loop_pieces:
  assumes "\<And>u s. cstring u \<Longrightarrow> P (first_piece u) \<Longrightarrow> step u s = f (first_piece u) s"
    and "cstring v" "\<forall>p \<in> set (split_on CHR '','' v). P p"
  shows "loop v s = foldM (\<lambda>s p. f p s) s (split_on CHR '','' v)"
  using assms(2,3)
proof (induction "length v" arbitrary: v s rule: less_induct)
  case less
  show ?case
  proof (cases "CHR '','' \<in> set v")
    case False
    then have split: "split_on CHR '','' v = [v]" and piece: "first_piece v = v"
      by (simp_all only: split_on_notin takeWhile_neq_notin not_False_eq_True)
    have "step v s = f v s" using assms(1)[of v s] less.prems unfolding piece split by simp
    then show ?thesis unfolding split using False by (subst loop_rec) (simp add: strstr_char)
  next
    case True
    define n where "n = length (first_piece v)"
    have v: "v = first_piece v @ CHR '','' # drop (Suc n) v"
      unfolding n_def by (rule split_at_first[OF True])
    have split: "split_on CHR '','' v = first_piece v # split_on CHR '','' (drop (Suc n) v)"
      by (subst v) (rule split_on_append, rule takeWhile_neq_set)
    have short: "length (drop (Suc n) v) < length v" using True by (cases v) auto
    have rest: "cstring (drop (Suc n) v)" using less.prems(1) by (rule cstring_drop)
    have "loop (drop (Suc n) v) t = foldM (\<lambda>s p. f p s) t (split_on CHR '','' (drop (Suc n) v))" for t
      using less.hyps[OF short rest] less.prems(2) split by simp
    moreover have "step v s = f (first_piece v) s" using assms(1)[of v s] less.prems unfolding split by simp
    moreover have "loop v s = do { s \<leftarrow> step v s; loop (drop (n + 1) v) s }"
      using True by (subst loop_rec) (simp only: strstr_char if_True option.case n_def)
    ultimately show ?thesis unfolding split by (simp only: foldM.simps Suc_eq_plus1)
  qed
qed

end

lemma comma_shorter: "strstr v '','' = Some n \<Longrightarrow> length (drop (n + 1) v) < length v"
  by (cases v) (simp_all del: strstr.simps(2))

section \<open>User metadata\<close>

definition AtmosUtil_strlcpy_utf8 :: "env \<Rightarrow> buffer \<Rightarrow> string \<Rightarrow> nat \<Rightarrow> int \<Rightarrow> buffer option" where
  "AtmosUtil_strlcpy_utf8 E dest src destsz utf8 =
     (if utf8 \<noteq> 0 then
        (case curl_easy_unescape E src of
           None \<Rightarrow> Some dest
         | Some decoded \<Rightarrow> AtmosUtil_strlcpy dest decoded destsz)
      else AtmosUtil_strlcpy dest src destsz)"

text \<open>
  The array with its counter. An entry with the name of a system value is skipped. Nothing
  compares the counter with the size of the array, and names are copied with the bound of values.
\<close>

type_synonym meta_array = "AtmosMetadata list \<times> int"

definition user_meta_step :: "env \<Rightarrow> int \<Rightarrow> string \<Rightarrow> meta_array \<Rightarrow> meta_array option" where
  "user_meta_step E utf8 value st = do {
     (entry_name, entry_value) \<leftarrow> next_entry E (ATMOS_META_NAME_MAX * 3 + 1 + ATMOS_META_VALUE_MAX * 3)
        (ATMOS_META_NAME_MAX * 3) (ATMOS_META_VALUE_MAX * 3) value;
     if AtmosUtil_is_system_meta_name entry_name \<noteq> 0 then Some st
     else (case st of (meta, meta_count) \<Rightarrow> do {
       m \<leftarrow> arr_get meta meta_count;
       name \<leftarrow> AtmosUtil_strlcpy_utf8 E (md_name m) entry_name ATMOS_META_VALUE_MAX utf8;
       value \<leftarrow> AtmosUtil_strlcpy_utf8 E (md_value m) entry_value ATMOS_META_VALUE_MAX utf8;
       meta \<leftarrow> arr_set meta meta_count (m\<lparr>md_name := name, md_value := value\<rparr>);
       Some (meta, meta_count + 1)
     })
   }"

function AtmosUtil_parse_meta_header_string :: "env \<Rightarrow> int \<Rightarrow> string \<Rightarrow> meta_array \<Rightarrow> meta_array option" where
  "AtmosUtil_parse_meta_header_string E utf8 value st = do {
     st \<leftarrow> user_meta_step E utf8 value st;
     (case strstr value '','' of
        None \<Rightarrow> Some st
      | Some value_end \<Rightarrow> AtmosUtil_parse_meta_header_string E utf8 (drop (value_end + 1) value) st)
   }"
  by pat_completeness auto
termination by (relation "measure (\<lambda>(E, utf8, value, st). length value)") (simp_all only: in_measure prod.case comma_shorter wf_measure)

declare AtmosUtil_parse_meta_header_string.simps [simp del]

interpretation user_meta: comma_list "AtmosUtil_parse_meta_header_string E utf8" "user_meta_step E utf8" for E utf8
  by unfold_locales (rule AtmosUtil_parse_meta_header_string.simps)

definition utf8_flag :: "env \<Rightarrow> RestResponse \<Rightarrow> int" where
  "utf8_flag E response =
     (case RestResponse_get_header_value E response ATMOS_HEADER_UTF8 of
        None \<Rightarrow> 0
      | Some value \<Rightarrow> if strcmp ''true'' value = 0 then 1 else 0)"

definition AtmosUtil_parse_user_meta_headers ::
    "env \<Rightarrow> RestResponse \<Rightarrow> meta_array \<Rightarrow> meta_array \<Rightarrow> (meta_array \<times> meta_array) option" where
  "AtmosUtil_parse_user_meta_headers E response meta listable_meta = (
     let utf8 = utf8_flag E response in do {
       meta \<leftarrow> (case RestResponse_get_header_value E response ATMOS_HEADER_META of
                  None \<Rightarrow> Some meta
                | Some value \<Rightarrow> AtmosUtil_parse_meta_header_string E utf8 value meta);
       listable_meta \<leftarrow> (case RestResponse_get_header_value E response ATMOS_HEADER_LISTABLE_META of
                  None \<Rightarrow> Some listable_meta
                | Some value \<Rightarrow> AtmosUtil_parse_meta_header_string E utf8 value listable_meta);
       Some (meta, listable_meta)
     })"

subsection \<open>What the header means\<close>

definition unescaped :: "env \<Rightarrow> int \<Rightarrow> string \<Rightarrow> string" where
  "unescaped E utf8 s = (if utf8 \<noteq> 0 then the (curl_easy_unescape E s) else s)"

definition user_meta_of :: "env \<Rightarrow> int \<Rightarrow> string \<Rightarrow> (string \<times> string) list" where
  "user_meta_of E utf8 p =
     (case entry_parts p of (n, v) \<Rightarrow>
        if n \<in> set ATMOS_SYSTEM_META_NAMES then []
        else [(unescaped E utf8 n, take (ATMOS_META_VALUE_MAX - 1) (unescaped E utf8 v))])"

definition user_meta_list :: "env \<Rightarrow> int \<Rightarrow> string \<Rightarrow> (string \<times> string) list" where
  "user_meta_list E utf8 value = concat (map (user_meta_of E utf8) (split_on CHR '','' value))"

text \<open>The arrays of the code are large enough for the piece.\<close>

definition user_piece_fits :: "env \<Rightarrow> int \<Rightarrow> string \<Rightarrow> bool" where
  "user_piece_fits E utf8 p \<longleftrightarrow>
     entry_fits (ATMOS_META_NAME_MAX * 3 + 1 + ATMOS_META_VALUE_MAX * 3) (ATMOS_META_NAME_MAX * 3)
        (ATMOS_META_VALUE_MAX * 3) p \<and>
     (fst (entry_parts p) \<notin> set ATMOS_SYSTEM_META_NAMES \<longrightarrow> length (unescaped E utf8 (fst (entry_parts p))) < ATMOS_META_NAME_MAX)"

definition user_store :: "env \<Rightarrow> int \<Rightarrow> string \<times> string \<Rightarrow> meta_array \<Rightarrow> meta_array option" where
  "user_store E utf8 e st =
     (if AtmosUtil_is_system_meta_name (fst e) \<noteq> 0 then Some st
      else (case st of (meta, meta_count) \<Rightarrow> do {
        m \<leftarrow> arr_get meta meta_count;
        name \<leftarrow> AtmosUtil_strlcpy_utf8 E (md_name m) (fst e) ATMOS_META_VALUE_MAX utf8;
        value \<leftarrow> AtmosUtil_strlcpy_utf8 E (md_value m) (snd e) ATMOS_META_VALUE_MAX utf8;
        meta \<leftarrow> arr_set meta meta_count (m\<lparr>md_name := name, md_value := value\<rparr>);
        Some (meta, meta_count + 1)
      }))"

lemma user_meta_step_store:
  assumes "cstring u" "user_piece_fits E utf8 (first_piece u)"
  shows "user_meta_step E utf8 u st = user_store E utf8 (entry_parts (first_piece u)) st"
  using next_entry_ok[OF assms(1), of "ATMOS_META_NAME_MAX * 3 + 1 + ATMOS_META_VALUE_MAX * 3"
      "ATMOS_META_NAME_MAX * 3" "ATMOS_META_VALUE_MAX * 3" E] assms(2)
  by (cases "entry_parts (first_piece u)") (simp add: user_meta_step_def user_store_def user_piece_fits_def)

lemma strlcpy_utf8_ok:
  assumes "unescape_total E \<or> utf8 = 0" "cstring s" "0 < n" "n \<le> 2 ^ 64"
    "min (length (unescaped E utf8 s)) (n - 1) < length d"
  shows "\<exists>d'. AtmosUtil_strlcpy_utf8 E d s n utf8 = Some d' \<and> length d' = length d \<and>
           c_str d' = Some (take (n - 1) (unescaped E utf8 s))"
proof -
  have "cstring (unescaped E utf8 s) \<and> AtmosUtil_strlcpy_utf8 E d s n utf8 = AtmosUtil_strlcpy d (unescaped E utf8 s) n"
  proof (cases "utf8 = 0")
    case False
    then obtain t where "curl_easy_unescape E s = Some t" "cstring t"
      using assms(1,2) unfolding unescape_total_def by blast
    then show ?thesis using False by (simp add: unescaped_def AtmosUtil_strlcpy_utf8_def)
  qed (simp add: assms(2) unescaped_def AtmosUtil_strlcpy_utf8_def)
  then have cs: "cstring (unescaped E utf8 s)"
    and eq: "AtmosUtil_strlcpy_utf8 E d s n utf8 = AtmosUtil_strlcpy d (unescaped E utf8 s) n" by simp_all
  obtain d' where "AtmosUtil_strlcpy d (unescaped E utf8 s) n = Some d'"
    using AtmosUtil_strlcpy_Some[OF assms(3,4,5)] by blast
  then show ?thesis using eq AtmosUtil_strlcpy_c_str[OF assms(3,4) cs] AtmosUtil_strlcpy_length by auto
qed

definition user_inv :: "meta_array \<Rightarrow> (string \<times> string) list \<Rightarrow> bool" where
  "user_inv st L \<longleftrightarrow> arr_holds metadata_pair (fst st) (snd st) L \<and> (\<forall>m \<in> set (fst st). wf_metadata m)"

lemma user_store_ok:
  assumes "unescape_total E \<or> utf8 = 0" "cstring p" "user_piece_fits E utf8 p"
    "user_inv (meta, n) L" "length (L @ user_meta_of E utf8 p) \<le> length meta"
  shows "\<exists>meta' n'. user_store E utf8 (entry_parts p) (meta, n) = Some (meta', n') \<and>
           user_inv (meta', n') (L @ user_meta_of E utf8 p) \<and> length meta' = length meta"
proof -
  obtain a b where e: "entry_parts p = (a, b)" by (cases "entry_parts p")
  have cs: "cstring a" "cstring b" using entry_parts_cstring[OF assms(2)] e by auto
  have holds: "arr_holds metadata_pair meta n L" and wf: "\<forall>m \<in> set meta. wf_metadata m"
    using assms(4) by (auto simp: user_inv_def)
  show ?thesis
  proof (cases "AtmosUtil_is_system_meta_name a \<noteq> 0")
    case True
    then show ?thesis using assms(4) e by (auto simp: user_store_def user_meta_of_def is_system_meta_name_iff)
  next
    case False
    then have of_p: "user_meta_of E utf8 p = [(unescaped E utf8 a, take (ATMOS_META_VALUE_MAX - 1) (unescaped E utf8 b))]"
      using e is_system_meta_name_iff[of a] by (simp add: user_meta_of_def)
    have n: "n = int (length L)" "length L < length meta"
      using holds assms(5) of_p by (auto simp: arr_holds_def)
    define m where "m = meta ! length L"
    have m: "arr_get meta n = Some m" "wf_metadata m" using n wf by (auto simp: arr_get_def m_def)
    have an: "length (unescaped E utf8 a) < ATMOS_META_NAME_MAX" using assms(3) e False is_system_meta_name_iff[of a] by (simp add: user_piece_fits_def)
    obtain nb where nb: "AtmosUtil_strlcpy_utf8 E (md_name m) a ATMOS_META_VALUE_MAX utf8 = Some nb"
      "length nb = ATMOS_META_NAME_MAX" "c_str nb = Some (unescaped E utf8 a)"
      using strlcpy_utf8_ok[OF assms(1) cs(1), of ATMOS_META_VALUE_MAX "md_name m"] m(2) an
      by (auto simp: wf_metadata_def)
    have mn: "min (length (unescaped E utf8 b)) (ATMOS_META_VALUE_MAX - 1) < length (md_value m)"
      using m(2) by (auto simp: wf_metadata_def)
    obtain vb where vb: "AtmosUtil_strlcpy_utf8 E (md_value m) b ATMOS_META_VALUE_MAX utf8 = Some vb"
      "length vb = ATMOS_META_VALUE_MAX" "c_str vb = Some (take (ATMOS_META_VALUE_MAX - 1) (unescaped E utf8 b))"
      using strlcpy_utf8_ok[OF assms(1) cs(2) _ _ mn] m(2) by (auto simp: wf_metadata_def)
    let ?m = "m\<lparr>md_name := nb, md_value := vb\<rparr>"
    have set: "arr_set meta n ?m = Some (meta[length L := ?m])" using n by (simp add: arr_set_def)
    have "user_store E utf8 (entry_parts p) (meta, n) = Some (meta[length L := ?m], n + 1)"
      using False m nb vb set e by (simp add: user_store_def)
    moreover have "user_inv (meta[length L := ?m], n + 1) (L @ user_meta_of E utf8 p)"
      unfolding user_inv_def of_p fst_conv snd_conv
    proof (intro conjI ballI)
      show "arr_holds metadata_pair (meta[length L := ?m]) (n + 1)
          (L @ [(unescaped E utf8 a, take (ATMOS_META_VALUE_MAX - 1) (unescaped E utf8 b))])"
        by (rule arr_holds_snoc[OF holds set]) (simp add: metadata_pair_def nb vb)
      show "wf_metadata x" if "x \<in> set (meta[length L := ?m])" for x
        using that wf nb vb set_update_subset_insert[of meta "length L" ?m] by (auto simp: wf_metadata_def)
    qed
    ultimately show ?thesis by simp
  qed
qed

lemma user_store_all:
  assumes "unescape_total E \<or> utf8 = 0" "\<forall>p \<in> set ps. cstring p \<and> user_piece_fits E utf8 p"
    "user_inv (meta, n) L" "length (L @ concat (map (user_meta_of E utf8) ps)) \<le> length meta"
  shows "\<exists>meta' n'. foldM (\<lambda>s p. user_store E utf8 (entry_parts p) s) (meta, n) ps = Some (meta', n') \<and>
           user_inv (meta', n') (L @ concat (map (user_meta_of E utf8) ps)) \<and> length meta' = length meta"
  using assms(2-4)
proof (induction ps arbitrary: meta n L)
  case (Cons p ps)
  have p: "cstring p" "user_piece_fits E utf8 p" using Cons.prems(1) by auto
  have len: "length (L @ user_meta_of E utf8 p) \<le> length meta" using Cons.prems(3) by simp
  from user_store_ok[OF assms(1) p Cons.prems(2) len] obtain meta1 n1
    where 1: "user_store E utf8 (entry_parts p) (meta, n) = Some (meta1, n1)"
      "user_inv (meta1, n1) (L @ user_meta_of E utf8 p)" "length meta1 = length meta" by blast
  show ?case using Cons.IH[OF _ 1(2)] Cons.prems(1,3) 1 by simp
qed simp

lemma parse_meta_header_string_list:
  assumes "unescape_total E \<or> utf8 = 0" "cstring value" "\<forall>p \<in> set (split_on CHR '','' value). user_piece_fits E utf8 p"
    "user_inv st L" "length (L @ user_meta_list E utf8 value) \<le> length (fst st)"
  shows "\<exists>st'. AtmosUtil_parse_meta_header_string E utf8 value st = Some st' \<and>
           user_inv st' (L @ user_meta_list E utf8 value) \<and> length (fst st') = length (fst st)"
proof -
  obtain meta n where st: "st = (meta, n)" by (cases st)
  have loop: "AtmosUtil_parse_meta_header_string E utf8 value st =
     foldM (\<lambda>s p. user_store E utf8 (entry_parts p) s) st (split_on CHR '','' value)"
    by (rule user_meta.loop_pieces[where P = "user_piece_fits E utf8"])
      (use assms(2,3) user_meta_step_store in auto)
  have "\<forall>p \<in> set (split_on CHR '','' value). cstring p"
    using assms(2) split_on_subset by (fastforce simp: cdefs)
  then have "\<forall>p \<in> set (split_on CHR '','' value). cstring p \<and> user_piece_fits E utf8 p"
    using assms(3) by blast
  from user_store_all[OF assms(1) this, of meta n L] show ?thesis
    using assms(4,5) unfolding loop unfolding user_meta_list_def st by auto
qed

section \<open>System metadata\<close>

definition AtmosUtil_set_system_meta_entry ::
    "env \<Rightarrow> AtmosSystemMetadata \<Rightarrow> string \<Rightarrow> string \<Rightarrow> int \<Rightarrow> AtmosSystemMetadata option" where
  "AtmosUtil_set_system_meta_entry E system_meta entry_name entry_value utf8 =
     (if strcmp ATMOS_SYSTEM_META_ATIME entry_name = 0 then
        do { t \<leftarrow> AtmosUtil_parse_xml_datetime E entry_value; Some (system_meta\<lparr>sm_atime := t\<rparr>) }
      else if strcmp ATMOS_SYSTEM_META_CTIME entry_name = 0 then
        do { t \<leftarrow> AtmosUtil_parse_xml_datetime E entry_value; Some (system_meta\<lparr>sm_ctime := t\<rparr>) }
      else if strcmp ATMOS_SYSTEM_META_GID entry_name = 0 then
        do { b \<leftarrow> AtmosUtil_strlcpy (sm_gid system_meta) entry_value ATMOS_UID_MAX; Some (system_meta\<lparr>sm_gid := b\<rparr>) }
      else if strcmp ATMOS_SYSTEM_META_ITIME entry_name = 0 then
        do { t \<leftarrow> AtmosUtil_parse_xml_datetime E entry_value; Some (system_meta\<lparr>sm_itime := t\<rparr>) }
      else if strcmp ATMOS_SYSTEM_META_MTIME entry_name = 0 then
        do { t \<leftarrow> AtmosUtil_parse_xml_datetime E entry_value; Some (system_meta\<lparr>sm_mtime := t\<rparr>) }
      else if strcmp ATMOS_SYSTEM_META_NLINK entry_name = 0 then
        Some (system_meta\<lparr>sm_nlink := to_int32 (strtoll entry_value)\<rparr>)
      else if strcmp ATMOS_SYSTEM_META_OBJECTID entry_name = 0 then
        do { b \<leftarrow> AtmosUtil_strlcpy (sm_object_id system_meta) entry_value ATMOS_OID_LENGTH; Some (system_meta\<lparr>sm_object_id := b\<rparr>) }
      else if strcmp ATMOS_SYSTEM_META_OBJNAME entry_name = 0 then
        do { b \<leftarrow> AtmosUtil_strlcpy_utf8 E (sm_objname system_meta) entry_value ATMOS_PATH_MAX utf8; Some (system_meta\<lparr>sm_objname := b\<rparr>) }
      else if strcmp ATMOS_SYSTEM_META_POLICYNAME entry_name = 0 then
        do { b \<leftarrow> AtmosUtil_strlcpy (sm_policyname system_meta) entry_value ATMOS_UID_MAX; Some (system_meta\<lparr>sm_policyname := b\<rparr>) }
      else if strcmp ATMOS_SYSTEM_META_SIZE entry_name = 0 then
        Some (system_meta\<lparr>sm_size := strtoll entry_value\<rparr>)
      else if strcmp ATMOS_SYSTEM_META_TYPE entry_name = 0 then
        (if strcmp ATMOS_TYPE_DIRECTORY entry_value = 0 then Some (system_meta\<lparr>sm_type := Some ATMOS_TYPE_DIRECTORY\<rparr>)
         else if strcmp ATMOS_TYPE_REGULAR entry_value = 0 then Some (system_meta\<lparr>sm_type := Some ATMOS_TYPE_REGULAR\<rparr>)
         else Some system_meta)
      else if strcmp ATMOS_SYSTEM_META_UID entry_name = 0 then
        do { b \<leftarrow> AtmosUtil_strlcpy (sm_uid system_meta) entry_value ATMOS_UID_MAX; Some (system_meta\<lparr>sm_uid := b\<rparr>) }
      else if strcmp ATMOS_SYSTEM_META_WSCHECKSUM entry_name = 0 then
        do { b \<leftarrow> AtmosUtil_strlcpy (sm_wschecksum system_meta) entry_value ATMOS_CHECKSUM_MAX; Some (system_meta\<lparr>sm_wschecksum := b\<rparr>) }
      else Some system_meta)"

definition system_meta_step :: "env \<Rightarrow> int \<Rightarrow> string \<Rightarrow> AtmosSystemMetadata \<Rightarrow> AtmosSystemMetadata option" where
  "system_meta_step E utf8 value system_meta = do {
     (entry_name, entry_value) \<leftarrow> next_entry E (ATMOS_META_NAME_MAX * 3 + 1 + ATMOS_META_VALUE_MAX * 3)
        (ATMOS_META_NAME_MAX * 3) (ATMOS_META_VALUE_MAX * 3) value;
     AtmosUtil_set_system_meta_entry E system_meta entry_name entry_value utf8
   }"

text \<open>The \<open>while\<close> loop of \<open>AtmosUtil_parse_system_meta_header\<close>.\<close>

function system_meta_loop :: "env \<Rightarrow> int \<Rightarrow> string \<Rightarrow> AtmosSystemMetadata \<Rightarrow> AtmosSystemMetadata option" where
  "system_meta_loop E utf8 value system_meta = do {
     system_meta \<leftarrow> system_meta_step E utf8 value system_meta;
     (case strstr value '','' of
        None \<Rightarrow> Some system_meta
      | Some value_end \<Rightarrow> system_meta_loop E utf8 (drop (value_end + 1) value) system_meta)
   }"
  by pat_completeness auto
termination by (relation "measure (\<lambda>(E, utf8, value, st). length value)") (simp_all only: in_measure prod.case comma_shorter wf_measure)

declare system_meta_loop.simps [simp del]

interpretation system_meta: comma_list "system_meta_loop E utf8" "system_meta_step E utf8" for E utf8
  by unfold_locales (rule system_meta_loop.simps)

definition AtmosUtil_parse_system_meta_header :: "env \<Rightarrow> RestResponse \<Rightarrow> AtmosSystemMetadata \<Rightarrow> AtmosSystemMetadata option" where
  "AtmosUtil_parse_system_meta_header E response system_meta =
     (case RestResponse_get_header_value E response ATMOS_HEADER_META of
        None \<Rightarrow> Some system_meta
      | Some value \<Rightarrow> system_meta_loop E (utf8_flag E response) value system_meta)"

text \<open>A name that is not a system name changes nothing: the two parsers share the header's entries out.\<close>

lemma set_system_meta_entry_other:
  "n \<notin> set ATMOS_SYSTEM_META_NAMES \<Longrightarrow> AtmosUtil_set_system_meta_entry E sm n v utf8 = Some sm"
  by (simp add: AtmosUtil_set_system_meta_entry_def ATMOS_SYSTEM_META_NAMES_def eq_commute[of _ n])

definition system_piece_fits :: "string \<Rightarrow> bool" where
  "system_piece_fits p \<longleftrightarrow>
     entry_fits (ATMOS_META_NAME_MAX * 3 + 1 + ATMOS_META_VALUE_MAX * 3) (ATMOS_META_NAME_MAX * 3)
        (ATMOS_META_VALUE_MAX * 3) p"

lemma system_meta_loop_pieces:
  assumes "cstring value" "\<forall>p \<in> set (split_on CHR '','' value). system_piece_fits p"
  shows "system_meta_loop E utf8 value sm =
     foldM (\<lambda>sm p. AtmosUtil_set_system_meta_entry E sm (fst (entry_parts p)) (snd (entry_parts p)) utf8)
       sm (split_on CHR '','' value)"
proof (rule system_meta.loop_pieces[where P = system_piece_fits, OF _ assms])
  fix u s assume "cstring u" "system_piece_fits (first_piece u)"
  then show "system_meta_step E utf8 u s =
      AtmosUtil_set_system_meta_entry E s (fst (entry_parts (first_piece u))) (snd (entry_parts (first_piece u))) utf8"
    using next_entry_ok[of u "ATMOS_META_NAME_MAX * 3 + 1 + ATMOS_META_VALUE_MAX * 3"
      "ATMOS_META_NAME_MAX * 3" "ATMOS_META_VALUE_MAX * 3" E]
    by (cases "entry_parts (first_piece u)") (simp add: system_meta_step_def system_piece_fits_def)
qed

section \<open>ACLs\<close>

type_synonym acl_array = "AtmosAclEntry list \<times> int"

text \<open>An unknown permission string leaves the \<open>permission\<close> member as it was.\<close>

definition parse_permission :: "atmos_acl_permission \<Rightarrow> string \<Rightarrow> atmos_acl_permission" where
  "parse_permission old entry_value =
     (if strcmp ATMOS_ACL_PERMISSION_FULL entry_value = 0 then ATMOS_PERM_FULL
      else if strcmp ATMOS_ACL_PERMISSION_NONE entry_value = 0 then ATMOS_PERM_NONE
      else if strcmp ATMOS_ACL_PERMISSION_READ entry_value = 0 then ATMOS_PERM_READ
      else if strcmp ATMOS_ACL_PERMISSION_READWRITE entry_value = 0 then ATMOS_PERM_READ_WRITE
      else if strcmp ATMOS_ACL_PERMISSION_READ_ACL entry_value = 0 then ATMOS_PERM_READ_ACL
      else if strcmp ATMOS_ACL_PERMISSION_WRITE_ACL entry_value = 0 then ATMOS_PERM_WRITE_ACL
      else if strcmp ATMOS_ACL_PERMISSION_EXECUTE entry_value = 0 then ATMOS_PERM_EXECUTE
      else old)"

definition acl_store :: "atmos_acl_principal_type \<Rightarrow> string \<times> string \<Rightarrow> acl_array \<Rightarrow> acl_array option" where
  "acl_store type e st = (case st of (acl, acl_count) \<Rightarrow> do {
     a \<leftarrow> arr_get acl acl_count;
     p \<leftarrow> AtmosUtil_strlcpy (principal a) (fst e) ATMOS_UID_MAX;
     acl \<leftarrow> arr_set acl acl_count (a\<lparr>acl_type := type, principal := p, permission := parse_permission (permission a) (snd e)\<rparr>);
     Some (acl, acl_count + 1)
   })"

definition acl_step :: "env \<Rightarrow> atmos_acl_principal_type \<Rightarrow> string \<Rightarrow> acl_array \<Rightarrow> acl_array option" where
  "acl_step E type value st = do {
     e \<leftarrow> next_entry E (ATMOS_UID_MAX * 2 + 1) ATMOS_UID_MAX ATMOS_UID_MAX value;
     acl_store type e st
   }"

function AtmosUtil_parse_acl :: "env \<Rightarrow> atmos_acl_principal_type \<Rightarrow> string \<Rightarrow> acl_array \<Rightarrow> acl_array option" where
  "AtmosUtil_parse_acl E type value st = do {
     st \<leftarrow> acl_step E type value st;
     (case strstr value '','' of
        None \<Rightarrow> Some st
      | Some value_end \<Rightarrow> AtmosUtil_parse_acl E type (drop (value_end + 1) value) st)
   }"
  by pat_completeness auto
termination by (relation "measure (\<lambda>(E, type, value, st). length value)") (simp_all only: in_measure prod.case comma_shorter wf_measure)

declare AtmosUtil_parse_acl.simps [simp del]

interpretation acl_list: comma_list "AtmosUtil_parse_acl E type" "acl_step E type" for E type
  by unfold_locales (rule AtmosUtil_parse_acl.simps)

definition AtmosUtil_parse_acl_headers :: "env \<Rightarrow> RestResponse \<Rightarrow> acl_array \<Rightarrow> acl_array option" where
  "AtmosUtil_parse_acl_headers E response st = do {
     st \<leftarrow> (case RestResponse_get_header_value E response ATMOS_HEADER_USER_ACL of
              None \<Rightarrow> Some st
            | Some value \<Rightarrow> AtmosUtil_parse_acl E ATMOS_USER value st);
     (case RestResponse_get_header_value E response ATMOS_HEADER_GROUP_ACL of
        None \<Rightarrow> Some st
      | Some value \<Rightarrow> AtmosUtil_parse_acl E ATMOS_GROUP value st)
   }"

subsection \<open>What an ACL header means\<close>

text \<open>The permission string of every permission is recognised.\<close>

lemma parse_permission_string [simp]:
  "parse_permission old (AtmosUtil_get_permission_string perm) = perm"
  by (cases perm) (simp_all add: parse_permission_def literals)

definition acl_piece_view :: "atmos_acl_principal_type \<Rightarrow> string \<Rightarrow> acl_view" where
  "acl_piece_view type p =
     (fst (entry_parts p), type, parse_permission ATMOS_PERM_NONE (snd (entry_parts p)))"

definition acl_piece_fits :: "string \<Rightarrow> bool" where
  "acl_piece_fits p \<longleftrightarrow> entry_fits (ATMOS_UID_MAX * 2 + 1) ATMOS_UID_MAX ATMOS_UID_MAX p"

text \<open>
  The array as the response objects hand it over: the entries behind the count were zeroed by the
  constructor, so an unknown permission reads as \<open>ATMOS_PERM_NONE\<close>.
\<close>

definition acl_inv :: "acl_array \<Rightarrow> acl_view list \<Rightarrow> bool" where
  "acl_inv st L \<longleftrightarrow> arr_holds acl_entry_view (fst st) (snd st) L \<and> (\<forall>a \<in> set (fst st). wf_acl_entry a) \<and>
     (\<forall>i. length L \<le> i \<and> i < length (fst st) \<longrightarrow> permission (fst st ! i) = ATMOS_PERM_NONE)"

lemma acl_store_ok:
  assumes "cstring p" "acl_piece_fits p" "acl_inv (acl, n) L" "length L < length acl"
  shows "\<exists>acl' n'. acl_store type (entry_parts p) (acl, n) = Some (acl', n') \<and>
           acl_inv (acl', n') (L @ [acl_piece_view type p]) \<and> length acl' = length acl"
proof -
  obtain a b where e: "entry_parts p = (a, b)" by (cases "entry_parts p")
  have cs: "cstring a" using entry_parts_cstring[OF assms(1)] e by auto
  have an: "length a < ATMOS_UID_MAX" using assms(2) e by (simp add: acl_piece_fits_def entry_fits_def)
  have holds: "arr_holds acl_entry_view acl n L" and wf: "\<forall>m \<in> set acl. wf_acl_entry m"
    and none: "\<forall>i. length L \<le> i \<and> i < length acl \<longrightarrow> permission (acl ! i) = ATMOS_PERM_NONE"
    using assms(3) by (auto simp: acl_inv_def)
  have n: "n = int (length L)" using holds by (simp add: arr_holds_def)
  define m where "m = acl ! length L"
  have m: "arr_get acl n = Some m" "wf_acl_entry m" "permission m = ATMOS_PERM_NONE"
    using n wf none assms(4) by (auto simp: arr_get_def m_def)
  have mn: "min (length a) (ATMOS_UID_MAX - 1) < length (principal m)"
    using m(2) an by (simp add: wf_acl_entry_def)
  obtain pb where pb0: "AtmosUtil_strlcpy (principal m) a ATMOS_UID_MAX = Some pb"
    using AtmosUtil_strlcpy_Some[OF _ _ mn] by auto
  have pb: "c_str pb = Some a" "length pb = ATMOS_UID_MAX"
    using AtmosUtil_strlcpy_c_str[OF _ _ cs pb0] AtmosUtil_strlcpy_length[OF pb0] an m(2)
    by (auto simp: wf_acl_entry_def)
  let ?m = "m\<lparr>acl_type := type, principal := pb, permission := parse_permission ATMOS_PERM_NONE b\<rparr>"
  have set: "arr_set acl n ?m = Some (acl[length L := ?m])" using n assms(4) by (simp add: arr_set_def)
  have "acl_store type (entry_parts p) (acl, n) = Some (acl[length L := ?m], n + 1)"
    using m pb0 set e by (simp add: acl_store_def)
  moreover have "acl_inv (acl[length L := ?m], n + 1) (L @ [acl_piece_view type p])"
    unfolding acl_inv_def fst_conv snd_conv
  proof (intro conjI ballI)
    show "arr_holds acl_entry_view (acl[length L := ?m]) (n + 1) (L @ [acl_piece_view type p])"
      by (rule arr_holds_snoc[OF holds set]) (simp add: acl_entry_view_def acl_piece_view_def e pb)
    show "wf_acl_entry x" if "x \<in> set (acl[length L := ?m])" for x
      using that wf pb set_update_subset_insert[of acl "length L" ?m] by (auto simp: wf_acl_entry_def)
    show "\<forall>i. length (L @ [acl_piece_view type p]) \<le> i \<and> i < length (acl[length L := ?m]) \<longrightarrow>
        permission (acl[length L := ?m] ! i) = ATMOS_PERM_NONE"
      using none by simp
  qed
  ultimately show ?thesis by simp
qed

lemma acl_store_all:
  assumes "\<forall>p \<in> set ps. cstring p \<and> acl_piece_fits p" "acl_inv (acl, n) L" "length L + length ps \<le> length acl"
  shows "\<exists>acl' n'. foldM (\<lambda>s p. acl_store type (entry_parts p) s) (acl, n) ps = Some (acl', n') \<and>
           acl_inv (acl', n') (L @ map (acl_piece_view type) ps) \<and> length acl' = length acl"
  using assms
proof (induction ps arbitrary: acl n L)
  case (Cons p ps)
  have p: "cstring p" "acl_piece_fits p" "length L < length acl" using Cons.prems(1,3) by auto
  from acl_store_ok[OF p(1,2) Cons.prems(2) p(3)] obtain acl1 n1
    where 1: "acl_store type (entry_parts p) (acl, n) = Some (acl1, n1)"
      "acl_inv (acl1, n1) (L @ [acl_piece_view type p])" "length acl1 = length acl" by blast
  show ?case using Cons.IH[OF _ 1(2)] Cons.prems(1,3) 1 by simp
qed simp

lemma parse_acl_list:
  assumes "cstring value" "\<forall>p \<in> set (split_on CHR '','' value). acl_piece_fits p"
    "acl_inv st L" "length L + length (split_on CHR '','' value) \<le> length (fst st)"
  shows "\<exists>st'. AtmosUtil_parse_acl E type value st = Some st' \<and>
           acl_inv st' (L @ map (acl_piece_view type) (split_on CHR '','' value)) \<and> length (fst st') = length (fst st)"
proof -
  obtain acl n where st: "st = (acl, n)" by (cases st)
  have loop: "AtmosUtil_parse_acl E type value st =
     foldM (\<lambda>s p. acl_store type (entry_parts p) s) st (split_on CHR '','' value)"
  proof (rule acl_list.loop_pieces[where P = acl_piece_fits, OF _ assms(1,2)])
    fix u s assume "cstring u" "acl_piece_fits (first_piece u)"
    then show "acl_step E type u s = acl_store type (entry_parts (first_piece u)) s"
      using next_entry_ok[of u "ATMOS_UID_MAX * 2 + 1" ATMOS_UID_MAX ATMOS_UID_MAX E]
      by (simp add: acl_step_def acl_piece_fits_def)
  qed
  have "\<forall>p \<in> set (split_on CHR '','' value). cstring p"
    using assms(1) split_on_subset by (fastforce simp: cdefs)
  then have "\<forall>p \<in> set (split_on CHR '','' value). cstring p \<and> acl_piece_fits p" using assms(2) by blast
  from acl_store_all[OF this, of acl n L type] show ?thesis
    using assms(3,4) unfolding loop unfolding st by auto
qed

section \<open>Lookup\<close>

text \<open>The result \<open>Some None\<close> is the \<open>NULL\<close> the code returns when the name is not there.\<close>

fun get_metadata_loop :: "string \<Rightarrow> AtmosMetadata list \<Rightarrow> nat list \<Rightarrow> string option option" where
  "get_metadata_loop name meta [] = Some None"
| "get_metadata_loop name meta (i # is) = do {
     m \<leftarrow> arr_get meta (int i);
     n \<leftarrow> c_str (md_name m);
     if strcmp name n = 0 then do { v \<leftarrow> c_str (md_value m); Some (Some v) }
     else get_metadata_loop name meta is }"

definition AtmosUtil_get_metadata_value :: "string \<Rightarrow> AtmosMetadata list \<Rightarrow> int \<Rightarrow> string option option" where
  "AtmosUtil_get_metadata_value name meta meta_count = get_metadata_loop name meta [0..<nat meta_count]"

fun get_acl_loop :: "string \<Rightarrow> AtmosAclEntry list \<Rightarrow> atmos_acl_principal_type \<Rightarrow> nat list \<Rightarrow> atmos_acl_permission option" where
  "get_acl_loop p acl ty [] = Some ATMOS_PERM_NONE"
| "get_acl_loop p acl ty (i # is) = do {
     a \<leftarrow> arr_get acl (int i);
     q \<leftarrow> c_str (principal a);
     if strcmp p q = 0 \<and> acl_type a = ty then Some (permission a) else get_acl_loop p acl ty is }"

definition AtmosUtil_get_acl_permission ::
    "string \<Rightarrow> AtmosAclEntry list \<Rightarrow> int \<Rightarrow> atmos_acl_principal_type \<Rightarrow> atmos_acl_permission option" where
  "AtmosUtil_get_acl_permission p acl acl_count principal_type = get_acl_loop p acl principal_type [0..<nat acl_count]"

end
