(* ===== verification/Responses.thy ===== *)
theory Responses
  imports Header_Parsers
begin

text \<open>
  The response objects: constructors, destructors and the accessors of their metadata and ACL
  arrays (\<open>atmos_common.c\<close>, \<open>atmos_create.c\<close>, \<open>atmos_read.c\<close>, \<open>atmos_service_info.c\<close>,
  \<open>atmos_versions.c\<close>, \<open>atmos_access_tokens.c\<close>).

  A response is its \<open>RestResponse\<close> and, unless it is a bare one, its \<open>AtmosResponse\<close> part and
  the part of its own class. Casting it to a class it does not have is \<open>None\<close> as soon as the
  code uses a member of that class.
\<close>

section \<open>The common parts\<close>

text \<open>
  \<open>sub\<close> is the rest of the object the constructor is called on. It does not set a class name:
  that stays the one of \<open>RestResponse_init\<close>.
\<close>

definition AtmosResponse_init :: "env \<Rightarrow> response_sub \<Rightarrow> response" where
  "AtmosResponse_init E sub = \<lparr>s_base = RestResponse_init E,
     s_atmos = Some (\<lparr>atmos_error = 0, atmos_error_message = NUL # replicate (ATMOS_ERROR_MAX - 1) (junk E)\<rparr>, sub)\<rparr>"

definition AtmosResponse_destroy :: "env \<Rightarrow> response \<Rightarrow> response option" where
  "AtmosResponse_destroy E self =
     (case s_atmos self of
        None \<Rightarrow> None
      | Some (a, sub) \<Rightarrow> do {
          b \<leftarrow> buf_set (atmos_error_message a) 0 NUL;
          Some \<lparr>s_base = RestResponse_destroy E (s_base self), s_atmos = Some (\<lparr>atmos_error = 0, atmos_error_message = b\<rparr>, sub)\<rparr>
        })"

definition AtmosResponse_set_api_error :: "response \<Rightarrow> int \<Rightarrow> string \<Rightarrow> response option" where
  "AtmosResponse_set_api_error self code message =
     (case s_atmos self of
        None \<Rightarrow> None
      | Some (a, sub) \<Rightarrow> do {
          b \<leftarrow> strcpy (atmos_error_message a) message;
          Some \<lparr>s_base = (s_base self)\<lparr>http_code := 400, http_status := ''Bad Request''\<rparr>,
                s_atmos = Some (\<lparr>atmos_error = code, atmos_error_message = b\<rparr>, sub)\<rparr>
        })"

definition set_response_class :: "string \<Rightarrow> response \<Rightarrow> response" where
  "set_response_class cls r = r\<lparr>s_base := (s_base r)\<lparr>rs_class_name := cls\<rparr>\<rparr>"

definition upd_sub :: "(response_sub \<Rightarrow> response_sub option) \<Rightarrow> response \<Rightarrow> response option" where
  "upd_sub f self =
     (case s_atmos self of
        None \<Rightarrow> None
      | Some (a, sub) \<Rightarrow> do { sub' \<leftarrow> f sub; Some (self\<lparr>s_atmos := Some (a, sub')\<rparr>) })"

definition sub_of :: "response \<Rightarrow> response_sub option" where
  "sub_of self = map_option snd (s_atmos self)"

lemma upd_sub_some [simp]:
  "s_atmos self = Some (a, sub) \<Longrightarrow> upd_sub f self = do { sub' \<leftarrow> f sub; Some (self\<lparr>s_atmos := Some (a, sub')\<rparr>) }"
  by (simp add: upd_sub_def)

lemma upd_sub_base: "upd_sub f self = Some r \<Longrightarrow> s_base r = s_base self"
  by (auto simp: upd_sub_def bind_eq_Some_conv split: option.splits)

section \<open>Zeroed parts\<close>

definition zero_read_response_part :: read_response_part where
  "zero_read_response_part = \<lparr>rr_meta = replicate ATMOS_META_COUNT_MAX zero_metadata, rr_meta_count = 0,
     rr_listable_metadata = replicate ATMOS_META_COUNT_MAX zero_metadata, rr_listable_meta_count = 0,
     rr_acl = replicate ATMOS_ACL_COUNT_MAX zero_acl_entry, rr_acl_count = 0,
     rr_system_metadata = zero_system_metadata\<rparr>"

definition zero_list_directory_response_part :: list_directory_response_part where
  "zero_list_directory_response_part = \<lparr>dl_token = None, dl_entries = [], dl_entry_count = 0\<rparr>"

definition zero_user_meta_response_part :: user_meta_response_part where
  "zero_user_meta_response_part = \<lparr>um_meta = replicate ATMOS_META_COUNT_MAX zero_metadata, um_meta_count = 0,
     um_listable_metadata = replicate ATMOS_META_COUNT_MAX zero_metadata, um_listable_meta_count = 0\<rparr>"

definition zero_acl_response_part :: acl_response_part where
  "zero_acl_response_part = \<lparr>ga_acl = replicate ATMOS_ACL_COUNT_MAX zero_acl_entry, ga_acl_count = 0\<rparr>"

definition zero_object_info_part :: object_info_part where
  "zero_object_info_part = \<lparr>oi_object_id = zeros ATMOS_OID_LENGTH, oi_selection = zeros ATMOS_SIMPLE_HEADER_MAX,
     oi_replicas = [], oi_replica_count = 0, oi_retention_enabled = 0, oi_retention_end = 0,
     oi_expiration_enabled = 0, oi_expiration_end = 0\<rparr>"

definition zero_tags_response_part :: tags_response_part where
  "zero_tags_response_part = \<lparr>gt_token = None, gt_tags = []\<rparr>"

definition zero_list_objects_response_part :: list_objects_response_part where
  "zero_list_objects_response_part = \<lparr>or_token = None, or_results = [], or_result_count = 0\<rparr>"

definition zero_list_versions_response_part :: list_versions_response_part where
  "zero_list_versions_response_part = \<lparr>lv_token = None, lv_versions = [], lv_version_count = 0\<rparr>"

definition zero_list_tokens_response_part :: list_tokens_response_part where
  "zero_list_tokens_response_part = \<lparr>lt_token = None, lt_token_list = None\<rparr>"

section \<open>Constructors and destructors\<close>

definition AtmosCreateObjectResponse_init :: "env \<Rightarrow> response" where
  "AtmosCreateObjectResponse_init E = set_response_class ''AtmosCreateObjectResponse'' (AtmosResponse_init E (CreateObject_response (zeros ATMOS_OID_LENGTH)))"

definition AtmosCreateObjectResponse_destroy :: "env \<Rightarrow> response \<Rightarrow> response option" where
  "AtmosCreateObjectResponse_destroy E self = do {
     self \<leftarrow> upd_sub (\<lambda>s. case s of CreateObject_response x \<Rightarrow> Some (CreateObject_response (zeros ATMOS_OID_LENGTH)) | _ \<Rightarrow> None) self;
     AtmosResponse_destroy E self
   }"

text \<open>The constructors of the two classes that share the layout of \<open>AtmosReadObjectResponse\<close> get the rest of the object.\<close>

definition AtmosReadObjectResponse_init :: "env \<Rightarrow> (read_response_part \<Rightarrow> response_sub) \<Rightarrow> response" where
  "AtmosReadObjectResponse_init E con =
     set_response_class ''AtmosReadObjectResponse'' (AtmosResponse_init E (con zero_read_response_part))"

definition upd_read_response :: "(read_response_part \<Rightarrow> read_response_part option) \<Rightarrow> response_sub \<Rightarrow> response_sub option" where
  "upd_read_response f s =
     (case s of
        Read_response p \<Rightarrow> map_option Read_response (f p)
      | ListDirectory_response p d \<Rightarrow> map_option (\<lambda>p. ListDirectory_response p d) (f p)
      | _ \<Rightarrow> None)"

definition AtmosReadObjectResponse_destroy :: "env \<Rightarrow> response \<Rightarrow> response option" where
  "AtmosReadObjectResponse_destroy E self = do {
     self \<leftarrow> upd_sub (upd_read_response (\<lambda>p. Some zero_read_response_part)) self;
     AtmosResponse_destroy E self
   }"

definition AtmosObjectMetadata_init :: AtmosObjectMetadata where
  "AtmosObjectMetadata_init = \<lparr>om_meta = [], om_meta_count = 0, om_listable_meta = [], om_listable_meta_count = 0,
     om_system_metadata = zero_system_metadata\<rparr>"

definition AtmosObjectMetadata_destroy :: "AtmosObjectMetadata \<Rightarrow> AtmosObjectMetadata" where
  "AtmosObjectMetadata_destroy self = AtmosObjectMetadata_init"

definition AtmosDirectoryEntry_init :: AtmosDirectoryEntry where
  "AtmosDirectoryEntry_init = \<lparr>de_parent = AtmosObjectMetadata_init, de_object_id = zeros ATMOS_OID_LENGTH,
     de_type = None, de_filename = zeros ATMOS_PATH_MAX\<rparr>"

definition AtmosDirectoryEntry_destroy :: "AtmosDirectoryEntry \<Rightarrow> AtmosDirectoryEntry" where
  "AtmosDirectoryEntry_destroy self =
     \<lparr>de_parent = AtmosObjectMetadata_destroy (de_parent self), de_object_id = zeros ATMOS_OID_LENGTH,
      de_type = None, de_filename = zeros ATMOS_PATH_MAX\<rparr>"

definition AtmosListDirectoryResponse_init :: "env \<Rightarrow> response" where
  "AtmosListDirectoryResponse_init E = set_response_class ''AtmosListDirectoryResponse''
     (AtmosReadObjectResponse_init E (\<lambda>p. ListDirectory_response p zero_list_directory_response_part))"

text \<open>
  The destructor visits every entry before it frees the array (a count beyond the array is
  \<open>None\<close>); the metadata arrays of the entries are not freed.
\<close>

definition AtmosListDirectoryResponse_destroy :: "env \<Rightarrow> response \<Rightarrow> response option" where
  "AtmosListDirectoryResponse_destroy E self = do {
     self \<leftarrow> upd_sub (\<lambda>s. case s of
         ListDirectory_response p d \<Rightarrow> do {
           entries \<leftarrow> foldM (\<lambda>es i. do { e \<leftarrow> arr_get es (int i); arr_set es (int i) (AtmosDirectoryEntry_destroy e) })
                        (dl_entries d) (if dl_entries d = [] then [] else [0..<nat (dl_entry_count d)]);
           Some (ListDirectory_response p zero_list_directory_response_part)
         }
       | _ \<Rightarrow> None) self;
     AtmosReadObjectResponse_destroy E self
   }"

definition AtmosObjectListing_init :: AtmosObjectListing where
  "AtmosObjectListing_init = \<lparr>ol_parent = AtmosObjectMetadata_init, ol_object_id = zeros ATMOS_OID_LENGTH\<rparr>"

definition AtmosObjectListing_destroy :: "AtmosObjectListing \<Rightarrow> AtmosObjectListing" where
  "AtmosObjectListing_destroy self =
     \<lparr>ol_parent = AtmosObjectMetadata_destroy (ol_parent self), ol_object_id = zeros ATMOS_OID_LENGTH\<rparr>"

definition AtmosGetUserMetaResponse_init :: "env \<Rightarrow> response" where
  "AtmosGetUserMetaResponse_init E = set_response_class ''AtmosGetUserMetaResponse'' (AtmosResponse_init E (GetUserMeta_response zero_user_meta_response_part))"

definition AtmosGetUserMetaResponse_destroy :: "env \<Rightarrow> response \<Rightarrow> response option" where
  "AtmosGetUserMetaResponse_destroy E self = do {
     self \<leftarrow> upd_sub (\<lambda>s. case s of GetUserMeta_response x \<Rightarrow> Some (GetUserMeta_response zero_user_meta_response_part) | _ \<Rightarrow> None) self;
     AtmosResponse_destroy E self
   }"

definition AtmosGetSystemMetaResponse_init :: "env \<Rightarrow> response" where
  "AtmosGetSystemMetaResponse_init E = set_response_class ''AtmosGetSystemMetaResponse'' (AtmosResponse_init E (GetSystemMeta_response zero_system_metadata))"

definition AtmosGetSystemMetaResponse_destroy :: "env \<Rightarrow> response \<Rightarrow> response option" where
  "AtmosGetSystemMetaResponse_destroy E self = do {
     self \<leftarrow> upd_sub (\<lambda>s. case s of GetSystemMeta_response x \<Rightarrow> Some (GetSystemMeta_response zero_system_metadata) | _ \<Rightarrow> None) self;
     AtmosResponse_destroy E self
   }"

definition AtmosGetAclResponse_init :: "env \<Rightarrow> response" where
  "AtmosGetAclResponse_init E = set_response_class ''AtmosGetAclResponse'' (AtmosResponse_init E (GetAcl_response zero_acl_response_part))"

definition AtmosGetAclResponse_destroy :: "env \<Rightarrow> response \<Rightarrow> response option" where
  "AtmosGetAclResponse_destroy E self = do {
     self \<leftarrow> AtmosResponse_destroy E self;
     upd_sub (\<lambda>s. case s of GetAcl_response x \<Rightarrow> Some (GetAcl_response zero_acl_response_part) | _ \<Rightarrow> None) self
   }"

definition AtmosGetObjectInfoResponse_init :: "env \<Rightarrow> response" where
  "AtmosGetObjectInfoResponse_init E = set_response_class ''AtmosGetObjectInfoResponse'' (AtmosResponse_init E (GetObjectInfo_response zero_object_info_part))"

definition AtmosGetObjectInfoResponse_destroy :: "env \<Rightarrow> response \<Rightarrow> response option" where
  "AtmosGetObjectInfoResponse_destroy E self = do {
     self \<leftarrow> upd_sub (\<lambda>s. case s of GetObjectInfo_response x \<Rightarrow> Some (GetObjectInfo_response zero_object_info_part) | _ \<Rightarrow> None) self;
     AtmosResponse_destroy E self
   }"

definition AtmosListObjectsResponse_init :: "env \<Rightarrow> response" where
  "AtmosListObjectsResponse_init E = set_response_class ''AtmosListObjectsResponse'' (AtmosResponse_init E (ListObjects_response zero_list_objects_response_part))"

definition AtmosListObjectsResponse_destroy :: "env \<Rightarrow> response \<Rightarrow> response option" where
  "AtmosListObjectsResponse_destroy E self = do {
     self \<leftarrow> upd_sub (\<lambda>s. case s of ListObjects_response x \<Rightarrow> Some (ListObjects_response zero_list_objects_response_part) | _ \<Rightarrow> None) self;
     AtmosResponse_destroy E self
   }"

definition AtmosCreateVersionResponse_init :: "env \<Rightarrow> response" where
  "AtmosCreateVersionResponse_init E = set_response_class ''AtmosCreateVersionResponse'' (AtmosResponse_init E (CreateVersion_response (zeros ATMOS_OID_LENGTH)))"

definition AtmosCreateVersionResponse_destroy :: "env \<Rightarrow> response \<Rightarrow> response option" where
  "AtmosCreateVersionResponse_destroy E self = do {
     self \<leftarrow> upd_sub (\<lambda>s. case s of CreateVersion_response x \<Rightarrow> Some (CreateVersion_response (zeros ATMOS_OID_LENGTH)) | _ \<Rightarrow> None) self;
     AtmosResponse_destroy E self
   }"

text \<open>The destructor does not free the array of versions.\<close>

definition AtmosListVersionsResponse_init :: "env \<Rightarrow> response" where
  "AtmosListVersionsResponse_init E = set_response_class ''AtmosListVersionsResponse'' (AtmosResponse_init E (ListVersions_response zero_list_versions_response_part))"

definition AtmosListVersionsResponse_destroy :: "env \<Rightarrow> response \<Rightarrow> response option" where
  "AtmosListVersionsResponse_destroy E self = do {
     self \<leftarrow> upd_sub (\<lambda>s. case s of ListVersions_response x \<Rightarrow> Some (ListVersions_response zero_list_versions_response_part) | _ \<Rightarrow> None) self;
     AtmosResponse_destroy E self
   }"

definition AtmosCreateAccessTokenResponse_init :: "env \<Rightarrow> response" where
  "AtmosCreateAccessTokenResponse_init E = set_response_class ''AtmosCreateAccessTokenResponse'' (AtmosResponse_init E (CreateAccessToken_response (zeros ATMOS_SIMPLE_HEADER_MAX)))"

definition AtmosCreateAccessTokenResponse_destroy :: "env \<Rightarrow> response \<Rightarrow> response option" where
  "AtmosCreateAccessTokenResponse_destroy E self = do {
     self \<leftarrow> upd_sub (\<lambda>s. case s of CreateAccessToken_response x \<Rightarrow> Some (CreateAccessToken_response (zeros ATMOS_SIMPLE_HEADER_MAX)) | _ \<Rightarrow> None) self;
     AtmosResponse_destroy E self
   }"

definition AtmosListAccessTokensResponse_init :: "env \<Rightarrow> response" where
  "AtmosListAccessTokensResponse_init E = set_response_class ''AtmosListAccessTokensResponse'' (AtmosResponse_init E (ListAccessTokens_response zero_list_tokens_response_part))"

definition AtmosListAccessTokensResponse_destroy :: "env \<Rightarrow> response \<Rightarrow> response option" where
  "AtmosListAccessTokensResponse_destroy E self = do {
     self \<leftarrow> upd_sub (\<lambda>s. case s of ListAccessTokens_response x \<Rightarrow> Some (ListAccessTokens_response zero_list_tokens_response_part) | _ \<Rightarrow> None) self;
     AtmosResponse_destroy E self
   }"

definition AtmosGetAccessTokenInfoResponse_init :: "env \<Rightarrow> response" where
  "AtmosGetAccessTokenInfoResponse_init E = set_response_class ''AtmosGetAccessTokenInfoResponse'' (AtmosResponse_init E (GetAccessTokenInfo_response None))"

definition AtmosGetAccessTokenInfoResponse_destroy :: "env \<Rightarrow> response \<Rightarrow> response option" where
  "AtmosGetAccessTokenInfoResponse_destroy E self = do {
     self \<leftarrow> upd_sub (\<lambda>s. case s of GetAccessTokenInfo_response x \<Rightarrow> Some (GetAccessTokenInfo_response None) | _ \<Rightarrow> None) self;
     AtmosResponse_destroy E self
   }"

text \<open>The tags are the strings the array points to; a \<open>NULL\<close> among them is skipped by the destructor.\<close>

definition AtmosGetListableTagsResponse_init :: "env \<Rightarrow> response" where
  "AtmosGetListableTagsResponse_init E =
     set_response_class ''AtmosGetListableTagsResponse'' (AtmosResponse_init E (GetListableTags_response zero_tags_response_part))"

definition AtmosGetListableTagsResponse_destroy :: "env \<Rightarrow> response \<Rightarrow> response option" where
  "AtmosGetListableTagsResponse_destroy E self = do {
     self \<leftarrow> upd_sub (\<lambda>s. case s of
         GetListableTags_response x \<Rightarrow> Some (GetListableTags_response zero_tags_response_part)
       | _ \<Rightarrow> None) self;
     AtmosResponse_destroy E self
   }"

text \<open>This constructor does not set the class name either.\<close>

definition AtmosServiceInfoResponse_init :: "env \<Rightarrow> response" where
  "AtmosServiceInfoResponse_init E = AtmosResponse_init E
     (ServiceInfo_response \<lparr>si_version = NUL # replicate 63 (junk E), si_utf8_metadata_supported = 0\<rparr>)"

definition AtmosServiceInfoResponse_destroy :: "env \<Rightarrow> response \<Rightarrow> response option" where
  "AtmosServiceInfoResponse_destroy E self = do {
     self \<leftarrow> upd_sub (\<lambda>s. case s of
         ServiceInfo_response p \<Rightarrow> do { b \<leftarrow> buf_set (si_version p) 0 NUL; Some (ServiceInfo_response (p\<lparr>si_version := b\<rparr>)) }
       | _ \<Rightarrow> None) self;
     AtmosResponse_destroy E self
   }"

section \<open>Accessors\<close>

definition read_part_of :: "response \<Rightarrow> read_response_part option" where
  "read_part_of self =
     (case sub_of self of
        Some (Read_response p) \<Rightarrow> Some p
      | Some (ListDirectory_response p d) \<Rightarrow> Some p
      | _ \<Rightarrow> None)"

definition AtmosReadObjectResponse_get_metadata_value :: "response \<Rightarrow> string \<Rightarrow> int \<Rightarrow> string option option" where
  "AtmosReadObjectResponse_get_metadata_value self name listable = do {
     p \<leftarrow> read_part_of self;
     AtmosUtil_get_metadata_value name (if listable \<noteq> 0 then rr_listable_metadata p else rr_meta p)
       (if listable \<noteq> 0 then rr_listable_meta_count p else rr_meta_count p)
   }"

definition AtmosReadObjectResponse_get_acl_permission ::
    "response \<Rightarrow> string \<Rightarrow> atmos_acl_principal_type \<Rightarrow> atmos_acl_permission option" where
  "AtmosReadObjectResponse_get_acl_permission self p principal_type = do {
     rp \<leftarrow> read_part_of self;
     AtmosUtil_get_acl_permission p (rr_acl rp) (rr_acl_count rp) principal_type
   }"

definition AtmosGetUserMetaResponse_get_metadata_value :: "response \<Rightarrow> string \<Rightarrow> int \<Rightarrow> string option option" where
  "AtmosGetUserMetaResponse_get_metadata_value self name listable =
     (case sub_of self of
        Some (GetUserMeta_response p) \<Rightarrow>
          AtmosUtil_get_metadata_value name (if listable \<noteq> 0 then um_listable_metadata p else um_meta p)
            (if listable \<noteq> 0 then um_listable_meta_count p else um_meta_count p)
      | _ \<Rightarrow> None)"

definition AtmosGetAclResponse_get_acl_permission ::
    "response \<Rightarrow> string \<Rightarrow> atmos_acl_principal_type \<Rightarrow> atmos_acl_permission option" where
  "AtmosGetAclResponse_get_acl_permission self p principal_type =
     (case sub_of self of
        Some (GetAcl_response g) \<Rightarrow> AtmosUtil_get_acl_permission p (ga_acl g) (ga_acl_count g) principal_type
      | _ \<Rightarrow> None)"

definition AtmosDirectoryEntry_get_metadata_value :: "AtmosDirectoryEntry \<Rightarrow> string \<Rightarrow> int \<Rightarrow> string option option" where
  "AtmosDirectoryEntry_get_metadata_value self name listable =
     AtmosUtil_get_metadata_value name
       (if listable \<noteq> 0 then om_listable_meta (de_parent self) else om_meta (de_parent self))
       (if listable \<noteq> 0 then om_listable_meta_count (de_parent self) else om_meta_count (de_parent self))"

definition AtmosObjectListing_get_metadata_value :: "AtmosObjectListing \<Rightarrow> string \<Rightarrow> int \<Rightarrow> string option option" where
  "AtmosObjectListing_get_metadata_value self name listable =
     AtmosUtil_get_metadata_value name
       (if listable \<noteq> 0 then om_listable_meta (ol_parent self) else om_meta (ol_parent self))
       (if listable \<noteq> 0 then om_listable_meta_count (ol_parent self) else om_meta_count (ol_parent self))"

end
