(* ===== verification/Xml_Parsers.thy ===== *)
theory Xml_Parsers
  imports Responses
begin

text \<open>
  The parsers of XML bodies: node selection (\<open>atmos_util.c\<close>), metadata, directory entries and
  object listings, object information (\<open>atmos_read.c\<close>) and versions (\<open>atmos_versions.c\<close>). The
  XML library is a parameter; a document is its root node.
\<close>

section \<open>Documents and node sets\<close>

text \<open>
  \<open>xmlReadMemory(xml, (int)size, ...)\<close>: reading more bytes than there are is \<open>None\<close>, \<open>Some None\<close>
  is a \<open>NULL\<close> document.
\<close>

definition xmlReadMemory :: "env \<Rightarrow> char list \<Rightarrow> int \<Rightarrow> xml_node option option" where
  "xmlReadMemory E xml xml_size =
     (let n = nat (to_int32 xml_size) in if length xml < n then None else Some (xml_parse E (take n xml)))"

definition AtmosUtil_select_nodes :: "env \<Rightarrow> xml_node \<Rightarrow> string \<Rightarrow> bool \<Rightarrow> xml_node list option" where
  "AtmosUtil_select_nodes E doc selector use_cos_ns =
     (case xmlXPathEval E doc use_cos_ns selector of
        None \<Rightarrow> None
      | Some nodes \<Rightarrow> if nodes = [] then None else Some nodes)"

definition AtmosUtil_count_nodes :: "env \<Rightarrow> xml_node \<Rightarrow> string \<Rightarrow> bool \<Rightarrow> nat" where
  "AtmosUtil_count_nodes E doc selector use_cos_ns =
     (case xmlXPathEval E doc use_cos_ns selector of None \<Rightarrow> 0 | Some nodes \<Rightarrow> length nodes)"

definition AtmosUtil_select_single_node_value :: "env \<Rightarrow> xml_node \<Rightarrow> string \<Rightarrow> bool \<Rightarrow> string option" where
  "AtmosUtil_select_single_node_value E doc selector use_cos_ns =
     (case AtmosUtil_select_nodes E doc selector use_cos_ns of
        None \<Rightarrow> None
      | Some nodes \<Rightarrow> if length nodes > 1 then None else xn_content (hd nodes))"

section \<open>Metadata lists\<close>

definition DIR_NODE_OBJECT_ID :: string where "DIR_NODE_OBJECT_ID = ''ObjectID''"
definition DIR_NODE_FILE_TYPE :: string where "DIR_NODE_FILE_TYPE = ''FileType''"
definition DIR_NODE_FILE_NAME :: string where "DIR_NODE_FILE_NAME = ''Filename''"
definition DIR_NODE_SYSTEM_METADATA_LIST :: string where "DIR_NODE_SYSTEM_METADATA_LIST = ''SystemMetadataList''"
definition DIR_NODE_METADATA :: string where "DIR_NODE_METADATA = ''Metadata''"
definition DIR_NODE_USER_METADATA_LIST :: string where "DIR_NODE_USER_METADATA_LIST = ''UserMetadataList''"
definition DIR_NODE_NAME :: string where "DIR_NODE_NAME = ''Name''"
definition DIR_NODE_VALUE :: string where "DIR_NODE_VALUE = ''Value''"
definition DIR_NODE_LISTABLE :: string where "DIR_NODE_LISTABLE = ''Listable''"
definition VER_NODE_OID :: string where "VER_NODE_OID = ''OID''"
definition VER_NODE_VER_NUM :: string where "VER_NODE_VER_NUM = ''VerNum''"
definition VER_NODE_ITIME :: string where "VER_NODE_ITIME = ''itime''"

lemmas dir_nodes = DIR_NODE_OBJECT_ID_def DIR_NODE_FILE_TYPE_def DIR_NODE_FILE_NAME_def
  DIR_NODE_SYSTEM_METADATA_LIST_def DIR_NODE_METADATA_def DIR_NODE_USER_METADATA_LIST_def
  DIR_NODE_NAME_def DIR_NODE_VALUE_def DIR_NODE_LISTABLE_def

text \<open>The body of the loop over the children of a \<open>Metadata\<close> element.\<close>

definition parse_meta_child :: "buffer \<times> buffer \<times> int \<Rightarrow> xml_node \<Rightarrow> (buffer \<times> buffer \<times> int) option" where
  "parse_meta_child st child =
     (case st of (name, val, listable) \<Rightarrow>
      if \<not> xn_element child then Some st
      else if strcmp (xn_name child) DIR_NODE_NAME = 0 then
        (case xn_content child of
           None \<Rightarrow> Some st
         | Some xvalue \<Rightarrow> do { name \<leftarrow> strncpy name xvalue ATMOS_META_NAME_MAX; Some (name, val, listable) })
      else if strcmp (xn_name child) DIR_NODE_VALUE = 0 then
        (case xn_content child of
           None \<Rightarrow> Some st
         | Some xvalue \<Rightarrow> do { val \<leftarrow> strncpy val xvalue ATMOS_META_VALUE_MAX; Some (name, val, listable) })
      else if strcmp (xn_name child) DIR_NODE_LISTABLE = 0 then
        (case xn_content child of
           None \<Rightarrow> Some st
         | Some xvalue \<Rightarrow> Some (name, val, if strcmp ''true'' xvalue = 0 then 1 else 0))
      else Some st)"

definition AtmosUtil_parse_meta :: "xml_node \<Rightarrow> buffer \<times> buffer \<times> int \<Rightarrow> (buffer \<times> buffer \<times> int) option" where
  "AtmosUtil_parse_meta metadata st = foldM parse_meta_child st (xn_children metadata)"

text \<open>
  \<open>name[0] = 0; value[0] = 0; AtmosUtil_parse_meta(child, ...)\<close> for a child element; the two local
  arrays of the callers keep their contents from one element to the next.
\<close>

definition parse_meta_entry :: "buffer \<times> buffer \<Rightarrow> int \<Rightarrow> xml_node \<Rightarrow> (buffer \<times> buffer \<times> int) option" where
  "parse_meta_entry bufs listable child = do {
     name \<leftarrow> buf_set (fst bufs) 0 NUL;
     val \<leftarrow> buf_set (snd bufs) 0 NUL;
     AtmosUtil_parse_meta child (name, val, listable)
   }"

definition meta_buffers :: "env \<Rightarrow> buffer \<times> buffer" where
  "meta_buffers E = (replicate ATMOS_META_NAME_MAX (junk E), replicate ATMOS_META_VALUE_MAX (junk E))"

text \<open>Name and value are read as C strings here: a name of 255 bytes or more has no terminator left.\<close>

definition AtmosObjectMetadata_parse_system_meta ::
    "env \<Rightarrow> AtmosObjectMetadata \<Rightarrow> xml_node \<Rightarrow> AtmosObjectMetadata option" where
  "AtmosObjectMetadata_parse_system_meta E self sysmeta = do {
     (self, bufs) \<leftarrow> foldM (\<lambda>(self, bufs) child.
         if xn_element child \<and> strcmp DIR_NODE_METADATA (xn_name child) = 0 then do {
           (name, val, listable) \<leftarrow> parse_meta_entry bufs 0 child;
           n \<leftarrow> c_str name;
           v \<leftarrow> c_str val;
           sm \<leftarrow> AtmosUtil_set_system_meta_entry E (om_system_metadata self) n v 0;
           Some (self\<lparr>om_system_metadata := sm\<rparr>, (name, val))
         } else Some (self, bufs))
       (self, meta_buffers E) (xn_children sysmeta);
     Some self
   }"

text \<open>The first pass over the user metadata counts, the second one copies.\<close>

definition count_meta_child ::
    "(buffer \<times> buffer) \<times> nat \<times> nat \<Rightarrow> xml_node \<Rightarrow> ((buffer \<times> buffer) \<times> nat \<times> nat) option" where
  "count_meta_child st child =
     (case st of (bufs, regular_count, listable_count) \<Rightarrow>
      if xn_element child \<and> strcmp DIR_NODE_METADATA (xn_name child) = 0 then do {
        (name, val, listable) \<leftarrow> parse_meta_entry bufs 0 child;
        Some ((name, val), if listable \<noteq> 0 then (regular_count, listable_count + 1) else (regular_count + 1, listable_count))
      } else Some st)"

text \<open>
  \<open>strncpy\<close> from one of the local arrays, which has the size of the destination: it stops at the
  end of the array even when there is no terminator.
\<close>

definition buffer_text :: "buffer \<Rightarrow> string" where
  "buffer_text b = takeWhile (\<lambda>c. c \<noteq> NUL) b"

definition store_meta :: "AtmosMetadata list \<Rightarrow> nat \<Rightarrow> buffer \<times> buffer \<Rightarrow> AtmosMetadata list option" where
  "store_meta meta i bufs = do {
     m \<leftarrow> arr_get meta (int i);
     n \<leftarrow> strncpy (md_name m) (buffer_text (fst bufs)) ATMOS_META_NAME_MAX;
     v \<leftarrow> strncpy (md_value m) (buffer_text (snd bufs)) ATMOS_META_VALUE_MAX;
     arr_set meta (int i) (m\<lparr>md_name := n, md_value := v\<rparr>)
   }"

definition copy_meta_child ::
    "(buffer \<times> buffer) \<times> (AtmosMetadata list \<times> nat) \<times> (AtmosMetadata list \<times> nat) \<Rightarrow> xml_node \<Rightarrow>
     ((buffer \<times> buffer) \<times> (AtmosMetadata list \<times> nat) \<times> (AtmosMetadata list \<times> nat)) option" where
  "copy_meta_child st child =
     (case st of (bufs, (meta, regular_count), (listable_meta, listable_count)) \<Rightarrow>
      if xn_element child \<and> strcmp DIR_NODE_METADATA (xn_name child) = 0 then do {
        (name, val, listable) \<leftarrow> parse_meta_entry bufs 0 child;
        if listable \<noteq> 0 then do {
          listable_meta \<leftarrow> store_meta listable_meta listable_count (name, val);
          Some ((name, val), (meta, regular_count), (listable_meta, listable_count + 1))
        } else do {
          meta \<leftarrow> store_meta meta regular_count (name, val);
          Some ((name, val), (meta, regular_count + 1), (listable_meta, listable_count))
        }
      } else Some st)"

text \<open>A failed \<open>calloc\<close> is not noticed: the second pass writes through \<open>NULL\<close>.\<close>

definition calloc_meta :: "env \<Rightarrow> nat \<Rightarrow> AtmosMetadata list option" where
  "calloc_meta E n =
     (if alloc_ok E (n * sizeof E ''AtmosMetadata'') then Some (replicate n zero_metadata) else None)"

definition AtmosObjectMetadata_parse_usermeta ::
    "env \<Rightarrow> AtmosObjectMetadata \<Rightarrow> xml_node \<Rightarrow> AtmosObjectMetadata option" where
  "AtmosObjectMetadata_parse_usermeta E self usermeta = do {
     (bufs, regular_count, listable_count) \<leftarrow> foldM count_meta_child (meta_buffers E, 0, 0) (xn_children usermeta);
     self \<leftarrow> (if regular_count > 0
              then do { meta \<leftarrow> calloc_meta E regular_count; Some (self\<lparr>om_meta := meta, om_meta_count := int regular_count\<rparr>) }
              else Some self);
     self \<leftarrow> (if listable_count > 0
              then do { meta \<leftarrow> calloc_meta E listable_count;
                        Some (self\<lparr>om_listable_meta := meta, om_listable_meta_count := int listable_count\<rparr>) }
              else Some self);
     (bufs, (meta, regular_count), (listable_meta, listable_count)) \<leftarrow>
       foldM copy_meta_child (bufs, (om_meta self, 0), (om_listable_meta self, 0)) (xn_children usermeta);
     Some (self\<lparr>om_meta := meta, om_listable_meta := listable_meta\<rparr>)
   }"

section \<open>Directory entries and object listings\<close>

definition parse_directory_entry_child :: "env \<Rightarrow> AtmosDirectoryEntry \<Rightarrow> xml_node \<Rightarrow> AtmosDirectoryEntry option" where
  "parse_directory_entry_child E entry child =
     (if \<not> xn_element child then Some entry
      else if strcmp (xn_name child) DIR_NODE_OBJECT_ID = 0 then
        (case xn_content child of
           None \<Rightarrow> Some entry
         | Some v \<Rightarrow> do { b \<leftarrow> strncpy (de_object_id entry) v ATMOS_OID_LENGTH; Some (entry\<lparr>de_object_id := b\<rparr>) })
      else if strcmp (xn_name child) DIR_NODE_FILE_TYPE = 0 then
        (case xn_content child of
           None \<Rightarrow> Some entry
         | Some v \<Rightarrow>
             if strcmp ATMOS_TYPE_DIRECTORY v = 0 then Some (entry\<lparr>de_type := Some ATMOS_TYPE_DIRECTORY\<rparr>)
             else if strcmp ATMOS_TYPE_REGULAR v = 0 then Some (entry\<lparr>de_type := Some ATMOS_TYPE_REGULAR\<rparr>)
             else Some entry)
      else if strcmp (xn_name child) DIR_NODE_FILE_NAME = 0 then
        (case xn_content child of
           None \<Rightarrow> Some entry
         | Some v \<Rightarrow> do { b \<leftarrow> strncpy (de_filename entry) v ATMOS_PATH_MAX; Some (entry\<lparr>de_filename := b\<rparr>) })
      else if strcmp (xn_name child) DIR_NODE_SYSTEM_METADATA_LIST = 0 then
        map_option (\<lambda>m. entry\<lparr>de_parent := m\<rparr>) (AtmosObjectMetadata_parse_system_meta E (de_parent entry) child)
      else if strcmp (xn_name child) DIR_NODE_USER_METADATA_LIST = 0 then
        map_option (\<lambda>m. entry\<lparr>de_parent := m\<rparr>) (AtmosObjectMetadata_parse_usermeta E (de_parent entry) child)
      else Some entry)"

definition AtmosDirectoryEntry_parse_entry :: "env \<Rightarrow> AtmosDirectoryEntry \<Rightarrow> xml_node \<Rightarrow> AtmosDirectoryEntry option" where
  "AtmosDirectoryEntry_parse_entry E entry entrynode = foldM (parse_directory_entry_child E) entry (xn_children entrynode)"

text \<open>
  The loop over a node set: every element of the array is initialised and parsed in place. The
  result of \<open>calloc\<close> is not checked.
\<close>

definition parse_entries :: "env \<Rightarrow> string \<Rightarrow> 'e \<Rightarrow> ('e \<Rightarrow> xml_node \<Rightarrow> 'e option) \<Rightarrow> xml_node list \<Rightarrow> 'e list option" where
  "parse_entries E struct init parse_entry nodes =
     (if \<not> alloc_ok E (length nodes * sizeof E struct) then None
      else foldM (\<lambda>es node. do { e \<leftarrow> parse_entry init node; Some (es @ [e]) }) [] nodes)"

text \<open>
  The common part of the three list parsers: the outer element must be there, the entries are
  selected by an XPath expression; \<open>Some None\<close> when the response is left as it is.
\<close>

definition select_entries :: "env \<Rightarrow> char list \<Rightarrow> int \<Rightarrow> string \<Rightarrow> string \<Rightarrow> xml_node list option option" where
  "select_entries E xml xml_size outer inner = do {
     doc \<leftarrow> xmlReadMemory E xml xml_size;
     (case doc of
        None \<Rightarrow> Some None
      | Some doc \<Rightarrow>
          if AtmosUtil_count_nodes E doc outer True = 0 then Some None
          else Some (AtmosUtil_select_nodes E doc inner True))
   }"

definition AtmosListDirectoryResponse_parse ::
    "env \<Rightarrow> list_directory_response_part \<Rightarrow> char list \<Rightarrow> int \<Rightarrow> list_directory_response_part option" where
  "AtmosListDirectoryResponse_parse E self xml xml_size = do {
     nodes \<leftarrow> select_entries E xml xml_size ''//cos:DirectoryList'' ''//cos:DirectoryEntry'';
     (case nodes of
        None \<Rightarrow> Some self
      | Some nodes \<Rightarrow> do {
          entries \<leftarrow> parse_entries E ''AtmosDirectoryEntry'' AtmosDirectoryEntry_init (AtmosDirectoryEntry_parse_entry E) nodes;
          Some (self\<lparr>dl_entries := entries, dl_entry_count := int (length nodes)\<rparr>)
        })
   }"

definition parse_object_listing_child :: "env \<Rightarrow> AtmosObjectListing \<Rightarrow> xml_node \<Rightarrow> AtmosObjectListing option" where
  "parse_object_listing_child E entry child =
     (if \<not> xn_element child then Some entry
      else if strcmp (xn_name child) DIR_NODE_OBJECT_ID = 0 then
        (case xn_content child of
           None \<Rightarrow> Some entry
         | Some v \<Rightarrow> do { b \<leftarrow> strncpy (ol_object_id entry) v ATMOS_OID_LENGTH; Some (entry\<lparr>ol_object_id := b\<rparr>) })
      else if strcmp (xn_name child) DIR_NODE_SYSTEM_METADATA_LIST = 0 then
        map_option (\<lambda>m. entry\<lparr>ol_parent := m\<rparr>) (AtmosObjectMetadata_parse_system_meta E (ol_parent entry) child)
      else if strcmp (xn_name child) DIR_NODE_USER_METADATA_LIST = 0 then
        map_option (\<lambda>m. entry\<lparr>ol_parent := m\<rparr>) (AtmosObjectMetadata_parse_usermeta E (ol_parent entry) child)
      else Some entry)"

definition AtmosObjectListing_parse_entry :: "env \<Rightarrow> AtmosObjectListing \<Rightarrow> xml_node \<Rightarrow> AtmosObjectListing option" where
  "AtmosObjectListing_parse_entry E entry entrynode = foldM (parse_object_listing_child E) entry (xn_children entrynode)"

definition AtmosListObjectsResponse_parse ::
    "env \<Rightarrow> list_objects_response_part \<Rightarrow> char list \<Rightarrow> int \<Rightarrow> list_objects_response_part option" where
  "AtmosListObjectsResponse_parse E self xml xml_size = do {
     nodes \<leftarrow> select_entries E xml xml_size ''//cos:ListObjectsResponse'' ''//cos:Object'';
     (case nodes of
        None \<Rightarrow> Some self
      | Some nodes \<Rightarrow> do {
          results \<leftarrow> parse_entries E ''AtmosObjectListing'' AtmosObjectListing_init (AtmosObjectListing_parse_entry E) nodes;
          Some (self\<lparr>or_results := results, or_result_count := int (length nodes)\<rparr>)
        })
   }"

section \<open>Versions\<close>

definition AtmosVersion_init :: AtmosVersion where
  "AtmosVersion_init = \<lparr>av_object_id = zeros ATMOS_OID_LENGTH, av_version_number = 0, av_itime = 0\<rparr>"

definition parse_version_child :: "env \<Rightarrow> AtmosVersion \<Rightarrow> xml_node \<Rightarrow> AtmosVersion option" where
  "parse_version_child E entry child =
     (if \<not> xn_element child then Some entry
      else if strcmp (xn_name child) VER_NODE_OID = 0 then
        (case xn_content child of
           None \<Rightarrow> Some entry
         | Some v \<Rightarrow> do { b \<leftarrow> strncpy (av_object_id entry) v ATMOS_OID_LENGTH; Some (entry\<lparr>av_object_id := b\<rparr>) })
      else if strcmp (xn_name child) VER_NODE_VER_NUM = 0 then
        (case xn_content child of
           None \<Rightarrow> Some entry
         | Some v \<Rightarrow> Some (entry\<lparr>av_version_number := to_int32 (strtoll v)\<rparr>))
      else if strcmp (xn_name child) VER_NODE_ITIME = 0 then
        (case xn_content child of
           None \<Rightarrow> Some entry
         | Some v \<Rightarrow> do { t \<leftarrow> AtmosUtil_parse_xml_datetime E v; Some (entry\<lparr>av_itime := t\<rparr>) })
      else Some entry)"

definition AtmosVersion_parse_entry :: "env \<Rightarrow> AtmosVersion \<Rightarrow> xml_node \<Rightarrow> AtmosVersion option" where
  "AtmosVersion_parse_entry E entry entrynode = foldM (parse_version_child E) entry (xn_children entrynode)"

definition AtmosListVersionsResponse_parse ::
    "env \<Rightarrow> list_versions_response_part \<Rightarrow> char list \<Rightarrow> int \<Rightarrow> list_versions_response_part option" where
  "AtmosListVersionsResponse_parse E self xml xml_size = do {
     nodes \<leftarrow> select_entries E xml xml_size ''//cos:ListVersionsResponse'' ''//cos:Ver'';
     (case nodes of
        None \<Rightarrow> Some self
      | Some nodes \<Rightarrow> do {
          versions \<leftarrow> parse_entries E ''AtmosVersion'' AtmosVersion_init (AtmosVersion_parse_entry E) nodes;
          Some (self\<lparr>lv_versions := versions, lv_version_count := int (length nodes)\<rparr>)
        })
   }"

section \<open>Object information\<close>

definition zero_replica_info :: AtmosReplicaInfo where
  "zero_replica_info = \<lparr>ri_id = 0, ri_type = zeros 16, ri_current = 0,
     ri_location = zeros ATMOS_SIMPLE_HEADER_MAX, ri_storage_type = zeros ATMOS_SIMPLE_HEADER_MAX\<rparr>"

text \<open>Setting a member from the value of a node that may be missing.\<close>

definition set_value :: "string option \<Rightarrow> (string \<Rightarrow> 'o \<Rightarrow> 'o option) \<Rightarrow> 'o \<Rightarrow> 'o option" where
  "set_value v f self = (case v of None \<Rightarrow> Some self | Some x \<Rightarrow> f x self)"

definition truth :: "string \<Rightarrow> int" where
  "truth v = (if strcmp ''true'' v = 0 then 1 else 0)"

definition replica_path :: "nat \<Rightarrow> string \<Rightarrow> string" where
  "replica_path i field = snprintf_text ATMOS_SIMPLE_HEADER_MAX
     (''//cos:replicas/cos:replica['' @ show_int (int i) @ '']/cos:'' @ field)"

text \<open>The body of the loop over the replicas; XPath indexes start at 1.\<close>

definition parse_replica :: "env \<Rightarrow> xml_node \<Rightarrow> nat \<Rightarrow> AtmosReplicaInfo \<Rightarrow> AtmosReplicaInfo option" where
  "parse_replica E doc i r = (
     let val = (\<lambda>field. AtmosUtil_select_single_node_value E doc (replica_path (i + 1) field) True) in do {
       r \<leftarrow> set_value (val ''id'') (\<lambda>v r. Some (r\<lparr>ri_id := to_int32 (strtoll v)\<rparr>)) r;
       r \<leftarrow> set_value (val ''type'') (\<lambda>v r. do { b \<leftarrow> strncpy (ri_type r) v 16; Some (r\<lparr>ri_type := b\<rparr>) }) r;
       r \<leftarrow> set_value (val ''current'') (\<lambda>v r. Some (r\<lparr>ri_current := truth v\<rparr>)) r;
       r \<leftarrow> set_value (val ''location'')
              (\<lambda>v r. do { b \<leftarrow> strncpy (ri_location r) v ATMOS_SIMPLE_HEADER_MAX; Some (r\<lparr>ri_location := b\<rparr>) }) r;
       set_value (val ''storageType'')
         (\<lambda>v r. do { b \<leftarrow> strncpy (ri_storage_type r) v ATMOS_SIMPLE_HEADER_MAX; Some (r\<lparr>ri_storage_type := b\<rparr>) }) r
     })"

definition parse_replicas :: "env \<Rightarrow> xml_node \<Rightarrow> object_info_part \<Rightarrow> object_info_part option" where
  "parse_replicas E doc self =
     (case AtmosUtil_select_nodes E doc ''//cos:replicas/cos:replica'' True of
        None \<Rightarrow> Some self
      | Some nodes \<Rightarrow>
          if \<not> alloc_ok E (length nodes * sizeof E ''AtmosReplicaInfo'') then None
          else do {
            replicas \<leftarrow> foldM (\<lambda>rs i. do {
                r \<leftarrow> arr_get rs (int i);
                r \<leftarrow> parse_replica E doc i r;
                arr_set rs (int i) r
              }) (replicate (length nodes) zero_replica_info) [0..<length nodes];
            Some (self\<lparr>oi_replicas := replicas, oi_replica_count := int (length nodes)\<rparr>)
          })"

definition AtmosGetObjectInfoResponse_parse :: "env \<Rightarrow> object_info_part \<Rightarrow> char list \<Rightarrow> int \<Rightarrow> object_info_part option" where
  "AtmosGetObjectInfoResponse_parse E self xml xml_size = do {
     doc \<leftarrow> xmlReadMemory E xml xml_size;
     (case doc of
        None \<Rightarrow> Some self
      | Some doc \<Rightarrow> (
          let val = (\<lambda>selector. AtmosUtil_select_single_node_value E doc selector True) in do {
            self \<leftarrow> set_value (val ''//cos:objectId'')
                      (\<lambda>v s. do { b \<leftarrow> strncpy (oi_object_id s) v ATMOS_OID_LENGTH; Some (s\<lparr>oi_object_id := b\<rparr>) }) self;
            self \<leftarrow> set_value (val ''//cos:selection'')
                      (\<lambda>v s. do { b \<leftarrow> strncpy (oi_selection s) v ATMOS_SIMPLE_HEADER_MAX; Some (s\<lparr>oi_selection := b\<rparr>) }) self;
            self \<leftarrow> parse_replicas E doc self;
            self \<leftarrow> set_value (val ''//cos:retention/cos:enabled'') (\<lambda>v s. Some (s\<lparr>oi_retention_enabled := truth v\<rparr>)) self;
            self \<leftarrow> set_value (val ''//cos:retention/cos:endAt'')
                      (\<lambda>v s. if length v > 0
                             then do { t \<leftarrow> AtmosUtil_parse_xml_datetime E v; Some (s\<lparr>oi_retention_end := t\<rparr>) }
                             else Some s) self;
            self \<leftarrow> set_value (val ''//cos:expiration/cos:enabled'') (\<lambda>v s. Some (s\<lparr>oi_expiration_enabled := truth v\<rparr>)) self;
            set_value (val ''//cos:expiration/cos:endAt'')
              (\<lambda>v s. if length v > 0
                     then do { t \<leftarrow> AtmosUtil_parse_xml_datetime E v; Some (s\<lparr>oi_expiration_end := t\<rparr>) }
                     else Some s) self
          }))
   }"

end
