(* ===== verification/Filters.thy ===== *)
theory Filters
  imports Signing Read_Requests Xml_Parsers
begin

text \<open>
  The filters of \<open>atmos.c\<close>, \<open>atmos_common.c\<close>, \<open>atmos_create.c\<close>, \<open>atmos_read.c\<close>,
  \<open>atmos_update.c\<close>, \<open>atmos_versions.c\<close>, \<open>atmos_access_tokens.c\<close> and \<open>atmos_service_info.c\<close>.
  A filter prepares the request, calls the next filter and then reads the response. The state it
  works on is the pair of the two objects.
\<close>

section \<open>Filters of every request\<close>

definition AtmosFilter_add_uid :: "env \<Rightarrow> rest_http_filter" where
  "AtmosFilter_add_uid E atmos next st =
     (case st of (request, response) \<Rightarrow> do {
        uid \<leftarrow> c_str (cl_uid atmos);
        call_next next
          (add_header E request (snprintf_text ATMOS_SIMPLE_HEADER_MAX (ATMOS_HEADER_UID @ '':'' @ uid)), response)
      })"

definition AtmosFilter_add_date :: "env \<Rightarrow> rest_http_filter" where
  "AtmosFilter_add_date E atmos next st =
     (case st of (request, response) \<Rightarrow> do {
        date \<leftarrow> AtmosUtil_get_date E (replicate ATMOS_SIMPLE_HEADER_MAX (junk E));
        date \<leftarrow> c_str date;
        call_next next
          (add_header E request (snprintf_text ATMOS_SIMPLE_HEADER_MAX (HTTP_HEADER_DATE E @ '':'' @ date)), response)
      })"

text \<open>A \<open>NULL\<close> signature is printed with \<open>%s\<close>, which is undefined.\<close>

definition AtmosFilter_sign_request :: "env \<Rightarrow> rest_http_filter" where
  "AtmosFilter_sign_request E atmos next st =
     (case st of (request, response) \<Rightarrow> do {
        signature \<leftarrow> AtmosClient_sign_request E atmos (r_base request);
        signature \<leftarrow> Option.bind signature c_str;
        call_next next
          (add_header E request (snprintf_text ATMOS_SIMPLE_HEADER_MAX (ATMOS_HEADER_SIGNATURE @ '':'' @ signature)), response)
      })"

section \<open>Error responses\<close>

record XMLFileParseData =
  xf_f :: FILE
  xf_content_length :: int
  xf_bytes_read :: int

text \<open>The read callback of the XML parser; the arithmetic is that of \<open>size_t\<close>.\<close>

definition AtmosFilter_file_read_xml :: "XMLFileParseData \<Rightarrow> nat \<Rightarrow> char list \<times> XMLFileParseData" where
  "AtmosFilter_file_read_xml data len =
     (let bytes_to_read =
            (if to_uint64 (int len + xf_bytes_read data) > xf_content_length data
             then to_uint64 (xf_content_length data - xf_bytes_read data) else int len);
          (buffer, f) = fread (nat bytes_to_read) (xf_f data)
      in (buffer, data\<lparr>xf_f := f, xf_bytes_read := to_uint64 (xf_bytes_read data + int (length buffer))\<rparr>))"

text \<open>
  \<open>xmlReadIO\<close> calls it with buffers of its own choice until it returns nothing; what it has read
  is the document.
\<close>

function read_xml_io :: "env \<Rightarrow> XMLFileParseData \<Rightarrow> nat \<Rightarrow> char list \<times> XMLFileParseData" where
  "read_xml_io E data n =
     (let (buffer, data) = AtmosFilter_file_read_xml data (xml_read_size E n) in
      if buffer = [] then ([], data)
      else (let (rest, data) = read_xml_io E data (Suc n) in (buffer @ rest, data)))"
  by pat_completeness auto
termination
proof (relation "measure (\<lambda>(E, data, n). length (f_bytes (xf_f data)) - f_pos (xf_f data))")
  fix E data n x buffer data'
  assume x: "x = AtmosFilter_file_read_xml data (xml_read_size E n)" "(buffer, data') = x" "buffer \<noteq> []"
  obtain m where "buffer = fst (fread m (xf_f data))" "xf_f data' = snd (fread m (xf_f data))"
    using x(1,2) by (auto simp: AtmosFilter_file_read_xml_def Let_def split: prod.splits) (metis fst_conv snd_conv)+
  then show "((E, data', Suc n), E, data, n) \<in> measure (\<lambda>(E, data, n). length (f_bytes (xf_f data)) - f_pos (xf_f data))"
    using x(3) by (auto simp: fread_def Let_def)
qed simp

declare read_xml_io.simps [simp del]

definition error_document :: "env \<Rightarrow> RestResponse \<Rightarrow> (xml_node option \<times> RestResponse) option" where
  "error_document E response =
     (case rs_file_body response of
        Some f \<Rightarrow>
          (let (rc, f) = fseeko f (rs_file_body_start_pos response);
               (bytes, data) = read_xml_io E \<lparr>xf_f = f, xf_content_length = to_uint64 (rs_content_length response), xf_bytes_read = 0\<rparr> 0
           in Some (xml_parse E bytes, response\<lparr>rs_file_body := Some (xf_f data)\<rparr>))
      | None \<Rightarrow> do {
          doc \<leftarrow> xmlReadMemory E (rs_body response) (rs_content_length response);
          Some (doc, response)
        })"

definition ATMOS_ERROR_ROOT_NODE :: string where "ATMOS_ERROR_ROOT_NODE = ''Error''"
definition ATMOS_ERROR_CODE_XPATH :: string where "ATMOS_ERROR_CODE_XPATH = ''/Error/Code''"
definition ATMOS_ERROR_MESSAGE_XPATH :: string where "ATMOS_ERROR_MESSAGE_XPATH = ''/Error/Message''"

definition upd_atmos :: "(atmos_part \<Rightarrow> atmos_part option) \<Rightarrow> response \<Rightarrow> response option" where
  "upd_atmos f self =
     (case s_atmos self of
        None \<Rightarrow> None
      | Some (a, sub) \<Rightarrow> do { a' \<leftarrow> f a; Some (self\<lparr>s_atmos := Some (a', sub)\<rparr>) })"

definition parse_error_document :: "env \<Rightarrow> xml_node \<Rightarrow> response \<Rightarrow> response option" where
  "parse_error_document E root response =
     (if strcmp ATMOS_ERROR_ROOT_NODE (xn_name root) \<noteq> 0 then Some response
      else do {
        response \<leftarrow> set_value (AtmosUtil_select_single_node_value E root ATMOS_ERROR_CODE_XPATH False)
           (\<lambda>v. upd_atmos (\<lambda>a. Some (a\<lparr>atmos_error := to_int32 (strtoll v)\<rparr>))) response;
        set_value (AtmosUtil_select_single_node_value E root ATMOS_ERROR_MESSAGE_XPATH False)
           (\<lambda>v. upd_atmos (\<lambda>a. do { b \<leftarrow> strcpy (atmos_error_message a) v; Some (a\<lparr>atmos_error_message := b\<rparr>) })) response
      })"

text \<open>What the filter does after the rest of the chain.\<close>

definition parse_error_response :: "env \<Rightarrow> handler" where
  "parse_error_response E st =
     (case st of (request, response) \<Rightarrow>
      if rq_method (r_base request) = HTTP_DELETE \<or> rq_method (r_base request) = HTTP_PUT
         \<or> rq_method (r_base request) = HTTP_HEAD then Some st
      else if http_code (s_base response) > 399 then do {
        (doc, base) \<leftarrow> error_document E (s_base response);
        (let response = response\<lparr>s_base := base\<rparr> in
         case doc of
           None \<Rightarrow> Some (request, response)
         | Some root \<Rightarrow> map_option (Pair request) (parse_error_document E root response))
      }
      else Some st)"

definition AtmosFilter_parse_atmos_error :: "env \<Rightarrow> rest_http_filter" where
  "AtmosFilter_parse_atmos_error E atmos next st = do {
     st \<leftarrow> call_next next st;
     parse_error_response E st
   }"

section \<open>Headers of write requests\<close>

definition ATMOS_ERROR_API_FTELL_NOT_SUPPORTED :: int where "ATMOS_ERROR_API_FTELL_NOT_SUPPORTED = 601"
definition ATMOS_ERROR_API_FTELL_NOT_SUPPORTED_STR :: string where "ATMOS_ERROR_API_FTELL_NOT_SUPPORTED_STR =
  ''A file handle was used that does not support ftell() but it is required for wschecksum.''"
definition ATMOS_ERROR_API_FSEEK_NOT_SUPPORTED :: int where "ATMOS_ERROR_API_FSEEK_NOT_SUPPORTED = 602"
definition ATMOS_ERROR_API_FSEEK_NOT_SUPPORTED_STR :: string where "ATMOS_ERROR_API_FSEEK_NOT_SUPPORTED_STR =
  ''A file handle was used that does not support fseek() but it is required for wschecksum.''"
definition ATMOS_ERROR_API_CHECKSUM_FAILED :: int where "ATMOS_ERROR_API_CHECKSUM_FAILED = 603"
definition ATMOS_ERROR_API_CHECKSUM_FAILED_STR :: string where
  "ATMOS_ERROR_API_CHECKSUM_FAILED_STR = ''Checksum calculation failed''"

definition content_type_header :: "env \<Rightarrow> string \<Rightarrow> string" where
  "content_type_header E type = HTTP_HEADER_CONTENT_TYPE E @ '': '' @ type"

definition utf8_header :: string where
  "utf8_header = ATMOS_HEADER_UTF8 @ '': true''"

text \<open>
  The error branches of the checksum code, three times the same: a class name other than that of
  \<open>RestResponse\<close> is taken to mean an \<open>AtmosResponse\<close>.
\<close>

definition write_error :: "env \<Rightarrow> response \<Rightarrow> int \<Rightarrow> string \<Rightarrow> response option" where
  "write_error E response code message =
     (if strcmp (rs_class_name (s_base response)) (CLASS_REST_RESPONSE E) \<noteq> 0
      then AtmosResponse_set_api_error response code message
      else Some (response\<lparr>s_base := (s_base response)\<lparr>http_code := 400, http_status := ''Bad Request''\<rparr>\<rparr>))"

text \<open>\<open>(size_t)data_size\<close> bytes of a body in memory.\<close>

definition body_bytes :: "RestRequestBody \<Rightarrow> char list option" where
  "body_bytes body =
     (let n = nat (to_uint64 (rb_data_size body)) in if n \<le> length (rb_body body) then Some (take n (rb_body body)) else None)"

text \<open>
  Checksumming the body before it is sent. The first component of the result tells whether the
  filter goes on; otherwise the response describes the error.
\<close>

definition wschecksum_body ::
    "env \<Rightarrow> AtmosChecksum \<Rightarrow> RestRequestBody \<Rightarrow> response \<Rightarrow> (bool \<times> AtmosChecksum \<times> RestRequestBody \<times> response) option" where
  "wschecksum_body E c body response =
     (case rb_file_body body of
        Some f \<Rightarrow>
          (let cur = ftello f in
           if cur = -1 then do {
             response \<leftarrow> write_error E response ATMOS_ERROR_API_FTELL_NOT_SUPPORTED ATMOS_ERROR_API_FTELL_NOT_SUPPORTED_STR;
             Some (False, c, body, response)
           } else do {
             (c, f) \<leftarrow> AtmosChecksum_update_file E c f (rb_data_size body);
             (let (rc, f) = fseeko f cur; body = body\<lparr>rb_file_body := Some f\<rparr> in
              if rc = -1 then do {
                response \<leftarrow> write_error E response ATMOS_ERROR_API_FSEEK_NOT_SUPPORTED ATMOS_ERROR_API_FSEEK_NOT_SUPPORTED_STR;
                Some (False, c, body, response)
              } else Some (True, c, body, response))
           })
      | None \<Rightarrow> do {
          data \<leftarrow> body_bytes body;
          Some (True, AtmosChecksum_update E c data, body, response)
        })"

definition put_checksum :: "AtmosChecksum \<Rightarrow> request \<Rightarrow> request" where
  "put_checksum c request =
     (case r_sub request of
        Write_request w sub \<Rightarrow> request\<lparr>r_sub := Write_request (w\<lparr>w_checksum := Some c\<rparr>) sub\<rparr>
      | _ \<Rightarrow> request)"

definition put_body :: "RestRequestBody \<Rightarrow> request \<Rightarrow> request" where
  "put_body body request = upd_base (\<lambda>b. b\<lparr>rq_body := Some body\<rparr>) request"

definition wschecksum_header :: "env \<Rightarrow> AtmosChecksum \<Rightarrow> request \<times> response \<Rightarrow> (bool \<times> request \<times> response) option" where
  "wschecksum_header E c st =
     (case st of (request, response) \<Rightarrow>
      case rq_body (r_base request) of
        None \<Rightarrow> Some (True, request, response)
      | Some body \<Rightarrow> do {
          (go, c, body, response) \<leftarrow> wschecksum_body E c body response;
          (let request = put_checksum c (put_body body request) in
           if \<not> go then Some (False, request, response)
           else do {
             value \<leftarrow> AtmosChecksum_get_state E c;
             (case value of
                None \<Rightarrow> do {
                  response \<leftarrow> write_error E response ATMOS_ERROR_API_CHECKSUM_FAILED ATMOS_ERROR_API_CHECKSUM_FAILED_STR;
                  Some (False, request, response)
                }
              | Some v \<Rightarrow>
                  Some (True, add_header E request
                    (snprintf_text ATMOS_SIMPLE_HEADER_MAX (ATMOS_HEADER_WSCHECKSUM @ '': '' @ v)), response))
           })
        })"

text \<open>A body in memory is checksummed now, a file while the REST library sends it.\<close>

definition generate_checksum_header :: "env \<Rightarrow> AtmosChecksum \<Rightarrow> request \<Rightarrow> request option" where
  "generate_checksum_header E c request = do {
     algorithm \<leftarrow> ck_algorithm c;
     (let request = add_header E request
            (snprintf_text ATMOS_SIMPLE_HEADER_MAX (ATMOS_HEADER_GENERATE_CHECKSUM @ '': '' @ algorithm)) in
      case rq_body (r_base request) of
        None \<Rightarrow> Some request
      | Some body \<Rightarrow>
          if rb_file_body body \<noteq> None
          then Some (upd_base (\<lambda>b. RestRequest_set_file_filter E b AtmosWriteObjectRequest_checksum_filter_ptr) request)
          else do { data \<leftarrow> body_bytes body; Some (put_checksum (AtmosChecksum_update E c data) request) })
   }"

definition checksum_headers ::
    "env \<Rightarrow> AtmosChecksum option \<Rightarrow> request \<times> response \<Rightarrow> (bool \<times> request \<times> response) option" where
  "checksum_headers E checksum st =
     (case st of (request, response) \<Rightarrow>
      case checksum of
        None \<Rightarrow> Some (True, st)
      | Some c \<Rightarrow>
          if ck_mode c = ATMOS_WSCHECKSUM \<and> RestRequest_get_header_value E (r_base request) ATMOS_HEADER_WSCHECKSUM = None
          then wschecksum_header E c st
          else if ck_mode c = ATMOS_GENERATE_CHECKSUM \<and> RestRequest_get_header E (r_base request) ATMOS_HEADER_GENERATE_CHECKSUM = None
          then do { request \<leftarrow> generate_checksum_header E c request; Some (True, request, response) }
          else Some (True, st))"

definition metadata_headers :: "env \<Rightarrow> AtmosClient \<Rightarrow> write_part \<Rightarrow> request \<Rightarrow> request option" where
  "metadata_headers E atmos w request = do {
     request \<leftarrow> (if w_meta_count w > 0
       then AtmosUtil_set_metadata_header E (w_meta w) (w_meta_count w) False (cl_enable_utf8_metadata atmos) request
       else Some request);
     request \<leftarrow> (if w_listable_meta_count w > 0
       then AtmosUtil_set_metadata_header E (w_listable_meta w) (w_listable_meta_count w) True (cl_enable_utf8_metadata atmos) request
       else Some request);
     (let request = (if cl_enable_utf8_metadata atmos \<noteq> 0 then add_header E request utf8_header else request) in
      if w_acl_count w > 0 then AtmosUtil_set_acl_header E (w_acl w) (w_acl_count w) request else Some request)
   }"

definition AtmosFilter_set_write_headers :: "env \<Rightarrow> rest_http_filter" where
  "AtmosFilter_set_write_headers E atmos next st =
     (case st of (request, response) \<Rightarrow>
      case r_sub request of
        Write_request w sub \<Rightarrow> (
          let request = (if rq_body (r_base request) = None
                         then add_header E request (content_type_header E ''application/octet-stream'') else request) in do {
            request \<leftarrow> metadata_headers E atmos w request;
            (go, st) \<leftarrow> checksum_headers E (w_checksum w) (request, response);
            if go then call_next next st else Some st
          })
      | _ \<Rightarrow> None)"

section \<open>Ranges\<close>

text \<open>The range header of reads and updates; the two filters have the same code.\<close>

definition range_text :: "env \<Rightarrow> int \<Rightarrow> int \<Rightarrow> string option" where
  "range_text E range_start range_end =
     (if range_start \<noteq> -1 \<and> range_end \<noteq> -1
      then Some (HTTP_HEADER_RANGE E @ '': Bytes='' @ show_int range_start @ ''-'' @ show_int range_end)
      else if range_start \<noteq> -1 then Some (HTTP_HEADER_RANGE E @ '': Bytes='' @ show_int range_start @ ''-'')
      else if range_end \<noteq> -1 then Some (HTTP_HEADER_RANGE E @ '': Bytes=-'' @ show_int range_end)
      else None)"

definition add_range_header :: "env \<Rightarrow> int \<Rightarrow> int \<Rightarrow> request \<Rightarrow> request" where
  "add_range_header E range_start range_end request =
     (case range_text E range_start range_end of
        None \<Rightarrow> request
      | Some t \<Rightarrow> add_header E request (snprintf_text ATMOS_SIMPLE_HEADER_MAX t))"

definition AtmosFilter_update_object :: "env \<Rightarrow> rest_http_filter" where
  "AtmosFilter_update_object E atmos next st =
     (case st of (request, response) \<Rightarrow>
      case r_sub request of
        Write_request w (Update_sub u) \<Rightarrow>
          call_next next (add_range_header E (up_range_start u) (up_range_end u) request, response)
      | _ \<Rightarrow> None)"

definition AtmosFilter_set_read_object_headers :: "env \<Rightarrow> rest_http_filter" where
  "AtmosFilter_set_read_object_headers E atmos next st =
     (case st of (request, response) \<Rightarrow>
      case r_sub request of
        Read_request rd \<Rightarrow> (
          let request = add_range_header E (rd_range_start rd) (rd_range_end rd) request;
              request = (if cl_enable_utf8_metadata atmos \<noteq> 0 then add_header E request utf8_header else request)
          in call_next next (request, response))
      | _ \<Rightarrow> None)"

section \<open>Responses in headers\<close>

text \<open>The filters read the response only after success.\<close>

definition on_success :: "(response \<Rightarrow> response option) \<Rightarrow> request \<times> response \<Rightarrow> (request \<times> response) option" where
  "on_success f st =
     (case st of (request, response) \<Rightarrow>
      if http_code (s_base response) > 299 then Some st
      else do { response \<leftarrow> f response; Some (request, response) })"

definition read_headers :: "env \<Rightarrow> RestResponse \<Rightarrow> read_response_part \<Rightarrow> read_response_part option" where
  "read_headers E base p = do {
     sm \<leftarrow> AtmosUtil_parse_system_meta_header E base (rr_system_metadata p);
     (meta, listable) \<leftarrow> AtmosUtil_parse_user_meta_headers E base (rr_meta p, rr_meta_count p)
        (rr_listable_metadata p, rr_listable_meta_count p);
     acl \<leftarrow> AtmosUtil_parse_acl_headers E base (rr_acl p, rr_acl_count p);
     Some (p\<lparr>rr_system_metadata := sm, rr_meta := fst meta, rr_meta_count := snd meta,
             rr_listable_metadata := fst listable, rr_listable_meta_count := snd listable,
             rr_acl := fst acl, rr_acl_count := snd acl\<rparr>)
   }"

definition AtmosFilter_parse_read_object_response :: "env \<Rightarrow> rest_http_filter" where
  "AtmosFilter_parse_read_object_response E atmos next st = do {
     st \<leftarrow> call_next next st;
     on_success (\<lambda>response. upd_sub (upd_read_response (read_headers E (s_base response))) response) st
   }"

definition AtmosFilter_parse_get_user_meta_response :: "env \<Rightarrow> rest_http_filter" where
  "AtmosFilter_parse_get_user_meta_response E atmos next st = do {
     st \<leftarrow> call_next next st;
     on_success (\<lambda>response. upd_sub (\<lambda>s. case s of
         GetUserMeta_response p \<Rightarrow> do {
           (meta, listable) \<leftarrow> AtmosUtil_parse_user_meta_headers E (s_base response) (um_meta p, um_meta_count p)
              (um_listable_metadata p, um_listable_meta_count p);
           Some (GetUserMeta_response (p\<lparr>um_meta := fst meta, um_meta_count := snd meta,
             um_listable_metadata := fst listable, um_listable_meta_count := snd listable\<rparr>))
         }
       | _ \<Rightarrow> None) response) st
   }"

definition AtmosFilter_set_get_user_meta_headers :: "env \<Rightarrow> rest_http_filter" where
  "AtmosFilter_set_get_user_meta_headers E atmos next st =
     (case st of (request, response) \<Rightarrow>
      case r_sub request of
        GetUserMeta_request m \<Rightarrow> (
          let utf8 = cl_enable_utf8_metadata atmos;
              request = (if utf8 \<noteq> 0 then add_header E request utf8_header else request) in do {
            request \<leftarrow> (if mr_tag_count m > 0 then AtmosUtil_set_tags_header E request (mr_tags m) (mr_tag_count m) utf8
                         else Some request);
            call_next next (request, response)
          })
      | _ \<Rightarrow> None)"

definition AtmosFilter_get_system_metadata :: "env \<Rightarrow> rest_http_filter" where
  "AtmosFilter_get_system_metadata E atmos next st =
     (case st of (request, response) \<Rightarrow>
      case r_sub request of
        GetSystemMeta_request m \<Rightarrow> (
          let request = (if cl_enable_utf8_metadata atmos \<noteq> 0 then add_header E request utf8_header else request) in do {
            request \<leftarrow> (if mr_tag_count m > 0 then AtmosUtil_set_tags_header E request (mr_tags m) (mr_tag_count m) 0
                         else Some request);
            st \<leftarrow> call_next next (request, response);
            on_success (\<lambda>response. upd_sub (\<lambda>s. case s of
                GetSystemMeta_response sm \<Rightarrow>
                  map_option GetSystemMeta_response (AtmosUtil_parse_system_meta_header E (s_base response) sm)
              | _ \<Rightarrow> None) response) st
          })
      | _ \<Rightarrow> None)"

text \<open>
  Without an ACL header the members of the response are not touched, so that this filter does no
  harm when a request to set an ACL, whose response is a plain \<open>AtmosResponse\<close>, goes through it.
\<close>

definition AtmosFilter_parse_get_acl_response :: "env \<Rightarrow> rest_http_filter" where
  "AtmosFilter_parse_get_acl_response E atmos next st = do {
     st \<leftarrow> call_next next st;
     on_success (\<lambda>response.
       if RestResponse_get_header_value E (s_base response) ATMOS_HEADER_USER_ACL = None
          \<and> RestResponse_get_header_value E (s_base response) ATMOS_HEADER_GROUP_ACL = None then Some response
       else upd_sub (\<lambda>s. case s of
           GetAcl_response p \<Rightarrow> do {
             acl \<leftarrow> AtmosUtil_parse_acl_headers E (s_base response) (ga_acl p, ga_acl_count p);
             Some (GetAcl_response (p\<lparr>ga_acl := fst acl, ga_acl_count := snd acl\<rparr>))
           }
         | _ \<Rightarrow> None) response) st
   }"

text \<open>
  The object ID behind \<open>/rest/objects/\<close> in a location. The length that is copied is computed in
  \<open>size_t\<close>: for a location shorter than the prefix it wraps around and the copy starts behind
  the string.
\<close>

definition store_location :: "string \<Rightarrow> buffer \<Rightarrow> buffer option" where
  "store_location location dst =
     (let location_len = length location in
      if location_len > ATMOS_OID_LENGTH - 1 + ATMOS_OID_LOCATION_PREFIX_SIZE then Some dst
      else if location_len < ATMOS_OID_LOCATION_PREFIX_SIZE then None
      else strncpy dst (drop ATMOS_OID_LOCATION_PREFIX_SIZE location) (location_len - ATMOS_OID_LOCATION_PREFIX_SIZE))"

definition AtmosFilter_parse_create_response :: "env \<Rightarrow> rest_http_filter" where
  "AtmosFilter_parse_create_response E atmos next st = do {
     (request, response) \<leftarrow> call_next next st;
     if http_code (s_base response) \<noteq> 201 then Some (request, response)
     else (case RestResponse_get_header_value E (s_base response) (HTTP_HEADER_LOCATION E) of
         None \<Rightarrow> Some (request, response)
       | Some location \<Rightarrow> do {
           response \<leftarrow> upd_sub (\<lambda>s. case s of
               CreateObject_response b \<Rightarrow> map_option CreateObject_response (store_location location b)
             | _ \<Rightarrow> None) response;
           Some (request, response)
         })
   }"

definition AtmosFilter_parse_create_version_response :: "env \<Rightarrow> rest_http_filter" where
  "AtmosFilter_parse_create_version_response E atmos next st =
     (case st of (request, response) \<Rightarrow>
      let request = (if RestRequest_get_header_value E (r_base request) (HTTP_HEADER_CONTENT_TYPE E) = None
                     then add_header E request (content_type_header E ''application/octet-stream'') else request) in do {
        st \<leftarrow> call_next next (request, response);
        on_success (\<lambda>response.
          case RestResponse_get_header_value E (s_base response) (HTTP_HEADER_LOCATION E) of
            None \<Rightarrow> Some response
          | Some location \<Rightarrow>
              upd_sub (\<lambda>s. case s of
                  CreateVersion_response b \<Rightarrow> map_option CreateVersion_response (store_location location b)
                | _ \<Rightarrow> None) response) st
      })"

section \<open>Lists and pagination\<close>

definition AtmosFilter_set_pagination_headers :: "env \<Rightarrow> rest_http_filter" where
  "AtmosFilter_set_pagination_headers E atmos next st =
     (case st of (request, response) \<Rightarrow>
      case r_sub request of
        Paginated_request p sub \<Rightarrow> do {
          token \<leftarrow> c_str (pg_token p);
          (let request = (if length token > 0
                 then add_header E request (snprintf_text (ATMOS_TOKEN_MAX + 64) (ATMOS_HEADER_TOKEN @ '': '' @ token)) else request);
               request = (if pg_limit p > 0
                 then add_header E request (snprintf_text (ATMOS_TOKEN_MAX + 64) (ATMOS_HEADER_LIMIT @ '': '' @ show_int (pg_limit p))) else request)
           in call_next next (request, response))
        }
      | _ \<Rightarrow> None)"

text \<open>The header of the tags that limit the metadata in a listing.\<close>

definition append_tag :: "env \<Rightarrow> int \<Rightarrow> buffer list \<Rightarrow> hstring \<Rightarrow> nat \<Rightarrow> hstring option" where
  "append_tag E utf8 tags hs i = do {
     b \<leftarrow> arr_get tags (int i);
     tag \<leftarrow> c_str b;
     if utf8 \<noteq> 0 then AtmosUtil_cstring_append_utf8 E hs tag else AtmosUtil_cstring_append E hs tag
   }"

definition limit_tags_header :: "env \<Rightarrow> int \<Rightarrow> string \<Rightarrow> buffer list \<Rightarrow> int \<Rightarrow> request \<Rightarrow> request option" where
  "limit_tags_header E utf8 name tags tag_count request =
     (if tag_count > 0 then do {
        hs \<leftarrow> AtmosUtil_cstring_append E empty_hstring (name @ '': '');
        hs \<leftarrow> append_tag E utf8 tags hs 0;
        hs \<leftarrow> foldM (\<lambda>hs i. do { hs \<leftarrow> AtmosUtil_cstring_append E hs '', ''; append_tag E utf8 tags hs i }) hs [1..<nat tag_count];
        text \<leftarrow> hstring_text hs;
        Some (add_header E request text)
      } else Some request)"

text \<open>The token of the next page is a pointer into the headers of the response.\<close>

definition next_token :: "env \<Rightarrow> response \<Rightarrow> string option \<Rightarrow> string option" where
  "next_token E response token =
     (case RestResponse_get_header_value E (s_base response) ATMOS_HEADER_TOKEN of
        None \<Rightarrow> token
      | Some t \<Rightarrow> Some t)"

definition include_meta_header :: string where
  "include_meta_header = ATMOS_HEADER_INCLUDE_META @ '': true''"

definition AtmosFilter_list_directory :: "env \<Rightarrow> rest_http_filter" where
  "AtmosFilter_list_directory E atmos next st =
     (case st of (request, response) \<Rightarrow>
      case r_sub request of
        Paginated_request p (ListDirectory_sub l) \<Rightarrow> (
          let utf8 = cl_enable_utf8_metadata atmos;
              request = (if utf8 \<noteq> 0 then add_header E request utf8_header else request) in do {
            request \<leftarrow> (if ld_include_meta l \<noteq> 0 then do {
                request \<leftarrow> limit_tags_header E utf8 ATMOS_HEADER_USER_TAGS (ld_user_tags l) (ld_user_tag_count l)
                  (add_header E request include_meta_header);
                limit_tags_header E 0 ATMOS_HEADER_SYSTEM_TAGS (ld_system_tags l) (ld_system_tag_count l) request
              } else Some request);
            st \<leftarrow> call_next next (request, response);
            on_success (\<lambda>response. upd_sub (\<lambda>s. case s of
                ListDirectory_response rp d \<Rightarrow> do {
                  d \<leftarrow> AtmosListDirectoryResponse_parse E d (rs_body (s_base response)) (rs_content_length (s_base response));
                  Some (ListDirectory_response rp (d\<lparr>dl_token := next_token E response (dl_token d)\<rparr>))
                }
              | _ \<Rightarrow> None) response) st
          })
      | _ \<Rightarrow> None)"

definition AtmosFilter_list_objects :: "env \<Rightarrow> rest_http_filter" where
  "AtmosFilter_list_objects E atmos next st =
     (case st of (request, response) \<Rightarrow>
      case r_sub request of
        Paginated_request p (ListObjects_sub l) \<Rightarrow> (
          let utf8 = cl_enable_utf8_metadata atmos;
              request = (if utf8 \<noteq> 0 then add_header E request utf8_header else request) in do {
            tagbuf \<leftarrow> strncpy (replicate ATMOS_META_NAME_MAX (junk E)) (buffer_text (lo_tag l)) ATMOS_META_NAME_MAX;
            request \<leftarrow> AtmosUtil_set_tags_header E request [tagbuf] 1 utf8;
            request \<leftarrow> (if lo_include_meta l \<noteq> 0 then do {
                request \<leftarrow> limit_tags_header E utf8 ATMOS_HEADER_USER_TAGS (lo_user_tags l) (lo_user_tag_count l)
                  (add_header E request include_meta_header);
                limit_tags_header E 0 ATMOS_HEADER_SYSTEM_TAGS (lo_system_tags l) (lo_system_tag_count l) request
              } else Some request);
            st \<leftarrow> call_next next (request, response);
            on_success (\<lambda>response. upd_sub (\<lambda>s. case s of
                ListObjects_response d \<Rightarrow> do {
                  d \<leftarrow> AtmosListObjectsResponse_parse E d (rs_body (s_base response)) (rs_content_length (s_base response));
                  Some (ListObjects_response (d\<lparr>or_token := next_token E response (or_token d)\<rparr>))
                }
              | _ \<Rightarrow> None) response) st
          })
      | _ \<Rightarrow> None)"

definition AtmosFilter_list_versions :: "env \<Rightarrow> rest_http_filter" where
  "AtmosFilter_list_versions E atmos next st = do {
     st \<leftarrow> call_next next st;
     on_success (\<lambda>response. upd_sub (\<lambda>s. case s of
         ListVersions_response d \<Rightarrow> do {
           d \<leftarrow> AtmosListVersionsResponse_parse E d (rs_body (s_base response)) (rs_content_length (s_base response));
           Some (ListVersions_response (d\<lparr>lv_token := next_token E response (lv_token d)\<rparr>))
         }
       | _ \<Rightarrow> None) response) st
   }"

text \<open>
  The loop over the listable tags. \<open>tags_alloc\<close> is the size of the array, in pointers of 8 bytes;
  when it cannot grow the filter returns at once (\<open>False\<close>). \<open>curl_easy_unescape\<close> takes the length
  of the piece, where 0 means the whole string: an empty tag is decoded as the rest of the header.
\<close>

definition decode_tag :: "env \<Rightarrow> bool \<Rightarrow> string \<Rightarrow> nat \<Rightarrow> string option option" where
  "decode_tag E utf8 tag c =
     (if utf8 then do {
        decoded \<leftarrow> curl_easy_unescape E (if c = 0 then tag else take c tag);
        Some (if alloc_ok E (length (buffer_text decoded) + 1) then Some (buffer_text decoded) else None)
      } else Some (if alloc_ok E (c + 1) then Some (take c tag) else None))"

function tags_loop :: "env \<Rightarrow> bool \<Rightarrow> string \<Rightarrow> nat \<Rightarrow> string option list \<Rightarrow> (bool \<times> string option list) option" where
  "tags_loop E utf8 tag tags_alloc tags =
     (case tag of
        [] \<Rightarrow> Some (True, tags)
      | x # xs \<Rightarrow>
          if x = CHR '' '' then tags_loop E utf8 xs tags_alloc tags
          else (
            let comma = strstr tag '','';
                c = (case comma of None \<Rightarrow> length tag | Some i \<Rightarrow> i);
                grow = length tags + 1 > tags_alloc;
                tags_alloc = (if grow then tags_alloc + 100 else tags_alloc) in
            if grow \<and> \<not> alloc_ok E (tags_alloc * 8) then Some (False, tags)
            else (case decode_tag E utf8 tag c of
                None \<Rightarrow> None
              | Some entry \<Rightarrow>
                  (case comma of
                     None \<Rightarrow> Some (True, tags @ [entry])
                   | Some i \<Rightarrow> tags_loop E utf8 (drop (i + 1) tag) tags_alloc (tags @ [entry])))))"
  by pat_completeness auto
termination
  by (relation "measure (\<lambda>(E, utf8, tag, n, tags). length tag)") auto

declare tags_loop.simps [simp del]

definition parse_listable_tags :: "env \<Rightarrow> response \<Rightarrow> tags_response_part \<Rightarrow> tags_response_part option" where
  "parse_listable_tags E response t = (
     let utf8 = (RestResponse_get_header_value E (s_base response) ATMOS_HEADER_UTF8 = Some ''true'') in do {
       (go, tags) \<leftarrow> (case RestResponse_get_header_value E (s_base response) ATMOS_HEADER_LISTABLE_TAGS of
           None \<Rightarrow> Some (True, [])
         | Some tag \<Rightarrow>
             if tag \<noteq> [] \<and> \<not> alloc_ok E (100 * 8) \<and> \<not> list_all (\<lambda>c. c = CHR '' '') tag then None
             else tags_loop E utf8 tag 100 []);
       (let t = t\<lparr>gt_tags := tags\<rparr> in
        Some (if go then t\<lparr>gt_token := next_token E response (gt_token t)\<rparr> else t))
     })"

definition AtmosFilter_get_listable_tags :: "env \<Rightarrow> rest_http_filter" where
  "AtmosFilter_get_listable_tags E atmos next st =
     (case st of (request, response) \<Rightarrow>
      case r_sub request of
        Paginated_request p (GetListableTags_sub parent_tag) \<Rightarrow> do {
          parent \<leftarrow> c_str parent_tag;
          (let request = (if parent \<noteq> []
                 then add_header E request (snprintf_text (ATMOS_PATH_MAX + 12) (ATMOS_HEADER_TAGS @ '': '' @ parent)) else request);
               request = (if cl_enable_utf8_metadata atmos \<noteq> 0 then add_header E request utf8_header else request) in do {
             st \<leftarrow> call_next next (request, response);
             on_success (\<lambda>response. upd_sub (\<lambda>s. case s of
                 GetListableTags_response t \<Rightarrow> map_option GetListableTags_response (parse_listable_tags E response t)
               | _ \<Rightarrow> None) response) st
           })
        }
      | _ \<Rightarrow> None)"

section \<open>Object information and service information\<close>

definition AtmosFilter_parse_get_info_response :: "env \<Rightarrow> rest_http_filter" where
  "AtmosFilter_parse_get_info_response E atmos next st = do {
     st \<leftarrow> call_next next st;
     on_success (\<lambda>response. upd_sub (\<lambda>s. case s of
         GetObjectInfo_response p \<Rightarrow>
           map_option GetObjectInfo_response
             (AtmosGetObjectInfoResponse_parse E p (rs_body (s_base response)) (rs_content_length (s_base response)))
       | _ \<Rightarrow> None) response) st
   }"

definition parse_service_info :: "env \<Rightarrow> RestResponse \<Rightarrow> service_info_part \<Rightarrow> service_info_part option" where
  "parse_service_info E base p = do {
     doc \<leftarrow> xmlReadMemory E (rs_body base) (rs_content_length base);
     (case doc of
        None \<Rightarrow> Some p
      | Some doc \<Rightarrow> do {
          p \<leftarrow> set_value (AtmosUtil_select_single_node_value E doc ''//cos:Atmos'' True)
                 (\<lambda>v p. do { b \<leftarrow> strcpy (si_version p) v; Some (p\<lparr>si_version := b\<rparr>) }) p;
          Some (if RestResponse_get_header_value E base ATMOS_HEADER_SUPPORT_UTF8 = Some ''true''
                then p\<lparr>si_utf8_metadata_supported := 1\<rparr> else p)
        })
   }"

definition AtmosFilter_parse_service_info_response :: "env \<Rightarrow> rest_http_filter" where
  "AtmosFilter_parse_service_info_response E atmos next st = do {
     (request, response) \<leftarrow> call_next next st;
     if http_code (s_base response) \<noteq> 200 then Some (request, response)
     else do {
       response \<leftarrow> upd_sub (\<lambda>s. case s of
           ServiceInfo_response p \<Rightarrow> map_option ServiceInfo_response (parse_service_info E (s_base response) p)
         | _ \<Rightarrow> None) response;
       Some (request, response)
     }
   }"

section \<open>Access tokens\<close>

definition token_headers :: "env \<Rightarrow> AtmosClient \<Rightarrow> token_request_part \<Rightarrow> request \<Rightarrow> request option" where
  "token_headers E atmos t request = do {
     object_id \<leftarrow> c_str (tk_object_id t);
     request \<leftarrow>
       (if length object_id > 0
        then Some (add_header E request (snprintf_text ATMOS_SIMPLE_HEADER_MAX (ATMOS_HEADER_OBJECTID @ '': '' @ object_id)))
        else do {
          path \<leftarrow> c_str (tk_path t);
          Some (if length path > 0
                then add_header E request (snprintf_text ATMOS_SIMPLE_HEADER_MAX (ATMOS_HEADER_PATH @ '': '' @ path)) else request)
        });
     metadata_headers E atmos
       \<lparr>w_meta = tk_meta t, w_meta_count = tk_meta_count t, w_listable_meta = tk_listable_meta t,
        w_listable_meta_count = tk_listable_meta_count t, w_acl = tk_acl t, w_acl_count = tk_acl_count t,
        w_checksum = None\<rparr> request
   }"

text \<open>The token ID is what follows the prefix in the location; the copy is not terminated when it does not fit.\<close>

definition store_token :: "string \<Rightarrow> buffer \<Rightarrow> buffer option" where
  "store_token location dst =
     (if strstr location ATMOS_ACCESS_TOKEN_LOCATION_PREFIX \<noteq> Some 0 then Some dst
      else strncpy dst (drop (length ATMOS_ACCESS_TOKEN_LOCATION_PREFIX) location) ATMOS_SIMPLE_HEADER_MAX)"

definition token_from_location :: "env \<Rightarrow> response \<Rightarrow> response option" where
  "token_from_location E response =
     (case RestResponse_get_header_value E (s_base response) (HTTP_HEADER_LOCATION E) of
        None \<Rightarrow> Some response
      | Some location \<Rightarrow>
          upd_sub (\<lambda>s. case s of
              CreateAccessToken_response b \<Rightarrow> map_option CreateAccessToken_response (store_token location b)
            | _ \<Rightarrow> None) response)"

definition policy_error :: "response \<Rightarrow> response option" where
  "policy_error response =
     upd_atmos (\<lambda>a. do { b \<leftarrow> strcpy (atmos_error_message a) ''Could not serialize policy object!'';
                         Some (a\<lparr>atmos_error := 0, atmos_error_message := b\<rparr>) })
       (response\<lparr>s_base := (s_base response)\<lparr>http_code := 400\<rparr>\<rparr>)"

definition AtmosFilter_create_access_token :: "env \<Rightarrow> rest_http_filter" where
  "AtmosFilter_create_access_token E atmos next st =
     (case st of (request, response) \<Rightarrow>
      case r_sub request of
        CreateAccessToken_request t \<Rightarrow> do {
          request \<leftarrow> token_headers E atmos t request;
          (case tk_policy t of
             None \<Rightarrow> do {
               st \<leftarrow> call_next next (add_header E request (content_type_header E ''text/xml''), response);
               on_success (token_from_location E) st
             }
           | Some p \<Rightarrow>
               (case Atmos_policyType_marshal E p of
                  None \<Rightarrow> do { response \<leftarrow> policy_error response; Some (request, response) }
                | Some policy \<Rightarrow> do {
                    st \<leftarrow> call_next next
                      (upd_base (\<lambda>b. RestRequest_set_array_body E b policy (length policy) ''text/xml'') request, response);
                    on_success (token_from_location E) st
                  }))
        }
      | _ \<Rightarrow> None)"

definition AtmosFilter_parse_list_access_tokens_response :: "env \<Rightarrow> rest_http_filter" where
  "AtmosFilter_parse_list_access_tokens_response E atmos next st = do {
     st \<leftarrow> call_next next st;
     on_success (\<lambda>response. upd_sub (\<lambda>s. case s of
         ListAccessTokens_response d \<Rightarrow>
           Some (ListAccessTokens_response
             (d\<lparr>lt_token_list := Atmos_listAccessTokenResultType_unmarshal E (rs_body (s_base response)),
                lt_token := next_token E response (lt_token d)\<rparr>))
       | _ \<Rightarrow> None) response) st
   }"

definition AtmosFilter_parse_get_token_info_response :: "env \<Rightarrow> rest_http_filter" where
  "AtmosFilter_parse_get_token_info_response E atmos next st = do {
     st \<leftarrow> call_next next st;
     on_success (\<lambda>response. upd_sub (\<lambda>s. case s of
         GetAccessTokenInfo_response x \<Rightarrow>
           Some (GetAccessTokenInfo_response (Atmos_accessTokenType_unmarshal E (rs_body (s_base response))))
       | _ \<Rightarrow> None) response) st
   }"

end
