(* ===== verification/Filter_Laws.thy ===== *)
theory Filter_Laws
  imports Filters
begin

text \<open>
  What the filters guarantee: the contracts of filters that add headers and of filters that read
  the response, as locales interpreted on the filters of the code, and the properties of the
  single filters.
\<close>

section \<open>The contracts of the filters\<close>

text \<open>
  \<open>extends r r'\<close>: the request \<open>r'\<close> is \<open>r\<close> with more headers behind those it has, and the same
  in everything else.
\<close>

definition extends :: "request \<Rightarrow> request \<Rightarrow> bool" where
  "extends r r' \<longleftrightarrow> (\<exists>hs. r' = r\<lparr>r_base := (r_base r)\<lparr>rq_headers := req_headers r @ hs\<rparr>\<rparr>)"

lemma extends_refl [simp]: "extends r r"
  unfolding extends_def by (rule exI[of _ "[]"]) simp

lemma extends_trans: "extends r s \<Longrightarrow> extends s t \<Longrightarrow> extends r t"
  unfolding extends_def by force

lemma extends_add_header: "rest_client_ok E \<Longrightarrow> extends r (add_header E r h)"
  unfolding extends_def by (rule exI[of _ "[h]"]) (simp add: add_header_ok)

lemma extends_fields:
  assumes "extends r r'"
  shows "rq_uri (r_base r') = rq_uri (r_base r)" "rq_method (r_base r') = rq_method (r_base r)"
    "rq_body (r_base r') = rq_body (r_base r)" "r_sub r' = r_sub r" "prefix (req_headers r) (req_headers r')"
  using assms by (auto simp: extends_def)

text \<open>A filter that only adds headers to the request: it always passes the request on, and the response as it is.\<close>

locale header_filter =
  fixes E :: env and filter :: rest_http_filter and prepare :: "AtmosClient \<Rightarrow> request \<Rightarrow> request option"
  assumes runs: "filter c next (rq, rs) = do { rq' \<leftarrow> prepare c rq; call_next next (rq', rs) }"
    and appends: "rest_client_ok E \<Longrightarrow> prepare c rq = Some rq' \<Longrightarrow> extends rq rq'"
begin

lemma forwards:
  assumes "rest_client_ok E" "filter c (Some send) (rq, rs) = Some st"
  shows "\<exists>rq'. extends rq rq' \<and> send (rq', rs) = Some st"
  using assms appends by (auto simp: runs bind_eq_Some_conv)

lemma in_chain:
  assumes "prepare c rq = Some rq'"
  shows "the (run_chain c (filter # fs)) (rq, rs) = call_next (run_chain c fs) (rq', rs)"
  using assms by (simp add: runs)

end

text \<open>A filter that only reads the response: the request goes through unchanged in both directions.\<close>

locale response_filter =
  fixes filter :: rest_http_filter and finish :: handler
  assumes runs: "filter c next st = Option.bind (call_next next st) finish"
    and keeps_request: "finish (rq, rs) = Some (rq', rs') \<Longrightarrow> rq' = rq"
begin

lemma in_chain: "the (run_chain c (filter # fs)) st = Option.bind (call_next (run_chain c fs) st) finish"
  by (simp add: runs)

lemma same_request:
  assumes "filter c (Some send) st = Some (rq', rs')"
  shows "\<exists>rs. send st = Some (rq', rs)"
  using assms by (auto simp: runs bind_eq_Some_conv dest: keeps_request)

end

text \<open>A filter that reads the response after success only: an error response stays what the chain made it.\<close>

locale success_filter = response_filter +
  fixes failed :: "int \<Rightarrow> bool"
  assumes skips: "failed (http_code (s_base rs)) \<Longrightarrow> finish (rq, rs) = Some (rq, rs)"
begin

lemma failure_unchanged:
  assumes "send st = Some (rq, rs)" "failed (http_code (s_base rs))"
  shows "filter c (Some send) st = Some (rq, rs)"
  using assms by (simp add: runs skips)

end

text \<open>
  A filter between its two neighbours: it prepares the request, passes it on, and finishes with
  the answer. Filters that only add headers and filters that only read the response are the two
  special cases.
\<close>

locale sandwich =
  fixes flt :: rest_http_filter and prep :: "AtmosClient \<Rightarrow> request \<Rightarrow> request option" and fin :: handler
  assumes sandwiches: "flt c nxt (rq, rs) = do { rq' \<leftarrow> prep c rq; st \<leftarrow> call_next nxt (rq', rs); fin st }"
begin

lemma first_of_chain:
  "the (run_chain c (flt # fs)) (rq, rs) = do { rq' \<leftarrow> prep c rq; st \<leftarrow> call_next (run_chain c fs) (rq', rs); fin st }"
  by (simp add: sandwiches)

end

sublocale header_filter \<subseteq> sandwiched: sandwich filter prepare Some
  by unfold_locales (simp add: runs)

sublocale response_filter \<subseteq> sandwiched: sandwich filter "\<lambda>c. Some" finish
  by unfold_locales (simp add: runs)

subsection \<open>Filters that add headers\<close>

definition uid_header :: "AtmosClient \<Rightarrow> string option" where
  "uid_header c = map_option (\<lambda>uid. snprintf_text ATMOS_SIMPLE_HEADER_MAX (ATMOS_HEADER_UID @ '':'' @ uid)) (c_str (cl_uid c))"

interpretation add_uid: header_filter E "AtmosFilter_add_uid E"
    "\<lambda>c rq. map_option (add_header E rq) (uid_header c)" for E
  by unfold_locales (auto simp: AtmosFilter_add_uid_def uid_header_def extends_add_header split: option.splits Option.bind_splits)

definition date_header :: "env \<Rightarrow> string option" where
  "date_header E = do {
     date \<leftarrow> AtmosUtil_get_date E (replicate ATMOS_SIMPLE_HEADER_MAX (junk E));
     date \<leftarrow> c_str date;
     Some (snprintf_text ATMOS_SIMPLE_HEADER_MAX (HTTP_HEADER_DATE E @ '':'' @ date))
   }"

interpretation add_date: header_filter E "AtmosFilter_add_date E"
    "\<lambda>c rq. map_option (add_header E rq) (date_header E)" for E
  by unfold_locales (auto simp: AtmosFilter_add_date_def date_header_def extends_add_header split: option.splits Option.bind_splits)

definition signature_header :: "env \<Rightarrow> AtmosClient \<Rightarrow> RestRequest \<Rightarrow> string option" where
  "signature_header E c r = do {
     signature \<leftarrow> AtmosClient_sign_request E c r;
     signature \<leftarrow> Option.bind signature c_str;
     Some (snprintf_text ATMOS_SIMPLE_HEADER_MAX (ATMOS_HEADER_SIGNATURE @ '':'' @ signature))
   }"

interpretation sign_request: header_filter E "AtmosFilter_sign_request E"
    "\<lambda>c rq. map_option (add_header E rq) (signature_header E c (r_base rq))" for E
  by unfold_locales
    (auto simp: AtmosFilter_sign_request_def signature_header_def extends_add_header split: option.splits Option.bind_splits)

lemma extends_range_header: "rest_client_ok E \<Longrightarrow> extends r (add_range_header E i j r)"
  by (simp add: add_range_header_def extends_add_header split: option.split)

definition update_prepare :: "env \<Rightarrow> request \<Rightarrow> request option" where
  "update_prepare E rq =
     (case r_sub rq of
        Write_request w (Update_sub u) \<Rightarrow> Some (add_range_header E (up_range_start u) (up_range_end u) rq)
      | _ \<Rightarrow> None)"

interpretation update_object: header_filter E "AtmosFilter_update_object E" "\<lambda>c. update_prepare E" for E
proof
  show "AtmosFilter_update_object E c nxt (rq, rs) = do { rq' \<leftarrow> update_prepare E rq; call_next nxt (rq', rs) }" for c and nxt :: "handler option" and rq rs
    by (simp add: AtmosFilter_update_object_def update_prepare_def split: request_sub.split write_sub.split)
  show "rest_client_ok E \<Longrightarrow> update_prepare E rq = Some rq' \<Longrightarrow> extends rq rq'" for rq rq'
    by (auto simp: update_prepare_def extends_range_header split: request_sub.splits write_sub.splits)
qed

definition read_prepare :: "env \<Rightarrow> AtmosClient \<Rightarrow> request \<Rightarrow> request option" where
  "read_prepare E c rq =
     (case r_sub rq of
        Read_request rd \<Rightarrow>
          (let rq = add_range_header E (rd_range_start rd) (rd_range_end rd) rq in
           Some (if cl_enable_utf8_metadata c \<noteq> 0 then add_header E rq utf8_header else rq))
      | _ \<Rightarrow> None)"

interpretation read_object: header_filter E "AtmosFilter_set_read_object_headers E" "read_prepare E" for E
proof
  show "AtmosFilter_set_read_object_headers E c nxt (rq, rs) = do { rq' \<leftarrow> read_prepare E c rq; call_next nxt (rq', rs) }" for c and nxt :: "handler option" and rq rs
    by (simp add: AtmosFilter_set_read_object_headers_def read_prepare_def Let_def split: request_sub.split)
  show "rest_client_ok E \<Longrightarrow> read_prepare E c rq = Some rq' \<Longrightarrow> extends rq rq'" for c rq rq'
    by (auto simp: read_prepare_def Let_def extends_range_header split: request_sub.splits
        intro: extends_trans[OF extends_range_header extends_add_header])
qed

definition pagination_prepare :: "env \<Rightarrow> request \<Rightarrow> request option" where
  "pagination_prepare E rq =
     (case r_sub rq of
        Paginated_request p sub \<Rightarrow> do {
          token \<leftarrow> c_str (pg_token p);
          Some (add_headers E rq
            ((if length token > 0 then [snprintf_text (ATMOS_TOKEN_MAX + 64) (ATMOS_HEADER_TOKEN @ '': '' @ token)] else []) @
             (if pg_limit p > 0 then [snprintf_text (ATMOS_TOKEN_MAX + 64) (ATMOS_HEADER_LIMIT @ '': '' @ show_int (pg_limit p))] else [])))
        }
      | _ \<Rightarrow> None)"

lemma extends_add_headers: "rest_client_ok E \<Longrightarrow> extends r (add_headers E r hs)"
  unfolding extends_def by (rule exI[of _ hs]) (simp add: req_headers_add_headers)

interpretation pagination: header_filter E "AtmosFilter_set_pagination_headers E" "\<lambda>c. pagination_prepare E" for E
proof
  show "AtmosFilter_set_pagination_headers E c nxt (rq, rs) = do { rq' \<leftarrow> pagination_prepare E rq; call_next nxt (rq', rs) }" for c and nxt :: "handler option" and rq rs
    by (simp add: AtmosFilter_set_pagination_headers_def pagination_prepare_def add_headers_append Let_def
        split: request_sub.split Option.bind_split)
  show "rest_client_ok E \<Longrightarrow> pagination_prepare E rq = Some rq' \<Longrightarrow> extends rq rq'" for rq rq'
    by (auto simp: pagination_prepare_def bind_eq_Some_conv extends_add_headers simp del: add_headers_simps split: request_sub.splits)
qed

subsection \<open>Filters that read the response\<close>

lemma on_success_request: "on_success f (rq, rs) = Some (rq', rs') \<Longrightarrow> rq' = rq"
  by (auto simp: on_success_def bind_eq_Some_conv split: if_splits)

lemma on_success_skips: "299 < http_code (s_base rs) \<Longrightarrow> on_success f (rq, rs) = Some (rq, rs)"
  by (simp add: on_success_def)

lemma success_filterI:
  assumes "\<And>c nxt st. flt c nxt st = Option.bind (call_next nxt st) (on_success f)"
  shows "success_filter flt (on_success f) (\<lambda>code. 299 < code)"
  by unfold_locales (use assms on_success_request on_success_skips in auto)

definition read_sub :: "env \<Rightarrow> response \<Rightarrow> response option" where
  "read_sub E response = upd_sub (upd_read_response (read_headers E (s_base response))) response"

interpretation parse_read: success_filter "AtmosFilter_parse_read_object_response E" "on_success (read_sub E)" "\<lambda>code. 299 < code" for E
  by (rule success_filterI) (simp add: AtmosFilter_parse_read_object_response_def read_sub_def[abs_def])

definition user_meta_answer :: "env \<Rightarrow> response \<Rightarrow> response option" where
  "user_meta_answer E response = upd_sub (\<lambda>s. case s of
       GetUserMeta_response p \<Rightarrow> do {
         (meta, listable) \<leftarrow> AtmosUtil_parse_user_meta_headers E (s_base response) (um_meta p, um_meta_count p)
            (um_listable_metadata p, um_listable_meta_count p);
         Some (GetUserMeta_response (p\<lparr>um_meta := fst meta, um_meta_count := snd meta,
           um_listable_metadata := fst listable, um_listable_meta_count := snd listable\<rparr>))
       }
     | _ \<Rightarrow> None) response"

interpretation parse_get_user_meta:
    success_filter "AtmosFilter_parse_get_user_meta_response E" "on_success (user_meta_answer E)" "\<lambda>code. 299 < code" for E
  by (rule success_filterI) (simp add: AtmosFilter_parse_get_user_meta_response_def user_meta_answer_def[abs_def])

definition versions_answer :: "env \<Rightarrow> response \<Rightarrow> response option" where
  "versions_answer E response = upd_sub (\<lambda>s. case s of
       ListVersions_response d \<Rightarrow> do {
         d \<leftarrow> AtmosListVersionsResponse_parse E d (rs_body (s_base response)) (rs_content_length (s_base response));
         Some (ListVersions_response (d\<lparr>lv_token := next_token E response (lv_token d)\<rparr>))
       }
     | _ \<Rightarrow> None) response"

interpretation list_versions: success_filter "AtmosFilter_list_versions E" "on_success (versions_answer E)" "\<lambda>code. 299 < code" for E
  by (rule success_filterI) (simp add: AtmosFilter_list_versions_def versions_answer_def[abs_def])

definition info_answer :: "env \<Rightarrow> response \<Rightarrow> response option" where
  "info_answer E response = upd_sub (\<lambda>s. case s of
       GetObjectInfo_response p \<Rightarrow>
         map_option GetObjectInfo_response
           (AtmosGetObjectInfoResponse_parse E p (rs_body (s_base response)) (rs_content_length (s_base response)))
     | _ \<Rightarrow> None) response"

interpretation parse_info: success_filter "AtmosFilter_parse_get_info_response E" "on_success (info_answer E)" "\<lambda>code. 299 < code" for E
  by (rule success_filterI) (simp add: AtmosFilter_parse_get_info_response_def info_answer_def[abs_def])

definition create_finish :: "env \<Rightarrow> handler" where
  "create_finish E st =
     (case st of (request, response) \<Rightarrow>
      if http_code (s_base response) \<noteq> 201 then Some (request, response)
      else (case RestResponse_get_header_value E (s_base response) (HTTP_HEADER_LOCATION E) of
         None \<Rightarrow> Some (request, response)
       | Some location \<Rightarrow> do {
           response \<leftarrow> upd_sub (\<lambda>s. case s of
               CreateObject_response b \<Rightarrow> map_option CreateObject_response (store_location location b)
             | _ \<Rightarrow> None) response;
           Some (request, response)
         }))"

interpretation parse_create: success_filter "AtmosFilter_parse_create_response E" "create_finish E" "\<lambda>code. code \<noteq> 201" for E
proof
  show "AtmosFilter_parse_create_response E c nxt st = Option.bind (call_next nxt st) (create_finish E)" for c and nxt :: "handler option" and st
  proof -
    have "(\<lambda>(rq, rs). create_finish E (rq, rs)) = create_finish E" by auto
    then show ?thesis by (simp add: AtmosFilter_parse_create_response_def create_finish_def case_prod_beta' cong: if_cong option.case_cong)
  qed
  show "create_finish E (rq, rs) = Some (rq', rs') \<Longrightarrow> rq' = rq" for rq rs rq' rs'
    by (auto simp: create_finish_def bind_eq_Some_conv split: if_splits option.splits)
  show "http_code (s_base rs) \<noteq> 201 \<Longrightarrow> create_finish E (rq, rs) = Some (rq, rs)" for rq rs
    by (simp add: create_finish_def)
qed

interpretation parse_error: response_filter "AtmosFilter_parse_atmos_error E" "parse_error_response E" for E
proof
  show "AtmosFilter_parse_atmos_error E c nxt st = Option.bind (call_next nxt st) (parse_error_response E)" for c and nxt :: "handler option" and st
    by (simp add: AtmosFilter_parse_atmos_error_def)
  show "parse_error_response E (rq, rs) = Some (rq', rs') \<Longrightarrow> rq' = rq" for rq rs rq' rs'
    by (auto simp: parse_error_response_def Let_def bind_eq_Some_conv split: if_splits option.splits)
qed

section \<open>Object IDs in locations\<close>

lemma strncpy_exact:
  assumes "length s < length b"
  shows "strncpy b s (length s) = Some (s @ drop (length s) b)"
  using assms by (simp add: strncpy_def buf_write_def)

lemma store_location_oid:
  assumes "cstring oid" "length oid < ATMOS_OID_LENGTH"
  shows "\<exists>b. store_location (''/rest/objects/'' @ oid) (zeros ATMOS_OID_LENGTH) = Some b \<and> c_str b = Some oid"
proof -
  obtain m where "ATMOS_OID_LENGTH - length oid = Suc m" using assms(2) by (metis Suc_diff_Suc)
  then have "drop (length oid) (zeros ATMOS_OID_LENGTH) = NUL # zeros m" by (simp add: zeros_def)
  then have "strncpy (zeros ATMOS_OID_LENGTH) oid (length oid) = Some (oid @ NUL # zeros m)"
    using strncpy_exact[of oid "zeros ATMOS_OID_LENGTH"] assms(2) by simp
  then show ?thesis using assms by (simp add: store_location_def Let_def)
qed

text \<open>
  C35: The object ID a create returns is the one in the \<open>Location\<close> header: for \<open>/rest/objects/\<close> followed by an
  ID of at most 64 bytes, the zeroed array of a fresh response holds that ID as a C string; a longer location
  is refused and leaves the array as it was; and a location shorter than the prefix makes the unsigned
  length wrap around, which is undefined.
\<close>

theorem store_location_spec:
  assumes "cstring oid"
  shows "(length oid < ATMOS_OID_LENGTH \<longrightarrow>
            Option.bind (store_location (''/rest/objects/'' @ oid) (zeros ATMOS_OID_LENGTH)) c_str = Some oid) \<and>
         (ATMOS_OID_LENGTH \<le> length oid \<longrightarrow> store_location (''/rest/objects/'' @ oid) dst = Some dst) \<and>
         (length location < ATMOS_OID_LOCATION_PREFIX_SIZE \<longrightarrow> store_location location dst = None)"
  using store_location_oid[OF assms] by (auto simp: store_location_def Let_def)

theorem store_location_spec_witness:
  "Option.bind (store_location ''/rest/objects/4d773b6ca105'' (zeros ATMOS_OID_LENGTH)) c_str = Some ''4d773b6ca105'' \<and>
   store_location ''/rest/'' (zeros ATMOS_OID_LENGTH) = None"
  using store_location_spec[of "''4d773b6ca105''" "zeros ATMOS_OID_LENGTH" "''/rest/''"] by simp

section \<open>The headers of write requests\<close>

definition metadata_pieces :: "env \<Rightarrow> int \<Rightarrow> nat \<Rightarrow> string \<times> string \<Rightarrow> string list" where
  "metadata_pieces E utf8 = (if utf8 \<noteq> 0 then utf8_pieces E else plain_pieces)"

definition metadata_lines :: "env \<Rightarrow> int \<Rightarrow> bool \<Rightarrow> (string \<times> string) list \<Rightarrow> string list" where
  "metadata_lines E utf8 listable L = (if L = [] then [] else [metadata_header_line listable (metadata_pieces E utf8) L])"

lemma set_metadata_header_lines:
  assumes "mem_ok E" "utf8 \<noteq> 0 \<longrightarrow> escape_total E" "arr_holds metadata_pair meta n L"
  shows "AtmosUtil_set_metadata_header E meta n listable utf8 rq = Some (add_headers E rq (metadata_lines E utf8 listable L))"
proof (cases "L = []")
  case True
  then show ?thesis using assms(3) set_metadata_header_none by (simp add: metadata_lines_def)
next
  case False
  have cs: "cstring (fst p) \<and> cstring (snd p)" if "p \<in> set L" for p by (rule arr_holds_cstring[OF assms(3) that])
  have esc: "cstring (the (curl_easy_escape E s))" if "cstring s" "utf8 \<noteq> 0" for s
    using assms(2) that unfolding escape_total_def by (metis option.sel)
  have "AtmosUtil_set_metadata_header E meta n listable utf8 rq =
      Some (add_header E rq (metadata_header_line listable (metadata_pieces E utf8) L))"
  proof (rule set_metadata_header_pieces[OF assms(1,3) False])
    fix hs i p assume p: "p \<in> set L"
    show "metadata_header_entry E utf8 hs i p = AtmosUtil_cstring_append_all E hs (metadata_pieces E utf8 i p)"
      using metadata_entry_plain[of E hs i p] metadata_entry_utf8[of E utf8 p hs i] cs[OF p] assms(2)
      by (auto simp: metadata_pieces_def)
  next
    fix i p s assume p: "p \<in> set L" "s \<in> set (metadata_pieces E utf8 i p)"
    then show "cstring s" using cs[OF p(1)] esc[of "fst p"] esc[of "snd p"]
      by (auto simp: metadata_pieces_def utf8_pieces_def plain_pieces_def split: if_splits)
  qed
  then show ?thesis using False by (simp add: metadata_lines_def)
qed

text \<open>What a write request holds, and the header lines it becomes.\<close>

definition write_contents :: "write_part \<Rightarrow> (string \<times> string) list \<Rightarrow> (string \<times> string) list \<Rightarrow> acl_view list \<Rightarrow> bool" where
  "write_contents w M LM A \<longleftrightarrow> arr_holds metadata_pair (w_meta w) (w_meta_count w) M \<and>
     arr_holds metadata_pair (w_listable_meta w) (w_listable_meta_count w) LM \<and>
     arr_holds acl_entry_view (w_acl w) (w_acl_count w) A"

definition write_lines :: "env \<Rightarrow> int \<Rightarrow> (string \<times> string) list \<Rightarrow> (string \<times> string) list \<Rightarrow> acl_view list \<Rightarrow> string list" where
  "write_lines E utf8 M LM A =
     metadata_lines E utf8 False M @ metadata_lines E utf8 True LM @ (if utf8 \<noteq> 0 then [utf8_header] else []) @ acl_header_lines A"

lemma arr_holds_zero: "arr_holds view xs n L \<Longrightarrow> \<not> n > 0 \<Longrightarrow> L = []"
  by (simp add: arr_holds_def)

lemma metadata_headers_lines:
  assumes "mem_ok E" "cl_enable_utf8_metadata c \<noteq> 0 \<longrightarrow> escape_total E" "write_contents w M LM A"
  shows "metadata_headers E c w rq = Some (add_headers E rq (write_lines E (cl_enable_utf8_metadata c) M LM A))"
proof -
  let ?u = "cl_enable_utf8_metadata c"
  have h: "arr_holds metadata_pair (w_meta w) (w_meta_count w) M"
    "arr_holds metadata_pair (w_listable_meta w) (w_listable_meta_count w) LM"
    "arr_holds acl_entry_view (w_acl w) (w_acl_count w) A"
    using assms(3) by (auto simp: write_contents_def)
  have 1: "(if w_meta_count w > 0 then AtmosUtil_set_metadata_header E (w_meta w) (w_meta_count w) False ?u rq else Some rq) =
      Some (add_headers E rq (metadata_lines E ?u False M))" for rq
    using set_metadata_header_lines[OF assms(1,2) h(1)] arr_holds_zero[OF h(1)] by (auto simp: metadata_lines_def)
  have 2: "(if w_listable_meta_count w > 0
        then AtmosUtil_set_metadata_header E (w_listable_meta w) (w_listable_meta_count w) True ?u rq else Some rq) =
      Some (add_headers E rq (metadata_lines E ?u True LM))" for rq
    using set_metadata_header_lines[OF assms(1,2) h(2)] arr_holds_zero[OF h(2)] by (auto simp: metadata_lines_def)
  have 3: "(if w_acl_count w > 0 then AtmosUtil_set_acl_header E (w_acl w) (w_acl_count w) rq else Some rq) =
      Some (add_headers E rq (acl_header_lines A))" for rq
    using set_acl_header_lines[OF assms(1) h(3)] arr_holds_zero[OF h(3)]
    by (auto simp: acl_header_lines_def acl_users_def acl_groups_def)
  show ?thesis by (simp add: metadata_headers_def 1 2 3 write_lines_def add_headers_append)
qed

definition body_type_lines :: "env \<Rightarrow> request \<Rightarrow> string list" where
  "body_type_lines E rq = (if rq_body (r_base rq) = None then [content_type_header E ''application/octet-stream''] else [])"

lemma set_write_headers_checksum:
  assumes "mem_ok E" "cl_enable_utf8_metadata c \<noteq> 0 \<longrightarrow> escape_total E"
    "r_sub rq = Write_request w sub" "write_contents w M LM A"
  shows "AtmosFilter_set_write_headers E c nxt (rq, rs) = do {
     (go, st) \<leftarrow> checksum_headers E (w_checksum w)
        (add_headers E rq (body_type_lines E rq @ write_lines E (cl_enable_utf8_metadata c) M LM A), rs);
     if go then call_next nxt st else Some st }"
  using metadata_headers_lines[OF assms(1,2,4)]
  by (simp add: AtmosFilter_set_write_headers_def assms(3) body_type_lines_def add_headers_append Let_def)

text \<open>
  C32: A write request without a checksum leaves with exactly the headers its contents call for, in this order:
  a content type when it has no body, the metadata, the listable metadata, the UTF-8 flag, the user
  and the group ACL; the filter changes nothing else and always passes the request on.
\<close>

theorem set_write_headers_spec:
  assumes "mem_ok E" "cl_enable_utf8_metadata c \<noteq> 0 \<longrightarrow> escape_total E"
    and "r_sub rq = Write_request w sub" "write_contents w M LM A" "w_checksum w = None"
  shows "AtmosFilter_set_write_headers E c nxt (rq, rs) =
     call_next nxt (add_headers E rq (body_type_lines E rq @ write_lines E (cl_enable_utf8_metadata c) M LM A), rs)"
  using set_write_headers_checksum[OF assms(1-4)] assms(5) by (simp add: checksum_headers_def)

definition sample_write_part :: write_part where
  "sample_write_part = zero_write_part
     \<lparr>w_meta := \<lparr>md_name = text_buffer 255 ''color'', md_value = text_buffer 1024 ''red''\<rparr> # replicate 126 zero_metadata,
      w_meta_count := 1\<rparr>"

definition sample_write_request :: request where
  "sample_write_request = new_request list_env ''/rest/objects'' HTTP_POST ''AtmosWriteObjectRequest''
     (Write_request sample_write_part Write_only)"

lemma sample_write_contents: "write_contents sample_write_part [(''color'', ''red'')] [] []"
  by (simp add: write_contents_def sample_write_part_def zero_write_part_def arr_holds_def metadata_pair_def)

theorem set_write_headers_spec_witness:
  "AtmosFilter_set_write_headers list_env sample_client None (sample_write_request, AtmosCreateObjectResponse_init list_env) =
     Some (add_headers list_env sample_write_request [''Content-Type: application/octet-stream'', ''x-emc-meta: color=red''],
           AtmosCreateObjectResponse_init list_env)"
proof -
  have w: "r_sub sample_write_request = Write_request sample_write_part Write_only" "w_checksum sample_write_part = None"
    "rq_body (r_base sample_write_request) = None" "cl_enable_utf8_metadata sample_client = 0"
    by (simp_all add: sample_write_request_def new_request_def sample_write_part_def zero_write_part_def list_env_def sample_client_def)
  have l: "body_type_lines list_env sample_write_request @ write_lines list_env (cl_enable_utf8_metadata sample_client) [(''color'', ''red'')] [] [] =
      [''Content-Type: application/octet-stream'', ''x-emc-meta: color=red'']"
    unfolding w body_type_lines_def by code_simp
  show ?thesis
    using set_write_headers_spec[OF mem_ok_list_env _ w(1) sample_write_contents w(2), of sample_client None "AtmosCreateObjectResponse_init list_env"]
    unfolding l by (simp add: w(4))
qed

text \<open>The headers of a write request before those of the checksum.\<close>

abbreviation contents_sent :: "env \<Rightarrow> AtmosClient \<Rightarrow> request \<Rightarrow> (string \<times> string) list \<Rightarrow> (string \<times> string) list \<Rightarrow> acl_view list \<Rightarrow> request" where
  "contents_sent E c rq M LM A \<equiv> add_headers E rq (body_type_lines E rq @ write_lines E (cl_enable_utf8_metadata c) M LM A)"

definition checksum_text :: "env \<Rightarrow> AtmosChecksum \<Rightarrow> string" where
  "checksum_text E ck = algorithm_name (ck_alg ck) @ ''/'' @ show_int (ck_offset ck) @ ''/'' @ checksum_hex E ck"

lemma length_checksum_text:
  assumes "digest_ok E" "checksum_inv ck"
  shows "length (checksum_text E ck) \<le> 66"
proof -
  have "length (show_int (ck_offset ck)) \<le> Suc 19"
    by (rule show_int_length) (use assms(2) in \<open>auto simp: checksum_inv_def\<close>)
  moreover obtain d where "digest_final E (ck_alg ck) (the (ck_internal_state ck)) = Some d" "length d = digest_length (ck_alg ck)"
    using assms(1) unfolding digest_ok_def by blast
  then have "length (checksum_hex E ck) \<le> 40" by (cases "ck_alg ck") (simp_all add: checksum_hex_def)
  ultimately show ?thesis using length_algorithm_name[of "ck_alg ck"] by (simp add: checksum_text_def)
qed

lemma file_checksum_restores:
  assumes "digest_ok E" "0 \<le> n" "n < 2 ^ 63" "f_seekable f" "bytes = take (nat n) (drop (f_pos f) (f_bytes f))" "bytes \<noteq> []"
  shows "\<exists>f'. AtmosChecksum_update_file E ck f n = Some (AtmosChecksum_update E ck bytes, f') \<and> fseeko f' (ftello f) = (0, f)"
  using AtmosChecksum_update_file_fread[OF assms(1-3), of ck f] assms(4-6)
  by (auto simp: fread_def Let_def fed_def fseeko_def ftello_def)

lemma wschecksum_body_file:
  assumes "digest_ok E" "rb_file_body body = Some f" "f_seekable f" "0 \<le> rb_data_size body" "rb_data_size body < 2 ^ 63"
    "bytes = take (nat (rb_data_size body)) (drop (f_pos f) (f_bytes f))" "bytes \<noteq> []"
  shows "wschecksum_body E ck body rs = Some (True, AtmosChecksum_update E ck bytes, body, rs)"
proof -
  obtain f' where f': "AtmosChecksum_update_file E ck f (rb_data_size body) = Some (AtmosChecksum_update E ck bytes, f')"
    "fseeko f' (ftello f) = (0, f)"
    using file_checksum_restores[OF assms(1,4,5,3,6,7)] by blast
  have "ftello f \<noteq> -1" using assms(3) by (simp add: ftello_def)
  moreover have "body\<lparr>rb_file_body := Some f\<rparr> = body" using assms(2) by simp
  ultimately show ?thesis using f' assms(2) by (simp add: wschecksum_body_def)
qed

text \<open>The bytes a body stands for: those of an array, or those of a seekable file from its position on.\<close>

definition carries :: "RestRequestBody \<Rightarrow> string \<Rightarrow> bool" where
  "carries body bytes \<longleftrightarrow>
     (case rb_file_body body of
        None \<Rightarrow> body_bytes body = Some bytes
      | Some f \<Rightarrow> f_seekable f \<and> 0 \<le> rb_data_size body \<and> rb_data_size body < 2 ^ 63 \<and>
          bytes = take (nat (rb_data_size body)) (drop (f_pos f) (f_bytes f)) \<and> bytes \<noteq> [])"

lemma wschecksum_body_carries:
  assumes "digest_ok E" "carries body bytes"
  shows "wschecksum_body E ck body rs = Some (True, AtmosChecksum_update E ck bytes, body, rs)"
proof (cases "rb_file_body body")
  case None
  then show ?thesis using assms(2) by (simp add: carries_def wschecksum_body_def)
next
  case (Some f)
  then have "f_seekable f" "0 \<le> rb_data_size body" "rb_data_size body < 2 ^ 63"
    "bytes = take (nat (rb_data_size body)) (drop (f_pos f) (f_bytes f))" "bytes \<noteq> []"
    using assms(2) by (auto simp: carries_def)
  from wschecksum_body_file[OF assms(1) Some this] show ?thesis .
qed

lemma set_write_headers_wschecksum:
  assumes "mem_ok E" "rest_client_ok E" "digest_ok E" "cl_enable_utf8_metadata c \<noteq> 0 \<longrightarrow> escape_total E"
    and "r_sub rq = Write_request w sub" "write_contents w M LM A"
    and "w_checksum w = Some ck" "ck_mode ck = ATMOS_WSCHECKSUM" "checksum_inv ck"
    and "RestRequest_get_header_value E (r_base (contents_sent E c rq M LM A)) ATMOS_HEADER_WSCHECKSUM = None"
    and "rq_body (r_base rq) = Some body" "carries body bytes"
  shows "AtmosFilter_set_write_headers E c nxt (rq, rs) =
     call_next nxt (add_header E (put_checksum (AtmosChecksum_update E ck bytes) (contents_sent E c rq M LM A))
       (ATMOS_HEADER_WSCHECKSUM @ '': '' @ checksum_text E (AtmosChecksum_update E ck bytes)), rs)"
proof -
  let ?r = "contents_sent E c rq M LM A" and ?ck = "AtmosChecksum_update E ck bytes"
  have body: "rq_body (r_base ?r) = Some body"
    using extends_fields(3)[OF extends_add_headers[OF assms(2)]] assms(11) by simp
  then have "put_body body ?r = ?r" by (simp add: put_body_def upd_base_def)
  moreover have "AtmosChecksum_get_state E ?ck = Some (Some (checksum_text E ?ck))"
    unfolding checksum_text_def by (rule get_state_text[OF assms(1,3) checksum_inv_update[OF assms(9)]])
  moreover have "snprintf_text ATMOS_SIMPLE_HEADER_MAX (ATMOS_HEADER_WSCHECKSUM @ '': '' @ checksum_text E ?ck) =
      ATMOS_HEADER_WSCHECKSUM @ '': '' @ checksum_text E ?ck"
    using length_checksum_text[OF assms(3) checksum_inv_update[OF assms(9), of E bytes]] by (intro snprintf_text_id) (simp add: literals)
  ultimately show ?thesis
    using set_write_headers_checksum[OF assms(1,4-6)] wschecksum_body_carries[OF assms(3,12)] assms(7,8,10) body
    by (simp add: checksum_headers_def wschecksum_header_def)
qed

text \<open>
  C33: For a write request with a \<open>wschecksum\<close> whose body is a seekable file, the filter checksums exactly the
  bytes that will be sent, puts \<open>algorithm/offset/digest\<close>, uncut, into the last of the headers, and hands
  the request on with the file at the position where the caller left it.
\<close>

theorem wschecksum_file_spec:
  assumes "mem_ok E" "rest_client_ok E" "digest_ok E" "cl_enable_utf8_metadata c \<noteq> 0 \<longrightarrow> escape_total E"
    and "r_sub rq = Write_request w sub" "write_contents w M LM A"
    and "w_checksum w = Some ck" "ck_mode ck = ATMOS_WSCHECKSUM" "checksum_inv ck"
    and "RestRequest_get_header_value E (r_base (contents_sent E c rq M LM A)) ATMOS_HEADER_WSCHECKSUM = None"
    and "rq_body (r_base rq) = Some body" "rb_file_body body = Some f" "f_seekable f" "0 \<le> rb_data_size body" "rb_data_size body < 2 ^ 63"
    and "bytes = take (nat (rb_data_size body)) (drop (f_pos f) (f_bytes f))" "bytes \<noteq> []"
  shows "AtmosFilter_set_write_headers E c nxt (rq, rs) =
     call_next nxt (add_header E (put_checksum (AtmosChecksum_update E ck bytes) (contents_sent E c rq M LM A))
       (ATMOS_HEADER_WSCHECKSUM @ '': '' @ checksum_text E (AtmosChecksum_update E ck bytes)), rs)"
proof -
  have "carries body bytes" using assms(12-17) by (simp add: carries_def)
  from set_write_headers_wschecksum[OF assms(1-11) this] show ?thesis .
qed

definition sample_file_request :: "bool \<Rightarrow> request" where
  "sample_file_request seekable = sample_write_request\<lparr>
     r_base := (r_base sample_write_request)\<lparr>rq_body := Some \<lparr>rb_body = [], rb_file_body =
        Some \<lparr>f_bytes = ''hello world'', f_pos = 6, f_seekable = seekable\<rparr>, rb_data_size = 5\<rparr>\<rparr>,
     r_sub := Write_request (sample_write_part\<lparr>w_checksum := Some sample_checksum\<rparr>) Write_only\<rparr>"

lemma sample_file_contents:
  "write_contents (sample_write_part\<lparr>w_checksum := Some sample_checksum\<rparr>) [(''color'', ''red'')] [] []"
  using sample_write_contents by (simp add: write_contents_def)

lemma sample_checksum_inv: "checksum_inv sample_checksum"
  by (simp add: checksum_inv_def sample_checksum_def algorithm_name_def)

lemma sample_file_lines:
  "contents_sent list_env sample_client (sample_file_request k) [(''color'', ''red'')] [] [] =
     add_headers list_env (sample_file_request k) [''x-emc-meta: color=red'']"
proof -
  have "cl_enable_utf8_metadata sample_client = 0" by (simp add: sample_client_def)
  moreover have "write_lines list_env 0 [(''color'', ''red'')] [] [] = [''x-emc-meta: color=red'']" by code_simp
  moreover have "body_type_lines list_env (sample_file_request k) = []"
    by (simp add: body_type_lines_def sample_file_request_def)
  ultimately show ?thesis by simp
qed

lemma sample_file_no_checksum_header:
  "RestRequest_get_header_value list_env
     (r_base (contents_sent list_env sample_client (sample_file_request k) [(''color'', ''red'')] [] [])) ATMOS_HEADER_WSCHECKSUM = None"
proof -
  have "req_headers (sample_file_request k) = []"
    by (simp add: sample_file_request_def sample_write_request_def new_request_def list_env_def)
  moreover have "lookup_header [''x-emc-meta: color=red''] ATMOS_HEADER_WSCHECKSUM = None" by code_simp
  ultimately show ?thesis
    using lookup_ok_list_env(2) unfolding sample_file_lines request_lookup_ok_def
    by (simp only: req_headers_add_headers[OF rest_client_ok_list_env]) simp
qed

theorem wschecksum_file_spec_witness:
  "AtmosFilter_set_write_headers list_env sample_client None (sample_file_request True, AtmosCreateObjectResponse_init list_env) =
     Some (add_header list_env (put_checksum (AtmosChecksum_update list_env sample_checksum ''world'')
         (contents_sent list_env sample_client (sample_file_request True) [(''color'', ''red'')] [] []))
       (ATMOS_HEADER_WSCHECKSUM @ '': '' @ checksum_text list_env (AtmosChecksum_update list_env sample_checksum ''world'')),
       AtmosCreateObjectResponse_init list_env)"
proof -
  let ?f = "\<lparr>f_bytes = ''hello world'', f_pos = 6, f_seekable = True\<rparr>"
  let ?b = "\<lparr>rb_body = [], rb_file_body = Some ?f, rb_data_size = 5\<rparr>"
  let ?rs = "AtmosCreateObjectResponse_init list_env"
  note h = sample_file_no_checksum_header
  have r: "r_sub (sample_file_request True) = Write_request (sample_write_part\<lparr>w_checksum := Some sample_checksum\<rparr>) Write_only"
    "rq_body (r_base (sample_file_request True)) = Some ?b"
    by (simp_all add: sample_file_request_def)
  have "AtmosFilter_set_write_headers list_env sample_client None (sample_file_request True, ?rs) =
     call_next None (add_header list_env (put_checksum (AtmosChecksum_update list_env sample_checksum ''world'')
         (contents_sent list_env sample_client (sample_file_request True) [(''color'', ''red'')] [] []))
       (ATMOS_HEADER_WSCHECKSUM @ '': '' @ checksum_text list_env (AtmosChecksum_update list_env sample_checksum ''world'')), ?rs)"
  proof (rule wschecksum_file_spec[OF mem_ok_list_env rest_client_ok_list_env digest_ok_list_env _ r(1)
          sample_file_contents _ _ sample_checksum_inv h r(2)])
    show "cl_enable_utf8_metadata sample_client \<noteq> 0 \<longrightarrow> escape_total list_env" by (simp add: sample_client_def)
    show "ck_mode sample_checksum = ATMOS_WSCHECKSUM" by (simp add: sample_checksum_def)
    show "rb_file_body ?b = Some ?f" "f_seekable ?f" "''world'' = take (nat (rb_data_size ?b)) (drop (f_pos ?f) (f_bytes ?f))"
      by code_simp+
  qed simp_all
  then show ?thesis by (simp only: call_next_simps)
qed

text \<open>
  C34: When the file of a \<open>wschecksum\<close> request cannot tell its position, nothing is sent: no filter behind is
  called, the request is as it was apart from the headers, and the response says 400 with the API error
  601 and its message, or just 400 for an object whose class name is that of a bare \<open>RestResponse\<close>.
\<close>

theorem wschecksum_unseekable:
  assumes "mem_ok E" "rest_client_ok E" "cl_enable_utf8_metadata c \<noteq> 0 \<longrightarrow> escape_total E"
    and "r_sub rq = Write_request w sub" "write_contents w M LM A"
    and "w_checksum w = Some ck" "ck_mode ck = ATMOS_WSCHECKSUM"
    and "RestRequest_get_header_value E (r_base (contents_sent E c rq M LM A)) ATMOS_HEADER_WSCHECKSUM = None"
    and "rq_body (r_base rq) = Some body" "rb_file_body body = Some f" "\<not> f_seekable f"
    and "s_atmos rs = Some (a, rsub)" "length (atmos_error_message a) = ATMOS_ERROR_MAX"
  shows "\<exists>rs'. AtmosFilter_set_write_headers E c nxt (rq, rs) = Some (contents_sent E c rq M LM A, rs') \<and>
     http_code (s_base rs') = 400 \<and>
     (if rs_class_name (s_base rs) = CLASS_REST_RESPONSE E then s_atmos rs' = s_atmos rs
      else \<exists>b. s_atmos rs' = Some (\<lparr>atmos_error = 601, atmos_error_message = b\<rparr>, rsub) \<and>
               c_str b = Some ATMOS_ERROR_API_FTELL_NOT_SUPPORTED_STR)"
proof -
  let ?r = "contents_sent E c rq M LM A" and ?msg = "ATMOS_ERROR_API_FTELL_NOT_SUPPORTED_STR"
  have body: "rq_body (r_base ?r) = Some body" "r_sub ?r = Write_request w sub"
    using extends_fields(3,4)[OF extends_add_headers[OF assms(2)]] assms(4,9) by simp_all
  have same: "put_checksum ck (put_body body ?r) = ?r"
    using body assms(6) by (simp add: put_checksum_def put_body_def upd_base_def)
  have "cstring ?msg" by (simp add: ATMOS_ERROR_API_FTELL_NOT_SUPPORTED_STR_def)
  moreover obtain b where b: "strcpy (atmos_error_message a) ?msg = Some b"
    using strcpy_ok[of ?msg "atmos_error_message a"] assms(13) by (auto simp: ATMOS_ERROR_API_FTELL_NOT_SUPPORTED_STR_def)
  ultimately have cb: "c_str b = Some ?msg" by (rule strcpy_c_str)
  obtain rs' where rs': "write_error E rs ATMOS_ERROR_API_FTELL_NOT_SUPPORTED ?msg = Some rs'" "http_code (s_base rs') = 400"
    "if rs_class_name (s_base rs) = CLASS_REST_RESPONSE E then s_atmos rs' = s_atmos rs
     else s_atmos rs' = Some (\<lparr>atmos_error = 601, atmos_error_message = b\<rparr>, rsub)"
    using b assms(12) by (cases "rs_class_name (s_base rs) = CLASS_REST_RESPONSE E")
      (auto simp: write_error_def AtmosResponse_set_api_error_def ATMOS_ERROR_API_FTELL_NOT_SUPPORTED_def)
  have "wschecksum_body E ck body rs = Some (False, ck, body, rs')"
    using rs'(1) assms(10,11) by (simp add: wschecksum_body_def ftello_def)
  then have "AtmosFilter_set_write_headers E c nxt (rq, rs) = Some (?r, rs')"
    using set_write_headers_checksum[OF assms(1,3-5)] assms(6-8) body(1) same
    by (simp add: checksum_headers_def wschecksum_header_def)
  then show ?thesis using rs'(2,3) cb by auto
qed

theorem wschecksum_unseekable_witness:
  "\<exists>rs'. AtmosFilter_set_write_headers list_env sample_client None (sample_file_request False, AtmosCreateObjectResponse_init list_env) =
       Some (contents_sent list_env sample_client (sample_file_request False) [(''color'', ''red'')] [] [], rs') \<and>
     http_code (s_base rs') = 400"
proof -
  let ?f = "\<lparr>f_bytes = ''hello world'', f_pos = 6, f_seekable = False\<rparr>"
  let ?b = "\<lparr>rb_body = [], rb_file_body = Some ?f, rb_data_size = 5\<rparr>"
  let ?rs = "AtmosCreateObjectResponse_init list_env"
  have r: "r_sub (sample_file_request False) = Write_request (sample_write_part\<lparr>w_checksum := Some sample_checksum\<rparr>) Write_only"
    "rq_body (r_base (sample_file_request False)) = Some ?b"
    by (simp_all add: sample_file_request_def)
  have s: "s_atmos ?rs = Some (fst (the (s_atmos ?rs)), snd (the (s_atmos ?rs)))"
    "length (atmos_error_message (fst (the (s_atmos ?rs)))) = ATMOS_ERROR_MAX"
    by (simp_all add: AtmosCreateObjectResponse_init_def AtmosResponse_init_def set_response_class_def)
  have c: "w_checksum (sample_write_part\<lparr>w_checksum := Some sample_checksum\<rparr>) = Some sample_checksum"
    "ck_mode sample_checksum = ATMOS_WSCHECKSUM" "cl_enable_utf8_metadata sample_client \<noteq> 0 \<longrightarrow> escape_total list_env"
    "rb_file_body ?b = Some ?f" "\<not> f_seekable ?f"
    by (simp_all add: sample_checksum_def sample_client_def)
  show ?thesis
    using wschecksum_unseekable[OF mem_ok_list_env rest_client_ok_list_env c(3) r(1) sample_file_contents c(1,2)
        sample_file_no_checksum_header r(2) c(4,5) s, where nxt = None] by blast
qed

end
