(* ===== verification/Client.thy ===== *)
theory Client
  imports Filter_Laws
begin

text \<open>
  \<open>atmos_client.c\<close>: the client object and its operations. An operation builds a chain of filters
  and runs the request through it. The operations that get their request object return it with
  the response; the others make a request of their own and return the response, and the file if
  they send one, whose position the transfer moves. A request object that the operation makes is
  destroyed with its stack frame: of its destructor only a failure matters.
\<close>

section \<open>The client object\<close>

definition AtmosClient_init :: "env \<Rightarrow> string \<Rightarrow> int \<Rightarrow> string \<Rightarrow> string \<Rightarrow> AtmosClient option" where
  "AtmosClient_init E endpoint port uid secret = do {
     u \<leftarrow> strncpy (zeros ATMOS_UID_MAX) uid 255;
     s \<leftarrow> strncpy (zeros ATMOS_SECRET_MAX) secret 64;
     (let (host, port) = RestClient_init E endpoint port in
      Some \<lparr>cl_class_name = ''AtmosClient'', cl_host = host, cl_port = port, cl_uid = u, cl_secret = s,
            cl_signature_debug = 0, cl_enable_utf8_metadata = 0\<rparr>)
   }"

definition AtmosClient_destroy :: "env \<Rightarrow> AtmosClient \<Rightarrow> AtmosClient" where
  "AtmosClient_destroy E self =
     (let self = self\<lparr>cl_uid := zeros 255, cl_secret := zeros 64\<rparr>;
          (host, port) = RestClient_destroy E (cl_host self, cl_port self)
      in self\<lparr>cl_host := host, cl_port := port\<rparr>)"

section \<open>Chains\<close>

text \<open>The file filter a request carries is called through the pointer the client installed.\<close>

fun call_file_filter :: "env \<Rightarrow> file_filter \<Rightarrow> request \<Rightarrow> char list \<Rightarrow> (int \<times> request) option" where
  "call_file_filter E AtmosWriteObjectRequest_checksum_filter_ptr request data =
     AtmosWriteObjectRequest_checksum_filter E request data"

definition AtmosClient_add_default_filters :: "env \<Rightarrow> AtmosClient \<Rightarrow> rest_http_filter list \<Rightarrow> rest_http_filter list" where
  "AtmosClient_add_default_filters E self chain = (
     let chain = RestFilter_add E chain (RestFilter_execute_curl_request E (call_file_filter E));
         chain = RestFilter_add E chain (AtmosFilter_sign_request E);
         chain = RestFilter_add E chain (RestFilter_set_content_headers E);
         chain = RestFilter_add E chain (AtmosFilter_add_uid E);
         chain = RestFilter_add E chain (AtmosFilter_add_date E);
         chain = RestFilter_add E chain (AtmosFilter_parse_atmos_error E)
     in chain)"

text \<open>
  What every operation does: the default filters, those of the operation in the order they are
  added, and the request through all of them.
\<close>

definition execute :: "env \<Rightarrow> AtmosClient \<Rightarrow> rest_http_filter list \<Rightarrow> handler" where
  "execute E self filters st =
     RestClient_execute_request E self (foldl (RestFilter_add E) (AtmosClient_add_default_filters E self []) filters) st"

definition execute_plain :: "env \<Rightarrow> AtmosClient \<Rightarrow> rest_http_filter list \<Rightarrow> request \<Rightarrow> response \<Rightarrow> response option" where
  "execute_plain E self filters request response = map_option snd (execute E self filters (request, response))"

definition AtmosClient_get_service_information :: "env \<Rightarrow> AtmosClient \<Rightarrow> response \<Rightarrow> response option" where
  "AtmosClient_get_service_information E self response =
     execute_plain E self [AtmosFilter_parse_service_info_response E] (rest_request E ''/rest/service'' HTTP_GET) response"

section \<open>Creating objects\<close>

definition AtmosClient_create_object :: "env \<Rightarrow> AtmosClient \<Rightarrow> handler" where
  "AtmosClient_create_object E self st =
     execute E self [AtmosFilter_parse_create_response E, AtmosFilter_set_write_headers E] st"

definition put_array_body :: "env \<Rightarrow> char list option \<Rightarrow> nat \<Rightarrow> string \<Rightarrow> request \<Rightarrow> request" where
  "put_array_body E data data_size content_type request =
     (case data of
        None \<Rightarrow> request
      | Some d \<Rightarrow> upd_base (\<lambda>b. RestRequest_set_array_body E b d data_size content_type) request)"

definition put_file_body :: "env \<Rightarrow> FILE option \<Rightarrow> int \<Rightarrow> string \<Rightarrow> request \<Rightarrow> request" where
  "put_file_body E f content_length content_type request =
     (case f of
        None \<Rightarrow> request
      | Some f \<Rightarrow> upd_base (\<lambda>b. RestRequest_set_file_body E b f content_length content_type) request)"

text \<open>The file as the request leaves it, or as it was when the request did not get it.\<close>

definition file_after :: "FILE option \<Rightarrow> request \<Rightarrow> FILE option" where
  "file_after f request =
     (case Option.bind (rq_body (r_base request)) rb_file_body of None \<Rightarrow> f | Some f' \<Rightarrow> Some f')"

definition create_array :: "env \<Rightarrow> AtmosClient \<Rightarrow> request \<Rightarrow> char list option \<Rightarrow> nat \<Rightarrow> string \<Rightarrow> response \<Rightarrow> response option" where
  "create_array E self request data data_size content_type response = do {
     (request, response) \<leftarrow> AtmosClient_create_object E self (put_array_body E data data_size content_type request, response);
     request \<leftarrow> AtmosCreateObjectRequest_destroy E request;
     Some response
   }"

definition create_file ::
    "env \<Rightarrow> AtmosClient \<Rightarrow> request \<Rightarrow> FILE option \<Rightarrow> int \<Rightarrow> string \<Rightarrow> response \<Rightarrow> (FILE option \<times> response) option" where
  "create_file E self request f content_length content_type response = do {
     (request, response) \<leftarrow> AtmosClient_create_object E self (put_file_body E f content_length content_type request, response);
     destroyed \<leftarrow> AtmosCreateObjectRequest_destroy E request;
     Some (file_after f request, response)
   }"

definition AtmosClient_create_object_simple ::
    "env \<Rightarrow> AtmosClient \<Rightarrow> char list option \<Rightarrow> nat \<Rightarrow> string \<Rightarrow> response \<Rightarrow> response option" where
  "AtmosClient_create_object_simple E self data data_size content_type response =
     create_array E self (AtmosCreateObjectRequest_init E) data data_size content_type response"

text \<open>
  The constructors that check the path return \<open>NULL\<close> before they have initialised anything. The
  callers do not look at the result and go on with the uninitialised object, which is undefined:
  \<open>checked\<close> makes it \<open>None\<close>.
\<close>

definition checked :: "request option option \<Rightarrow> request option" where
  "checked r = Option.bind r id"

definition AtmosClient_create_object_simple_ns ::
    "env \<Rightarrow> AtmosClient \<Rightarrow> string \<Rightarrow> char list option \<Rightarrow> nat \<Rightarrow> string \<Rightarrow> response \<Rightarrow> response option" where
  "AtmosClient_create_object_simple_ns E self path data data_size content_type response = do {
     request \<leftarrow> checked (AtmosCreateObjectRequest_init_ns E path);
     create_array E self request data data_size content_type response
   }"

definition AtmosClient_create_object_simple_keypool ::
    "env \<Rightarrow> AtmosClient \<Rightarrow> string \<Rightarrow> string \<Rightarrow> char list option \<Rightarrow> nat \<Rightarrow> string \<Rightarrow> response \<Rightarrow> response option" where
  "AtmosClient_create_object_simple_keypool E self pool key data data_size content_type response = do {
     request \<leftarrow> AtmosCreateObjectRequest_init_keypool E pool key;
     create_array E self request data data_size content_type response
   }"

definition AtmosClient_create_object_file ::
    "env \<Rightarrow> AtmosClient \<Rightarrow> FILE option \<Rightarrow> int \<Rightarrow> string \<Rightarrow> response \<Rightarrow> (FILE option \<times> response) option" where
  "AtmosClient_create_object_file E self f content_length content_type response =
     create_file E self (AtmosCreateObjectRequest_init E) f content_length content_type response"

definition AtmosClient_create_object_file_ns ::
    "env \<Rightarrow> AtmosClient \<Rightarrow> string \<Rightarrow> FILE option \<Rightarrow> int \<Rightarrow> string \<Rightarrow> response \<Rightarrow> (FILE option \<times> response) option" where
  "AtmosClient_create_object_file_ns E self path f content_length content_type response = do {
     request \<leftarrow> checked (AtmosCreateObjectRequest_init_ns E path);
     create_file E self request f content_length content_type response
   }"

definition AtmosClient_create_object_file_keypool ::
    "env \<Rightarrow> AtmosClient \<Rightarrow> string \<Rightarrow> string \<Rightarrow> FILE option \<Rightarrow> int \<Rightarrow> string \<Rightarrow> response \<Rightarrow> (FILE option \<times> response) option" where
  "AtmosClient_create_object_file_keypool E self pool key f content_length content_type response = do {
     request \<leftarrow> AtmosCreateObjectRequest_init_keypool E pool key;
     create_file E self request f content_length content_type response
   }"

section \<open>Deleting objects\<close>

definition AtmosClient_delete_object :: "env \<Rightarrow> AtmosClient \<Rightarrow> string \<Rightarrow> response \<Rightarrow> response option" where
  "AtmosClient_delete_object E self object_id response =
     execute_plain E self [] (rest_request E (snprintf_text ATMOS_PATH_MAX (''/rest/objects/'' @ object_id)) HTTP_DELETE) response"

definition AtmosClient_delete_object_ns :: "env \<Rightarrow> AtmosClient \<Rightarrow> string \<Rightarrow> response \<Rightarrow> response option" where
  "AtmosClient_delete_object_ns E self path response =
     execute_plain E self []
       (rest_request E (snprintf_text (ATMOS_PATH_MAX + 16) (''/rest/namespace'' @ path)) HTTP_DELETE) response"

definition AtmosClient_delete_object_keypool :: "env \<Rightarrow> AtmosClient \<Rightarrow> string \<Rightarrow> string \<Rightarrow> response \<Rightarrow> response option" where
  "AtmosClient_delete_object_keypool E self pool key response =
     execute_plain E self []
       (add_header E (rest_request E (snprintf_text (ATMOS_PATH_MAX + 16) (''/rest/namespace/'' @ key)) HTTP_DELETE)
          (pool_header pool)) response"

section \<open>Reading objects\<close>

definition AtmosClient_read_object :: "env \<Rightarrow> AtmosClient \<Rightarrow> handler" where
  "AtmosClient_read_object E self st =
     execute E self [AtmosFilter_set_read_object_headers E, AtmosFilter_parse_read_object_response E] st"

text \<open>The functions with a simple interface make the request, use it and destroy it.\<close>

definition with_request :: "handler \<Rightarrow> (request \<Rightarrow> request option) \<Rightarrow> request option \<Rightarrow> response \<Rightarrow> response option" where
  "with_request operation destroy request response = do {
     request \<leftarrow> request;
     (request, response) \<leftarrow> operation (request, response);
     request \<leftarrow> destroy request;
     Some response
   }"

definition AtmosClient_read_object_simple :: "env \<Rightarrow> AtmosClient \<Rightarrow> string \<Rightarrow> response \<Rightarrow> response option" where
  "AtmosClient_read_object_simple E self object_id response =
     with_request (AtmosClient_read_object E self) (AtmosReadObjectRequest_destroy E)
       (AtmosReadObjectRequest_init E object_id) response"

definition AtmosClient_read_object_simple_ns :: "env \<Rightarrow> AtmosClient \<Rightarrow> string \<Rightarrow> response \<Rightarrow> response option" where
  "AtmosClient_read_object_simple_ns E self path response =
     with_request (AtmosClient_read_object E self) (AtmosReadObjectRequest_destroy E)
       (checked (AtmosReadObjectRequest_init_ns E path)) response"

definition AtmosClient_read_object_simple_keypool :: "env \<Rightarrow> AtmosClient \<Rightarrow> string \<Rightarrow> string \<Rightarrow> response \<Rightarrow> response option" where
  "AtmosClient_read_object_simple_keypool E self pool key response =
     with_request (AtmosClient_read_object E self) (AtmosReadObjectRequest_destroy E)
       (AtmosReadObjectRequest_init_keypool E pool key) response"

definition AtmosClient_head_object :: "env \<Rightarrow> AtmosClient \<Rightarrow> string \<Rightarrow> response \<Rightarrow> response option" where
  "AtmosClient_head_object E self object_id response =
     with_request (AtmosClient_read_object E self) (AtmosReadObjectRequest_destroy E)
       (AtmosReadObjectRequest_init_head E object_id) response"

definition AtmosClient_head_object_ns :: "env \<Rightarrow> AtmosClient \<Rightarrow> string \<Rightarrow> response \<Rightarrow> response option" where
  "AtmosClient_head_object_ns E self path response =
     with_request (AtmosClient_read_object E self) (AtmosReadObjectRequest_destroy E)
       (checked (AtmosReadObjectRequest_init_ns_head E path)) response"

definition AtmosClient_head_object_keypool :: "env \<Rightarrow> AtmosClient \<Rightarrow> string \<Rightarrow> string \<Rightarrow> response \<Rightarrow> response option" where
  "AtmosClient_head_object_keypool E self pool key response =
     with_request (AtmosClient_read_object E self) (AtmosReadObjectRequest_destroy E)
       (AtmosReadObjectRequest_init_keypool_head E pool key) response"

section \<open>User and system metadata\<close>

text \<open>The headers of the three functions that delete metadata; \<open>meta_names\<close> is \<open>NULL\<close> or an array of strings.\<close>

definition delete_meta_headers :: "env \<Rightarrow> AtmosClient \<Rightarrow> string list option \<Rightarrow> int \<Rightarrow> request \<Rightarrow> request option" where
  "delete_meta_headers E self meta_names meta_name_count request =
     (let utf8 = cl_enable_utf8_metadata self;
          request = (if utf8 \<noteq> 0 then add_header E request utf8_header else request)
      in if meta_names \<noteq> None \<and> meta_name_count > 0
         then AtmosUtil_set_tags_header2 E request meta_names meta_name_count utf8
         else Some request)"

definition AtmosClient_delete_user_meta ::
    "env \<Rightarrow> AtmosClient \<Rightarrow> string \<Rightarrow> string list option \<Rightarrow> int \<Rightarrow> response \<Rightarrow> response option" where
  "AtmosClient_delete_user_meta E self object_id meta_names meta_name_count response = do {
     request \<leftarrow> delete_meta_headers E self meta_names meta_name_count
       (rest_request E (snprintf_text (ATMOS_OID_LENGTH + 64) (''/rest/objects/'' @ object_id @ ''?metadata/user'')) HTTP_DELETE);
     execute_plain E self [] request response
   }"

definition AtmosClient_delete_user_meta_ns ::
    "env \<Rightarrow> AtmosClient \<Rightarrow> string \<Rightarrow> string list option \<Rightarrow> int \<Rightarrow> response \<Rightarrow> response option" where
  "AtmosClient_delete_user_meta_ns E self path meta_names meta_name_count response = do {
     request \<leftarrow> delete_meta_headers E self meta_names meta_name_count
       (rest_request E (snprintf_text (ATMOS_PATH_MAX + 64) (''/rest/namespace/'' @ path @ ''?metadata/user'')) HTTP_DELETE);
     execute_plain E self [] request response
   }"

definition AtmosClient_delete_user_meta_keypool ::
    "env \<Rightarrow> AtmosClient \<Rightarrow> string \<Rightarrow> string \<Rightarrow> string list option \<Rightarrow> int \<Rightarrow> response \<Rightarrow> response option" where
  "AtmosClient_delete_user_meta_keypool E self pool key meta_names meta_name_count response = do {
     request \<leftarrow> delete_meta_headers E self meta_names meta_name_count
       (rest_request E (snprintf_text (ATMOS_PATH_MAX + 64) (''/rest/namespace/'' @ key @ ''?metadata/user'')) HTTP_DELETE);
     execute_plain E self [] (add_header E request (pool_header pool)) response
   }"

definition AtmosClient_get_user_meta :: "env \<Rightarrow> AtmosClient \<Rightarrow> handler" where
  "AtmosClient_get_user_meta E self st =
     execute E self [AtmosFilter_set_get_user_meta_headers E, AtmosFilter_parse_get_user_meta_response E] st"

definition AtmosClient_get_user_meta_simple :: "env \<Rightarrow> AtmosClient \<Rightarrow> string \<Rightarrow> response \<Rightarrow> response option" where
  "AtmosClient_get_user_meta_simple E self object_id response =
     with_request (AtmosClient_get_user_meta E self) (AtmosGetUserMetaRequest_destroy E)
       (AtmosGetUserMetaRequest_init E object_id) response"

definition AtmosClient_get_user_meta_simple_ns :: "env \<Rightarrow> AtmosClient \<Rightarrow> string \<Rightarrow> response \<Rightarrow> response option" where
  "AtmosClient_get_user_meta_simple_ns E self path response =
     with_request (AtmosClient_get_user_meta E self) (AtmosGetUserMetaRequest_destroy E)
       (checked (AtmosGetUserMetaRequest_init_ns E path)) response"

definition AtmosClient_get_user_meta_simple_keypool ::
    "env \<Rightarrow> AtmosClient \<Rightarrow> string \<Rightarrow> string \<Rightarrow> response \<Rightarrow> response option" where
  "AtmosClient_get_user_meta_simple_keypool E self pool key response =
     with_request (AtmosClient_get_user_meta E self) (AtmosGetUserMetaRequest_destroy E)
       (AtmosGetUserMetaRequest_init_keypool E pool key) response"

definition AtmosClient_set_user_meta :: "env \<Rightarrow> AtmosClient \<Rightarrow> handler" where
  "AtmosClient_set_user_meta E self st = execute E self [AtmosFilter_set_write_headers E] st"

definition AtmosClient_get_system_meta :: "env \<Rightarrow> AtmosClient \<Rightarrow> handler" where
  "AtmosClient_get_system_meta E self st = execute E self [AtmosFilter_get_system_metadata E] st"

definition AtmosClient_get_system_meta_simple :: "env \<Rightarrow> AtmosClient \<Rightarrow> string \<Rightarrow> response \<Rightarrow> response option" where
  "AtmosClient_get_system_meta_simple E self object_id response =
     with_request (AtmosClient_get_system_meta E self) (AtmosGetSystemMetaRequest_destroy E)
       (AtmosGetSystemMetaRequest_init E object_id) response"

definition AtmosClient_get_system_meta_simple_ns :: "env \<Rightarrow> AtmosClient \<Rightarrow> string \<Rightarrow> response \<Rightarrow> response option" where
  "AtmosClient_get_system_meta_simple_ns E self path response =
     with_request (AtmosClient_get_system_meta E self) (AtmosGetSystemMetaRequest_destroy E)
       (checked (AtmosGetSystemMetaRequest_init_ns E path)) response"

definition AtmosClient_get_system_meta_simple_keypool ::
    "env \<Rightarrow> AtmosClient \<Rightarrow> string \<Rightarrow> string \<Rightarrow> response \<Rightarrow> response option" where
  "AtmosClient_get_system_meta_simple_keypool E self pool key response =
     with_request (AtmosClient_get_system_meta E self) (AtmosGetSystemMetaRequest_destroy E)
       (AtmosGetSystemMetaRequest_init_keypool E pool key) response"

section \<open>Access control lists\<close>

definition AtmosClient_get_acl :: "env \<Rightarrow> AtmosClient \<Rightarrow> string \<Rightarrow> response \<Rightarrow> response option" where
  "AtmosClient_get_acl E self object_id response =
     execute_plain E self [AtmosFilter_parse_get_acl_response E]
       (rest_request E (snprintf_text (ATMOS_OID_LENGTH + 64) (''/rest/objects/'' @ object_id @ ''?acl'')) HTTP_GET) response"

definition AtmosClient_get_acl_ns :: "env \<Rightarrow> AtmosClient \<Rightarrow> string \<Rightarrow> response \<Rightarrow> response option" where
  "AtmosClient_get_acl_ns E self path response =
     execute_plain E self [AtmosFilter_parse_get_acl_response E]
       (rest_request E (snprintf_text (ATMOS_PATH_MAX + 64) (''/rest/namespace'' @ path @ ''?acl'')) HTTP_GET) response"

definition AtmosClient_get_acl_keypool :: "env \<Rightarrow> AtmosClient \<Rightarrow> string \<Rightarrow> string \<Rightarrow> response \<Rightarrow> response option" where
  "AtmosClient_get_acl_keypool E self pool key response =
     execute_plain E self [AtmosFilter_parse_get_acl_response E]
       (add_header E (rest_request E (snprintf_text (ATMOS_PATH_MAX + 64) (''/rest/namespace'' @ key @ ''?acl'')) HTTP_GET)
          (pool_header pool)) response"

text \<open>The request of the functions that set an ACL, before the pool header.\<close>

definition set_acl_request :: "env \<Rightarrow> string \<Rightarrow> AtmosAclEntry list \<Rightarrow> int \<Rightarrow> request option" where
  "set_acl_request E uri acl acl_count =
     AtmosUtil_set_acl_header E acl acl_count
       (add_header E (rest_request E uri HTTP_POST) (content_type_header E ''application/octet-stream''))"

definition AtmosClient_set_acl ::
    "env \<Rightarrow> AtmosClient \<Rightarrow> string \<Rightarrow> AtmosAclEntry list \<Rightarrow> int \<Rightarrow> response \<Rightarrow> response option" where
  "AtmosClient_set_acl E self object_id acl acl_count response = do {
     request \<leftarrow> set_acl_request E (snprintf_text (ATMOS_OID_LENGTH + 64) (''/rest/objects/'' @ object_id @ ''?acl'')) acl acl_count;
     execute_plain E self [AtmosFilter_parse_get_acl_response E] request response
   }"

definition AtmosClient_set_acl_ns ::
    "env \<Rightarrow> AtmosClient \<Rightarrow> string \<Rightarrow> AtmosAclEntry list \<Rightarrow> int \<Rightarrow> response \<Rightarrow> response option" where
  "AtmosClient_set_acl_ns E self path acl acl_count response = do {
     request \<leftarrow> set_acl_request E (snprintf_text (ATMOS_PATH_MAX + 64) (''/rest/namespace'' @ path @ ''?acl'')) acl acl_count;
     execute_plain E self [AtmosFilter_parse_get_acl_response E] request response
   }"

definition AtmosClient_set_acl_keypool ::
    "env \<Rightarrow> AtmosClient \<Rightarrow> string \<Rightarrow> string \<Rightarrow> AtmosAclEntry list \<Rightarrow> int \<Rightarrow> response \<Rightarrow> response option" where
  "AtmosClient_set_acl_keypool E self pool key acl acl_count response = do {
     request \<leftarrow> set_acl_request E (snprintf_text (ATMOS_PATH_MAX + 64) (''/rest/namespace/'' @ key @ ''?acl'')) acl acl_count;
     execute_plain E self [AtmosFilter_parse_get_acl_response E] (add_header E request (pool_header pool)) response
   }"

section \<open>Updating objects\<close>

definition AtmosClient_update_object :: "env \<Rightarrow> AtmosClient \<Rightarrow> handler" where
  "AtmosClient_update_object E self st =
     execute E self [AtmosFilter_set_write_headers E, AtmosFilter_update_object E] st"

definition update_array :: "env \<Rightarrow> AtmosClient \<Rightarrow> request \<Rightarrow> char list option \<Rightarrow> nat \<Rightarrow> string \<Rightarrow> response \<Rightarrow> response option" where
  "update_array E self request data data_size content_type response = do {
     (request, response) \<leftarrow> AtmosClient_update_object E self
       (put_array_body E (if data_size > 0 then data else None) data_size content_type request, response);
     request \<leftarrow> AtmosUpdateObjectRequest_destroy E request;
     Some response
   }"

definition update_file ::
    "env \<Rightarrow> AtmosClient \<Rightarrow> request \<Rightarrow> FILE option \<Rightarrow> int \<Rightarrow> string \<Rightarrow> response \<Rightarrow> (FILE option \<times> response) option" where
  "update_file E self request f content_length content_type response = do {
     (request, response) \<leftarrow> AtmosClient_update_object E self
       (put_file_body E (if content_length > 0 then f else None) content_length content_type request, response);
     destroyed \<leftarrow> AtmosUpdateObjectRequest_destroy E request;
     Some (file_after f request, response)
   }"

definition AtmosClient_update_object_simple ::
    "env \<Rightarrow> AtmosClient \<Rightarrow> string \<Rightarrow> char list option \<Rightarrow> nat \<Rightarrow> string \<Rightarrow> response \<Rightarrow> response option" where
  "AtmosClient_update_object_simple E self object_id data data_size content_type response = do {
     request \<leftarrow> AtmosUpdateObjectRequest_init E object_id;
     update_array E self request data data_size content_type response
   }"

definition AtmosClient_update_object_simple_ns ::
    "env \<Rightarrow> AtmosClient \<Rightarrow> string \<Rightarrow> char list option \<Rightarrow> nat \<Rightarrow> string \<Rightarrow> response \<Rightarrow> response option" where
  "AtmosClient_update_object_simple_ns E self path data data_size content_type response = do {
     request \<leftarrow> checked (AtmosUpdateObjectRequest_init_ns E path);
     update_array E self request data data_size content_type response
   }"

definition AtmosClient_update_object_simple_keypool ::
    "env \<Rightarrow> AtmosClient \<Rightarrow> string \<Rightarrow> string \<Rightarrow> char list option \<Rightarrow> nat \<Rightarrow> string \<Rightarrow> response \<Rightarrow> response option" where
  "AtmosClient_update_object_simple_keypool E self pool key data data_size content_type response = do {
     request \<leftarrow> AtmosUpdateObjectRequest_init_keypool E pool key;
     update_array E self request data data_size content_type response
   }"

definition AtmosClient_update_object_file ::
    "env \<Rightarrow> AtmosClient \<Rightarrow> string \<Rightarrow> FILE option \<Rightarrow> int \<Rightarrow> string \<Rightarrow> response \<Rightarrow> (FILE option \<times> response) option" where
  "AtmosClient_update_object_file E self object_id f content_length content_type response = do {
     request \<leftarrow> AtmosUpdateObjectRequest_init E object_id;
     update_file E self request f content_length content_type response
   }"

definition AtmosClient_update_object_file_ns ::
    "env \<Rightarrow> AtmosClient \<Rightarrow> string \<Rightarrow> FILE option \<Rightarrow> int \<Rightarrow> string \<Rightarrow> response \<Rightarrow> (FILE option \<times> response) option" where
  "AtmosClient_update_object_file_ns E self path f content_length content_type response = do {
     request \<leftarrow> checked (AtmosUpdateObjectRequest_init_ns E path);
     update_file E self request f content_length content_type response
   }"

definition AtmosClient_update_object_file_keypool ::
    "env \<Rightarrow> AtmosClient \<Rightarrow> string \<Rightarrow> string \<Rightarrow> FILE option \<Rightarrow> int \<Rightarrow> string \<Rightarrow> response \<Rightarrow> (FILE option \<times> response) option" where
  "AtmosClient_update_object_file_keypool E self pool key f content_length content_type response = do {
     request \<leftarrow> AtmosUpdateObjectRequest_init_keypool E pool key;
     update_file E self request f content_length content_type response
   }"

section \<open>Object information, renaming\<close>

definition AtmosClient_get_object_info :: "env \<Rightarrow> AtmosClient \<Rightarrow> string \<Rightarrow> response \<Rightarrow> response option" where
  "AtmosClient_get_object_info E self object_id response =
     execute_plain E self [AtmosFilter_parse_get_info_response E]
       (rest_request E (snprintf_text (ATMOS_OID_LENGTH + 64) (''/rest/objects/'' @ object_id @ ''?info'')) HTTP_GET) response"

definition AtmosClient_get_object_info_ns :: "env \<Rightarrow> AtmosClient \<Rightarrow> string \<Rightarrow> response \<Rightarrow> response option" where
  "AtmosClient_get_object_info_ns E self path response =
     execute_plain E self [AtmosFilter_parse_get_info_response E]
       (rest_request E (snprintf_text (ATMOS_PATH_MAX + 64) (''/rest/namespace'' @ path @ ''?info'')) HTTP_GET) response"

definition AtmosClient_get_object_info_keypool :: "env \<Rightarrow> AtmosClient \<Rightarrow> string \<Rightarrow> string \<Rightarrow> response \<Rightarrow> response option" where
  "AtmosClient_get_object_info_keypool E self pool key response =
     execute_plain E self [AtmosFilter_parse_get_info_response E]
       (add_header E (rest_request E (snprintf_text (ATMOS_PATH_MAX + 64) (''/rest/namespace/'' @ key @ ''?info'')) HTTP_GET)
          (pool_header pool)) response"

definition rename_headers :: "env \<Rightarrow> string \<Rightarrow> int \<Rightarrow> string list" where
  "rename_headers E destination force =
     [snprintf_text (ATMOS_PATH_MAX + 32) (ATMOS_HEADER_PATH @ '': '' @ destination)] @
     (if force \<noteq> 0 then [ATMOS_HEADER_FORCE @ '': true''] else []) @
     [content_type_header E ''application/octet-stream'']"

definition AtmosClient_rename_object :: "env \<Rightarrow> AtmosClient \<Rightarrow> string \<Rightarrow> string \<Rightarrow> int \<Rightarrow> response \<Rightarrow> response option" where
  "AtmosClient_rename_object E self source destination force response =
     execute_plain E self []
       (add_headers E (rest_request E (snprintf_text (ATMOS_PATH_MAX + 32) (''/rest/namespace'' @ source @ ''?rename'')) HTTP_POST)
          (rename_headers E destination force)) response"

section \<open>Listings\<close>

definition AtmosClient_list_directory :: "env \<Rightarrow> AtmosClient \<Rightarrow> handler" where
  "AtmosClient_list_directory E self st =
     execute E self [AtmosFilter_parse_read_object_response E, AtmosFilter_list_directory E, AtmosFilter_set_pagination_headers E] st"

definition AtmosClient_get_listable_tags :: "env \<Rightarrow> AtmosClient \<Rightarrow> handler" where
  "AtmosClient_get_listable_tags E self st =
     execute E self [AtmosFilter_set_pagination_headers E, AtmosFilter_get_listable_tags E] st"

definition AtmosClient_list_objects :: "env \<Rightarrow> AtmosClient \<Rightarrow> handler" where
  "AtmosClient_list_objects E self st =
     execute E self [AtmosFilter_list_objects E, AtmosFilter_set_pagination_headers E] st"

section \<open>Versions\<close>

definition AtmosClient_create_version :: "env \<Rightarrow> AtmosClient \<Rightarrow> string \<Rightarrow> response \<Rightarrow> response option" where
  "AtmosClient_create_version E self object_id response =
     with_request (execute E self [AtmosFilter_parse_create_version_response E]) (AtmosCreateVersionRequest_destroy E)
       (Some (AtmosCreateVersionRequest_init E object_id)) response"

definition AtmosClient_list_versions :: "env \<Rightarrow> AtmosClient \<Rightarrow> handler" where
  "AtmosClient_list_versions E self st =
     execute E self [AtmosFilter_list_versions E, AtmosFilter_set_pagination_headers E] st"

definition AtmosClient_delete_version :: "env \<Rightarrow> AtmosClient \<Rightarrow> string \<Rightarrow> response \<Rightarrow> response option" where
  "AtmosClient_delete_version E self version_id response =
     execute_plain E self []
       (rest_request E (snprintf_text ATMOS_PATH_MAX (''/rest/objects/'' @ version_id @ ''?versions'')) HTTP_DELETE) response"

text \<open>The body of a restore is the empty string, so that curl has something to read.\<close>

definition AtmosClient_restore_version :: "env \<Rightarrow> AtmosClient \<Rightarrow> string \<Rightarrow> string \<Rightarrow> response \<Rightarrow> response option" where
  "AtmosClient_restore_version E self object_id version_id response =
     execute_plain E self []
       (upd_base (\<lambda>b. RestRequest_set_array_body E b [NUL] 0 ''application/octet-stream'')
          (add_header E (rest_request E (snprintf_text ATMOS_PATH_MAX (''/rest/objects/'' @ object_id @ ''?versions'')) HTTP_PUT)
             (snprintf_text ATMOS_SIMPLE_HEADER_MAX (ATMOS_HEADER_VERSION_OID @ '': '' @ version_id)))) response"

section \<open>Access tokens\<close>

definition AtmosClient_create_access_token :: "env \<Rightarrow> AtmosClient \<Rightarrow> handler" where
  "AtmosClient_create_access_token E self st = execute E self [AtmosFilter_create_access_token E] st"

text \<open>Token IDs are used as they are: the URI counts as encoded.\<close>

definition token_request :: "env \<Rightarrow> string \<Rightarrow> http_method \<Rightarrow> request" where
  "token_request E uri m = upd_base (\<lambda>b. b\<lparr>rq_uri_encoded := 1\<rparr>) (rest_request E uri m)"

definition AtmosClient_delete_access_token :: "env \<Rightarrow> AtmosClient \<Rightarrow> string \<Rightarrow> response \<Rightarrow> response option" where
  "AtmosClient_delete_access_token E self token_id response =
     execute_plain E self []
       (token_request E (snprintf_text ATMOS_PATH_MAX (''/rest/accesstokens/'' @ token_id)) HTTP_DELETE) response"

definition AtmosClient_list_access_tokens :: "env \<Rightarrow> AtmosClient \<Rightarrow> handler" where
  "AtmosClient_list_access_tokens E self st =
     execute E self [AtmosFilter_set_pagination_headers E, AtmosFilter_parse_list_access_tokens_response E] st"

definition AtmosClient_get_access_token_info :: "env \<Rightarrow> AtmosClient \<Rightarrow> string \<Rightarrow> response \<Rightarrow> response option" where
  "AtmosClient_get_access_token_info E self token_id response =
     execute_plain E self [AtmosFilter_parse_get_token_info_response E]
       (token_request E (snprintf_text ATMOS_PATH_MAX (''/rest/accesstokens/'' @ token_id @ ''?info'')) HTTP_GET) response"

end
