(* ===== verification/Calendar.thy ===== *)
theory Calendar
  imports Datetime
begin

text \<open>
  The calendar behind the \<open>Date\<close> header: \<open>gmtime\<close> gives a valid date of the Gregorian calendar, \<open>timegm\<close> counts its
  days by the lengths of years and months, the formatted date fits the array it is written to, and it is the date HTTP prescribes.
\<close>

section \<open>The calendar\<close>

text \<open>The Gregorian calendar: leap years, and the lengths of years and months.\<close>

definition leap_year :: "int \<Rightarrow> bool" where
  "leap_year y \<longleftrightarrow> y mod 4 = 0 \<and> (y mod 100 \<noteq> 0 \<or> y mod 400 = 0)"

definition days_in_year :: "int \<Rightarrow> int" where
  "days_in_year y = (if leap_year y then 366 else 365)"

definition days_in_month :: "int \<Rightarrow> int \<Rightarrow> int" where
  "days_in_month y m = (if m = 2 then (if leap_year y then 29 else 28) else if m \<in> {4, 6, 9, 11} then 30 else 31)"

text \<open>
  The day of a date counted from 1970-01-01, by the lengths of the years and months that lie between, and its second.
\<close>

definition epoch_days :: "int \<Rightarrow> int \<Rightarrow> int \<Rightarrow> int" where
  "epoch_days y m d = sum_list (map days_in_year [1970..y - 1]) + sum_list (map (days_in_month y) [1..m - 1]) + (d - 1)"

definition epoch_seconds :: "tm \<Rightarrow> int" where
  "epoch_seconds d = epoch_days (tm_year d) (tm_mon d) (tm_mday d) * 86400 + tm_hour d * 3600 + tm_min d * 60 + tm_sec d"

section \<open>Years and months\<close>

lemma leap_year_era: "leap_year (y + k * 400) = leap_year y"
proof -
  have "(y + k * 400) mod 4 = y mod 4" "(y + k * 400) mod 100 = y mod 100"
    using mod_mult_self1[of y "k * 100" 4] mod_mult_self1[of y "k * 4" 100] by (simp_all add: mult.assoc)
  then show ?thesis by (simp add: leap_year_def)
qed

text \<open>
  The year of a 400-year era and the day of the year that \<open>gmtime\<close> computes from a day of the era,
  first for a day of a century: \<open>q\<close> counts the four-year periods and \<open>s\<close> is the day in one.
\<close>

lemma century_year:
  fixes c r :: int
  assumes "0 \<le> c" "c < 4" "0 \<le> r" "r < 36524"
  defines "y \<equiv> (r - (24 * c + r) div 1460) div 365"
  shows "0 \<le> y \<and> y < 100 \<and> 0 \<le> r - 365 * y - y div 4 \<and> r - 365 * y - y div 4 \<le> 365 \<and>
    (r - 365 * y - y div 4 = 365 \<longrightarrow> (y + 1) mod 4 = 0 \<and> y < 99)"
proof -
  define q s where "q = r div 1461" and "s = r mod 1461"
  have q: "0 \<le> q" "q < 25" using assms(3,4) by (auto simp: q_def)
  have s: "0 \<le> s" "s < 1461" and r: "r = 1461 * q + s" by (auto simp: q_def s_def)
  define e where "e = (24 * c + q + s) div 1460"
  have e: "0 \<le> e" "e \<le> 1" "e = 1 \<Longrightarrow> 1364 \<le> s" "s = 1460 \<Longrightarrow> e = 1" using q s assms(1,2) by (auto simp: e_def)
  have "(24 * c + r) div 1460 = q + e"
    using div_mult_self2[of 1460 "24 * c + q + s" q] by (simp add: r e_def algebra_simps)
  then have y: "y = 4 * q + (s - e) div 365"
    using div_mult_self2[of 365 "s - e" "4 * q"] by (simp add: y_def r algebra_simps)
  define t where "t = (s - e) div 365"
  have "0 \<le> s - e" "s - e < 1460" using e s by (cases "e = 0"; force)+
  then have t: "0 \<le> t" "t < 4" "365 * t \<le> s - e" "s - e < 365 * t + 365" by (auto simp: t_def)
  have "y div 4 = q" using t by (simp add: y t_def[symmetric])
  then have d: "r - 365 * y - y div 4 = s - 365 * t" by (simp add: y t_def[symmetric] r)
  have "t = 3 \<and> q < 24" if "s - 365 * t = 365"
  proof -
    have "e = 1" using that t(4) e(1,2) by linarith
    then have "t = 3" using that e(3) t(2) by linarith
    then show ?thesis using that assms(4) q(2) r by linarith
  qed
  then have "(y + 1) mod 4 = 0 \<and> y < 99" if "s - 365 * t = 365"
    using that unfolding y[folded t_def] by auto
  then show ?thesis unfolding d using q t e y by (simp add: t_def[symmetric])
qed

definition era_year :: "int \<Rightarrow> int" where
  "era_year doe = (doe - doe div 1460 + doe div 36524 - doe div 146096) div 365"

lemma era_year_bounds:
  assumes "0 \<le> doe" "doe < 146097"
  shows "0 \<le> era_year doe \<and> era_year doe < 400 \<and>
    0 \<le> doe - (365 * era_year doe + era_year doe div 4 - era_year doe div 100) \<and>
    doe - (365 * era_year doe + era_year doe div 4 - era_year doe div 100) \<le> 365 \<and>
    (doe - (365 * era_year doe + era_year doe div 4 - era_year doe div 100) = 365 \<longrightarrow> leap_year (era_year doe + 1))"
proof (cases "doe = 146096")
  case False
  define c r where "c = doe div 36524" and "r = doe mod 36524"
  have c: "0 \<le> c" "c < 4" and r: "0 \<le> r" "r < 36524" and doe: "doe = 36524 * c + r"
    using assms False by (auto simp: c_def r_def)
  define y where "y = (r - (24 * c + r) div 1460) div 365"
  note b = century_year[OF c r, folded y_def]
  have "doe div 1460 = 25 * c + (24 * c + r) div 1460"
    using div_mult_self2[of 1460 "24 * c + r" "25 * c"] by (simp add: doe algebra_simps)
  moreover have "doe div 146096 = 0" using assms False by simp
  ultimately have "doe - doe div 1460 + doe div 36524 - doe div 146096 = r - (24 * c + r) div 1460 + 36500 * c"
    using doe unfolding c_def[symmetric] by linarith
  then have "era_year doe = (r - (24 * c + r) div 1460 + 36500 * c) div 365" by (simp add: era_year_def)
  also have "\<dots> = 100 * c + y"
    using div_mult_self2[of 365 "r - (24 * c + r) div 1460" "100 * c"] by (simp add: y_def algebra_simps)
  finally have e: "era_year doe = 100 * c + y" .
  have "(100 * c + y) div 4 = 25 * c + y div 4" "(100 * c + y) div 100 = c" using b by auto
  moreover from this have "doe - (365 * (100 * c + y) + (100 * c + y) div 4 - (100 * c + y) div 100) = r - 365 * y - y div 4"
    using doe by simp
  moreover have "leap_year (100 * c + y + 1)" if "r - 365 * y - y div 4 = 365"
  proof -
    have y: "(y + 1) mod 4 = 0" "y < 99" "0 \<le> y" using b that by auto
    have "(100 * c + y + 1) mod 4 = (y + 1) mod 4" "(100 * c + y + 1) mod 100 = (y + 1) mod 100"
      using mod_mult_self1[of "y + 1" "25 * c" 4] mod_mult_self1[of "y + 1" c 100] by (simp_all add: algebra_simps)
    then show ?thesis using y by (simp add: leap_year_def)
  qed
  ultimately show ?thesis unfolding e using b c by auto
qed (simp add: era_year_def leap_year_def)

text \<open>The month and the day in it, from the day of a year that begins in March.\<close>

lemma month_bounds:
  fixes doy :: int
  assumes "0 \<le> doy" "doy \<le> 365"
  shows "0 \<le> (5 * doy + 2) div 153 \<and> (5 * doy + 2) div 153 < 12 \<and>
    1 \<le> doy - (153 * ((5 * doy + 2) div 153) + 2) div 5 + 1 \<and> doy - (153 * ((5 * doy + 2) div 153) + 2) div 5 + 1 \<le> 31"
proof -
  define mp w where "mp = (5 * doy + 2) div 153" and "w = (153 * mp + 2) div 5"
  have "153 * mp \<le> 5 * doy + 2" "5 * doy + 2 < 153 * mp + 153" by (auto simp: mp_def)
  moreover have "5 * w \<le> 153 * mp + 2" "153 * mp + 2 < 5 * w + 5" by (auto simp: w_def)
  ultimately show ?thesis unfolding mp_def[symmetric] w_def[symmetric] using assms by linarith
qed

text \<open>The day is one of its month: the 29th of February is only reached in a leap year.\<close>

lemma month_day:
  fixes doy :: int
  assumes "0 \<le> doy" "doy \<le> 365" "doy = 365 \<longrightarrow> leap_year y"
  defines "mp \<equiv> (5 * doy + 2) div 153"
  shows "doy - (153 * mp + 2) div 5 + 1 \<le> days_in_month y (if mp < 10 then mp + 3 else mp - 9)"
proof -
  have b: "153 * mp \<le> 5 * doy + 2" "5 * doy + 2 < 153 * mp + 153" by (auto simp: mp_def)
  then have "0 \<le> mp" "mp \<le> 11" using assms(1,2) by linarith+
  then have "mp \<in> set [0..11]" by simp
  moreover have "[0..11 :: int] = [0, 1, 2, 3, 4, 5, 6, 7, 8, 9, 10, 11]" by (simp add: upto_rec1)
  ultimately have "mp \<in> {0, 1, 2, 3, 4, 5, 6, 7, 8, 9, 10, 11}" by (simp del: set_upto)
  then show ?thesis using b assms(2,3) by (elim insertE emptyE) (auto simp: days_in_month_def)
qed

text \<open>\<open>gmtime\<close> gives a date of the calendar, and it is the date of that second.\<close>

lemma gmtime_parts:
  defines "doe t \<equiv> (t div 86400 + 719468) mod 146097"
  shows "gmtime t = (let y = era_year (doe t); doy = doe t - (365 * y + y div 4 - y div 100);
      mp = (5 * doy + 2) div 153; m = (if mp < 10 then mp + 3 else mp - 9)
    in \<lparr>tm_year = y + (t div 86400 + 719468) div 146097 * 400 + (if m \<le> 2 then 1 else 0), tm_mon = m,
        tm_mday = doy - (153 * mp + 2) div 5 + 1, tm_hour = t mod 86400 div 3600,
        tm_min = t mod 86400 mod 3600 div 60, tm_sec = t mod 86400 mod 60\<rparr>)"
  unfolding gmtime_def era_year_def doe_def Let_def by (rule refl)

definition calendar_date :: "tm \<Rightarrow> bool" where
  "calendar_date t \<longleftrightarrow> 1 \<le> tm_mon t \<and> tm_mon t \<le> 12 \<and> 1 \<le> tm_mday t \<and> tm_mday t \<le> 31 \<and>
     0 \<le> tm_hour t \<and> tm_hour t < 24 \<and> 0 \<le> tm_min t \<and> tm_min t < 60 \<and> 0 \<le> tm_sec t \<and> tm_sec t < 60"

definition valid_date :: "tm \<Rightarrow> bool" where
  "valid_date d \<longleftrightarrow> calendar_date d \<and> tm_mday d \<le> days_in_month (tm_year d) (tm_mon d)"

lemma gmtime_valid: "valid_date (gmtime t) \<and> timegm (gmtime t) = t"
proof -
  define z where "z = t div 86400 + 719468"
  define doe where "doe = z mod 146097"
  define y where "y = era_year doe"
  define doy where "doy = doe - (365 * y + y div 4 - y div 100)"
  define mp where "mp = (5 * doy + 2) div 153"
  have "0 \<le> doe" "doe < 146097" by (simp_all add: doe_def)
  note e = era_year_bounds[OF this, folded y_def, folded doy_def]
  have m: "0 \<le> mp" "mp < 12" "1 \<le> doy - (153 * mp + 2) div 5 + 1" "doy - (153 * mp + 2) div 5 + 1 \<le> 31"
    using month_bounds[of doy, folded mp_def] e by auto
  have g: "gmtime t = \<lparr>tm_year = y + z div 146097 * 400 + (if (if mp < 10 then mp + 3 else mp - 9) \<le> 2 then 1 else 0),
      tm_mon = (if mp < 10 then mp + 3 else mp - 9), tm_mday = doy - (153 * mp + 2) div 5 + 1,
      tm_hour = t mod 86400 div 3600, tm_min = t mod 86400 mod 3600 div 60, tm_sec = t mod 86400 mod 60\<rparr>"
    unfolding gmtime_parts Let_def z_def doe_def y_def doy_def mp_def by (rule refl)
  have eqs: "t mod 86400 div 3600 * 3600 + t mod 86400 mod 3600 = t mod 86400"
    "t mod 86400 mod 3600 div 60 * 60 + t mod 86400 mod 3600 mod 60 = t mod 86400 mod 3600"
    "t div 86400 * 86400 + t mod 86400 = t" by (rule div_mult_mod_eq)+
  have sec: "t mod 86400 mod 3600 mod 60 = t mod 86400 mod 60" by (rule mod_mod_cancel) simp
  have "t mod 86400 < 86400" "t mod 86400 mod 3600 < 3600" "0 \<le> t mod 86400 mod 3600" "0 \<le> t mod 86400 mod 3600 mod 60"
    by simp_all
  then have s: "t mod 86400 div 3600 < 24" "t mod 86400 mod 3600 div 60 < 60" using eqs by linarith+
  have yz: "y mod 400 = y" "y div 400 = 0" using e by simp_all
  have "days_from_civil (tm_year (gmtime t)) (tm_mon (gmtime t)) (tm_mday (gmtime t)) =
      z div 146097 * 146097 + (y * 365 + y div 4 - y div 100 + doy) - 719468"
  proof (cases "mp < 10")
    case True
    then show ?thesis using m(1) by (simp add: g days_from_civil_def Let_def yz)
  next
    case False
    then show ?thesis using m(2) by (simp add: g days_from_civil_def Let_def yz)
  qed
  also have "\<dots> = t div 86400" using div_mult_mod_eq[of z 146097] by (simp add: doy_def doe_def z_def)
  finally have days: "days_from_civil (tm_year (gmtime t)) (tm_mon (gmtime t)) (tm_mday (gmtime t)) = t div 86400" .
  have "timegm (gmtime t) =
      t div 86400 * 86400 + t mod 86400 div 3600 * 3600 + t mod 86400 mod 3600 div 60 * 60 + t mod 86400 mod 60"
    unfolding timegm_def days unfolding g by (simp only: tm.select_convs)
  also have "\<dots> = t" using eqs unfolding sec by linarith
  finally have "timegm (gmtime t) = t" .
  moreover have "calendar_date (gmtime t)" unfolding calendar_date_def g tm.select_convs using m s by (simp add: pos_imp_zdiv_nonneg_iff)
  moreover have "tm_mday (gmtime t) \<le> days_in_month (tm_year (gmtime t)) (tm_mon (gmtime t))"
  proof -
    have "doy = 365 \<longrightarrow> leap_year (y + 1)" using e by simp
    note d = month_day[OF _ _ this, folded mp_def]
    have "days_in_month (y + 1) n = days_in_month (y + z div 146097 * 400 + (if n \<le> 2 then 1 else 0)) n" for n
      using leap_year_era[of "y + 1" "z div 146097"] by (simp add: days_in_month_def ac_simps)
    then show ?thesis using d e unfolding g tm.select_convs by simp
  qed
  ultimately show ?thesis by (simp add: valid_date_def)
qed

lemma gmtime_correct: "calendar_date (gmtime t) \<and> timegm (gmtime t) = t"
  using gmtime_valid by (simp add: valid_date_def)

lemma add_if_one: "a + (if P then 1 else 0) - a \<in> {0, 1 :: int}"
  by simp

lemma gmtime_year:
  assumes "\<bar>t\<bar> < 2 ^ 63"
  shows "\<bar>tm_year (gmtime t)\<bar> < 10 ^ 19"
proof -
  define days z q where "days = t div 86400" and "z = days + 719468" and "q = z div 146097"
  define y where "y = era_year (z mod 146097)"
  have "days * 86400 + t mod 86400 = t" "q * 146097 + z mod 146097 = z" unfolding days_def q_def by (rule div_mult_mod_eq)+
  moreover have "0 \<le> t mod 86400" "t mod 86400 < 86400" "0 \<le> z mod 146097" "z mod 146097 < 146097" by simp_all
  moreover from era_year_bounds[OF this(3,4)] have "0 \<le> y" "y < 400" by (simp_all add: y_def)
  moreover have "tm_year (gmtime t) - (y + q * 400) \<in> {0, 1}"
    unfolding gmtime_parts Let_def tm.select_convs days_def[symmetric] z_def[symmetric] q_def[symmetric] y_def[symmetric]
    by (rule add_if_one)
  then have "0 \<le> tm_year (gmtime t) - (y + q * 400)" "tm_year (gmtime t) - (y + q * 400) \<le> 1" by auto
  moreover have "- 9223372036854775808 < t" "t < 9223372036854775808" using assms by (simp_all add: abs_less_iff)
  ultimately have "- 10000000000000000000 < tm_year (gmtime t)" "tm_year (gmtime t) < 10000000000000000000"
    using z_def by linarith+
  then show ?thesis by (simp add: abs_less_iff)
qed

lemma http_date_length:
  assumes "\<bar>t\<bar> < 2 ^ 63"
  shows "length (strftime_http (weekday t) (gmtime t)) \<le> 49"
proof -
  have c: "calendar_date (gmtime t)" using gmtime_correct by blast
  have "length (show_int (tm_year (gmtime t))) \<le> Suc 19" by (rule show_int_length[OF gmtime_year[OF assms]]) simp
  moreover have "length (day_name (weekday t)) \<le> 3" by (rule day_name_length) (simp_all add: weekday_def)
  moreover have "length (month_name (tm_mon (gmtime t))) \<le> 3" using month_name_length c by (simp add: calendar_date_def)
  moreover have "length (pad2 (tm_mday (gmtime t))) \<le> 2" "length (pad2 (tm_hour (gmtime t))) \<le> 2"
    "length (pad2 (tm_min (gmtime t))) \<le> 2" "length (pad2 (tm_sec (gmtime t))) \<le> 2"
    using pad2_length c by (simp_all add: calendar_date_def)
  ultimately show ?thesis by (simp add: strftime_http_def)
qed

lemma cstring_nth: "i < length xs \<Longrightarrow> (\<forall>x \<in> set xs. cstring x) \<Longrightarrow> cstring (xs ! i)"
  by simp

lemma cstring_http_date: "cstring (strftime_http (weekday t) (gmtime t))"
proof -
  have c: "calendar_date (gmtime t)" using gmtime_correct by blast
  have "cstring (day_name (weekday t))"
    unfolding day_name_def by (rule cstring_nth) (simp_all add: weekday_def nat_less_iff)
  moreover have "cstring (month_name (tm_mon (gmtime t)))"
    unfolding month_name_def by (rule cstring_nth) (use c in \<open>simp_all add: calendar_date_def nat_less_iff\<close>)
  ultimately show ?thesis by (simp add: strftime_http_def pad2_def)
qed

lemma get_date_text:
  assumes "\<bar>time_now E\<bar> < 2 ^ 63" "length b = 255"
  shows "Option.bind (AtmosUtil_get_date E b) c_str = Some (strftime_http (weekday (time_now E)) (gmtime (time_now E)))"
proof -
  let ?s = "strftime_http (weekday (time_now E)) (gmtime (time_now E))"
  have l: "length ?s < 255" using http_date_length[OF assms(1)] by simp
  then obtain b' where b': "strcpy b ?s = Some b'" using strcpy_ok[of ?s b] assms(2) by auto
  then show ?thesis using l strcpy_c_str[OF cstring_http_date b'] by (simp add: AtmosUtil_get_date_def Let_def strftime_text_http)
qed

section \<open>Counting days\<close>

text \<open>The arithmetic of \<open>timegm\<close> is that of the lengths of the years and months.\<close>

definition year_days :: "int \<Rightarrow> int" where
  "year_days y = 365 * y + y div 4 - y div 100 + y div 400"

lemma era_days: "y div 400 * 146097 + (y mod 400 * 365 + y mod 400 div 4 - y mod 400 div 100) = year_days y"
proof -
  define q r where "q = y div 400" and "r = y mod 400"
  have y: "y = 400 * q + r" by (simp add: q_def r_def)
  have "y div 4 = 100 * q + r div 4" "y div 100 = 4 * q + r div 100"
    using div_mult_self2[of 4 r "100 * q"] div_mult_self2[of 100 r "4 * q"] by (simp_all add: y algebra_simps)
  then show ?thesis unfolding year_days_def q_def[symmetric] r_def[symmetric] by (simp add: y)
qed

lemma days_from_civil_year:
  "days_from_civil y m d = year_days (if m \<le> 2 then y - 1 else y) +
     ((153 * (if m \<le> 2 then m + 9 else m - 3) + 2) div 5 + d - 1) - 719468"
  using era_days[of "if m \<le> 2 then y - 1 else y"] by (simp add: days_from_civil_def Let_def)

lemma div_pred:
  fixes y k :: int
  assumes "0 < k"
  shows "y div k = (y - 1) div k + (if y mod k = 0 then 1 else 0)"
proof -
  define q r where "q = y div k" and "r = y mod k"
  have y: "y = k * q + r" "0 \<le> r" "r < k" using assms by (simp_all add: q_def r_def)
  show ?thesis
  proof (cases "r = 0")
    case True
    then have "(y - 1) div k = q - 1" using y assms by (intro int_div_pos_eq[where r = "k - 1"]) (simp_all add: algebra_simps)
    then show ?thesis using True by (simp add: q_def r_def)
  next
    case False
    then have "(y - 1) div k = q" using y by (intro int_div_pos_eq[where r = "r - 1"]) simp_all
    then show ?thesis using False by (simp add: q_def r_def)
  qed
qed

lemma days_in_year_sum:
  "days_in_year y = 365 + (if y mod 4 = 0 then 1 else 0) - (if y mod 100 = 0 then 1 else 0) + (if y mod 400 = 0 then 1 else 0)"
proof -
  have "y mod 400 = 0 \<Longrightarrow> y mod 100 = 0" "y mod 100 = 0 \<Longrightarrow> y mod 4 = 0" by presburger+
  then show ?thesis unfolding days_in_year_def leap_year_def by (cases "y mod 400 = 0"; cases "y mod 100 = 0"; cases "y mod 4 = 0") simp_all
qed

lemma year_days_arith:
  fixes a b c y :: int
  shows "a = a' + i \<Longrightarrow> b = b' + j \<Longrightarrow> c = c' + k \<Longrightarrow> d = 365 + i - j + k \<Longrightarrow>
     365 * y + a - b + c = 365 * (y - 1) + a' - b' + c' + d"
  by simp

lemma year_days_step: "year_days y = year_days (y - 1) + days_in_year y"
  unfolding year_days_def by (rule year_days_arith[OF div_pred div_pred div_pred days_in_year_sum]) simp_all

lemma month_cases:
  fixes m :: int
  assumes "1 \<le> m" "m \<le> 12"
  shows "m \<in> {1, 2, 3, 4, 5, 6, 7, 8, 9, 10, 11, 12}"
proof -
  have "m \<in> set [1..12]" using assms by simp
  moreover have "[1..12 :: int] = [1, 2, 3, 4, 5, 6, 7, 8, 9, 10, 11, 12]" by (simp add: upto_rec1)
  ultimately show ?thesis by (simp del: set_upto)
qed

lemma days_from_civil_month:
  assumes "1 \<le> m" "m \<le> 12"
  shows "days_from_civil y m d = year_days (y - 1) - 719162 + sum_list (map (days_in_month y) [1..m - 1]) + (d - 1)"
  using month_cases[OF assms] year_days_step[of y]
  by (auto simp: days_from_civil_year days_in_month_def days_in_year_def upto_rec1)

lemma year_days_sum: "1970 \<le> y \<Longrightarrow> year_days (y - 1) = 719162 + sum_list (map days_in_year [1970..y - 1])"
proof (induction y rule: int_ge_induct)
  case base
  then show ?case by (simp add: year_days_def)
next
  case (step y)
  have "[1970..y] = [1970..y - 1] @ [y]" using step.hyps by (simp add: upto_rec2)
  then show ?case using step.IH year_days_step[of y] by simp
qed

lemma days_from_civil_epoch: "1970 \<le> y \<Longrightarrow> 1 \<le> m \<Longrightarrow> m \<le> 12 \<Longrightarrow> days_from_civil y m d = epoch_days y m d"
  by (simp add: days_from_civil_month year_days_sum epoch_days_def)

lemma year_days_mono: "a \<le> b \<Longrightarrow> year_days a \<le> year_days b"
proof (induction b rule: int_ge_induct)
  case (step b)
  then show ?case using year_days_step[of "b + 1"] by (simp add: days_in_year_def split: if_splits)
qed simp

lemma month_days_in_year:
  assumes "1 \<le> m" "m \<le> 12" "d \<le> days_in_month y m"
  shows "sum_list (map (days_in_month y) [1..m - 1]) + d \<le> days_in_year y"
  using month_cases[OF assms(1,2)] assms(3) by (auto simp: days_in_month_def days_in_year_def upto_rec1)

lemma before_epoch:
  assumes "y < 1970" "1 \<le> m" "m \<le> 12" "d \<le> days_in_month y m"
  shows "days_from_civil y m d < 0"
proof -
  have "year_days y \<le> year_days 1969" using assms(1) by (intro year_days_mono) simp
  also have "year_days 1969 = 719162" by (simp add: year_days_def)
  finally show ?thesis
    using month_days_in_year[OF assms(2-4)] year_days_step[of y] by (simp add: days_from_civil_month[OF assms(2,3)])
qed

text \<open>Dates of the years to which HTTP dates are confined.\<close>

lemma year_bounds:
  assumes "valid_date d" "0 \<le> timegm d" "timegm d < 253402300800"
  shows "1970 \<le> tm_year d \<and> tm_year d \<le> 9999"
proof -
  note v = assms(1)[unfolded valid_date_def calendar_date_def]
  let ?n = "days_from_civil (tm_year d) (tm_mon d) (tm_mday d)"
  have n: "0 \<le> ?n" "?n < 2932897" using assms(2,3) v unfolding timegm_def by linarith+
  have "1970 \<le> tm_year d" using before_epoch[of "tm_year d" "tm_mon d" "tm_mday d"] v n(1) by force
  moreover have "tm_year d \<le> 9999"
  proof (rule ccontr)
    assume "\<not> ?thesis"
    then have "year_days 9999 \<le> year_days (tm_year d - 1)" by (intro year_days_mono) simp
    moreover have "year_days 9999 = 3652059" by (simp add: year_days_def)
    moreover have "0 \<le> sum_list (map (days_in_month (tm_year d)) [1..tm_mon d - 1])"
      by (rule sum_list_nonneg) (auto simp: days_in_month_def)
    ultimately show False using days_from_civil_month[of "tm_mon d" "tm_year d" "tm_mday d"] v n(2) by linarith
  qed
  ultimately show ?thesis by blast
qed

lemma timegm_epoch: "1970 \<le> tm_year d \<Longrightarrow> valid_date d \<Longrightarrow> timegm d = epoch_seconds d"
  by (simp add: timegm_def epoch_seconds_def days_from_civil_epoch valid_date_def calendar_date_def)

section \<open>The date of a request\<close>

text \<open>
  The date of HTTP, written down without \<open>strftime\<close>: the day of the week (the first day of the count is a Thursday),
  day and time with two digits each, the year with four.
\<close>

definition http_date :: "tm \<Rightarrow> string" where
  "http_date d =
     [''Thu'', ''Fri'', ''Sat'', ''Sun'', ''Mon'', ''Tue'', ''Wed''] ! nat (epoch_days (tm_year d) (tm_mon d) (tm_mday d) mod 7) @
     '', '' @ digits_of 2 (nat (tm_mday d)) @ '' '' @
     [''Jan'', ''Feb'', ''Mar'', ''Apr'', ''May'', ''Jun'', ''Jul'', ''Aug'', ''Sep'', ''Oct'', ''Nov'', ''Dec''] ! nat (tm_mon d - 1) @
     '' '' @ digits_of 4 (nat (tm_year d)) @ '' '' @
     digits_of 2 (nat (tm_hour d)) @ '':'' @ digits_of 2 (nat (tm_min d)) @ '':'' @ digits_of 2 (nat (tm_sec d)) @ '' GMT''"

lemma digits_2: "digits_of 2 n = [digit_char (n div 10 mod 10), digit_char (n mod 10)]"
  by (simp add: numeral_2_eq_2)

lemma pad2_digits: "0 \<le> n \<Longrightarrow> n < 100 \<Longrightarrow> pad2 n = digits_of 2 (nat n)"
  unfolding digits_2 by (auto simp: pad2_def show_int_def show_nat.simps[of "nat n"] show_nat.simps[of "nat n div 10"] nat_less_iff char_code)

lemma year_digits:
  assumes "1000 \<le> n" "n \<le> 9999"
  shows "show_int n = digits_of 4 (nat n)"
proof -
  define k where "k = nat n"
  have k: "1000 \<le> k" "k \<le> 9999" using assms by (simp_all add: k_def le_nat_iff)
  have s: "\<not> k < 10" "\<not> k div 10 < 10" "\<not> k div 100 < 10" "k div 1000 < 10" using k by (simp_all add: not_less less_eq_div_iff_mult_less_eq div_less_iff_less_mult)
  have four: "4 = Suc (Suc (Suc (Suc 0)))" by simp
  have d: "k div 10 div 10 = k div 100" "k div 100 div 10 = k div 1000" by (simp_all add: div_mult2_eq[symmetric])
  have "show_nat k = [digit_char (k div 1000), digit_char (k div 100 mod 10), digit_char (k div 10 mod 10), digit_char (k mod 10)]"
    unfolding show_nat.simps[of k] show_nat.simps[of "k div 10"] show_nat.simps[of "k div 100"] show_nat.simps[of "k div 1000"] d
    by (simp only: s if_False if_True append.simps)
  moreover have "digits_of 4 k = [digit_char (k div 1000 mod 10), digit_char (k div 100 mod 10), digit_char (k div 10 mod 10), digit_char (k mod 10)]"
    by (simp only: four digits_of.simps d append.simps)
  moreover have "k div 1000 mod 10 = k div 1000" using k by simp
  ultimately show ?thesis using assms(1) by (simp add: show_int_def k_def)
qed

lemma weekday_name: "0 \<le> t \<Longrightarrow> day_name (weekday t) = [''Thu'', ''Fri'', ''Sat'', ''Sun'', ''Mon'', ''Tue'', ''Wed''] ! nat (t div 86400 mod 7)"
proof -
  define k where "k = t div 86400 mod 7"
  have "0 \<le> k" "k < 7" by (simp_all add: k_def)
  then have "k = 0 \<or> k = 1 \<or> k = 2 \<or> k = 3 \<or> k = 4 \<or> k = 5 \<or> k = 6" by arith
  moreover have "weekday t = (k + 4) mod 7" by (simp add: weekday_def k_def mod_simps)
  ultimately show ?thesis unfolding k_def[symmetric] day_name_def by auto
qed

lemma http_date_gmtime:
  assumes "0 \<le> t" "t < 253402300800"
  shows "epoch_seconds (gmtime t) = t" "strftime_http (weekday t) (gmtime t) = http_date (gmtime t)"
proof -
  let ?d = "gmtime t"
  have v: "valid_date ?d" "timegm ?d = t" using gmtime_valid by blast+
  note c = v(1)[unfolded valid_date_def calendar_date_def]
  have y: "1970 \<le> tm_year ?d" "tm_year ?d \<le> 9999" using year_bounds[OF v(1)] assms v(2) by simp_all
  show e: "epoch_seconds ?d = t" using timegm_epoch[OF y(1) v(1)] v(2) by simp
  have "epoch_days (tm_year ?d) (tm_mon ?d) (tm_mday ?d) = t div 86400"
    by (rule int_div_pos_eq[symmetric, where r = "tm_hour ?d * 3600 + tm_min ?d * 60 + tm_sec ?d"])
      (use e c in \<open>unfold epoch_seconds_def, linarith+\<close>)
  then show "strftime_http (weekday t) ?d = http_date ?d"
    using c y by (simp add: strftime_http_def http_date_def weekday_name[OF assms(1)] pad2_digits year_digits month_name_def)
qed

text \<open>
  C31: The date of a request is the current time in the form HTTP prescribes: for every time from the epoch to the
  end of the year 9999 there is a valid date of the Gregorian calendar, months and leap years included, whose distance from the
  epoch is exactly \<open>time(NULL)\<close>, and the text in the caller's array is that date spelled out: day of the week, day, month, year with four
  digits, time and \<open>GMT\<close>.
\<close>

theorem get_date_names_now:
  assumes "0 \<le> time_now E" "time_now E < 253402300800" "length b = ATMOS_SIMPLE_HEADER_MAX"
  shows "\<exists>d. valid_date d \<and> epoch_seconds d = time_now E \<and> Option.bind (AtmosUtil_get_date E b) c_str = Some (http_date d)"
  using get_date_text[of E b] http_date_gmtime[OF assms(1,2)] gmtime_valid[of "time_now E"] assms
  by (intro exI[of _ "gmtime (time_now E)"]) simp

theorem get_date_names_now_witness:
  "\<exists>d. valid_date d \<and> epoch_seconds d = 1212683899 \<and>
     Option.bind (AtmosUtil_get_date list_env (zeros 255)) c_str = Some (http_date d)"
  using get_date_names_now[of list_env "zeros 255"] by (simp add: list_env_def)

end
