(* ===== verification/Listing_Laws.thy ===== *)
theory Listing_Laws
  imports Filter_Laws
begin

text \<open>
  The filters of listings and metadata requests: each is a preparation of the request, the call of
  the next filter and a step that reads the answer after success; what the pagination headers say,
  and how the list of tags is split.
\<close>

section \<open>Preparation and answer\<close>

definition list_directory_prepare :: "env \<Rightarrow> AtmosClient \<Rightarrow> request \<Rightarrow> request option" where
  "list_directory_prepare E c request =
     (case r_sub request of
        Paginated_request p (ListDirectory_sub l) \<Rightarrow> (
          let utf8 = cl_enable_utf8_metadata c;
              request = (if utf8 \<noteq> 0 then add_header E request utf8_header else request) in
            if ld_include_meta l \<noteq> 0 then do {
              request \<leftarrow> limit_tags_header E utf8 ATMOS_HEADER_USER_TAGS (ld_user_tags l) (ld_user_tag_count l)
                (add_header E request include_meta_header);
              limit_tags_header E 0 ATMOS_HEADER_SYSTEM_TAGS (ld_system_tags l) (ld_system_tag_count l) request
            } else Some request)
      | _ \<Rightarrow> None)"

definition directory_answer :: "env \<Rightarrow> response \<Rightarrow> response option" where
  "directory_answer E response = upd_sub (\<lambda>s. case s of
       ListDirectory_response rp d \<Rightarrow> do {
         d \<leftarrow> AtmosListDirectoryResponse_parse E d (rs_body (s_base response)) (rs_content_length (s_base response));
         Some (ListDirectory_response rp (d\<lparr>dl_token := next_token E response (dl_token d)\<rparr>))
       }
     | _ \<Rightarrow> None) response"

interpretation list_directory: sandwich "AtmosFilter_list_directory E" "list_directory_prepare E" "on_success (directory_answer E)" for E
proof
  show "AtmosFilter_list_directory E c nxt (rq, rs) =
      do { rq' \<leftarrow> list_directory_prepare E c rq; st \<leftarrow> call_next nxt (rq', rs); on_success (directory_answer E) st }"
    for c and nxt :: "handler option" and rq rs
    by (cases "cl_enable_utf8_metadata c = 0")
      (simp_all add: AtmosFilter_list_directory_def list_directory_prepare_def directory_answer_def[abs_def] Let_def
        split: request_sub.split page_sub.split)
qed

definition list_objects_prepare :: "env \<Rightarrow> AtmosClient \<Rightarrow> request \<Rightarrow> request option" where
  "list_objects_prepare E c request =
     (case r_sub request of
        Paginated_request p (ListObjects_sub l) \<Rightarrow> (
          let utf8 = cl_enable_utf8_metadata c;
              request = (if utf8 \<noteq> 0 then add_header E request utf8_header else request) in do {
            tagbuf \<leftarrow> strncpy (replicate ATMOS_META_NAME_MAX (junk E)) (buffer_text (lo_tag l)) ATMOS_META_NAME_MAX;
            request \<leftarrow> AtmosUtil_set_tags_header E request [tagbuf] 1 utf8;
            if lo_include_meta l \<noteq> 0 then do {
              request \<leftarrow> limit_tags_header E utf8 ATMOS_HEADER_USER_TAGS (lo_user_tags l) (lo_user_tag_count l)
                (add_header E request include_meta_header);
              limit_tags_header E 0 ATMOS_HEADER_SYSTEM_TAGS (lo_system_tags l) (lo_system_tag_count l) request
            } else Some request })
      | _ \<Rightarrow> None)"

definition objects_answer :: "env \<Rightarrow> response \<Rightarrow> response option" where
  "objects_answer E response = upd_sub (\<lambda>s. case s of
       ListObjects_response d \<Rightarrow> do {
         d \<leftarrow> AtmosListObjectsResponse_parse E d (rs_body (s_base response)) (rs_content_length (s_base response));
         Some (ListObjects_response (d\<lparr>or_token := next_token E response (or_token d)\<rparr>))
       }
     | _ \<Rightarrow> None) response"

interpretation list_objects: sandwich "AtmosFilter_list_objects E" "list_objects_prepare E" "on_success (objects_answer E)" for E
proof
  show "AtmosFilter_list_objects E c nxt (rq, rs) =
      do { rq' \<leftarrow> list_objects_prepare E c rq; st \<leftarrow> call_next nxt (rq', rs); on_success (objects_answer E) st }"
    for c and nxt :: "handler option" and rq rs
    by (cases "cl_enable_utf8_metadata c = 0")
      (simp_all add: AtmosFilter_list_objects_def list_objects_prepare_def objects_answer_def[abs_def] Let_def
        split: request_sub.split page_sub.split)
qed

definition tags_prepare :: "env \<Rightarrow> AtmosClient \<Rightarrow> request \<Rightarrow> request option" where
  "tags_prepare E c request =
     (case r_sub request of
        Paginated_request p (GetListableTags_sub parent_tag) \<Rightarrow> do {
          parent \<leftarrow> c_str parent_tag;
          (let request = (if parent \<noteq> []
                 then add_header E request (snprintf_text (ATMOS_PATH_MAX + 12) (ATMOS_HEADER_TAGS @ '': '' @ parent)) else request)
           in Some (if cl_enable_utf8_metadata c \<noteq> 0 then add_header E request utf8_header else request))
        }
      | _ \<Rightarrow> None)"

definition tags_answer :: "env \<Rightarrow> response \<Rightarrow> response option" where
  "tags_answer E response = upd_sub (\<lambda>s. case s of
       GetListableTags_response t \<Rightarrow> map_option GetListableTags_response (parse_listable_tags E response t)
     | _ \<Rightarrow> None) response"

interpretation get_listable_tags: sandwich "AtmosFilter_get_listable_tags E" "tags_prepare E" "on_success (tags_answer E)" for E
proof
  show "AtmosFilter_get_listable_tags E c nxt (rq, rs) =
      do { rq' \<leftarrow> tags_prepare E c rq; st \<leftarrow> call_next nxt (rq', rs); on_success (tags_answer E) st }"
    for c and nxt :: "handler option" and rq rs
    by (simp add: AtmosFilter_get_listable_tags_def tags_prepare_def tags_answer_def[abs_def] Let_def
        split: request_sub.split page_sub.split Option.bind_split)
qed

definition system_meta_prepare :: "env \<Rightarrow> AtmosClient \<Rightarrow> request \<Rightarrow> request option" where
  "system_meta_prepare E c request =
     (case r_sub request of
        GetSystemMeta_request m \<Rightarrow> (
          let request = (if cl_enable_utf8_metadata c \<noteq> 0 then add_header E request utf8_header else request) in
          if mr_tag_count m > 0 then AtmosUtil_set_tags_header E request (mr_tags m) (mr_tag_count m) 0 else Some request)
      | _ \<Rightarrow> None)"

definition system_meta_answer :: "env \<Rightarrow> response \<Rightarrow> response option" where
  "system_meta_answer E response = upd_sub (\<lambda>s. case s of
       GetSystemMeta_response sm \<Rightarrow>
         map_option GetSystemMeta_response (AtmosUtil_parse_system_meta_header E (s_base response) sm)
     | _ \<Rightarrow> None) response"

interpretation get_system_meta: sandwich "AtmosFilter_get_system_metadata E" "system_meta_prepare E" "on_success (system_meta_answer E)" for E
proof
  show "AtmosFilter_get_system_metadata E c nxt (rq, rs) =
      do { rq' \<leftarrow> system_meta_prepare E c rq; st \<leftarrow> call_next nxt (rq', rs); on_success (system_meta_answer E) st }"
    for c and nxt :: "handler option" and rq rs
    by (simp add: AtmosFilter_get_system_metadata_def system_meta_prepare_def system_meta_answer_def[abs_def] Let_def
        split: request_sub.split)
qed

definition user_meta_prepare :: "env \<Rightarrow> AtmosClient \<Rightarrow> request \<Rightarrow> request option" where
  "user_meta_prepare E c request =
     (case r_sub request of
        GetUserMeta_request m \<Rightarrow> (
          let utf8 = cl_enable_utf8_metadata c;
              request = (if utf8 \<noteq> 0 then add_header E request utf8_header else request) in
          if mr_tag_count m > 0 then AtmosUtil_set_tags_header E request (mr_tags m) (mr_tag_count m) utf8 else Some request)
      | _ \<Rightarrow> None)"

interpretation set_user_meta_headers: sandwich "AtmosFilter_set_get_user_meta_headers E" "user_meta_prepare E" Some for E
proof
  show "AtmosFilter_set_get_user_meta_headers E c nxt (rq, rs) =
      do { rq' \<leftarrow> user_meta_prepare E c rq; st \<leftarrow> call_next nxt (rq', rs); Some st }"
    for c and nxt :: "handler option" and rq rs
    by (simp add: AtmosFilter_set_get_user_meta_headers_def user_meta_prepare_def Let_def split: request_sub.split)
qed

definition acl_answer :: "env \<Rightarrow> response \<Rightarrow> response option" where
  "acl_answer E response =
     (if RestResponse_get_header_value E (s_base response) ATMOS_HEADER_USER_ACL = None
         \<and> RestResponse_get_header_value E (s_base response) ATMOS_HEADER_GROUP_ACL = None then Some response
      else upd_sub (\<lambda>s. case s of
          GetAcl_response p \<Rightarrow> do {
            acl \<leftarrow> AtmosUtil_parse_acl_headers E (s_base response) (ga_acl p, ga_acl_count p);
            Some (GetAcl_response (p\<lparr>ga_acl := fst acl, ga_acl_count := snd acl\<rparr>))
          }
        | _ \<Rightarrow> None) response)"

interpretation parse_acl: success_filter "AtmosFilter_parse_get_acl_response E" "on_success (acl_answer E)" "\<lambda>code. 299 < code" for E
  by (rule success_filterI) (simp add: AtmosFilter_parse_get_acl_response_def acl_answer_def[abs_def])

definition token_list_answer :: "env \<Rightarrow> response \<Rightarrow> response option" where
  "token_list_answer E response = upd_sub (\<lambda>s. case s of
       ListAccessTokens_response d \<Rightarrow>
         Some (ListAccessTokens_response
           (d\<lparr>lt_token_list := Atmos_listAccessTokenResultType_unmarshal E (rs_body (s_base response)),
              lt_token := next_token E response (lt_token d)\<rparr>))
     | _ \<Rightarrow> None) response"

interpretation parse_token_list:
    success_filter "AtmosFilter_parse_list_access_tokens_response E" "on_success (token_list_answer E)" "\<lambda>code. 299 < code" for E
  by (rule success_filterI) (simp add: AtmosFilter_parse_list_access_tokens_response_def token_list_answer_def[abs_def])

definition token_info_answer :: "env \<Rightarrow> response \<Rightarrow> response option" where
  "token_info_answer E response = upd_sub (\<lambda>s. case s of
       GetAccessTokenInfo_response x \<Rightarrow>
         Some (GetAccessTokenInfo_response (Atmos_accessTokenType_unmarshal E (rs_body (s_base response))))
     | _ \<Rightarrow> None) response"

interpretation parse_token_info:
    success_filter "AtmosFilter_parse_get_token_info_response E" "on_success (token_info_answer E)" "\<lambda>code. 299 < code" for E
  by (rule success_filterI) (simp add: AtmosFilter_parse_get_token_info_response_def token_info_answer_def[abs_def])

text \<open>The service information is read from an answer with status 200 only.\<close>

definition service_finish :: "env \<Rightarrow> handler" where
  "service_finish E st = (case st of (request, response) \<Rightarrow>
     if http_code (s_base response) \<noteq> 200 then Some (request, response)
     else do {
       response \<leftarrow> upd_sub (\<lambda>s. case s of
           ServiceInfo_response p \<Rightarrow> map_option ServiceInfo_response (parse_service_info E (s_base response) p)
         | _ \<Rightarrow> None) response;
       Some (request, response)
     })"

interpretation parse_service: success_filter "AtmosFilter_parse_service_info_response E" "service_finish E" "\<lambda>code. code \<noteq> 200" for E
proof
  show "AtmosFilter_parse_service_info_response E c nxt st = Option.bind (call_next nxt st) (service_finish E)" for c nxt st
    by (auto simp: AtmosFilter_parse_service_info_response_def service_finish_def[abs_def])
  show "service_finish E (rq, rs) = Some (rq', rs') \<Longrightarrow> rq' = rq" for rq rs rq' rs'
    by (auto simp: service_finish_def bind_eq_Some_conv split: if_splits)
  show "http_code (s_base rs) \<noteq> 200 \<Longrightarrow> service_finish E (rq, rs) = Some (rq, rs)" for rq rs
    by (simp add: service_finish_def)
qed

section \<open>Answers to failed requests\<close>

text \<open>A step that reads the answer changes only the part of the response's own class, and nothing after a failure.\<close>

definition reads_success :: "handler \<Rightarrow> bool" where
  "reads_success fin \<longleftrightarrow> (\<forall>rq rs rq' rs'. fin (rq, rs) = Some (rq', rs') \<longrightarrow>
     rq' = rq \<and> s_base rs' = s_base rs \<and> (299 < http_code (s_base rs) \<longrightarrow> rs' = rs))"

lemma reads_successD:
  assumes "reads_success fin" "fin (rq, rs) = Some (rq', rs')"
  shows "rq' = rq" "s_base rs' = s_base rs" "299 < http_code (s_base rs) \<Longrightarrow> rs' = rs"
  using assms unfolding reads_success_def by blast+

lemma reads_success_Some [simp, intro]: "reads_success Some"
  by (simp add: reads_success_def)

lemma reads_success_on_success:
  assumes "\<And>rs rs'. f rs = Some rs' \<Longrightarrow> s_base rs' = s_base rs"
  shows "reads_success (on_success f)"
  using assms by (auto simp: reads_success_def on_success_def bind_eq_Some_conv)

lemma reads_success_answers [simp, intro]:
  "reads_success (on_success (directory_answer E))" "reads_success (on_success (objects_answer E))"
  "reads_success (on_success (tags_answer E))" "reads_success (on_success (system_meta_answer E))"
  "reads_success (on_success (token_list_answer E))" "reads_success (on_success (acl_answer E))"
  "reads_success (on_success (read_sub E))" "reads_success (on_success (user_meta_answer E))"
  "reads_success (on_success (versions_answer E))" "reads_success (on_success (info_answer E))"
  "reads_success (on_success (token_info_answer E))"
  by (rule reads_success_on_success,
      auto simp: directory_answer_def objects_answer_def tags_answer_def system_meta_answer_def token_list_answer_def
        acl_answer_def read_sub_def user_meta_answer_def versions_answer_def info_answer_def token_info_answer_def
        dest: upd_sub_base split: if_splits)+

lemma reads_success_service [simp, intro]: "reads_success (service_finish E)"
  by (auto simp: reads_success_def service_finish_def bind_eq_Some_conv dest: upd_sub_base split: if_splits)

lemma foldM_reads_success:
  assumes "\<forall>fin \<in> set fins. reads_success fin" "foldM (\<lambda>st fin. fin st) (rq, rs) fins = Some (rq', rs')"
  shows "rq' = rq \<and> s_base rs' = s_base rs \<and> (299 < http_code (s_base rs) \<longrightarrow> rs' = rs)"
  using assms
proof (induction fins arbitrary: rs)
  case (Cons fin fins)
  obtain rq1 rs1 where 1: "fin (rq, rs) = Some (rq1, rs1)" "foldM (\<lambda>st fin. fin st) (rq1, rs1) fins = Some (rq', rs')"
    using Cons.prems(2) by (auto simp: bind_eq_Some_conv)
  have "reads_success fin" using Cons.prems(1) by simp
  note r = reads_successD[OF this 1(1)]
  show ?case using Cons.IH[of rs1] Cons.prems(1) 1(2) r by auto
qed simp

section \<open>Chains of such filters\<close>

text \<open>
  A filter with its two halves. In a chain the preparations run from the first filter to the last
  and the other halves run back from the last to the first.
\<close>

type_synonym halves = "rest_http_filter \<times> (AtmosClient \<Rightarrow> request \<Rightarrow> request option) \<times> handler"

definition halves_of :: "halves \<Rightarrow> bool" where
  "halves_of x \<longleftrightarrow> sandwich (fst x) (fst (snd x)) (snd (snd x))"

lemma halves_of_filters [simp, intro]:
  "halves_of (AtmosFilter_set_read_object_headers E, read_prepare E, Some)"
  "halves_of (AtmosFilter_parse_read_object_response E, \<lambda>c. Some, on_success (read_sub E))"
  "halves_of (AtmosFilter_set_get_user_meta_headers E, user_meta_prepare E, Some)"
  "halves_of (AtmosFilter_parse_get_user_meta_response E, \<lambda>c. Some, on_success (user_meta_answer E))"
  "halves_of (AtmosFilter_get_system_metadata E, system_meta_prepare E, on_success (system_meta_answer E))"
  "halves_of (AtmosFilter_list_directory E, list_directory_prepare E, on_success (directory_answer E))"
  "halves_of (AtmosFilter_list_objects E, list_objects_prepare E, on_success (objects_answer E))"
  "halves_of (AtmosFilter_list_versions E, \<lambda>c. Some, on_success (versions_answer E))"
  "halves_of (AtmosFilter_get_listable_tags E, tags_prepare E, on_success (tags_answer E))"
  "halves_of (AtmosFilter_set_pagination_headers E, \<lambda>c. pagination_prepare E, Some)"
  "halves_of (AtmosFilter_parse_list_access_tokens_response E, \<lambda>c. Some, on_success (token_list_answer E))"
  "halves_of (AtmosFilter_parse_get_acl_response E, \<lambda>c. Some, on_success (acl_answer E))"
  "halves_of (AtmosFilter_parse_get_info_response E, \<lambda>c. Some, on_success (info_answer E))"
  "halves_of (AtmosFilter_parse_get_token_info_response E, \<lambda>c. Some, on_success (token_info_answer E))"
  "halves_of (AtmosFilter_parse_service_info_response E, \<lambda>c. Some, service_finish E)"
  unfolding halves_of_def fst_conv snd_conv
  by (rule read_object.sandwiched.sandwich_axioms parse_read.sandwiched.sandwich_axioms
      set_user_meta_headers.sandwich_axioms parse_get_user_meta.sandwiched.sandwich_axioms get_system_meta.sandwich_axioms
      list_directory.sandwich_axioms list_objects.sandwich_axioms list_versions.sandwiched.sandwich_axioms
      get_listable_tags.sandwich_axioms pagination.sandwiched.sandwich_axioms parse_token_list.sandwiched.sandwich_axioms
      parse_acl.sandwiched.sandwich_axioms parse_info.sandwiched.sandwich_axioms parse_token_info.sandwiched.sandwich_axioms
      parse_service.sandwiched.sandwich_axioms)+

lemma run_halves:
  assumes "\<forall>x \<in> set xs. halves_of x"
  shows "call_next (run_chain c (map fst xs @ gs)) (rq, rs) = do {
     rq' \<leftarrow> foldM (\<lambda>rq x. fst (snd x) c rq) rq xs;
     st \<leftarrow> call_next (run_chain c gs) (rq', rs);
     foldM (\<lambda>st fin. fin st) st (rev (map (snd \<circ> snd) xs)) }"
  using assms
proof (induction xs arbitrary: rq)
  case (Cons x xs)
  have "sandwich (fst x) (fst (snd x)) (snd (snd x))" using Cons.prems by (simp add: halves_of_def)
  note s = sandwich.sandwiches[OF this]
  show ?case using Cons by (simp add: s bind_assoc)
qed simp

end
