(* ===== verification/Client_Laws.thy ===== *)
theory Client_Laws
  imports Client Calendar Listing_Laws
begin

text \<open>
  What the operations of the client guarantee, end to end: the chain every request goes through,
  the signature, the error path, and what single operations do with the answer of the server.
\<close>

section \<open>The chain of an operation\<close>

text \<open>The order in which filters run is the reverse of the order in which they are added.\<close>

lemma add_filters: "rest_chain_ok E \<Longrightarrow> foldl (RestFilter_add E) chain fs = rev fs @ chain"
  by (induction fs arbitrary: chain) (simp_all add: rest_chain_ok_def)

abbreviation transport :: "env \<Rightarrow> rest_http_filter" where
  "transport E \<equiv> RestFilter_execute_curl_request E (call_file_filter E)"

definition default_chain :: "env \<Rightarrow> rest_http_filter \<Rightarrow> rest_http_filter list" where
  "default_chain E T = [AtmosFilter_parse_atmos_error E, AtmosFilter_add_date E, AtmosFilter_add_uid E,
     RestFilter_set_content_headers E, AtmosFilter_sign_request E, T]"

lemma default_filters: "rest_chain_ok E \<Longrightarrow> AtmosClient_add_default_filters E c chain = default_chain E (transport E) @ chain"
  by (simp add: AtmosClient_add_default_filters_def default_chain_def rest_chain_ok_def)

lemma execute_chain:
  assumes "rest_chain_ok E"
  shows "execute E c fs st = the (run_chain c (rev fs @ default_chain E (transport E))) st"
proof -
  have "rev fs @ default_chain E (transport E) \<noteq> []" by (simp add: default_chain_def)
  then obtain f chain where f: "rev fs @ default_chain E (transport E) = f # chain" by (cases "rev fs @ default_chain E (transport E)") auto
  have "execute E c fs st = RestClient_execute_request E c (rev fs @ default_chain E (transport E)) st"
    by (simp add: execute_def add_filters[OF assms] default_filters[OF assms])
  also have "\<dots> = f c (run_chain c chain) st" unfolding f using assms unfolding rest_chain_ok_def by blast
  finally show ?thesis unfolding f by simp
qed

text \<open>
  What the default filters do with a request: date, user, content headers and signature are added,
  then it is sent, and the error document of a failure is read.
\<close>

definition outgoing :: "env \<Rightarrow> (request \<Rightarrow> string list) \<Rightarrow> AtmosClient \<Rightarrow> request \<Rightarrow> request option" where
  "outgoing E hs c rq = do {
     date \<leftarrow> date_header E;
     uid \<leftarrow> uid_header c;
     (let rq = add_headers E rq [date, uid];
          rq = add_headers E rq (hs rq) in do {
        signature \<leftarrow> signature_header E c (r_base rq);
        Some (add_header E rq signature)
      })
   }"

definition send_default :: "env \<Rightarrow> (request \<Rightarrow> string list) \<Rightarrow> AtmosClient \<Rightarrow> handler" where
  "send_default E hs c st =
     (case st of (rq, rs) \<Rightarrow> do {
        rq \<leftarrow> outgoing E hs c rq;
        st \<leftarrow> transport E c None (rq, rs);
        parse_error_response E st
      })"

lemma default_chain_runs:
  assumes "content_headers_ok E hs"
  shows "the (run_chain c (default_chain E (transport E))) (rq, rs) = send_default E hs c (rq, rs)"
proof -
  have ch: "RestFilter_set_content_headers E c nxt (rq, rs) = call_next nxt (add_headers E rq (hs rq), rs)" for nxt rq rs
    using assms by (simp add: content_headers_ok_def)
  show ?thesis
    by (simp add: default_chain_def send_default_def outgoing_def parse_error.runs add_date.runs add_uid.runs sign_request.runs ch
        Let_def bind_map_option o_def bind_assoc)
qed

lemma execute_default:
  assumes "rest_chain_ok E" "content_headers_ok E hs"
  shows "execute E c [] (rq, rs) = send_default E hs c (rq, rs)"
  using execute_chain[OF assms(1)] default_chain_runs[OF assms(2)] by simp

section \<open>Nothing is sent unsigned\<close>

text \<open>
  A signed request: its last header is the signature over the verb, the URI and everything that
  was added before it.
\<close>

definition signed :: "env \<Rightarrow> AtmosClient \<Rightarrow> request \<Rightarrow> bool" where
  "signed E c rq \<longleftrightarrow> (\<exists>rq0 h. signature_header E c (r_base rq0) = Some h \<and> rq = add_header E rq0 h)"

lemma sign_filter_cong:
  assumes "\<And>rq rs. signed E c rq \<Longrightarrow> T (rq, rs) = T' (rq, rs)"
  shows "AtmosFilter_sign_request E c (Some T) = AtmosFilter_sign_request E c (Some T')"
proof
  fix st :: "request \<times> response"
  obtain rq rs where st: "st = (rq, rs)" by (cases st)
  show "AtmosFilter_sign_request E c (Some T) st = AtmosFilter_sign_request E c (Some T') st"
  proof (cases "signature_header E c (r_base rq)")
    case (Some h)
    then have "signed E c (add_header E rq h)" unfolding signed_def by blast
    then show ?thesis using Some assms by (simp add: st sign_request.runs)
  qed (simp add: st sign_request.runs)
qed

lemma run_chain_cong: "run_chain c gs = run_chain c gs' \<Longrightarrow> run_chain c (fs @ gs) = run_chain c (fs @ gs')"
  by (induction fs) simp_all

text \<open>
  C1: Nothing leaves the client unsigned, whatever the operation: take any chain that ends in the default filters
  and replace the transfer by one that behaves the same on signed requests and arbitrarily on all others;
  no run of the chain can tell the difference, so the transfer is never called with an unsigned request.
\<close>

theorem only_signed_requests_are_sent:
  assumes "rest_chain_ok E" "\<forall>rq rs. signed E c rq \<longrightarrow> T c None (rq, rs) = T' c None (rq, rs)"
  shows "run_chain c (fs @ butlast (AtmosClient_add_default_filters E c []) @ [T]) =
         run_chain c (fs @ butlast (AtmosClient_add_default_filters E c []) @ [T'])"
proof (rule run_chain_cong)
  have "AtmosFilter_sign_request E c (Some (T c None)) = AtmosFilter_sign_request E c (Some (T' c None))"
    by (rule sign_filter_cong) (use assms(2) in blast)
  then show "run_chain c (butlast (AtmosClient_add_default_filters E c []) @ [T]) =
      run_chain c (butlast (AtmosClient_add_default_filters E c []) @ [T'])"
    by (simp add: default_filters[OF assms(1)] default_chain_def)
qed

theorem only_signed_requests_are_sent_witness:
  "run_chain sample_client (butlast (AtmosClient_add_default_filters list_env sample_client []) @ [\<lambda>c nxt st. None]) =
   run_chain sample_client (butlast (AtmosClient_add_default_filters list_env sample_client []) @
     [\<lambda>c nxt (rq, rs). if req_headers rq = [] then Some (rq, rs) else None])"
proof -
  have "\<forall>rq rs. signed list_env sample_client rq \<longrightarrow> None = (if req_headers rq = [] then Some (rq, rs) else None)"
    by (auto simp: signed_def add_header_ok)
  then show ?thesis
    using only_signed_requests_are_sent[OF rest_chain_ok_list_env, of sample_client "\<lambda>c nxt st. None"
      "\<lambda>c nxt (rq, rs). if req_headers rq = [] then Some (rq, rs) else None" "[]"] by simp
qed

section \<open>Operations as preparation, transfer and reading the answer\<close>

lemma call_run_chain: "fs \<noteq> [] \<Longrightarrow> call_next (run_chain c fs) st = the (run_chain c fs) st"
  by (cases fs) simp_all

lemma default_chain_Cons: "default_chain E T \<noteq> []" by (simp add: default_chain_def)

lemma call_default:
  "content_headers_ok E hs \<Longrightarrow> call_next (run_chain c (default_chain E (transport E))) (rq, rs) = send_default E hs c (rq, rs)"
  by (simp add: call_run_chain[OF default_chain_Cons] default_chain_runs)

text \<open>An operation whose own filters are all of this kind.\<close>

lemma execute_halves:
  assumes "rest_chain_ok E" "content_headers_ok E hs" "\<forall>x \<in> set xs. halves_of x"
  shows "execute E c (map fst xs) (rq, rs) = do {
     rq' \<leftarrow> foldM (\<lambda>rq x. fst (snd x) c rq) rq (rev xs);
     st \<leftarrow> send_default E hs c (rq', rs);
     foldM (\<lambda>st fin. fin st) st (map (snd \<circ> snd) xs) }"
proof -
  have "execute E c (map fst xs) (rq, rs) = call_next (run_chain c (map fst (rev xs) @ default_chain E (transport E))) (rq, rs)"
    by (simp add: execute_chain[OF assms(1)] call_run_chain default_chain_Cons rev_map)
  then show ?thesis using run_halves[of "rev xs"] assms(3) by (simp add: call_default[OF assms(2)] rev_map)
qed

text \<open>The transfer, with the callback that feeds the checksum of the request.\<close>

lemma transport_sends:
  assumes "transfers E c rq rs base body blocks"
  shows "transport E c nxt (rq, rs) = map_option (\<lambda>rq'. (rq', rs\<lparr>s_base := base\<rparr>))
     (feed_blocks (call_file_filter E) (upd_base (\<lambda>b. b\<lparr>rq_body := body\<rparr>) rq) blocks)"
  using assms by (simp add: transfers_def)

section \<open>Requests always go out\<close>

text \<open>A header line as the code makes them: a C string with a colon.\<close>

definition good_line :: "string \<Rightarrow> bool" where
  "good_line h \<longleftrightarrow> cstring h \<and> CHR '':'' \<in> set h"

definition transfers_always :: "env \<Rightarrow> bool" where
  "transfers_always E \<longleftrightarrow> (\<forall>c rq rs. \<exists>base body blocks. transfers E c rq rs base body blocks)"

text \<open>What the REST library is relied on for, with \<open>hs\<close> the headers its content filter adds.\<close>

definition rest_library_ok :: "env \<Rightarrow> (request \<Rightarrow> string list) \<Rightarrow> bool" where
  "rest_library_ok E hs \<longleftrightarrow> rest_client_ok E \<and> rest_chain_ok E \<and> request_lookup_ok E \<and> content_headers_ok E hs \<and>
     transfers_always E \<and> (\<forall>rq. \<forall>h \<in> set (hs rq). good_line h) \<and>
     cstring (HTTP_HEADER_DATE E) \<and> length (HTTP_HEADER_DATE E) < 200"

lemma rest_library_okD:
  assumes "rest_library_ok E hs"
  shows "rest_client_ok E" "rest_chain_ok E" "request_lookup_ok E" "content_headers_ok E hs" "transfers_always E"
    "h \<in> set (hs rq) \<Longrightarrow> good_line h" "cstring (HTTP_HEADER_DATE E)" "length (HTTP_HEADER_DATE E) < 200"
  using assms by (auto simp: rest_library_ok_def)

text \<open>A client that \<open>AtmosClient_init\<close> has set up with a user and a secret that fit, and a time of a 64-bit \<open>time_t\<close>.\<close>

definition client_ok :: "env \<Rightarrow> AtmosClient \<Rightarrow> bool" where
  "client_ok E c \<longleftrightarrow> c_str (cl_uid c) \<noteq> None \<and> c_str (cl_secret c) \<noteq> None \<and> \<bar>time_now E\<bar> < 2 ^ 63"

lemma good_line_snprintf:
  assumes "cstring name" "cstring v" "length name < n - 1"
  shows "good_line (snprintf_text n (name @ CHR '':'' # v))"
proof -
  have "CHR '':'' \<in> set (take (n - 1) (name @ CHR '':'' # v))" using assms(3) by (cases "n - 1 - length name") auto
  then show ?thesis using assms(1,2) by (simp add: good_line_def snprintf_text_def cstring_take del: take_append)
qed

lemma signable_requestI:
  assumes "request_lookup_ok E" "cstring (rq_uri r)" "\<forall>h \<in> set (rq_headers r). good_line h"
  shows "signable E r"
  using assms cstring_lookup_header[of "rq_headers r"] by (auto simp: signable_def request_lookup_ok_def good_line_def)

lemma signature_header_text:
  assumes "mem_ok E" "base64_ok E" "c_str (cl_secret c) = Some secret" "signable E r"
  shows "signature_header E c r =
     Some (snprintf_text ATMOS_SIMPLE_HEADER_MAX (ATMOS_HEADER_SIGNATURE @ '':'' @ signature_text E secret (canonical_string E r)))"
proof -
  obtain hash where hash: "AtmosClient_canonicalize_request E c r = Some hash" "hstring_text hash = Some (canonical_string E r)"
    using canonicalize_string[OF assms(1,4)] by blast
  obtain b where "AtmosClient_sign E c (canonical_string E r) = Some (Some b)"
      "c_str b = Some (signature_text E secret (canonical_string E r))"
    using sign_text[OF assms(1-3)] by blast
  then show ?thesis using hash by (simp add: signature_header_def AtmosClient_sign_request_def)
qed

definition date_line :: "env \<Rightarrow> string" where
  "date_line E = snprintf_text ATMOS_SIMPLE_HEADER_MAX
     (HTTP_HEADER_DATE E @ '':'' @ strftime_http (weekday (time_now E)) (gmtime (time_now E)))"

lemma date_header_text: "\<bar>time_now E\<bar> < 2 ^ 63 \<Longrightarrow> date_header E = Some (date_line E)"
  using get_date_text[of E "replicate ATMOS_SIMPLE_HEADER_MAX (junk E)"]
  by (auto simp: date_header_def date_line_def bind_eq_Some_conv)

text \<open>The headers of a request when it is signed, and the signature.\<close>

definition unsigned_form :: "env \<Rightarrow> (request \<Rightarrow> string list) \<Rightarrow> string \<Rightarrow> request \<Rightarrow> request" where
  "unsigned_form E hs uid rq =
     (let rq = add_headers E rq [date_line E, snprintf_text ATMOS_SIMPLE_HEADER_MAX (ATMOS_HEADER_UID @ '':'' @ uid)]
      in add_headers E rq (hs rq))"

lemma unsigned_form_simps:
  assumes "rest_client_ok E"
  shows "r_sub (unsigned_form E hs uid rq) = r_sub rq" "rq_uri (r_base (unsigned_form E hs uid rq)) = rq_uri (r_base rq)"
    "rq_method (r_base (unsigned_form E hs uid rq)) = rq_method (r_base rq)"
    "rq_file_filter (r_base (unsigned_form E hs uid rq)) = rq_file_filter (r_base rq)"
    "rq_body (r_base (unsigned_form E hs uid rq)) = rq_body (r_base rq)"
  using assms by (simp_all add: unsigned_form_def Let_def req_headers_add_headers add_header_ok)

lemma outgoing_sends:
  assumes "mem_ok E" "base64_ok E" "rest_library_ok E hs" "\<bar>time_now E\<bar> < 2 ^ 63"
    "c_str (cl_uid c) = Some uid" "c_str (cl_secret c) = Some secret"
    "cstring (rq_uri (r_base rq))" "\<forall>h \<in> set (req_headers rq). good_line h"
  shows "outgoing E hs c rq = Some (add_header E (unsigned_form E hs uid rq)
     (snprintf_text ATMOS_SIMPLE_HEADER_MAX
       (ATMOS_HEADER_SIGNATURE @ '':'' @ signature_text E secret (canonical_string E (r_base (unsigned_form E hs uid rq))))))"
proof -
  note lib = rest_library_okD[OF assms(3)]
  let ?u = "snprintf_text ATMOS_SIMPLE_HEADER_MAX (ATMOS_HEADER_UID @ '':'' @ uid)"
  have "good_line (date_line E)" unfolding date_line_def append_Cons append_Nil
    by (rule good_line_snprintf[OF lib(7) cstring_http_date]) (use lib(8) in simp)
  moreover have "good_line ?u" using good_line_snprintf[of ATMOS_HEADER_UID uid ATMOS_SIMPLE_HEADER_MAX] c_str_cstring[OF assms(5)]
    by (simp add: literals)
  ultimately have "\<forall>h \<in> set (req_headers (unsigned_form E hs uid rq)). good_line h"
    using assms(8) lib(6) by (auto simp: unsigned_form_def Let_def req_headers_add_headers[OF lib(1)] add_header_ok[OF lib(1)])
  then have "signable E (r_base (unsigned_form E hs uid rq))"
    by (intro signable_requestI[OF lib(3)]) (simp_all add: unsigned_form_simps[OF lib(1)] assms(7))
  note sig = signature_header_text[OF assms(1,2,6) this]
  have "uid_header c = Some ?u" using assms(5) by (simp add: uid_header_def)
  then show ?thesis using date_header_text[OF assms(4)] sig by (simp add: outgoing_def unsigned_form_def Let_def)
qed

lemma client_init_secrets:
  assumes "AtmosClient_init E endpoint port uid secret = Some c"
    "cstring uid" "length uid < ATMOS_UID_MAX" "cstring secret" "length secret < ATMOS_SECRET_MAX"
  shows "c_str (cl_uid c) = Some uid" "c_str (cl_secret c) = Some secret"
proof -
  obtain u s where us: "strncpy (zeros ATMOS_UID_MAX) uid 255 = Some u" "strncpy (zeros ATMOS_SECRET_MAX) secret 64 = Some s"
    and c: "cl_uid c = u" "cl_secret c = s"
    using assms(1) by (cases "RestClient_init E endpoint port") (auto simp: AtmosClient_init_def bind_eq_Some_conv)
  show "c_str (cl_uid c) = Some uid" using strncpy_c_str[OF assms(2) _ us(1)] assms(3) c by simp
  show "c_str (cl_secret c) = Some secret" using strncpy_c_str[OF assms(4) _ us(2)] assms(5) c by simp
qed

lemma rest_request_simps:
  assumes "rest_client_ok E"
  shows "rq_uri (r_base (rest_request E uri m)) = uri" "rq_method (r_base (rest_request E uri m)) = m"
    "req_headers (rest_request E uri m) = []" "rq_body (r_base (rest_request E uri m)) = None"
    "rq_file_filter (r_base (rest_request E uri m)) = None" "r_sub (rest_request E uri m) = Rest_request"
  using assms by (simp_all add: rest_request_def rest_init)

text \<open>A request of the client's own without filters of its own and with a verb whose errors have no document.\<close>

lemma plain_delete_returns:
  assumes "mem_ok E" "base64_ok E" "rest_library_ok E hs" "\<bar>time_now E\<bar> < 2 ^ 63"
    "c_str (cl_uid c) = Some uid" "c_str (cl_secret c) = Some secret"
    "cstring (rq_uri (r_base rq))" "\<forall>h \<in> set (req_headers rq). good_line h"
    "rq_method (r_base rq) = HTTP_DELETE" "rq_file_filter (r_base rq) = None"
  shows "\<exists>sent base body blocks. execute_plain E c [] rq rs = Some (rs\<lparr>s_base := base\<rparr>) \<and>
     transfers E c sent rs base body blocks \<and> signed E c sent \<and>
     rq_uri (r_base sent) = rq_uri (r_base rq) \<and> rq_method (r_base sent) = HTTP_DELETE \<and> prefix (req_headers rq) (req_headers sent)"
proof -
  note lib = rest_library_okD[OF assms(3)]
  obtain sent where sent: "outgoing E hs c rq = Some sent" using outgoing_sends[OF assms(1-8)] by blast
  then have "signed E c sent" by (auto simp: outgoing_def signed_def bind_eq_Some_conv Let_def)
  moreover have f: "rq_uri (r_base sent) = rq_uri (r_base rq)" "rq_method (r_base sent) = HTTP_DELETE" "rq_file_filter (r_base sent) = None"
    "prefix (req_headers rq) (req_headers sent)"
    using sent assms(9,10) unfolding outgoing_sends[OF assms(1-8)]
    by (auto simp: unsigned_form_simps[OF lib(1)] add_header_ok[OF lib(1)] unsigned_form_def Let_def req_headers_add_headers[OF lib(1)])
  moreover obtain base body blocks where t: "transfers E c sent rs base body blocks"
    using lib(5) unfolding transfers_always_def by blast
  moreover have "execute_plain E c [] rq rs = Some (rs\<lparr>s_base := base\<rparr>)"
    using f by (simp add: execute_plain_def execute_default[OF lib(2,4)] send_default_def sent transport_sends[OF t]
        feed_blocks_def parse_error_response_def)
  ultimately show ?thesis by blast
qed

text \<open>
  C24: Deleting always comes to an end with an answer: for a client made by \<open>AtmosClient_init\<close> from a user and a
  secret that fit their arrays, every operation that deletes an object (by ID, by path or by a key in a pool), a version or a token
  builds the request for its URI, signs it, sends it and returns the server's answer in the caller's response, for identifiers of any
  length; a request for an object in a pool names the pool in its header.
\<close>

theorem delete_operations_return:
  assumes "mem_ok E" "base64_ok E" "rest_library_ok E hs" "\<bar>time_now E\<bar> < 2 ^ 63"
    and "AtmosClient_init E endpoint port uid secret = Some c"
    and "cstring uid" "length uid < ATMOS_UID_MAX" "cstring secret" "length secret < ATMOS_SECRET_MAX" "cstring i" "cstring pool"
    and "(operation, uri, headers) \<in> {(AtmosClient_delete_object E c i, snprintf_text ATMOS_PATH_MAX (''/rest/objects/'' @ i), []),
      (AtmosClient_delete_object_ns E c i, snprintf_text (ATMOS_PATH_MAX + 16) (''/rest/namespace'' @ i), []),
      (AtmosClient_delete_object_keypool E c pool i, snprintf_text (ATMOS_PATH_MAX + 16) (''/rest/namespace/'' @ i),
         [snprintf_text ATMOS_PATH_MAX (''x-emc-pool: '' @ pool)]),
      (AtmosClient_delete_version E c i, snprintf_text ATMOS_PATH_MAX (''/rest/objects/'' @ i @ ''?versions''), []),
      (AtmosClient_delete_access_token E c i, snprintf_text ATMOS_PATH_MAX (''/rest/accesstokens/'' @ i), [])}"
  shows "\<exists>sent base body blocks. operation rs = Some (rs\<lparr>s_base := base\<rparr>) \<and>
     transfers E c sent rs base body blocks \<and> signed E c sent \<and>
     rq_uri (r_base sent) = uri \<and> rq_method (r_base sent) = HTTP_DELETE \<and> prefix headers (req_headers sent)"
proof -
  note lib = rest_library_okD[OF assms(3)]
  obtain rq where rq: "operation rs = execute_plain E c [] rq rs" "rq_uri (r_base rq) = uri" "req_headers rq = headers"
    "rq_method (r_base rq) = HTTP_DELETE" "rq_file_filter (r_base rq) = None"
    using assms(12) by (auto simp: AtmosClient_delete_object_def AtmosClient_delete_object_ns_def AtmosClient_delete_version_def
        AtmosClient_delete_object_keypool_def AtmosClient_delete_access_token_def token_request_def rest_request_simps[OF lib(1)]
        add_header_ok[OF lib(1)] pool_header_def literals)
  moreover have "cstring uri" using assms(10,12) by (auto simp: snprintf_text_def intro!: cstring_take)
  moreover have "\<forall>h \<in> set headers. good_line h"
    using assms(12) good_line_snprintf[of "''x-emc-pool''" "CHR '' '' # pool" ATMOS_PATH_MAX] assms(11) by auto
  ultimately show ?thesis
    using plain_delete_returns[OF assms(1-4) client_init_secrets[OF assms(5-9)], of rq rs] by (simp add: rq(1))
qed

lemma rest_library_ok_list_env: "rest_library_ok list_env (\<lambda>rq. [])"
proof -
  have "transfers_always list_env" unfolding transfers_always_def using transfers_list_env by blast
  then show ?thesis by (simp add: rest_library_ok_def content_headers_ok_list_env) (simp add: list_env_def)
qed

theorem delete_operations_return_witness:
  "\<exists>c sent base body blocks. AtmosClient_init list_env ''http://host'' 80 ''user'' ''secret'' = Some c \<and>
     AtmosClient_delete_object_keypool list_env c ''pool1'' ''a/b'' (AtmosResponse_init list_env Plain_response) =
       Some ((AtmosResponse_init list_env Plain_response)\<lparr>s_base := base\<rparr>) \<and>
     transfers list_env c sent (AtmosResponse_init list_env Plain_response) base body blocks \<and>
     rq_uri (r_base sent) = ''/rest/namespace/a/b'' \<and> prefix [''x-emc-pool: pool1''] (req_headers sent)"
proof -
  have "\<bar>time_now list_env\<bar> < 2 ^ 63" by (simp add: list_env_def)
  moreover obtain c where c: "AtmosClient_init list_env ''http://host'' 80 ''user'' ''secret'' = Some c"
    by (cases "RestClient_init list_env ''http://host'' 80") (simp add: AtmosClient_init_def strncpy_def buf_write_def)
  moreover have "snprintf_text (ATMOS_PATH_MAX + 16) (''/rest/namespace/'' @ ''a/b'') = ''/rest/namespace/a/b''"
    "snprintf_text ATMOS_PATH_MAX (''x-emc-pool: '' @ ''pool1'') = ''x-emc-pool: pool1''"
    by (simp_all add: snprintf_text_id)
  ultimately show ?thesis
    using delete_operations_return[OF mem_ok_list_env base64_ok_list_env rest_library_ok_list_env _ c, of "''a/b''" "''pool1''"
        "AtmosClient_delete_object_keypool list_env c ''pool1'' ''a/b''" "''/rest/namespace/a/b''" "[''x-emc-pool: pool1'']"
        "AtmosResponse_init list_env Plain_response"]
    by fastforce
qed

section \<open>Operations that fail\<close>

lemma set_value_cases:
  assumes "set_value v f s = Some s'"
  shows "s' = s \<or> (\<exists>x. f x s = Some s')"
  using assms by (auto simp: set_value_def bind_eq_Some_conv split: option.splits)

lemma sub_of_upd_atmos: "upd_atmos f rs = Some rs' \<Longrightarrow> sub_of rs' = sub_of rs \<and> s_base rs' = s_base rs"
  by (auto simp: upd_atmos_def sub_of_def bind_eq_Some_conv split: option.splits)

lemma parse_error_document_keeps:
  assumes "parse_error_document E root rs = Some rs'"
  shows "sub_of rs' = sub_of rs \<and> s_base rs' = s_base rs"
  using assms sub_of_upd_atmos unfolding parse_error_document_def
  by (auto simp: bind_eq_Some_conv split: if_splits dest!: set_value_cases)

lemma error_document_code: "error_document E base = Some (doc, base') \<Longrightarrow> http_code base' = http_code base"
  by (auto simp: error_document_def Let_def bind_eq_Some_conv split: option.splits prod.splits)

lemma parse_error_keeps:
  assumes "parse_error_response E (rq, rs) = Some (rq', rs')"
  shows "rq' = rq \<and> sub_of rs' = sub_of rs \<and> http_code (s_base rs') = http_code (s_base rs)"
  using assms error_document_code parse_error_document_keeps
  by (fastforce simp: parse_error_response_def Let_def bind_eq_Some_conv sub_of_def split: if_splits option.splits)

lemma send_default_keeps:
  assumes "transfers_always E" "send_default E hs c (rq, rs) = Some (rq', rs')"
  shows "sub_of rs' = sub_of rs"
proof -
  obtain sent st where s: "transport E c None (sent, rs) = Some st" "parse_error_response E st = Some (rq', rs')"
    using assms(2) by (auto simp: send_default_def bind_eq_Some_conv)
  obtain base body blocks where "transfers E c sent rs base body blocks" using assms(1) unfolding transfers_always_def by blast
  then obtain rq1 where "st = (rq1, rs\<lparr>s_base := base\<rparr>)" using s(1) by (auto simp: transport_sends)
  then show ?thesis using parse_error_keeps[of E rq1 "rs\<lparr>s_base := base\<rparr>"] s(2) by (simp add: sub_of_def)
qed

lemma execute_failure:
  assumes "rest_chain_ok E" "content_headers_ok E hs" "transfers_always E"
    and "\<forall>x \<in> set xs. halves_of x \<and> reads_success (snd (snd x))"
    and "execute E c (map fst xs) (rq, rs) = Some (rq', rs')" "299 < http_code (s_base rs')"
  shows "sub_of rs' = sub_of rs"
proof -
  obtain rq1 rq2 rs2 where s: "send_default E hs c (rq1, rs) = Some (rq2, rs2)"
    "foldM (\<lambda>st fin. fin st) (rq2, rs2) (map (snd \<circ> snd) xs) = Some (rq', rs')"
    using assms(4,5) by (auto simp: execute_halves[OF assms(1,2)] bind_eq_Some_conv)
  have "rs' = rs2" using foldM_reads_success[OF _ s(2)] assms(4,6) by auto
  then show ?thesis using send_default_keeps[OF assms(3) s(1)] by simp
qed

text \<open>An operation all of whose filters prepare the request and read the answer to a success.\<close>

definition reading_operation :: "env \<Rightarrow> (AtmosClient \<Rightarrow> handler) \<Rightarrow> bool" where
  "reading_operation E operation \<longleftrightarrow> (\<exists>xs. (\<forall>c st. operation c st = execute E c (map fst xs) st) \<and>
     (\<forall>x \<in> set xs. halves_of x \<and> reads_success (snd (snd x))))"

lemma reading_operationI:
  "(\<And>c st. operation c st = execute E c (map fst xs) st) \<Longrightarrow> \<forall>x \<in> set xs. halves_of x \<and> reads_success (snd (snd x)) \<Longrightarrow>
   reading_operation E operation"
  unfolding reading_operation_def by blast

lemma reading_operations:
  "reading_operation E (AtmosClient_read_object E)"
  "reading_operation E (AtmosClient_get_user_meta E)"
  "reading_operation E (AtmosClient_get_system_meta E)"
  "reading_operation E (AtmosClient_list_directory E)"
  "reading_operation E (AtmosClient_list_objects E)"
  "reading_operation E (AtmosClient_list_versions E)"
  "reading_operation E (AtmosClient_get_listable_tags E)"
  "reading_operation E (AtmosClient_list_access_tokens E)"
proof -
  let ?page = "(AtmosFilter_set_pagination_headers E, \<lambda>c. pagination_prepare E, Some)"
  let ?parse = "(AtmosFilter_parse_read_object_response E, \<lambda>c. Some, on_success (read_sub E))"
  show "reading_operation E (AtmosClient_read_object E)"
    by (rule reading_operationI[of _ E "[(AtmosFilter_set_read_object_headers E, read_prepare E, Some), ?parse]"])
      (auto simp: AtmosClient_read_object_def)
  show "reading_operation E (AtmosClient_get_user_meta E)"
    by (rule reading_operationI[of _ E "[(AtmosFilter_set_get_user_meta_headers E, user_meta_prepare E, Some),
        (AtmosFilter_parse_get_user_meta_response E, \<lambda>c. Some, on_success (user_meta_answer E))]"])
      (auto simp: AtmosClient_get_user_meta_def)
  show "reading_operation E (AtmosClient_get_system_meta E)"
    by (rule reading_operationI[of _ E "[(AtmosFilter_get_system_metadata E, system_meta_prepare E, on_success (system_meta_answer E))]"])
      (auto simp: AtmosClient_get_system_meta_def)
  show "reading_operation E (AtmosClient_list_directory E)"
    by (rule reading_operationI[of _ E "[?parse, (AtmosFilter_list_directory E, list_directory_prepare E, on_success (directory_answer E)), ?page]"])
      (auto simp: AtmosClient_list_directory_def)
  show "reading_operation E (AtmosClient_list_objects E)"
    by (rule reading_operationI[of _ E "[(AtmosFilter_list_objects E, list_objects_prepare E, on_success (objects_answer E)), ?page]"])
      (auto simp: AtmosClient_list_objects_def)
  show "reading_operation E (AtmosClient_list_versions E)"
    by (rule reading_operationI[of _ E "[(AtmosFilter_list_versions E, \<lambda>c. Some, on_success (versions_answer E)), ?page]"])
      (auto simp: AtmosClient_list_versions_def)
  show "reading_operation E (AtmosClient_get_listable_tags E)"
    by (rule reading_operationI[of _ E "[?page, (AtmosFilter_get_listable_tags E, tags_prepare E, on_success (tags_answer E))]"])
      (auto simp: AtmosClient_get_listable_tags_def)
  show "reading_operation E (AtmosClient_list_access_tokens E)"
    by (rule reading_operationI[of _ E "[?page,
        (AtmosFilter_parse_list_access_tokens_response E, \<lambda>c. Some, on_success (token_list_answer E))]"])
      (auto simp: AtmosClient_list_access_tokens_def)
qed

text \<open>The operations that read something: with a request of the caller, with one of their own, and with a plain one.\<close>

definition reading_handlers :: "env \<Rightarrow> (AtmosClient \<Rightarrow> handler) set" where
  "reading_handlers E =
     {AtmosClient_read_object E, AtmosClient_get_user_meta E, AtmosClient_get_system_meta E,
      AtmosClient_list_directory E, AtmosClient_list_objects E, AtmosClient_list_versions E,
      AtmosClient_get_listable_tags E, AtmosClient_list_access_tokens E}"

definition simple_reads :: "env \<Rightarrow> AtmosClient \<Rightarrow> string \<Rightarrow> string \<Rightarrow> (response \<Rightarrow> response option) set" where
  "simple_reads E c i pool =
     {AtmosClient_read_object_simple E c i, AtmosClient_read_object_simple_ns E c i,
      AtmosClient_read_object_simple_keypool E c pool i,
      AtmosClient_head_object E c i, AtmosClient_head_object_ns E c i, AtmosClient_head_object_keypool E c pool i,
      AtmosClient_get_user_meta_simple E c i, AtmosClient_get_user_meta_simple_ns E c i, AtmosClient_get_user_meta_simple_keypool E c pool i,
      AtmosClient_get_system_meta_simple E c i, AtmosClient_get_system_meta_simple_ns E c i,
      AtmosClient_get_system_meta_simple_keypool E c pool i}"

definition plain_reads :: "env \<Rightarrow> AtmosClient \<Rightarrow> string \<Rightarrow> string \<Rightarrow> (response \<Rightarrow> response option) set" where
  "plain_reads E c i pool =
     {AtmosClient_get_acl E c i, AtmosClient_get_acl_ns E c i, AtmosClient_get_acl_keypool E c pool i,
      AtmosClient_get_object_info E c i, AtmosClient_get_object_info_ns E c i, AtmosClient_get_object_info_keypool E c pool i,
      AtmosClient_get_access_token_info E c i, AtmosClient_get_service_information E c}"

text \<open>
  What an operation with a request object of its own comes down to: a run of a reading chain on some request.
\<close>

definition reads_with :: "env \<Rightarrow> AtmosClient \<Rightarrow> response \<Rightarrow> response \<Rightarrow> bool" where
  "reads_with E c rs rs' \<longleftrightarrow> (\<exists>xs rq rq'. (\<forall>x \<in> set xs. halves_of x \<and> reads_success (snd (snd x))) \<and>
     execute E c (map fst xs) (rq, rs) = Some (rq', rs'))"

lemma reads_withI:
  "reading_operation E operation \<Longrightarrow> operation c (rq, rs) = Some (rq', rs') \<Longrightarrow> reads_with E c rs rs'"
  unfolding reading_operation_def reads_with_def by metis

lemma reads_with_request:
  assumes "reading_operation E operation" "with_request (operation c) destroy request rs = Some rs'"
  shows "reads_with E c rs rs'"
  using assms(2) reads_withI[OF assms(1)] by (auto simp: with_request_def bind_eq_Some_conv)

lemma reads_with_plain:
  assumes "execute_plain E c [flt] rq rs = Some rs'" "halves_of (flt, prepare, fin)" "reads_success fin"
  shows "reads_with E c rs rs'"
proof -
  obtain rq' where "execute E c (map fst [(flt, prepare, fin)]) (rq, rs) = Some (rq', rs')" using assms(1) by (auto simp: execute_plain_def)
  moreover have "\<forall>x \<in> set [(flt, prepare, fin)]. halves_of x \<and> reads_success (snd (snd x))" using assms(2,3) by simp
  ultimately show ?thesis unfolding reads_with_def by blast
qed

lemmas simple_reads_defs = AtmosClient_read_object_simple_def AtmosClient_read_object_simple_ns_def AtmosClient_read_object_simple_keypool_def
  AtmosClient_head_object_def AtmosClient_head_object_ns_def AtmosClient_head_object_keypool_def
  AtmosClient_get_user_meta_simple_def AtmosClient_get_user_meta_simple_ns_def AtmosClient_get_user_meta_simple_keypool_def
  AtmosClient_get_system_meta_simple_def AtmosClient_get_system_meta_simple_ns_def AtmosClient_get_system_meta_simple_keypool_def

lemma simple_reads_read:
  assumes "operation \<in> simple_reads E c i pool" "operation rs = Some rs'"
  shows "reads_with E c rs rs'"
  using assms reads_with_request[OF reading_operations(1), where c = c and rs = rs and rs' = rs'] reads_with_request[OF reading_operations(2), where c = c and rs = rs and rs' = rs']
    reads_with_request[OF reading_operations(3), where c = c and rs = rs and rs' = rs']
  unfolding simple_reads_def simple_reads_defs by auto

lemma plain_reads_read:
  assumes "operation \<in> plain_reads E c i pool" "operation rs = Some rs'"
  shows "reads_with E c rs rs'"
proof -
  obtain flt rq where "operation rs = execute_plain E c [flt] rq rs"
    "flt \<in> {AtmosFilter_parse_get_acl_response E, AtmosFilter_parse_get_info_response E, AtmosFilter_parse_get_token_info_response E,
       AtmosFilter_parse_service_info_response E}"
    using assms(1) by (auto simp: plain_reads_def AtmosClient_get_acl_def AtmosClient_get_acl_ns_def AtmosClient_get_acl_keypool_def
        AtmosClient_get_object_info_def AtmosClient_get_object_info_ns_def AtmosClient_get_object_info_keypool_def
        AtmosClient_get_access_token_info_def AtmosClient_get_service_information_def)
  then show ?thesis using assms(2) reads_with_plain[OF _ halves_of_filters(12)] reads_with_plain[OF _ halves_of_filters(13)]
    reads_with_plain[OF _ halves_of_filters(14)] reads_with_plain[OF _ halves_of_filters(15)] by auto
qed

text \<open>
  C23: When a request fails, the caller's result object is not touched: for every operation that reads an object, metadata, an ACL,
  a listing, or information about an object, a token or the service, in each of its forms (with a request of the caller, by object ID, by
  path, by a key in a pool; the content or only the head), an answer with a status above 299 leaves the response's own part
  (metadata, ACL, entries, tags, token, information) exactly as the caller passed it, whatever the server sent in headers and body.
\<close>

theorem failed_operation_keeps_response:
  assumes "rest_chain_ok E" "content_headers_ok E hs" "transfers_always E"
    and "(\<exists>operation rq rq'. operation \<in> reading_handlers E \<and> operation c (rq, rs) = Some (rq', rs')) \<or>
      (\<exists>operation i pool. operation \<in> simple_reads E c i pool \<union> plain_reads E c i pool \<and> operation rs = Some rs')"
    and "299 < http_code (s_base rs')"
  shows "sub_of rs' = sub_of rs"
proof -
  have "reads_with E c rs rs'" using assms(4)
  proof (elim disjE exE conjE)
    fix operation rq rq'
    assume o: "operation \<in> reading_handlers E" "operation c (rq, rs) = Some (rq', rs')"
    have "reading_operation E operation" using o(1) by (auto simp: reading_handlers_def intro: reading_operations)
    then show ?thesis using o(2) by (rule reads_withI)
  next
    fix operation i pool
    assume "operation \<in> simple_reads E c i pool \<union> plain_reads E c i pool" "operation rs = Some rs'"
    then show ?thesis by (elim UnE) (rule simple_reads_read plain_reads_read; assumption)+
  qed
  then show ?thesis using execute_failure[OF assms(1-3)] assms(5) unfolding reads_with_def by metis
qed

text \<open>A server that answers every request in the same way.\<close>

lemma feed_blocks_passing: "feed_blocks (\<lambda>ff rq b. Some (1, rq)) rq blocks = Some rq"
proof -
  have "foldM (\<lambda>rq b. map_option snd (Some (1 :: int, rq))) rq blocks = Some rq" for rq :: request
    by (induction blocks) simp_all
  then show ?thesis by (simp add: feed_blocks_def split: option.split)
qed

lemma transfers_base_unique:
  assumes "transfers E c rq rs base body blocks" "transfers E c rq rs base' body' blocks'"
  shows "base' = base"
proof -
  let ?cb = "\<lambda>ff rq b. Some (1 :: int, rq :: request)"
  have "Some (upd_base (\<lambda>b. b\<lparr>rq_body := body\<rparr>) rq, rs\<lparr>s_base := base\<rparr>) =
      Some (upd_base (\<lambda>b. b\<lparr>rq_body := body'\<rparr>) rq, rs\<lparr>s_base := base'\<rparr>)"
    using assms feed_blocks_passing unfolding transfers_def by (metis option.map(2))
  then show ?thesis by (cases rs) simp
qed

text \<open>A transfer that does not look at the request: it answers every one in the same way.\<close>

definition answering :: "(RestResponse \<Rightarrow> RestResponse) \<Rightarrow> env \<Rightarrow> env" where
  "answering f E = E\<lparr>RestFilter_execute_curl_request := \<lambda>cb c nxt (rq, rs).
     map_option (\<lambda>rq'. (rq', rs\<lparr>s_base := f (s_base rs)\<rparr>)) (feed_blocks cb (upd_base (\<lambda>b. b\<lparr>rq_body := rq_body b\<rparr>) rq) [])\<rparr>"

lemma transfers_answering: "transfers (answering f E) c rq rs (f (s_base rs)) (rq_body (r_base rq)) []"
  by (simp add: transfers_def answering_def upd_base_def)

lemma answering_base: "transfers (answering f E) c sent rs base body blocks \<Longrightarrow> base = f (s_base rs)"
  using transfers_base_unique[OF transfers_answering] by blast

lemma answering_ok [simp]:
  "mem_ok (answering f E) = mem_ok E" "base64_ok (answering f E) = base64_ok E" "client_ok (answering f E) c = client_ok E c"
  by (simp_all add: mem_ok_def base64_ok_def client_ok_def answering_def)

lemma add_headers_other_env [simp]:
  "add_headers (E\<lparr>xmlXPathEval := g\<rparr>) = add_headers E" "add_headers (answering f E) = add_headers E"
  by (simp_all add: fun_eq_iff add_headers_def add_header_def[abs_def] answering_def)

lemma answering_library_ok: "rest_library_ok E hs \<Longrightarrow> rest_library_ok (answering f E) hs"
proof -
  have "transfers_always (answering f E)" unfolding transfers_always_def using transfers_answering by blast
  then show "rest_library_ok E hs \<Longrightarrow> ?thesis"
    unfolding rest_library_ok_def rest_client_ok_def rest_chain_ok_def request_lookup_ok_def content_headers_ok_def add_headers_other_env
    by (simp add: answering_def)
qed

text \<open>No law of the REST library says anything about XML.\<close>

lemma xpath_env_ok [simp]:
  "mem_ok (E\<lparr>xmlXPathEval := f\<rparr>) = mem_ok E" "base64_ok (E\<lparr>xmlXPathEval := f\<rparr>) = base64_ok E"
  "client_ok (E\<lparr>xmlXPathEval := f\<rparr>) c = client_ok E c" "rest_library_ok (E\<lparr>xmlXPathEval := f\<rparr>) hs = rest_library_ok E hs"
  by (simp_all add: mem_ok_def base64_ok_def client_ok_def rest_library_ok_def rest_client_ok_def rest_chain_ok_def request_lookup_ok_def
      content_headers_ok_def transfers_always_def transfers_def)

lemma sample_client_ok: "client_ok list_env sample_client"
  by (simp add: client_ok_def sample_client_def) (simp add: list_env_def)

definition answering_env :: "int \<Rightarrow> string list \<Rightarrow> env" where
  "answering_env code lines = answering (\<lambda>b. b\<lparr>http_code := code, rs_headers := lines\<rparr>) list_env"

abbreviation failing_env :: env where
  "failing_env \<equiv> answering_env 404 []"

lemma transfers_answering_env:
  "transfers (answering_env code lines) c rq rs ((s_base rs)\<lparr>http_code := code, rs_headers := lines\<rparr>) (rq_body (r_base rq)) []"
  unfolding answering_env_def by (rule transfers_answering)

lemma answering_env_ok:
  "mem_ok (answering_env code lines)" "base64_ok (answering_env code lines)" "rest_library_ok (answering_env code lines) (\<lambda>rq. [])"
  "\<bar>time_now (answering_env code lines)\<bar> < 2 ^ 63"
  using mem_ok_list_env base64_ok_list_env answering_library_ok[OF rest_library_ok_list_env]
  by (simp_all add: answering_env_def) (simp add: answering_def list_env_def)

theorem failed_operation_keeps_response_witness:
  "\<exists>rq' rs'. AtmosClient_list_access_tokens failing_env sample_client
       (AtmosListAccessTokensRequest_init failing_env, AtmosListAccessTokensResponse_init failing_env) = Some (rq', rs') \<and>
     http_code (s_base rs') = 404 \<and> sub_of rs' = sub_of (AtmosListAccessTokensResponse_init failing_env)"
proof -
  let ?rq = "AtmosListAccessTokensRequest_init failing_env" and ?rs = "AtmosListAccessTokensResponse_init failing_env"
  note lib = rest_library_okD[OF answering_env_ok(3)[of 404 "[]"]]
  have rq: "pagination_prepare failing_env ?rq = Some ?rq" "cstring (rq_uri (r_base ?rq))" "\<forall>h \<in> set (req_headers ?rq). good_line h"
    "rq_file_filter (r_base ?rq) = None"
    by (simp_all add: AtmosListAccessTokensRequest_init_def set_class_def AtmosPaginatedRequest_init_def new_request_def
        rest_init[OF lib(1)] pagination_prepare_def zero_page_part_def)
  have c: "c_str (cl_uid sample_client) = Some ''u1''" "c_str (cl_secret sample_client) = Some ''secret''"
    by (simp_all add: sample_client_def)
  obtain sent where sent: "outgoing failing_env (\<lambda>rq. []) sample_client ?rq = Some sent" "rq_file_filter (r_base sent) = None"
    using outgoing_sends[OF answering_env_ok c rq(2,3)] rq(4) by (auto simp: unsigned_form_simps[OF lib(1)] add_header_ok[OF lib(1)])
  obtain rq' rs' where r: "AtmosClient_list_access_tokens failing_env sample_client (?rq, ?rs) = Some (rq', rs')"
      "http_code (s_base rs') = 404"
  proof -
    let ?base = "(s_base ?rs)\<lparr>http_code := 404, rs_headers := []\<rparr>"
    have "transport failing_env sample_client None (sent, ?rs) = Some (upd_base (\<lambda>b. b\<lparr>rq_body := rq_body (r_base sent)\<rparr>) sent, ?rs\<lparr>s_base := ?base\<rparr>)"
      by (simp add: transport_sends[OF transfers_answering_env] feed_blocks_def sent(2))
    moreover have "parse_error_response failing_env (rq, ?rs\<lparr>s_base := ?base\<rparr>) \<in> {Some (rq, ?rs\<lparr>s_base := ?base\<rparr>)}" for rq
      by (simp add: parse_error_response_def error_document_def xmlReadMemory_def to_int32_def answering_env_def answering_def list_env_def
          AtmosListAccessTokensResponse_init_def set_response_class_def AtmosResponse_init_def)
    ultimately have "send_default failing_env (\<lambda>rq. []) sample_client (?rq, ?rs) =
        Some (upd_base (\<lambda>b. b\<lparr>rq_body := rq_body (r_base sent)\<rparr>) sent, ?rs\<lparr>s_base := ?base\<rparr>)"
      by (simp add: send_default_def sent(1))
    then show thesis
      using that execute_halves[OF lib(2,4), of "[(AtmosFilter_set_pagination_headers failing_env, \<lambda>c. pagination_prepare failing_env, Some),
        (AtmosFilter_parse_list_access_tokens_response failing_env, \<lambda>c. Some, on_success (token_list_answer failing_env))]"
        sample_client ?rq ?rs] rq(1)
      by (simp add: AtmosClient_list_access_tokens_def on_success_def)
  qed
  then show ?thesis
    using failed_operation_keeps_response[OF lib(2,4,5), of sample_client ?rs rs'] r
    unfolding reading_handlers_def by fastforce
qed

end
