(* ===== verification/Create_Laws.thy ===== *)
theory Create_Laws
  imports Client_Laws
begin

text \<open>
  Creating objects, end to end: from the contents of a request over its headers, the signature
  and the transfer to the object ID in the caller's response, and the checksum of a file that is
  computed while it is sent.
\<close>

section \<open>The headers of a write request can be signed\<close>

lemma good_line_prefix: "cstring name \<Longrightarrow> cstring v \<Longrightarrow> good_line (name @ '': '' @ v)"
  by (simp add: good_line_def)

lemma good_metadata_lines:
  assumes "utf8 \<noteq> 0 \<longrightarrow> escape_total E" "\<forall>p \<in> set L. cstring (fst p) \<and> cstring (snd p)"
  shows "\<forall>h \<in> set (metadata_lines E utf8 listable L). good_line h"
proof -
  have esc: "cstring (the (curl_easy_escape E s))" if "cstring s" "utf8 \<noteq> 0" for s
    using assms(1) that unfolding escape_total_def by (metis option.sel)
  have "\<forall>s \<in> set (metadata_pieces E utf8 i p). cstring s" if "p \<in> set L" for i p
    using assms(2) that esc by (auto simp: metadata_pieces_def utf8_pieces_def plain_pieces_def)
  then have c: "cstring (concat (concat (map (\<lambda>(i, p). metadata_pieces E utf8 i p) (enumerate 0 L))))"
    by (auto simp: in_set_enumerate_eq dest!: nth_mem)
  have "good_line (metadata_header_line listable (metadata_pieces E utf8) L)"
    unfolding metadata_header_line_def by (rule good_line_prefix[OF _ c]) simp
  then show ?thesis by (simp add: metadata_lines_def)
qed

lemma cstring_join_with: "cstring sep \<Longrightarrow> \<forall>x \<in> set xs. cstring x \<Longrightarrow> cstring (join_with sep xs)"
  using set_join_with[of sep xs] by (auto simp: cdefs)

lemma cstring_acl_text: "cstring (fst e) \<Longrightarrow> cstring (acl_text e)"
  by (cases e) (simp add: acl_text_def)

lemma good_acl_lines:
  assumes "\<forall>e \<in> set L. cstring (fst e)"
  shows "\<forall>h \<in> set (acl_header_lines L). good_line h"
proof -
  have "good_line (acl_line name L')" if "cstring name" "set L' \<subseteq> set L" for name L'
    unfolding acl_line_def by (intro good_line_prefix cstring_join_with) (use assms that in \<open>auto intro!: cstring_acl_text\<close>)
  then show ?thesis by (auto simp: acl_header_lines_def acl_users_def acl_groups_def)
qed

lemma good_write_lines:
  assumes "utf8 \<noteq> 0 \<longrightarrow> escape_total E" "write_contents w M LM A"
  shows "\<forall>h \<in> set (write_lines E utf8 M LM A). good_line h"
proof -
  have "\<forall>p \<in> set M. cstring (fst p) \<and> cstring (snd p)" "\<forall>p \<in> set LM. cstring (fst p) \<and> cstring (snd p)"
    using assms(2) arr_holds_cstring unfolding write_contents_def by blast+
  note m = good_metadata_lines[OF assms(1) this(1)] good_metadata_lines[OF assms(1) this(2)]
  have "\<forall>e \<in> set A. cstring (fst e)"
    using assms(2) arr_holds_view unfolding write_contents_def acl_entry_view_def by (fastforce simp: bind_eq_Some_conv c_str_cstring)
  note a = good_acl_lines[OF this]
  have "good_line utf8_header" by (simp add: good_line_def utf8_header_def)
  then show ?thesis using m a by (auto simp: write_lines_def)
qed

section \<open>Creating an object\<close>

lemma create_object_chain:
  assumes "rest_chain_ok E" "content_headers_ok E hs"
  shows "AtmosClient_create_object E c (rq, rs) = AtmosFilter_set_write_headers E c
     (Some (\<lambda>st. do { st \<leftarrow> send_default E hs c st; create_finish E st })) (rq, rs)"
proof -
  have "AtmosFilter_parse_create_response E c (run_chain c (default_chain E (transport E))) =
      (\<lambda>st. do { st \<leftarrow> send_default E hs c st; create_finish E st })"
    by (rule ext) (simp add: parse_create.runs split_paired_all call_default[OF assms(2)])
  then show ?thesis by (simp add: AtmosClient_create_object_def execute_chain[OF assms(1)])
qed

text \<open>An answer that tells the ID of the new object.\<close>

definition created :: "env \<Rightarrow> RestResponse \<Rightarrow> string \<Rightarrow> bool" where
  "created E base oid \<longleftrightarrow> http_code base = 201 \<and>
     RestResponse_get_header_value E base (HTTP_HEADER_LOCATION E) = Some (''/rest/objects/'' @ oid)"

lemma create_finish_created:
  assumes "created E base oid" "cstring oid" "length oid < ATMOS_OID_LENGTH"
    "s_atmos rs = Some (a, CreateObject_response (zeros ATMOS_OID_LENGTH))"
  shows "\<exists>b. c_str b = Some oid \<and> (\<forall>rq. create_finish E (rq, rs\<lparr>s_base := base\<rparr>) =
     Some (rq, \<lparr>s_base = base, s_atmos = Some (a, CreateObject_response b)\<rparr>))"
  using store_location_oid[OF assms(2,3)] assms(1,4) by (cases rs) (auto simp: create_finish_def created_def)

text \<open>A prepared request goes out, the transfer feeds its checksum, and the answer is read.\<close>

lemma send_created:
  assumes "outgoing E hs c rq = Some sent" "transfers E c sent rs base body blocks"
    "feed_blocks (call_file_filter E) (upd_base (\<lambda>b. b\<lparr>rq_body := body\<rparr>) sent) blocks = Some rq'" "http_code base \<le> 399"
  shows "send_default E hs c (rq, rs) = Some (rq', rs\<lparr>s_base := base\<rparr>)"
  using assms by (simp add: send_default_def transport_sends parse_error_response_def)

definition requests_ok :: "env \<Rightarrow> request \<Rightarrow> bool" where
  "requests_ok E rq \<longleftrightarrow> cstring (rq_uri (r_base rq)) \<and> (\<forall>h \<in> set (req_headers rq). good_line h) \<and>
     rq_file_filter (r_base rq) = None \<and> cstring (HTTP_HEADER_CONTENT_TYPE E)"

lemma contents_good:
  assumes "rest_client_ok E" "requests_ok E rq" "cl_enable_utf8_metadata c \<noteq> 0 \<longrightarrow> escape_total E" "write_contents w M LM A"
  shows "cstring (rq_uri (r_base (contents_sent E c rq M LM A)))"
    "\<forall>h \<in> set (req_headers (contents_sent E c rq M LM A)). good_line h"
    "rq_file_filter (r_base (contents_sent E c rq M LM A)) = None"
    "rq_body (r_base (contents_sent E c rq M LM A)) = rq_body (r_base rq)"
proof -
  have "\<forall>h \<in> set (body_type_lines E rq). good_line h"
    using assms(2) by (simp add: body_type_lines_def content_type_header_def requests_ok_def good_line_def)
  then show "\<forall>h \<in> set (req_headers (contents_sent E c rq M LM A)). good_line h"
    using good_write_lines[OF assms(3,4)] assms(2) by (auto simp: req_headers_add_headers[OF assms(1)] requests_ok_def)
qed (use assms(2) in \<open>simp_all add: req_headers_add_headers[OF assms(1)] requests_ok_def\<close>)

lemma outgoing_fields:
  assumes "rest_client_ok E" "outgoing E hs c rq = Some sent"
  shows "r_sub sent = r_sub rq" "rq_file_filter (r_base sent) = rq_file_filter (r_base rq)" "rq_body (r_base sent) = rq_body (r_base rq)"
    "signed E c sent" "prefix (req_headers rq) (req_headers sent)"
proof -
  obtain d u s where 1: "sent = add_header E (add_headers E (add_headers E rq [d, u]) (hs (add_headers E rq [d, u]))) s"
    "signature_header E c (r_base (add_headers E (add_headers E rq [d, u]) (hs (add_headers E rq [d, u])))) = Some s"
    using assms(2) by (auto simp: outgoing_def bind_eq_Some_conv Let_def)
  then show "signed E c sent" unfolding signed_def by blast
qed (use assms(2) in \<open>auto simp: outgoing_def bind_eq_Some_conv Let_def add_header_ok[OF assms(1)] req_headers_add_headers[OF assms(1)]\<close>)

text \<open>A request that can be signed.\<close>

definition sendable :: "request \<Rightarrow> bool" where
  "sendable rq \<longleftrightarrow> cstring (rq_uri (r_base rq)) \<and> (\<forall>h \<in> set (req_headers rq). good_line h) \<and> rq_file_filter (r_base rq) = None"

lemma sendableD:
  assumes "sendable rq"
  shows "cstring (rq_uri (r_base rq))" "\<forall>h \<in> set (req_headers rq). good_line h" "rq_file_filter (r_base rq) = None"
  using assms by (simp_all add: sendable_def)

lemma sendable_add_header: "rest_client_ok E \<Longrightarrow> sendable rq \<Longrightarrow> good_line h \<Longrightarrow> sendable (add_header E rq h)"
  by (auto simp: sendable_def add_header_ok)

text \<open>
  The transfer was given a signed request, this was the answer to it, and \<open>rq\<close> is what the transfer left of the request: all but
  its body as it was sent.
\<close>

definition answers_signed :: "env \<Rightarrow> AtmosClient \<Rightarrow> request \<Rightarrow> response \<Rightarrow> RestResponse \<Rightarrow> bool" where
  "answers_signed E c rq rs base \<longleftrightarrow> (\<exists>sent body blocks. signed E c sent \<and> transfers E c sent rs base body blocks \<and>
     rq = upd_base (\<lambda>b. b\<lparr>rq_body := body\<rparr>) sent)"

text \<open>
  An operation whose own filters all have two halves, on a request that can be signed: it is sent, and
  the second halves get the server's answer.
\<close>

lemma execute_answered:
  assumes "mem_ok E" "base64_ok E" "rest_library_ok E hs" "client_ok E c" "\<forall>x \<in> set xs. halves_of x"
    and "foldM (\<lambda>rq x. fst (snd x) c rq) rq (rev xs) = Some rq1" "sendable rq1"
    and "\<forall>sent base body blocks. transfers E c sent rs base body blocks \<longrightarrow> http_code base = 200 \<and> answered base"
  shows "\<exists>rq' base. http_code base = 200 \<and> answered base \<and>
     execute E c (map fst xs) (rq, rs) = foldM (\<lambda>st fin. fin st) (rq', rs\<lparr>s_base := base\<rparr>) (map (snd \<circ> snd) xs) \<and>
     answers_signed E c rq' rs base"
proof -
  note lib = rest_library_okD[OF assms(3)]
  obtain uid secret where c: "c_str (cl_uid c) = Some uid" "c_str (cl_secret c) = Some secret" and t: "\<bar>time_now E\<bar> < 2 ^ 63"
    using assms(4) by (auto simp: client_ok_def)
  obtain sent where sent: "outgoing E hs c rq1 = Some sent" using outgoing_sends[OF assms(1-3) t c sendableD(1,2)[OF assms(7)]] by blast
  obtain base body blocks where tr: "transfers E c sent rs base body blocks"
    using lib(5) unfolding transfers_always_def by blast
  then have base: "http_code base = 200" "answered base" using assms(8) by blast+
  have "send_default E hs c (rq1, rs) = Some (upd_base (\<lambda>b. b\<lparr>rq_body := body\<rparr>) sent, rs\<lparr>s_base := base\<rparr>)"
    by (rule send_created[OF sent tr])
      (use outgoing_fields(2)[OF lib(1) sent] sendableD(3)[OF assms(7)] base(1) in \<open>simp_all add: feed_blocks_def\<close>)
  moreover have "answers_signed E c (upd_base (\<lambda>b. b\<lparr>rq_body := body\<rparr>) sent) rs base"
    using outgoing_fields(4)[OF lib(1) sent] tr unfolding answers_signed_def by blast
  ultimately show ?thesis using execute_halves[OF lib(2,4) assms(5), of c rq rs] assms(6) base
    by (intro exI[of _ "upd_base (\<lambda>b. b\<lparr>rq_body := body\<rparr>) sent"] exI[of _ base]) simp
qed

text \<open>
  C2: Creating an object works end to end: the request goes out signed, with the header lines of its metadata and ACL
  among its headers; and when the server answers 201 with a location, the caller's response holds the new
  object's ID as a C string, next to the server's answer, and no error.
\<close>

theorem create_object_returns_oid:
  assumes "mem_ok E" "base64_ok E" "rest_library_ok E hs" "client_ok E c" "cl_enable_utf8_metadata c \<noteq> 0 \<longrightarrow> escape_total E"
    and "r_sub rq = Write_request w (Create_sub cr)" "write_contents w M LM A" "w_checksum w = None" "requests_ok E rq"
    and "s_atmos rs = Some (a, CreateObject_response (zeros ATMOS_OID_LENGTH))"
    and "\<forall>sent base body blocks. transfers E c sent rs base body blocks \<longrightarrow> created E base oid"
    and "cstring oid" "length oid < ATMOS_OID_LENGTH"
  shows "\<exists>sent base body blocks b.
     AtmosClient_create_object E c (rq, rs) =
       Some (upd_base (\<lambda>b. b\<lparr>rq_body := body\<rparr>) sent, \<lparr>s_base = base, s_atmos = Some (a, CreateObject_response b)\<rparr>) \<and>
     transfers E c sent rs base body blocks \<and> signed E c sent \<and> r_sub sent = r_sub rq \<and>
     set (write_lines E (cl_enable_utf8_metadata c) M LM A) \<subseteq> set (req_headers sent) \<and> c_str b = Some oid"
proof -
  note lib = rest_library_okD[OF assms(3)]
  let ?rq = "contents_sent E c rq M LM A"
  obtain uid secret where c: "c_str (cl_uid c) = Some uid" "c_str (cl_secret c) = Some secret" and t: "\<bar>time_now E\<bar> < 2 ^ 63"
    using assms(4) by (auto simp: client_ok_def)
  note g = contents_good[OF lib(1) assms(9,5,7)]
  obtain sent where sent: "outgoing E hs c ?rq = Some sent" using outgoing_sends[OF assms(1-3) t c g(1,2)] by blast
  note f = outgoing_fields[OF lib(1) sent]
  obtain base body blocks where tr: "transfers E c sent rs base body blocks"
    using lib(5) unfolding transfers_always_def by blast
  then have cr: "created E base oid" using assms(11) by blast
  have "send_default E hs c (?rq, rs) = Some (upd_base (\<lambda>b. b\<lparr>rq_body := body\<rparr>) sent, rs\<lparr>s_base := base\<rparr>)"
    by (rule send_created[OF sent tr]) (use cr f(2) g(3) in \<open>simp_all add: feed_blocks_def created_def\<close>)
  moreover obtain b where b: "c_str b = Some oid" "\<forall>rq. create_finish E (rq, rs\<lparr>s_base := base\<rparr>) =
      Some (rq, \<lparr>s_base = base, s_atmos = Some (a, CreateObject_response b)\<rparr>)"
    using create_finish_created[OF cr assms(12,13,10)] by blast
  ultimately have "AtmosClient_create_object E c (rq, rs) =
      Some (upd_base (\<lambda>b. b\<lparr>rq_body := body\<rparr>) sent, \<lparr>s_base = base, s_atmos = Some (a, CreateObject_response b)\<rparr>)"
    using set_write_headers_checksum[OF assms(1,5,6,7)] assms(8) create_object_chain[OF lib(2,4)]
    by (simp add: checksum_headers_def)
  moreover have "set (write_lines E (cl_enable_utf8_metadata c) M LM A) \<subseteq> set (req_headers sent)"
    using f(5) by (auto simp: req_headers_add_headers[OF lib(1)] prefix_def)
  ultimately show ?thesis using tr f(1,4) b(1) by (intro exI conjI) simp_all
qed

definition sample_create_request :: request where
  "sample_create_request = (AtmosCreateObjectRequest_init list_env)
     \<lparr>r_sub := Write_request sample_write_part (Create_sub (junk_create_part list_env))\<rparr>"

lemma sample_create_request_ok:
  "r_sub sample_create_request = Write_request sample_write_part (Create_sub (junk_create_part list_env))"
  "requests_ok list_env sample_create_request" "w_checksum sample_write_part = None" "rq_body (r_base sample_create_request) = None"
  by (simp_all add: sample_create_request_def requests_ok_def AtmosCreateObjectRequest_init_def AtmosCreateObjectRequest_common_init_def
      AtmosWriteObjectRequest_init_def new_request_def set_class_def upd_base_def rest_init[OF rest_client_ok_list_env]
      sample_write_part_def zero_write_part_def)
    (simp add: list_env_def)

lemma created_list_env:
  assumes "transfers list_env c sent rs base body blocks"
  shows "created list_env base ''0123456789''"
proof -
  have "base = (s_base rs)\<lparr>http_code := 201, rs_headers := [''Location: /rest/objects/0123456789'']\<rparr>"
    by (rule transfers_base_unique[OF transfers_list_env assms])
  moreover have "lookup_header [''Location: /rest/objects/0123456789''] ''Location'' = Some ''/rest/objects/0123456789''" by code_simp
  ultimately show ?thesis by (simp add: created_def list_env_def)
qed

theorem create_object_returns_oid_witness:
  "\<exists>rq' rs' a b. AtmosClient_create_object list_env sample_client (sample_create_request, AtmosCreateObjectResponse_init list_env) = Some (rq', rs') \<and>
     s_atmos rs' = Some (a, CreateObject_response b) \<and> c_str b = Some ''0123456789''"
proof -
  have a: "s_atmos (AtmosCreateObjectResponse_init list_env) =
      Some (fst (the (s_atmos (AtmosCreateObjectResponse_init list_env))), CreateObject_response (zeros ATMOS_OID_LENGTH))"
    by (simp add: AtmosCreateObjectResponse_init_def AtmosResponse_init_def set_response_class_def)
  have "cl_enable_utf8_metadata sample_client \<noteq> 0 \<longrightarrow> escape_total list_env" by (simp add: sample_client_def)
  from create_object_returns_oid[OF mem_ok_list_env base64_ok_list_env rest_library_ok_list_env sample_client_ok this
      sample_create_request_ok(1) sample_write_contents sample_create_request_ok(3,2) a, of "''0123456789''"]
  show ?thesis using created_list_env by fastforce
qed

section \<open>A checksum computed while the data are sent\<close>

text \<open>Feeding the blocks of a file to the checksum a request points to.\<close>

lemma feed_blocks_checksum:
  assumes "r_sub rq = Write_request w sub" "w_checksum w = Some ck" "rq_file_filter (r_base rq) = Some ff"
  shows "feed_blocks (call_file_filter E) rq blocks = Some (put_checksum (foldl (AtmosChecksum_update E) ck blocks) rq)"
proof -
  have "foldM (\<lambda>rq b. map_option snd (call_file_filter E ff rq b)) rq blocks = Some (put_checksum (foldl (AtmosChecksum_update E) ck blocks) rq)"
    using assms(1,2)
  proof (induction blocks arbitrary: rq w ck)
    case Nil
    then show ?case by (cases rq) (simp add: put_checksum_def)
  next
    case (Cons b blocks)
    let ?ck = "AtmosChecksum_update E ck b"
    have step: "map_option snd (call_file_filter E ff rq b) = Some (put_checksum ?ck rq)"
      by (cases ff) (simp add: AtmosWriteObjectRequest_checksum_filter_def Cons.prems put_checksum_def)
    have "r_sub (put_checksum ?ck rq) = Write_request (w\<lparr>w_checksum := Some ?ck\<rparr>) sub" by (simp add: put_checksum_def Cons.prems)
    from Cons.IH[OF this, of ?ck] show ?case using Cons.prems by (simp add: step put_checksum_def)
  qed
  then show ?thesis using assms(3) by (simp add: feed_blocks_def)
qed

definition file_filter_ok :: "env \<Rightarrow> bool" where
  "file_filter_ok E \<longleftrightarrow> (\<forall>b p. RestRequest_set_file_filter E b p = b\<lparr>rq_file_filter := Some p\<rparr>)"

definition with_generate :: "env \<Rightarrow> AtmosChecksum \<Rightarrow> request \<Rightarrow> request" where
  "with_generate E ck r = upd_base (\<lambda>b. RestRequest_set_file_filter E b AtmosWriteObjectRequest_checksum_filter_ptr)
     (add_header E r (ATMOS_HEADER_GENERATE_CHECKSUM @ '': '' @ algorithm_name (ck_alg ck)))"

lemma with_generate_simps:
  assumes "rest_client_ok E" "file_filter_ok E"
  shows "r_sub (with_generate E ck r) = r_sub r" "rq_uri (r_base (with_generate E ck r)) = rq_uri (r_base r)"
    "rq_file_filter (r_base (with_generate E ck r)) = Some AtmosWriteObjectRequest_checksum_filter_ptr"
    "rq_body (r_base (with_generate E ck r)) = rq_body (r_base r)"
    "req_headers (with_generate E ck r) = req_headers r @ [ATMOS_HEADER_GENERATE_CHECKSUM @ '': '' @ algorithm_name (ck_alg ck)]"
  using assms by (simp_all add: with_generate_def add_header_ok file_filter_ok_def upd_base_def)

lemma checksum_headers_generate:
  assumes "rest_client_ok E" "ck_mode ck = ATMOS_GENERATE_CHECKSUM" "checksum_inv ck"
    "RestRequest_get_header E (r_base r) ATMOS_HEADER_GENERATE_CHECKSUM = None"
    "rq_body (r_base r) = Some body" "rb_file_body body = Some f"
  shows "checksum_headers E (Some ck) (r, rs) = Some (True, with_generate E ck r, rs)"
proof -
  have "snprintf_text ATMOS_SIMPLE_HEADER_MAX (ATMOS_HEADER_GENERATE_CHECKSUM @ '': '' @ algorithm_name (ck_alg ck)) =
      ATMOS_HEADER_GENERATE_CHECKSUM @ '': '' @ algorithm_name (ck_alg ck)"
    using length_algorithm_name[of "ck_alg ck"] by (intro snprintf_text_id) (simp add: literals)
  then show ?thesis using assms
    by (simp add: checksum_headers_def generate_checksum_header_def checksum_inv_def with_generate_def Let_def add_header_ok)
qed

text \<open>The two sides agree: the response has the digest of these data in its checksum header.\<close>

definition confirms :: "env \<Rightarrow> AtmosChecksum \<Rightarrow> RestResponse \<Rightarrow> bool" where
  "confirms E ck base \<longleftrightarrow>
     (case RestResponse_get_header_value E base ATMOS_HEADER_CONTENT_CHECKSUM of
        None \<Rightarrow> False
      | Some v \<Rightarrow> map tolower v = algorithm_name (ck_alg ck) @ ''/'' @ checksum_hex E ck)"

text \<open>The request of an upload with a checksum as it goes out, and what is left of it after the transfer.\<close>

lemma upload_goes_out:
  assumes "mem_ok E" "base64_ok E" "rest_library_ok E hs" "file_filter_ok E" "client_ok E c"
    and "cl_enable_utf8_metadata c \<noteq> 0 \<longrightarrow> escape_total E" "write_contents w M LM A" "requests_ok E rq"
  shows "\<exists>sent. outgoing E hs c (with_generate E ck (contents_sent E c rq M LM A)) = Some sent \<and> signed E c sent \<and>
     rq_body (r_base sent) = rq_body (r_base rq) \<and> r_sub sent = r_sub rq \<and>
     rq_file_filter (r_base sent) = Some AtmosWriteObjectRequest_checksum_filter_ptr \<and>
     ATMOS_HEADER_GENERATE_CHECKSUM @ '': '' @ algorithm_name (ck_alg ck) \<in> set (req_headers sent)"
proof -
  note lib = rest_library_okD[OF assms(3)]
  let ?g = "with_generate E ck (contents_sent E c rq M LM A)"
  obtain uid secret where c: "c_str (cl_uid c) = Some uid" "c_str (cl_secret c) = Some secret" and t: "\<bar>time_now E\<bar> < 2 ^ 63"
    using assms(5) by (auto simp: client_ok_def)
  note g = contents_good[OF lib(1) assms(8,6,7)] and ws = with_generate_simps[OF lib(1) assms(4)]
  have "good_line (ATMOS_HEADER_GENERATE_CHECKSUM @ '': '' @ algorithm_name (ck_alg ck))" by (simp add: good_line_def)
  then have "\<forall>h \<in> set (req_headers ?g). good_line h" using g(2) by (simp add: ws)
  moreover have "cstring (rq_uri (r_base ?g))" using g(1) by (simp add: ws)
  ultimately obtain sent where sent: "outgoing E hs c ?g = Some sent" using outgoing_sends[OF assms(1-3) t c] by blast
  note f = outgoing_fields[OF lib(1) sent]
  show ?thesis using sent f g(4) by (auto simp: ws prefix_def)
qed

lemma upload_is_fed:
  assumes "digest_ok E" "checksum_inv ck" "w_checksum w = Some ck"
    and "outgoing E hs c rq = Some sent" "r_sub sent = Write_request w (Create_sub cr)"
    and "rq_file_filter (r_base sent) = Some AtmosWriteObjectRequest_checksum_filter_ptr"
    and "transfers E c sent rs base body blocks" "http_code base \<le> 399"
  shows "\<exists>rq'. send_default E hs c (rq, rs) = Some (rq', rs\<lparr>s_base := base\<rparr>) \<and>
     r_sub rq' = Write_request (w\<lparr>w_checksum := Some (AtmosChecksum_update E ck (concat blocks))\<rparr>) (Create_sub cr)"
proof -
  let ?ck = "AtmosChecksum_update E ck (concat blocks)" and ?sent = "upd_base (\<lambda>b. b\<lparr>rq_body := body\<rparr>) sent"
  have "feed_blocks (call_file_filter E) ?sent blocks = Some (put_checksum ?ck ?sent)"
    using feed_blocks_checksum[of ?sent w "Create_sub cr" ck] assms(3,5,6) update_pieces[OF assms(1,2)] by simp
  then have "send_default E hs c (rq, rs) = Some (put_checksum ?ck ?sent, rs\<lparr>s_base := base\<rparr>)"
    using send_created[OF assms(4,7)] assms(8) by blast
  then show ?thesis by (simp add: put_checksum_def assms(5))
qed

text \<open>
  C3: The checksum of an upload is the checksum of what was sent: a create request with a checksum object in the
  generate mode and a file body goes out with the header that asks the server for a checksum; after the transfer, however it
  cut the file into blocks, the checksum object holds the digest of exactly the bytes that were sent, and
  \<open>AtmosChecksum_verify_response\<close> accepts the server's answer if and only if the server confirms that digest.
\<close>

theorem upload_checksum_verified:
  assumes "mem_ok E" "base64_ok E" "digest_ok E" "rest_library_ok E hs" "file_filter_ok E" "client_ok E c"
    and "cl_enable_utf8_metadata c \<noteq> 0 \<longrightarrow> escape_total E"
    and "r_sub rq = Write_request w (Create_sub cr)" "write_contents w M LM A" "requests_ok E rq"
    and "w_checksum w = Some ck" "ck_mode ck = ATMOS_GENERATE_CHECKSUM" "checksum_inv ck"
    and "RestRequest_get_header E (r_base (contents_sent E c rq M LM A)) ATMOS_HEADER_GENERATE_CHECKSUM = None"
    and "rq_body (r_base rq) = Some file_body" "rb_file_body file_body = Some f"
    and "s_atmos rs = Some (a, CreateObject_response (zeros ATMOS_OID_LENGTH))" "cstring oid" "length oid < ATMOS_OID_LENGTH"
  shows "\<exists>sent. signed E c sent \<and> rq_body (r_base sent) = rq_body (r_base rq) \<and>
     ATMOS_HEADER_GENERATE_CHECKSUM @ '': '' @ algorithm_name (ck_alg ck) \<in> set (req_headers sent) \<and>
     (\<forall>base body blocks.
        transfers E c sent rs base body blocks \<and> created E base oid \<and>
        (\<forall>v. RestResponse_get_header_value E base ATMOS_HEADER_CONTENT_CHECKSUM = Some v \<longrightarrow> cstring v) \<longrightarrow>
        (let ck' = AtmosChecksum_update E ck (concat blocks) in
         \<exists>rq' rs'. AtmosClient_create_object E c (rq, rs) = Some (rq', rs') \<and> s_base rs' = base \<and>
           r_sub rq' = Write_request (w\<lparr>w_checksum := Some ck'\<rparr>) (Create_sub cr) \<and>
           AtmosChecksum_verify_response E ck' base = Some (if confirms E ck' base then 1 else 0)))"
proof -
  note lib = rest_library_okD[OF assms(4)]
  let ?g = "with_generate E ck (contents_sent E c rq M LM A)"
  obtain sent where sent: "outgoing E hs c ?g = Some sent" "signed E c sent" "rq_body (r_base sent) = rq_body (r_base rq)"
    "r_sub sent = Write_request w (Create_sub cr)" "rq_file_filter (r_base sent) = Some AtmosWriteObjectRequest_checksum_filter_ptr"
    "ATMOS_HEADER_GENERATE_CHECKSUM @ '': '' @ algorithm_name (ck_alg ck) \<in> set (req_headers sent)"
    using upload_goes_out[OF assms(1,2,4-7,9,10)] assms(8) by metis
  have body: "rq_body (r_base (contents_sent E c rq M LM A)) = Some file_body"
    using contents_good(4)[OF lib(1) assms(10,7,9)] assms(15) by simp
  have create: "AtmosClient_create_object E c (rq, rs) = do { st \<leftarrow> send_default E hs c (?g, rs); create_finish E st }"
    using set_write_headers_checksum[OF assms(1,7,8,9)] create_object_chain[OF lib(2,4)] assms(11)
      checksum_headers_generate[OF lib(1) assms(12,13,14) body assms(16)] by simp
  have "\<exists>rq' rs'. AtmosClient_create_object E c (rq, rs) = Some (rq', rs') \<and> s_base rs' = base \<and>
      r_sub rq' = Write_request (w\<lparr>w_checksum := Some (AtmosChecksum_update E ck (concat blocks))\<rparr>) (Create_sub cr)"
    if tr: "transfers E c sent rs base body blocks" and cr: "created E base oid" for base body blocks
  proof -
    have "http_code base \<le> 399" using cr by (simp add: created_def)
    then obtain rq' where "send_default E hs c (?g, rs) = Some (rq', rs\<lparr>s_base := base\<rparr>)"
      "r_sub rq' = Write_request (w\<lparr>w_checksum := Some (AtmosChecksum_update E ck (concat blocks))\<rparr>) (Create_sub cr)"
      using upload_is_fed[OF assms(3,13,11) sent(1,4,5) tr] by blast
    moreover obtain b where "\<forall>rq. create_finish E (rq, rs\<lparr>s_base := base\<rparr>) =
        Some (rq, \<lparr>s_base = base, s_atmos = Some (a, CreateObject_response b)\<rparr>)"
      using create_finish_created[OF cr assms(18,19,17)] by blast
    ultimately show ?thesis using create by simp
  qed
  moreover have "AtmosChecksum_verify_response E ck' base = Some (if confirms E ck' base then 1 else 0)"
    if "ck' = AtmosChecksum_update E ck data" "\<forall>v. RestResponse_get_header_value E base ATMOS_HEADER_CONTENT_CHECKSUM = Some v \<longrightarrow> cstring v"
    for ck' data base
    using verify_response_result[OF assms(1,3) checksum_inv_update[OF assms(13)]] that assms(12,13)
    by (auto simp: confirms_def checksum_inv_def AtmosChecksum_update_def split: option.splits)
  ultimately show ?thesis using sent(2,3,6) by (intro exI[of _ sent]) (simp add: Let_def, blast)
qed

definition sample_upload_checksum :: AtmosChecksum where
  "sample_upload_checksum = sample_checksum\<lparr>ck_mode := ATMOS_GENERATE_CHECKSUM\<rparr>"

definition sample_upload :: request where
  "sample_upload = (AtmosCreateObjectRequest_init list_env)
     \<lparr>r_base := (r_base (AtmosCreateObjectRequest_init list_env))\<lparr>rq_body := Some \<lparr>rb_body = [],
        rb_file_body = Some \<lparr>f_bytes = ''hello world'', f_pos = 6, f_seekable = True\<rparr>, rb_data_size = 5\<rparr>\<rparr>,
      r_sub := Write_request (zero_write_part\<lparr>w_checksum := Some sample_upload_checksum\<rparr>) (Create_sub (junk_create_part list_env))\<rparr>"

lemma sample_upload_ok:
  "r_sub sample_upload = Write_request (zero_write_part\<lparr>w_checksum := Some sample_upload_checksum\<rparr>) (Create_sub (junk_create_part list_env))"
  "write_contents (zero_write_part\<lparr>w_checksum := Some sample_upload_checksum\<rparr>) [] [] []"
  "rq_body (r_base sample_upload) = Some \<lparr>rb_body = [], rb_file_body = Some \<lparr>f_bytes = ''hello world'', f_pos = 6, f_seekable = True\<rparr>, rb_data_size = 5\<rparr>"
  "rq_uri (r_base sample_upload) = ''/rest/objects''" "req_headers sample_upload = []" "rq_file_filter (r_base sample_upload) = None"
  "checksum_inv sample_upload_checksum" "ck_mode sample_upload_checksum = ATMOS_GENERATE_CHECKSUM" "ck_alg sample_upload_checksum = ATMOS_ALG_MD5"
  using sample_checksum_inv
  by (simp_all add: sample_upload_def AtmosCreateObjectRequest_init_def AtmosCreateObjectRequest_common_init_def
      AtmosWriteObjectRequest_init_def new_request_def set_class_def upd_base_def rest_init[OF rest_client_ok_list_env]
      write_contents_def zero_write_part_def sample_upload_checksum_def checksum_inv_def sample_checksum_def)

lemma file_filter_ok_list_env: "file_filter_ok list_env"
  by (simp add: file_filter_ok_def list_env_def)

lemma transfers_upload:
  assumes "rq_body (r_base sent) = rq_body (r_base sample_upload)"
  shows "\<exists>base body. transfers list_env c sent rs base body [''world''] \<and> rs_headers base = [''Location: /rest/objects/0123456789''] \<and> http_code base = 201"
proof -
  have "body_blocks (rq_body (r_base sent)) = [''world'']"
    unfolding assms sample_upload_ok(3) by (simp add: body_blocks_def fread_def Let_def)
  then show ?thesis using transfers_list_env[of c sent rs] by force
qed

theorem upload_checksum_verified_witness:
  "\<exists>rq' rs' sub. AtmosClient_create_object list_env sample_client (sample_upload, AtmosCreateObjectResponse_init list_env) = Some (rq', rs') \<and>
     r_sub rq' = Write_request (zero_write_part\<lparr>w_checksum := Some (AtmosChecksum_update list_env sample_upload_checksum ''world'')\<rparr>) sub \<and>
     AtmosChecksum_verify_response list_env (AtmosChecksum_update list_env sample_upload_checksum ''world'') (s_base rs') = Some 0"
proof -
  let ?rs = "AtmosCreateObjectResponse_init list_env"
  have a: "s_atmos ?rs = Some (fst (the (s_atmos ?rs)), CreateObject_response (zeros ATMOS_OID_LENGTH))"
    by (simp add: AtmosCreateObjectResponse_init_def AtmosResponse_init_def set_response_class_def)
  have u: "cl_enable_utf8_metadata sample_client \<noteq> 0 \<longrightarrow> escape_total list_env" by (simp add: sample_client_def)
  have rq: "requests_ok list_env sample_upload" using sample_upload_ok(4-6) by (simp add: requests_ok_def) (simp add: list_env_def)
  have "contents_sent list_env sample_client sample_upload [] [] [] = sample_upload"
    by (simp add: body_type_lines_def sample_upload_ok(3) write_lines_def metadata_lines_def acl_header_lines_def acl_users_def acl_groups_def
        sample_client_def)
  then have h: "RestRequest_get_header list_env (r_base (contents_sent list_env sample_client sample_upload [] [] [])) ATMOS_HEADER_GENERATE_CHECKSUM = None"
    using sample_upload_ok(5) by (simp add: list_env_def)
  have w: "w_checksum (zero_write_part\<lparr>w_checksum := Some sample_upload_checksum\<rparr>) = Some sample_upload_checksum"
    "rb_file_body \<lparr>rb_body = [], rb_file_body = Some \<lparr>f_bytes = ''hello world'', f_pos = 6, f_seekable = True\<rparr>, rb_data_size = 5\<rparr> =
       Some \<lparr>f_bytes = ''hello world'', f_pos = 6, f_seekable = True\<rparr>" by simp_all
  obtain sent where sent: "rq_body (r_base sent) = rq_body (r_base sample_upload)"
    "\<And>base body blocks. transfers list_env sample_client sent ?rs base body blocks \<Longrightarrow> created list_env base ''0123456789'' \<Longrightarrow>
       RestResponse_get_header_value list_env base ATMOS_HEADER_CONTENT_CHECKSUM = None \<Longrightarrow>
       \<exists>rq' rs'. AtmosClient_create_object list_env sample_client (sample_upload, ?rs) = Some (rq', rs') \<and> s_base rs' = base \<and>
         r_sub rq' = Write_request (zero_write_part\<lparr>w_checksum := Some (AtmosChecksum_update list_env sample_upload_checksum (concat blocks))\<rparr>)
           (Create_sub (junk_create_part list_env)) \<and>
         AtmosChecksum_verify_response list_env (AtmosChecksum_update list_env sample_upload_checksum (concat blocks)) base =
           Some (if confirms list_env (AtmosChecksum_update list_env sample_upload_checksum (concat blocks)) base then 1 else 0)"
    using upload_checksum_verified[OF mem_ok_list_env base64_ok_list_env digest_ok_list_env rest_library_ok_list_env file_filter_ok_list_env
        sample_client_ok u sample_upload_ok(1,2) rq w(1) sample_upload_ok(8,7) h sample_upload_ok(3) w(2) a, where oid = "''0123456789''"]
    by (auto simp: Let_def)
  obtain base body where t: "transfers list_env sample_client sent ?rs base body [''world'']"
    "rs_headers base = [''Location: /rest/objects/0123456789'']"
    using transfers_upload[OF sent(1)] by blast
  have "lookup_header [''Location: /rest/objects/0123456789''] ATMOS_HEADER_CONTENT_CHECKSUM = None" by code_simp
  then have none: "RestResponse_get_header_value list_env base ATMOS_HEADER_CONTENT_CHECKSUM = None"
    using t(2) by (simp add: list_env_def)
  show ?thesis using sent(2)[OF t(1) created_list_env[OF t(1)] none] none by (auto simp: confirms_def)
qed

end
