(* ===== verification/Header_Round_Trips.thy ===== *)
theory Header_Round_Trips
  imports Header_Parsers
begin

text \<open>
  What the header writers print, the header parsers read back: ACLs, metadata with and without
  percent-encoding, and the lookup functions on the arrays the parsers fill.
\<close>

section \<open>ACLs\<close>

lemma join_with_sep_split:
  "join_with (c # sep) (x # xs) = join_with [c] (x # map (\<lambda>y. sep @ y) xs)"
  by (simp add: join_with_concat comp_def)

definition acl_entry_clean :: "acl_view \<Rightarrow> bool" where
  "acl_entry_clean e \<longleftrightarrow> (\<forall>c \<in> set (fst e). c \<noteq> CHR '','' \<and> c \<noteq> CHR ''='') \<and>
     (fst e = [] \<or> hd (fst e) \<noteq> CHR '' '') \<and> length (fst e) < ATMOS_UID_MAX"

lemma permission_string_chars:
  "CHR '','' \<notin> set (AtmosUtil_get_permission_string perm)"
  "hd (AtmosUtil_get_permission_string perm) \<noteq> CHR '' ''"
  "length (AtmosUtil_get_permission_string perm) \<le> 12"
  by (cases perm; simp add: literals)+

lemma entry_parts_acl_text:
  "acl_entry_clean e \<Longrightarrow> entry_parts (acl_text e) = (fst e, AtmosUtil_get_permission_string (snd (snd e)))"
  using entry_parts_pair[of "fst e" "AtmosUtil_get_permission_string (snd (snd e))"] permission_string_chars
  by (cases e) (auto simp: acl_entry_clean_def acl_text_def)

lemma acl_text_fits:
  assumes "acl_entry_clean e"
  shows "acl_piece_fits (acl_text e)" "acl_piece_fits (CHR '' '' # acl_text e)"
proof -
  have len: "length (acl_text e) < 300"
    using assms permission_string_chars(3)[of "snd (snd e)"] by (cases e) (auto simp: acl_entry_clean_def acl_text_def)
  then show "acl_piece_fits (acl_text e)" "acl_piece_fits (CHR '' '' # acl_text e)"
    using assms permission_string_chars(3)[of "snd (snd e)"]
    by (auto simp: acl_piece_fits_def entry_fits_def entry_parts_acl_text acl_entry_clean_def)
qed

lemma acl_text_view:
  assumes "acl_entry_clean e"
  shows "acl_piece_view (fst (snd e)) (acl_text e) = e"
    "acl_piece_view (fst (snd e)) (CHR '' '' # acl_text e) = e"
  using assms by (simp_all add: acl_piece_view_def entry_parts_acl_text)

lemma acl_text_no_comma: "acl_entry_clean e \<Longrightarrow> CHR '','' \<notin> set (acl_text e)"
  using permission_string_chars(1) by (cases e) (auto simp: acl_entry_clean_def acl_text_def)

lemma split_acl_line:
  assumes "\<forall>e \<in> set (x # L). acl_entry_clean e"
  shows "split_on CHR '','' (join_with '', '' (map acl_text (x # L))) =
     acl_text x # map (\<lambda>e. CHR '' '' # acl_text e) L"
proof -
  have eq: "join_with '', '' (map acl_text (x # L)) =
        join_with [CHR '',''] (acl_text x # map (\<lambda>e. CHR '' '' # acl_text e) L)"
    using join_with_sep_split[of "CHR '',''" "'' ''" "acl_text x" "map acl_text L"] by (simp add: comp_def)
  have "\<forall>e \<in> set (x # L). CHR '','' \<notin> set (acl_text e)" using assms acl_text_no_comma by blast
  then show ?thesis unfolding eq by (intro split_on_join) auto
qed

lemma parse_acl_line:
  assumes "L \<noteq> []" "\<forall>e \<in> set L. acl_entry_clean e \<and> fst (snd e) = type \<and> cstring (fst e)"
    "acl_inv st M" "length M + length L \<le> length (fst st)"
  shows "\<exists>st'. AtmosUtil_parse_acl E type (join_with '', '' (map acl_text L)) st = Some st' \<and>
           acl_inv st' (M @ L) \<and> length (fst st') = length (fst st)"
proof -
  obtain x xs where L: "L = x # xs" using assms(1) by (cases L) auto
  let ?v = "join_with '', '' (map acl_text L)"
  have split: "split_on CHR '','' ?v = acl_text x # map (\<lambda>e. CHR '' '' # acl_text e) xs"
    unfolding L by (rule split_acl_line) (use assms(2) L in blast)
  have cs: "cstring ?v"
    using assms(2) set_join_with[of "'', ''" "map acl_text L"]
    by (fastforce simp: cdefs acl_text_def cstring_permission[unfolded cdefs])
  have fits: "\<forall>p \<in> set (split_on CHR '','' ?v). acl_piece_fits p"
    unfolding split using assms(2) L acl_text_fits by auto
  have view: "map (acl_piece_view type) (split_on CHR '','' ?v) = L"
  proof -
    have "\<forall>e \<in> set L. acl_piece_view type (acl_text e) = e \<and> acl_piece_view type (CHR '' '' # acl_text e) = e"
      using assms(2) acl_text_view by metis
    then show ?thesis unfolding split unfolding L by (simp add: comp_def map_idI)
  qed
  have len: "length M + length (split_on CHR '','' ?v) \<le> length (fst st)"
    unfolding split using assms(4) L by simp
  show ?thesis using parse_acl_list[OF cs fits assms(3) len, of E type] unfolding view .
qed

lemma header_names_lower:
  "map tolower ATMOS_HEADER_USER_ACL = ATMOS_HEADER_USER_ACL"
  "map tolower ATMOS_HEADER_GROUP_ACL = ATMOS_HEADER_GROUP_ACL"
  "CHR '':'' \<notin> set ATMOS_HEADER_USER_ACL" "CHR '':'' \<notin> set ATMOS_HEADER_GROUP_ACL"
  "ATMOS_HEADER_USER_ACL \<noteq> ATMOS_HEADER_GROUP_ACL" "ATMOS_HEADER_GROUP_ACL \<noteq> ATMOS_HEADER_USER_ACL"
  by (simp_all add: literals tolower_def)

lemma acl_join_no_space:
  assumes "\<forall>e \<in> set L. acl_entry_clean e"
  shows "dropWhile (\<lambda>c. c = CHR '' '') (join_with '', '' (map acl_text L)) = join_with '', '' (map acl_text L)"
proof (rule dropWhile_hd_id)
  show "join_with '', '' (map acl_text L) = [] \<or> hd (join_with '', '' (map acl_text L)) \<noteq> CHR '' ''"
  proof (cases L)
    case (Cons x xs)
    obtain p t perm where x: "x = (p, t, perm)" by (cases x)
    have "p = [] \<or> hd p \<noteq> CHR '' ''" using assms Cons x by (auto simp: acl_entry_clean_def)
    then show ?thesis using Cons x by (cases p) (auto simp: join_with_concat acl_text_def)
  qed simp
qed

lemma lookup_acl_lines:
  assumes "\<forall>e \<in> set L. acl_entry_clean e"
  shows "lookup_header (acl_header_lines L) ATMOS_HEADER_USER_ACL =
      (if acl_users L = [] then None else Some (join_with '', '' (map acl_text (acl_users L))))"
    "lookup_header (acl_header_lines L) ATMOS_HEADER_GROUP_ACL =
      (if acl_groups L = [] then None else Some (join_with '', '' (map acl_text (acl_groups L))))"
proof -
  have u: "\<forall>e \<in> set (acl_users L). acl_entry_clean e" "\<forall>e \<in> set (acl_groups L). acl_entry_clean e"
    using assms by (auto simp: acl_users_def acl_groups_def)
  note line = lookup_header_line[OF header_names_lower(3), of "CHR '' '' # v" for v]
    lookup_header_line[OF header_names_lower(4), of "CHR '' '' # v" for v]
  show "lookup_header (acl_header_lines L) ATMOS_HEADER_USER_ACL =
      (if acl_users L = [] then None else Some (join_with '', '' (map acl_text (acl_users L))))"
    "lookup_header (acl_header_lines L) ATMOS_HEADER_GROUP_ACL =
      (if acl_groups L = [] then None else Some (join_with '', '' (map acl_text (acl_groups L))))"
    using u by (auto simp: acl_header_lines_def acl_line_def line header_names_lower acl_join_no_space
        simp del: lookup_header.simps(2))
qed

lemma acl_parts_length: "length (acl_users L) + length (acl_groups L) \<le> length L"
  by (induction L) (auto simp: acl_users_def acl_groups_def)

text \<open>A response with these headers is read into the entries they were made from.\<close>

definition shows_acl :: "env \<Rightarrow> RestResponse \<Rightarrow> acl_view list \<Rightarrow> bool" where
  "shows_acl E response L \<longleftrightarrow>
     RestResponse_get_header_value E response ATMOS_HEADER_USER_ACL =
       (if acl_users L = [] then None else Some (join_with '', '' (map acl_text (acl_users L)))) \<and>
     RestResponse_get_header_value E response ATMOS_HEADER_GROUP_ACL =
       (if acl_groups L = [] then None else Some (join_with '', '' (map acl_text (acl_groups L))))"

lemma parse_shown_acl:
  assumes "shows_acl E response L"
    and "\<forall>e \<in> set L. acl_entry_clean e \<and> cstring (fst e)" "acl_inv (acl0, 0) []" "length L \<le> length acl0"
  shows "\<exists>st. AtmosUtil_parse_acl_headers E response (acl0, 0) = Some st \<and> acl_inv st (acl_users L @ acl_groups L)"
proof -
  have u: "\<forall>e \<in> set (acl_users L). acl_entry_clean e \<and> fst (snd e) = ATMOS_USER \<and> cstring (fst e)"
    and g: "\<forall>e \<in> set (acl_groups L). acl_entry_clean e \<and> fst (snd e) = ATMOS_GROUP \<and> cstring (fst e)"
    using assms(2) by (auto simp: acl_users_def acl_groups_def)
  have len: "length (acl_users L) + length (acl_groups L) \<le> length acl0"
    using assms(4) acl_parts_length[of L] by simp
  let ?u = "join_with '', '' (map acl_text (acl_users L))" and ?g = "join_with '', '' (map acl_text (acl_groups L))"
  have lu: "RestResponse_get_header_value E response ATMOS_HEADER_USER_ACL = (if acl_users L = [] then None else Some ?u)"
    and lg: "RestResponse_get_header_value E response ATMOS_HEADER_GROUP_ACL = (if acl_groups L = [] then None else Some ?g)"
    using assms(1) by (simp_all add: shows_acl_def)
  have step: "\<exists>st'. (if M = [] then Some st else AtmosUtil_parse_acl E ty (join_with '', '' (map acl_text M)) st) = Some st' \<and>
      acl_inv st' (N @ M) \<and> length (fst st') = length (fst st)"
    if "\<forall>e \<in> set M. acl_entry_clean e \<and> fst (snd e) = ty \<and> cstring (fst e)" "acl_inv st N"
      "length N + length M \<le> length (fst st)" for M N ty st
    using parse_acl_line[OF _ that] that(2) by (cases "M = []") auto
  obtain st1 where 1: "(if acl_users L = [] then Some (acl0, 0) else AtmosUtil_parse_acl E ATMOS_USER ?u (acl0, 0)) = Some st1"
    "acl_inv st1 (acl_users L)" "length (fst st1) = length acl0"
    using step[OF u assms(3)] len by auto
  obtain st2 where 2: "(if acl_groups L = [] then Some st1 else AtmosUtil_parse_acl E ATMOS_GROUP ?g st1) = Some st2"
    "acl_inv st2 (acl_users L @ acl_groups L)"
    using step[OF g 1(2)] len 1(3) by auto
  have "AtmosUtil_parse_acl_headers E response (acl0, 0) = Some st2"
    using 1(1) 2(1) unfolding AtmosUtil_parse_acl_headers_def lu lg by (simp split: if_splits)
  then show ?thesis using 2(2) by blast
qed

lemma shows_acl_lines:
  assumes "response_lookup_ok E" "rs_headers response = acl_header_lines L" "\<forall>e \<in> set L. acl_entry_clean e \<and> cstring (fst e)"
  shows "shows_acl E response L"
  using assms lookup_acl_lines[of L] by (simp add: shows_acl_def response_lookup_ok_def)

text \<open>
  C17: An ACL written into request headers by \<open>AtmosUtil_set_acl_header\<close> and sent back in the
  headers of a response is read by \<open>AtmosUtil_parse_acl_headers\<close> as the same list of
  principals, types and permissions: the user entries in order, then those of the group \<open>other\<close>.
\<close>

theorem acl_header_roundtrip:
  assumes "mem_ok E" "rest_client_ok E" "response_lookup_ok E"
    and "arr_holds acl_entry_view acl n L" "\<forall>e \<in> set L. acl_entry_clean e"
    and "req_headers request = []" "AtmosUtil_set_acl_header E acl n request = Some request'"
    and "rs_headers response = req_headers request'"
    and "acl_inv (acl0, 0) []" "length L \<le> length acl0"
  shows "\<exists>acl' n'. AtmosUtil_parse_acl_headers E response (acl0, 0) = Some (acl', n') \<and>
           arr_holds acl_entry_view acl' n' (acl_users L @ acl_groups L)"
proof -
  have "rs_headers response = acl_header_lines L"
    using assms(6,7,8) set_acl_header_lines[OF assms(1,4), of request]
    by (auto simp: req_headers_add_headers[OF assms(2)])
  moreover have "\<forall>e \<in> set L. acl_entry_clean e \<and> cstring (fst e)" using acl_view_cstring[OF assms(4)] assms(5) by blast
  ultimately show ?thesis using parse_shown_acl[OF shows_acl_lines[OF assms(3)] _ assms(9,10)] by (fastforce simp: acl_inv_def)
qed

definition sample_request :: "http_method \<Rightarrow> string \<Rightarrow> request" where
  "sample_request m uri = \<lparr>r_base = RestRequest_init list_env uri m, r_sub = Rest_request\<rparr>"

definition sample_response :: "string list \<Rightarrow> RestResponse" where
  "sample_response hs = (RestResponse_init list_env)\<lparr>rs_headers := hs\<rparr>"

lemma sample_simps [simp]:
  "req_headers (sample_request m uri) = []" "rs_headers (sample_response hs) = hs"
  by (simp_all add: sample_request_def sample_response_def list_env_def)

definition sample_acl :: "AtmosAclEntry list" where
  "sample_acl =
     [\<lparr>principal = text_buffer ATMOS_UID_MAX ''alice'', acl_type = ATMOS_USER, permission = ATMOS_PERM_FULL\<rparr>,
      \<lparr>principal = text_buffer ATMOS_UID_MAX ''other'', acl_type = ATMOS_GROUP, permission = ATMOS_PERM_READ\<rparr>,
      \<lparr>principal = text_buffer ATMOS_UID_MAX ''bob'', acl_type = ATMOS_USER, permission = ATMOS_PERM_NONE\<rparr>]"

definition sample_acl_list :: "acl_view list" where
  "sample_acl_list = [(''alice'', ATMOS_USER, ATMOS_PERM_FULL), (''other'', ATMOS_GROUP, ATMOS_PERM_READ),
     (''bob'', ATMOS_USER, ATMOS_PERM_NONE)]"

lemma sample_acl_holds: "arr_holds acl_entry_view sample_acl 3 sample_acl_list"
  by (simp add: arr_holds_def sample_acl_def sample_acl_list_def acl_entry_view_def)

lemma acl_inv_zero: "acl_inv (replicate n zero_acl_entry, 0) []"
  by (auto simp: acl_inv_def wf_acl_entry_def zero_acl_entry_def)

theorem acl_header_roundtrip_witness:
  "\<exists>acl' n'. AtmosUtil_parse_acl_headers list_env
       (sample_response [''x-emc-useracl: alice=FULL_CONTROL, bob=NONE'', ''x-emc-groupacl: other=READ''])
       (replicate 64 zero_acl_entry, 0) = Some (acl', n') \<and>
     arr_holds acl_entry_view acl' n' [(''alice'', ATMOS_USER, ATMOS_PERM_FULL),
        (''bob'', ATMOS_USER, ATMOS_PERM_NONE), (''other'', ATMOS_GROUP, ATMOS_PERM_READ)]"
proof -
  have lines: "acl_header_lines sample_acl_list =
      [''x-emc-useracl: alice=FULL_CONTROL, bob=NONE'', ''x-emc-groupacl: other=READ'']"
    by (simp add: acl_header_lines_def acl_users_def acl_groups_def acl_line_def acl_text_def sample_acl_list_def literals)
  have clean: "\<forall>e \<in> set sample_acl_list. acl_entry_clean e"
    by (simp add: sample_acl_list_def acl_entry_clean_def)
  have parts: "acl_users sample_acl_list @ acl_groups sample_acl_list = [(''alice'', ATMOS_USER, ATMOS_PERM_FULL),
        (''bob'', ATMOS_USER, ATMOS_PERM_NONE), (''other'', ATMOS_GROUP, ATMOS_PERM_READ)]"
    by (simp add: acl_users_def acl_groups_def sample_acl_list_def literals)
  have written: "AtmosUtil_set_acl_header list_env sample_acl 3 (sample_request HTTP_POST ''/rest/objects'') =
      Some (add_headers list_env (sample_request HTTP_POST ''/rest/objects'') (acl_header_lines sample_acl_list))"
    by (rule set_acl_header_lines[OF mem_ok_list_env sample_acl_holds])
  have "rs_headers (sample_response (acl_header_lines sample_acl_list)) =
      req_headers (add_headers list_env (sample_request HTTP_POST ''/rest/objects'') (acl_header_lines sample_acl_list))"
    by (simp add: req_headers_add_headers)
  from acl_header_roundtrip[OF mem_ok_list_env rest_client_ok_list_env lookup_ok_list_env(1) sample_acl_holds clean
      sample_simps(1) written this acl_inv_zero[of 64]]
  show ?thesis unfolding lines parts by (simp add: sample_acl_list_def)
qed

section \<open>Metadata\<close>

text \<open>
  What the header carries of a name or value, and the pairs that survive. Without encoding they
  must pass the character check of the writer and not start with a space; with encoding any
  bytes do. A name the server reserves for system metadata never comes back as user metadata.
\<close>

definition meta_text :: "env \<Rightarrow> int \<Rightarrow> string \<Rightarrow> string" where
  "meta_text E utf8 s = (if utf8 \<noteq> 0 then the (curl_easy_escape E s) else s)"

definition meta_pair_clean :: "env \<Rightarrow> int \<Rightarrow> string \<times> string \<Rightarrow> bool" where
  "meta_pair_clean E utf8 p \<longleftrightarrow>
     (utf8 = 0 \<longrightarrow> meta_pair_ok p \<and> (fst p = [] \<or> hd (fst p) \<noteq> CHR '' '') \<and> (snd p = [] \<or> hd (snd p) \<noteq> CHR '' '')) \<and>
     meta_text E utf8 (fst p) \<notin> set ATMOS_SYSTEM_META_NAMES"

definition encoded_entry :: "env \<Rightarrow> int \<Rightarrow> string \<times> string \<Rightarrow> string" where
  "encoded_entry E utf8 p = meta_text E utf8 (fst p) @ ''='' @ meta_text E utf8 (snd p)"

lemma meta_text_codec:
  assumes "curl_codec_ok E \<or> utf8 = 0" "cstring s"
    "utf8 = 0 \<Longrightarrow> (\<forall>c \<in> set s. meta_char_ok c) \<and> (s = [] \<or> hd s \<noteq> CHR '' '')"
  shows "cstring (meta_text E utf8 s)" "length (meta_text E utf8 s) \<le> 3 * length s"
    "CHR '','' \<notin> set (meta_text E utf8 s)" "CHR ''='' \<notin> set (meta_text E utf8 s)"
    "meta_text E utf8 s = [] \<or> hd (meta_text E utf8 s) \<noteq> CHR '' ''"
    "unescaped E utf8 (meta_text E utf8 s) = s"
proof -
  have "cstring (meta_text E utf8 s) \<and> length (meta_text E utf8 s) \<le> 3 * length s \<and>
    CHR '','' \<notin> set (meta_text E utf8 s) \<and> CHR ''='' \<notin> set (meta_text E utf8 s) \<and>
    (meta_text E utf8 s = [] \<or> hd (meta_text E utf8 s) \<noteq> CHR '' '') \<and>
    unescaped E utf8 (meta_text E utf8 s) = s"
  proof (cases "utf8 = 0")
    case True
    then show ?thesis using assms by (auto simp: meta_text_def unescaped_def meta_char_ok_def)
  next
    case False
    with assms(1,2) obtain e where e: "curl_easy_escape E s = Some e" "curl_easy_unescape E e = Some s"
        "cstring e" "length e \<le> 3 * length s" "\<forall>c \<in> set e. c \<noteq> CHR '','' \<and> c \<noteq> CHR ''='' \<and> c \<noteq> CHR '' ''"
      unfolding curl_codec_ok_def by blast
    then have "meta_text E utf8 s = e" "unescaped E utf8 e = s" using False by (simp_all add: meta_text_def unescaped_def)
    then show ?thesis using e(3-5) by (cases e) auto
  qed
  then show "cstring (meta_text E utf8 s)" "length (meta_text E utf8 s) \<le> 3 * length s"
    "CHR '','' \<notin> set (meta_text E utf8 s)" "CHR ''='' \<notin> set (meta_text E utf8 s)"
    "meta_text E utf8 s = [] \<or> hd (meta_text E utf8 s) \<noteq> CHR '' ''"
    "unescaped E utf8 (meta_text E utf8 s) = s" by blast+
qed

text \<open>The pair as the parser sees it; the arrays the code parses into have exactly the room it needs.\<close>

lemma encoded_entry_parse:
  assumes "curl_codec_ok E \<or> utf8 = 0" "cstring n" "cstring v" "meta_pair_clean E utf8 (n, v)"
    "length n < ATMOS_META_NAME_MAX" "length v < ATMOS_META_VALUE_MAX"
  shows "user_piece_fits E utf8 (encoded_entry E utf8 (n, v))"
    "user_meta_of E utf8 (encoded_entry E utf8 (n, v)) = [(n, v)]"
    "CHR '','' \<notin> set (encoded_entry E utf8 (n, v))" "cstring (encoded_entry E utf8 (n, v))"
proof -
  note nt = meta_text_codec[OF assms(1,2)] and vt = meta_text_codec[OF assms(1,3)]
  have ok: "utf8 = 0 \<Longrightarrow> (\<forall>c \<in> set n. meta_char_ok c) \<and> (n = [] \<or> hd n \<noteq> CHR '' '')"
    "utf8 = 0 \<Longrightarrow> (\<forall>c \<in> set v. meta_char_ok c) \<and> (v = [] \<or> hd v \<noteq> CHR '' '')"
    using assms(4) by (auto simp: meta_pair_clean_def meta_pair_ok_def)
  note nt = nt[OF ok(1)] and vt = vt[OF ok(2)]
  have parts: "entry_parts (encoded_entry E utf8 (n, v)) = (meta_text E utf8 n, meta_text E utf8 v)"
    unfolding encoded_entry_def fst_conv snd_conv by (rule entry_parts_pair) (use nt vt in blast)+
  show "user_piece_fits E utf8 (encoded_entry E utf8 (n, v))"
    using nt(2,6) vt(2) assms(5,6) unfolding user_piece_fits_def entry_fits_def parts
    by (simp add: encoded_entry_def)
  have "take 1023 v = v" using assms(6) by simp
  then show "user_meta_of E utf8 (encoded_entry E utf8 (n, v)) = [(n, v)]"
    using nt(6) vt(6) assms(4) unfolding user_meta_of_def parts
    by (simp add: meta_pair_clean_def)
  show "CHR '','' \<notin> set (encoded_entry E utf8 (n, v))" "cstring (encoded_entry E utf8 (n, v))"
    using nt(1,3) vt(1,3) by (simp_all add: encoded_entry_def)
qed

lemma metadata_pair_bounds:
  assumes "arr_holds metadata_pair meta k L" "\<forall>m \<in> set meta. wf_metadata m" "(n, v) \<in> set L"
  shows "cstring n" "cstring v" "length n < ATMOS_META_NAME_MAX" "length v < ATMOS_META_VALUE_MAX"
proof -
  obtain m where m: "m \<in> set meta" "metadata_pair m = Some (n, v)" using arr_holds_view[OF assms(1,3)] by blast
  then have c: "c_str (md_name m) = Some n" "c_str (md_value m) = Some v"
    by (auto simp: metadata_pair_def bind_eq_Some_conv)
  moreover have "length (md_name m) = ATMOS_META_NAME_MAX" "length (md_value m) = ATMOS_META_VALUE_MAX"
    using m(1) assms(2) by (auto simp: wf_metadata_def)
  ultimately show "cstring n" "cstring v" "length n < ATMOS_META_NAME_MAX" "length v < ATMOS_META_VALUE_MAX"
    using c_str_length[OF c(1)] c_str_length[OF c(2)] c_str_cstring by auto
qed

text \<open>The line the writer adds, with and without encoding.\<close>

lemma set_metadata_header_encoded:
  assumes "mem_ok E" "curl_codec_ok E \<or> utf8 = 0" "arr_holds metadata_pair meta n L" "L \<noteq> []"
    "\<forall>p \<in> set L. meta_pair_clean E utf8 p"
  shows "AtmosUtil_set_metadata_header E meta n listable utf8 request =
     Some (add_header E request ((if \<not> listable then ATMOS_HEADER_META else ATMOS_HEADER_LISTABLE_META) @ '': '' @
       join_with '','' (map (encoded_entry E utf8) L)))"
proof (cases "utf8 = 0")
  case True
  have "AtmosUtil_set_metadata_header E meta n listable utf8 request =
      Some (add_header E request (metadata_header_line listable plain_pieces L))"
  proof (rule set_metadata_header_pieces[OF assms(1,3,4)])
    show "metadata_header_entry E utf8 hs i p = AtmosUtil_cstring_append_all E hs (plain_pieces i p)" for hs i p
      using True by (simp add: metadata_entry_plain)
    show "cstring s" if "p \<in> set L" "s \<in> set (plain_pieces i p)" for i p s
      using that arr_holds_cstring[OF assms(3) that(1)] by (auto simp: plain_pieces_def split: if_splits)
  qed
  moreover have "\<forall>p \<in> set L. meta_pair_ok p" using assms(5) True by (auto simp: meta_pair_clean_def)
  moreover have "meta_entry_text = encoded_entry E utf8"
    using True by (simp add: fun_eq_iff meta_entry_text_def encoded_entry_def meta_text_def)
  ultimately show ?thesis by (simp add: metadata_line_clean)
next
  case False
  then have codec: "curl_codec_ok E" using assms(2) by blast
  note esc = curl_codec_escape[OF codec]
  have enc: "cstring (the (curl_easy_escape E s))" if "cstring s" for s
    using esc that unfolding escape_total_def by (metis option.sel)
  have "AtmosUtil_set_metadata_header E meta n listable utf8 request =
      Some (add_header E request (metadata_header_line listable (utf8_pieces E) L))"
  proof (rule set_metadata_header_pieces[OF assms(1,3,4)])
    show "metadata_header_entry E utf8 hs i p = AtmosUtil_cstring_append_all E hs (utf8_pieces E i p)"
      if "p \<in> set L" for hs i p
      using metadata_entry_utf8[OF esc False] arr_holds_cstring[OF assms(3) that] by blast
    show "cstring s" if "p \<in> set L" "s \<in> set (utf8_pieces E i p)" for i p s
      using that arr_holds_cstring[OF assms(3) that(1)] enc by (auto simp: utf8_pieces_def split: if_splits)
  qed
  moreover have "(\<lambda>p. the (curl_easy_escape E (fst p)) @ ''='' @ the (curl_easy_escape E (snd p))) = encoded_entry E utf8"
    using False by (simp add: fun_eq_iff encoded_entry_def meta_text_def)
  ultimately show ?thesis by (simp add: metadata_line_utf8)
qed

text \<open>The parser on such a value.\<close>

lemma encoded_list_parse:
  assumes "curl_codec_ok E \<or> utf8 = 0" "L \<noteq> []" "\<forall>p \<in> set L. meta_pair_clean E utf8 p \<and> meta_fits p"
    and "\<forall>m \<in> set meta0. wf_metadata m" "length L \<le> length meta0"
  shows "\<exists>st. AtmosUtil_parse_meta_header_string E utf8 (join_with '','' (map (encoded_entry E utf8) L)) (meta0, 0) = Some st \<and>
     user_inv st L"
proof -
  let ?v = "join_with '','' (map (encoded_entry E utf8) L)"
  have e: "user_piece_fits E utf8 (encoded_entry E utf8 p) \<and> user_meta_of E utf8 (encoded_entry E utf8 p) = [p] \<and>
      CHR '','' \<notin> set (encoded_entry E utf8 p) \<and> cstring (encoded_entry E utf8 p)" if "p \<in> set L" for p
    using encoded_entry_parse[OF assms(1), of "fst p" "snd p"] that assms(3) by (simp add: meta_fits_def)
  have split: "split_on CHR '','' ?v = map (encoded_entry E utf8) L"
    by (rule split_on_join) (use assms(2) e in auto)
  have "set ?v \<subseteq> set [CHR '',''] \<union> \<Union> (set ` set (map (encoded_entry E utf8) L))" by (rule set_join_with)
  then have cs: "cstring ?v" using e by (fastforce simp: cdefs)
  have "map (user_meta_of E utf8) (map (encoded_entry E utf8) L) = map (\<lambda>p. [p]) L" using e by simp
  then have list: "user_meta_list E utf8 ?v = L" unfolding user_meta_list_def split by (simp only: concat_map_singleton list.map_ident)
  have fits: "\<forall>p \<in> set (split_on CHR '','' ?v). user_piece_fits E utf8 p" unfolding split using e by simp
  have "unescape_total E \<or> utf8 = 0" using assms(1) by (auto simp: curl_codec_ok_def)
  then show ?thesis using parse_meta_header_string_list[OF _ cs fits, of "(meta0, 0)" "[]"] assms(4,5) list
    by (auto simp: user_inv_def)
qed

lemma metadata_pairs_fit:
  assumes "arr_holds metadata_pair meta k L" "\<forall>m \<in> set meta. wf_metadata m"
  shows "\<forall>p \<in> set L. meta_fits p"
  using metadata_pair_bounds[OF assms] by (auto simp: meta_fits_def)

definition sample_metadata :: "AtmosMetadata list" where
  "sample_metadata =
     [\<lparr>md_name = text_buffer ATMOS_META_NAME_MAX ''a,b='', md_value = text_buffer ATMOS_META_VALUE_MAX '' x y''\<rparr>,
      \<lparr>md_name = text_buffer ATMOS_META_NAME_MAX ''size2'', md_value = text_buffer ATMOS_META_VALUE_MAX []\<rparr>]"

lemma sample_metadata_holds: "arr_holds metadata_pair sample_metadata 2 [(''a,b='', '' x y''), (''size2'', [])]"
  by (simp add: arr_holds_def sample_metadata_def metadata_pair_def)

section \<open>Lookup\<close>

lemma get_metadata_loop_drop:
  assumes "arr_holds metadata_pair meta n L" "k \<le> length L"
  shows "get_metadata_loop name meta [k..<length L] = Some (map_of (drop k L) name)"
  using assms(2)
proof (induction "length L - k" arbitrary: k)
  case (Suc d)
  then have k: "k < length L" by simp
  obtain a b where ab: "L ! k = (a, b)" by (cases "L ! k")
  have "map metadata_pair (take (length L) meta) ! k = map Some L ! k" "length L \<le> length meta"
    using assms(1) by (auto simp: arr_holds_def)
  then have m: "arr_get meta (int k) = Some (meta ! k)" "metadata_pair (meta ! k) = Some (a, b)"
    using k ab by (auto simp: arr_get_nat)
  then have c: "c_str (md_name (meta ! k)) = Some a" "c_str (md_value (meta ! k)) = Some b"
    by (auto simp: metadata_pair_def bind_eq_Some_conv)
  have "[k..<length L] = k # [Suc k..<length L]" using k by (simp add: upt_conv_Cons)
  moreover have "drop k L = (a, b) # drop (Suc k) L" using k ab by (metis Cons_nth_drop_Suc)
  moreover have "get_metadata_loop name meta [Suc k..<length L] = Some (map_of (drop (Suc k) L) name)"
    using Suc by (intro Suc.hyps) auto
  ultimately show ?case using m(1) c by simp
qed simp

lemma get_acl_loop_drop:
  assumes "arr_holds acl_entry_view acl n L" "k \<le> length L"
  shows "get_acl_loop p acl ty [k..<length L] =
     Some (case map_of (map (\<lambda>(q, t, perm). ((q, t), perm)) (drop k L)) (p, ty) of
             None \<Rightarrow> ATMOS_PERM_NONE | Some perm \<Rightarrow> perm)"
  using assms(2)
proof (induction "length L - k" arbitrary: k)
  case (Suc d)
  then have k: "k < length L" by simp
  obtain q t perm where e: "L ! k = (q, t, perm)" by (cases "L ! k")
  have "map acl_entry_view (take (length L) acl) ! k = map Some L ! k" "length L \<le> length acl"
    using assms(1) by (auto simp: arr_holds_def)
  then have m: "arr_get acl (int k) = Some (acl ! k)" "acl_entry_view (acl ! k) = Some (q, t, perm)"
    using k e by (auto simp: arr_get_nat)
  then have c: "c_str (principal (acl ! k)) = Some q" "acl_type (acl ! k) = t" "permission (acl ! k) = perm"
    by (auto simp: acl_entry_view_def bind_eq_Some_conv)
  have "[k..<length L] = k # [Suc k..<length L]" using k by (simp add: upt_conv_Cons)
  moreover have "drop k L = (q, t, perm) # drop (Suc k) L" using k e by (metis Cons_nth_drop_Suc)
  moreover have "get_acl_loop p acl ty [Suc k..<length L] =
     Some (case map_of (map (\<lambda>(q, t, perm). ((q, t), perm)) (drop (Suc k) L)) (p, ty) of
             None \<Rightarrow> ATMOS_PERM_NONE | Some perm \<Rightarrow> perm)"
    using Suc by (intro Suc.hyps) auto
  ultimately show ?case using m(1) c by auto
qed simp

lemma get_metadata_value_map_of:
  assumes "arr_holds metadata_pair meta n L"
  shows "AtmosUtil_get_metadata_value name meta n = Some (map_of L name)"
  using get_metadata_loop_drop[OF assms, of 0 name] assms
  by (simp add: AtmosUtil_get_metadata_value_def arr_holds_def)

lemma get_acl_permission_first:
  assumes "arr_holds acl_entry_view acl n L"
  shows "AtmosUtil_get_acl_permission p acl n ty =
     Some (case map_of (map (\<lambda>(q, t, perm). ((q, t), perm)) L) (p, ty) of
             None \<Rightarrow> ATMOS_PERM_NONE | Some perm \<Rightarrow> perm)"
  using get_acl_loop_drop[OF assms, of 0 p ty] assms
  by (simp add: AtmosUtil_get_acl_permission_def arr_holds_def)

text \<open>
  The lookup functions see the arrays as maps: \<open>AtmosUtil_get_metadata_value\<close> returns the value of the first entry
  with the name, and \<open>NULL\<close> when there is none; \<open>AtmosUtil_get_acl_permission\<close> returns the permission of the first entry
  with the principal and the type, and \<open>ATMOS_PERM_NONE\<close> for a principal that is not listed.
\<close>

lemma lookups_are_maps:
  assumes "arr_holds metadata_pair meta n L" "arr_holds acl_entry_view acl k A"
  shows "AtmosUtil_get_metadata_value name meta n = Some (map_of L name) \<and>
     AtmosUtil_get_acl_permission p acl k ty =
       Some (case map_of (map (\<lambda>(q, t, perm). ((q, t), perm)) A) (p, ty) of
               None \<Rightarrow> ATMOS_PERM_NONE | Some perm \<Rightarrow> perm)"
  using get_metadata_value_map_of[OF assms(1)] get_acl_permission_first[OF assms(2)] by blast

lemma lookups_are_maps_witness:
  "AtmosUtil_get_metadata_value ''size2'' sample_metadata 2 = Some (Some []) \<and>
   AtmosUtil_get_acl_permission ''alice'' sample_acl 3 ATMOS_USER = Some ATMOS_PERM_FULL"
  using lookups_are_maps[OF sample_metadata_holds sample_acl_holds, of "''size2''" "''alice''" ATMOS_USER]
  by (simp add: sample_acl_list_def)

end
