(* ===== verification/Metadata_Laws.thy ===== *)
theory Metadata_Laws
  imports Create_Laws Header_Round_Trips
begin

text \<open>
  Metadata over the whole way: from the arrays of a write request over its headers to the server,
  and from the headers of the server's answer into the arrays of a response.
\<close>

section \<open>The header lines of a write request, as a server hands them back\<close>

lemma metadata_lines_encoded:
  assumes "L \<noteq> []" "\<forall>p \<in> set L. meta_pair_clean E utf8 p"
  shows "metadata_lines E utf8 listable L =
     [(if \<not> listable then ATMOS_HEADER_META else ATMOS_HEADER_LISTABLE_META) @ '': '' @ join_with '','' (map (encoded_entry E utf8) L)]"
proof (cases "utf8 = 0")
  case True
  then have "\<forall>p \<in> set L. meta_pair_ok p" using assms(2) by (auto simp: meta_pair_clean_def)
  moreover have "meta_entry_text = encoded_entry E utf8"
    using True by (simp add: fun_eq_iff meta_entry_text_def encoded_entry_def meta_text_def)
  ultimately show ?thesis using assms(1) True by (simp add: metadata_lines_def metadata_pieces_def metadata_line_clean)
next
  case False
  then have "(\<lambda>p. the (curl_easy_escape E (fst p)) @ ''='' @ the (curl_easy_escape E (snd p))) = encoded_entry E utf8"
    by (simp add: fun_eq_iff encoded_entry_def meta_text_def)
  then show ?thesis using assms(1) False by (simp add: metadata_lines_def metadata_pieces_def metadata_line_utf8)
qed

text \<open>Only whether the UTF-8 mode is on matters, not which number says so.\<close>

definition mode_bit :: "int \<Rightarrow> int" where
  "mode_bit utf8 = (if utf8 \<noteq> 0 then 1 else 0)"

lemma mode_bit_same:
  "encoded_entry E (mode_bit utf8) = encoded_entry E utf8" "meta_pair_clean E (mode_bit utf8) = meta_pair_clean E utf8"
  "mode_bit utf8 = 0 \<longleftrightarrow> utf8 = 0"
  by (auto simp: fun_eq_iff encoded_entry_def meta_text_def meta_pair_clean_def mode_bit_def)

lemma encoded_no_space:
  assumes "curl_codec_ok E \<or> utf8 = 0" "L \<noteq> []" "\<forall>p \<in> set L. meta_pair_clean E utf8 p \<and> meta_fits p"
  shows "dropWhile (\<lambda>c. c = CHR '' '') (join_with '','' (map (encoded_entry E utf8) L)) = join_with '','' (map (encoded_entry E utf8) L)"
proof -
  obtain p ps where L: "L = p # ps" using assms(2) by (cases L) auto
  have "cstring (fst p)" "utf8 = 0 \<Longrightarrow> (\<forall>c \<in> set (fst p). meta_char_ok c) \<and> (fst p = [] \<or> hd (fst p) \<noteq> CHR '' '')"
    using assms(3) L by (auto simp: meta_fits_def meta_pair_clean_def meta_pair_ok_def)
  from meta_text_codec(5)[OF assms(1) this]
  have "hd (encoded_entry E utf8 p) \<noteq> CHR '' ''" "encoded_entry E utf8 p \<noteq> []"
    by (auto simp: encoded_entry_def hd_append)
  then show ?thesis by (intro dropWhile_hd_id) (cases ps; simp add: L)
qed

lemma meta_names_lower:
  "CHR '':'' \<notin> set ATMOS_HEADER_META" "CHR '':'' \<notin> set ATMOS_HEADER_LISTABLE_META" "CHR '':'' \<notin> set ATMOS_HEADER_UTF8"
  "map tolower ATMOS_HEADER_META = ATMOS_HEADER_META" "map tolower ATMOS_HEADER_LISTABLE_META = ATMOS_HEADER_LISTABLE_META"
  "map tolower ATMOS_HEADER_UTF8 = ATMOS_HEADER_UTF8"
  by (simp_all add: literals tolower_def)

lemma meta_names_distinct:
  "ATMOS_HEADER_LISTABLE_META \<noteq> ATMOS_HEADER_META" "ATMOS_HEADER_UTF8 \<noteq> ATMOS_HEADER_META"
  "ATMOS_HEADER_USER_ACL \<noteq> ATMOS_HEADER_META" "ATMOS_HEADER_GROUP_ACL \<noteq> ATMOS_HEADER_META"
  "ATMOS_HEADER_META \<noteq> ATMOS_HEADER_LISTABLE_META" "ATMOS_HEADER_UTF8 \<noteq> ATMOS_HEADER_LISTABLE_META"
  "ATMOS_HEADER_USER_ACL \<noteq> ATMOS_HEADER_LISTABLE_META" "ATMOS_HEADER_GROUP_ACL \<noteq> ATMOS_HEADER_LISTABLE_META"
  "ATMOS_HEADER_META \<noteq> ATMOS_HEADER_UTF8" "ATMOS_HEADER_LISTABLE_META \<noteq> ATMOS_HEADER_UTF8"
  "ATMOS_HEADER_USER_ACL \<noteq> ATMOS_HEADER_UTF8" "ATMOS_HEADER_GROUP_ACL \<noteq> ATMOS_HEADER_UTF8"
  by (simp_all add: literals)

lemma lookup_write_lines:
  assumes "curl_codec_ok E \<or> utf8 = 0" "\<forall>p \<in> set M \<union> set LM. meta_pair_clean E utf8 p \<and> meta_fits p"
  shows "lookup_header (write_lines E utf8 M LM A) ATMOS_HEADER_META =
      (if M = [] then None else Some (join_with '','' (map (encoded_entry E utf8) M)))"
    "lookup_header (write_lines E utf8 M LM A) ATMOS_HEADER_LISTABLE_META =
      (if LM = [] then None else Some (join_with '','' (map (encoded_entry E utf8) LM)))"
    "lookup_header (write_lines E utf8 M LM A) ATMOS_HEADER_UTF8 = (if utf8 \<noteq> 0 then Some ''true'' else None)"
proof -
  note line = lookup_header_line[OF meta_names_lower(1), of "CHR '' '' # v" for v] lookup_header_line[OF meta_names_lower(2), of "CHR '' '' # v" for v]
    lookup_header_line[OF meta_names_lower(3), of "CHR '' '' # v" for v] lookup_header_line[OF header_names_lower(3), of "CHR '' '' # v" for v]
    lookup_header_line[OF header_names_lower(4), of "CHR '' '' # v" for v]
  have M: "metadata_lines E utf8 False M = (if M = [] then [] else [ATMOS_HEADER_META @ '': '' @ join_with '','' (map (encoded_entry E utf8) M)])"
    using metadata_lines_encoded[of M E utf8 False] assms(2) by (auto simp: metadata_lines_def)
  have LM: "metadata_lines E utf8 True LM = (if LM = [] then [] else [ATMOS_HEADER_LISTABLE_META @ '': '' @ join_with '','' (map (encoded_entry E utf8) LM)])"
    using metadata_lines_encoded[of LM E utf8 True] assms(2) by (auto simp: metadata_lines_def)
  have d: "M \<noteq> [] \<Longrightarrow> dropWhile (\<lambda>c. c = CHR '' '') (join_with '','' (map (encoded_entry E utf8) M)) = join_with '','' (map (encoded_entry E utf8) M)"
    "LM \<noteq> [] \<Longrightarrow> dropWhile (\<lambda>c. c = CHR '' '') (join_with '','' (map (encoded_entry E utf8) LM)) = join_with '','' (map (encoded_entry E utf8) LM)"
    using encoded_no_space[OF assms(1)] assms(2) by auto
  note defs = write_lines_def M LM utf8_header_def acl_header_lines_def acl_line_def line meta_names_lower header_names_lower(1,2) d
  show "lookup_header (write_lines E utf8 M LM A) ATMOS_HEADER_META =
      (if M = [] then None else Some (join_with '','' (map (encoded_entry E utf8) M)))"
    "lookup_header (write_lines E utf8 M LM A) ATMOS_HEADER_LISTABLE_META =
      (if LM = [] then None else Some (join_with '','' (map (encoded_entry E utf8) LM)))"
    "lookup_header (write_lines E utf8 M LM A) ATMOS_HEADER_UTF8 = (if utf8 \<noteq> 0 then Some ''true'' else None)"
    using meta_names_distinct by (simp_all add: defs del: lookup_header.simps(2))
qed

text \<open>A response with these headers is read into the pairs they were made from.\<close>

lemma parse_written_headers:
  assumes "response_lookup_ok E" "curl_codec_ok E \<or> utf8 = 0" "\<forall>p \<in> set M \<union> set LM. meta_pair_clean E utf8 p \<and> meta_fits p"
    and "rs_headers base = write_lines E utf8 M LM A" "length M \<le> length meta0" "length LM \<le> length listable0"
    and "\<forall>m \<in> set meta0 \<union> set listable0. wf_metadata m"
  shows "\<exists>st lst. AtmosUtil_parse_user_meta_headers E base (meta0, 0) (listable0, 0) = Some (st, lst) \<and> user_inv st M \<and> user_inv lst LM"
proof -
  have look: "RestResponse_get_header_value E base n = lookup_header (write_lines E utf8 M LM A) n" for n
    using assms(1,4) by (simp add: response_lookup_ok_def)
  note l = lookup_write_lines[OF assms(2,3), of A]
  have flag: "utf8_flag E base = mode_bit utf8" by (simp add: utf8_flag_def look l mode_bit_def)
  have codec: "curl_codec_ok E \<or> mode_bit utf8 = 0" using assms(2) by (simp add: mode_bit_same)
  have part: "\<exists>st. (case (if L = [] then None else Some (join_with '','' (map (encoded_entry E utf8) L))) of
        None \<Rightarrow> Some (z, 0) | Some v \<Rightarrow> AtmosUtil_parse_meta_header_string E (mode_bit utf8) v (z, 0)) = Some st \<and> user_inv st L"
    if "\<forall>p \<in> set L. meta_pair_clean E utf8 p \<and> meta_fits p" "length L \<le> length z" "\<forall>m \<in> set z. wf_metadata m" for L z
    using encoded_list_parse[OF codec, of L z] that by (cases "L = []") (simp_all add: mode_bit_same user_inv_def)
  obtain st lst where "(case (if M = [] then None else Some (join_with '','' (map (encoded_entry E utf8) M))) of
        None \<Rightarrow> Some (meta0, 0) | Some v \<Rightarrow> AtmosUtil_parse_meta_header_string E (mode_bit utf8) v (meta0, 0)) = Some st" "user_inv st M"
    "(case (if LM = [] then None else Some (join_with '','' (map (encoded_entry E utf8) LM))) of
        None \<Rightarrow> Some (listable0, 0) | Some v \<Rightarrow> AtmosUtil_parse_meta_header_string E (mode_bit utf8) v (listable0, 0)) = Some lst" "user_inv lst LM"
    using part[of M meta0] part[of LM listable0] assms(3,5-7) by auto
  then show ?thesis by (simp add: AtmosUtil_parse_user_meta_headers_def look l flag)
qed

text \<open>
  C6: Metadata written by \<open>AtmosUtil_set_metadata_header\<close> is read back unchanged by
  \<open>AtmosUtil_parse_user_meta_headers\<close>: both writers, for regular and for listable metadata, add their header, and whenever
  a response carries these two headers, next to the one that announces UTF-8 when the mode is on, the parser returns; the first
  array then holds the regular and the second the listable pairs, in order, with their counts. This holds
  with percent-encoding for every name and value the arrays can hold, without it for clean ones.
\<close>

theorem metadata_header_roundtrip:
  assumes "mem_ok E" "rest_client_ok E" "response_lookup_ok E" "curl_codec_ok E \<or> utf8 = 0"
    and "arr_holds metadata_pair meta n M" "arr_holds metadata_pair listable k LM" "M \<noteq> []" "LM \<noteq> []"
    and "\<forall>m \<in> set meta \<union> set listable \<union> set meta0 \<union> set listable0. wf_metadata m"
    and "\<forall>p \<in> set M \<union> set LM. meta_pair_clean E utf8 p"
    and "req_headers rq = []" "length M \<le> length meta0" "length LM \<le> length listable0"
  shows "\<exists>rq1 rq2. AtmosUtil_set_metadata_header E meta n False utf8 rq = Some rq1 \<and>
     AtmosUtil_set_metadata_header E listable k True utf8 rq1 = Some rq2 \<and>
     (\<forall>base. rs_headers base = req_headers rq2 @ (if utf8 \<noteq> 0 then [utf8_header] else []) \<longrightarrow>
        (\<exists>meta' n' listable' k'. AtmosUtil_parse_user_meta_headers E base (meta0, 0) (listable0, 0) = Some ((meta', n'), (listable', k')) \<and>
           arr_holds metadata_pair meta' n' M \<and> arr_holds metadata_pair listable' k' LM))"
proof -
  let ?l = "\<lambda>listable L. (if \<not> listable then ATMOS_HEADER_META else ATMOS_HEADER_LISTABLE_META) @ '': '' @ join_with '','' (map (encoded_entry E utf8) L)"
  let ?rq1 = "add_header E rq (?l False M)"
  let ?rq2 = "add_header E ?rq1 (?l True LM)"
  have clean: "\<forall>p \<in> set M. meta_pair_clean E utf8 p" "\<forall>p \<in> set LM. meta_pair_clean E utf8 p" using assms(10) by auto
  have w: "AtmosUtil_set_metadata_header E meta n False utf8 rq = Some ?rq1" "AtmosUtil_set_metadata_header E listable k True utf8 ?rq1 = Some ?rq2"
    by (rule set_metadata_header_encoded[OF assms(1,4,5,7) clean(1)]) (rule set_metadata_header_encoded[OF assms(1,4,6,8) clean(2)])
  have lines: "req_headers ?rq2 @ (if utf8 \<noteq> 0 then [utf8_header] else []) = write_lines E utf8 M LM []"
    unfolding write_lines_def metadata_lines_encoded[OF assms(7) clean(1)] metadata_lines_encoded[OF assms(8) clean(2)]
    by (simp add: add_header_ok[OF assms(2)] assms(11) acl_header_lines_def acl_users_def acl_groups_def)
  have fit: "\<forall>p \<in> set M \<union> set LM. meta_pair_clean E utf8 p \<and> meta_fits p"
    using metadata_pairs_fit[OF assms(5)] metadata_pairs_fit[OF assms(6)] assms(9,10) by auto
  have "\<exists>meta' n' listable' k'. AtmosUtil_parse_user_meta_headers E base (meta0, 0) (listable0, 0) = Some ((meta', n'), (listable', k')) \<and>
      arr_holds metadata_pair meta' n' M \<and> arr_holds metadata_pair listable' k' LM"
    if "rs_headers base = write_lines E utf8 M LM []" for base
    using parse_written_headers[OF assms(3,4) fit that assms(12,13)] assms(9) by (auto simp: user_inv_def)
  then show ?thesis unfolding lines[symmetric] using w by blast
qed

theorem metadata_header_roundtrip_witness:
  "\<exists>rq1 rq2. AtmosUtil_set_metadata_header list_env sample_metadata 2 False 1 (rest_request list_env ''/rest/objects'' HTTP_POST) = Some rq1 \<and>
     AtmosUtil_set_metadata_header list_env [\<lparr>md_name = text_buffer ATMOS_META_NAME_MAX ''tag'', md_value = text_buffer ATMOS_META_VALUE_MAX ''v''\<rparr>] 1
       True 1 rq1 = Some rq2 \<and>
     (\<forall>base. rs_headers base = req_headers rq2 @ (if (1 :: int) \<noteq> 0 then [utf8_header] else []) \<longrightarrow>
        (\<exists>meta' n' listable' k'. AtmosUtil_parse_user_meta_headers list_env base (replicate 127 zero_metadata, 0) (replicate 127 zero_metadata, 0) =
             Some ((meta', n'), (listable', k')) \<and>
           arr_holds metadata_pair meta' n' [(''a,b='', '' x y''), (''size2'', [])] \<and> arr_holds metadata_pair listable' k' [(''tag'', ''v'')]))"
proof (rule metadata_header_roundtrip[OF mem_ok_list_env rest_client_ok_list_env lookup_ok_list_env(1) disjI1[OF curl_codec_ok_list_env]
      sample_metadata_holds])
  show "\<forall>p \<in> set [(''a,b='', '' x y''), (''size2'', [])] \<union> set [(''tag'', ''v'')]. meta_pair_clean list_env 1 p"
    by (simp add: meta_pair_clean_def meta_text_def list_env_def unreserved_def hex_char_def
        ATMOS_SYSTEM_META_NAMES_def literals)
  show "\<forall>m \<in> set sample_metadata \<union> set [\<lparr>md_name = text_buffer ATMOS_META_NAME_MAX ''tag'', md_value = text_buffer ATMOS_META_VALUE_MAX ''v''\<rparr>] \<union>
      set (replicate 127 zero_metadata) \<union> set (replicate 127 zero_metadata). wf_metadata m"
    by (auto simp: sample_metadata_def wf_metadata_def zero_metadata_def)
  show "arr_holds metadata_pair [\<lparr>md_name = text_buffer ATMOS_META_NAME_MAX ''tag'', md_value = text_buffer ATMOS_META_VALUE_MAX ''v''\<rparr>] 1 [(''tag'', ''v'')]"
    by (simp add: arr_holds_def metadata_pair_def)
qed (simp_all add: rest_request_simps[OF rest_client_ok_list_env])

section \<open>Reading back what was written\<close>

text \<open>A fresh request for the user metadata of an object, as the filter sends it on.\<close>

lemma get_user_meta_request:
  assumes "rest_client_ok E" "AtmosGetUserMetaRequest_init E oid = Some rq" "cstring oid"
  shows "\<exists>rq1. user_meta_prepare E c rq = Some rq1 \<and> sendable rq1"
proof -
  obtain m where rq: "rq_uri (r_base rq) = snprintf_text (ATMOS_OID_LENGTH + 64) (''/rest/objects/'' @ oid @ ''?metadata/user'')"
    "req_headers rq = []" "rq_file_filter (r_base rq) = None" "r_sub rq = GetUserMeta_request m" "mr_tag_count m = 0"
    using assms(2) by (auto simp: AtmosGetUserMetaRequest_init_def AtmosGetUserMetaRequest_common_init_def upd_user_meta_def
        upd_meta_part_def set_meta_oid_def set_class_def upd_base_def bind_eq_Some_conv rest_request_simps[OF assms(1)]
        zero_meta_request_part_def)
  have "good_line utf8_header" by (simp add: good_line_def utf8_header_def)
  moreover have "cstring (rq_uri (r_base rq))" using assms(3) by (simp add: rq(1) snprintf_text_def cstring_take)
  ultimately show ?thesis using rq(2-5) by (auto simp: user_meta_prepare_def sendable_def add_header_ok[OF assms(1)])
qed

text \<open>
  C7: Metadata survives the way to the server and back: if the server answers \<open>AtmosClient_get_user_meta\<close> with the
  headers that the arrays of a write request were turned into, the operation sends its signed request and returns, and the arrays of the response hold the
  same names and values, listable and not listable, in the same order.
\<close>

theorem stored_metadata_read_back:
  assumes "mem_ok E" "base64_ok E" "rest_library_ok E hs" "response_lookup_ok E" "client_ok E c"
    and "curl_codec_ok E \<or> cl_enable_utf8_metadata c = 0"
    and "write_contents w M LM A" "\<forall>m \<in> set (w_meta w) \<union> set (w_listable_meta w). wf_metadata m"
    and "\<forall>p \<in> set M \<union> set LM. meta_pair_clean E (cl_enable_utf8_metadata c) p"
    and "length M \<le> ATMOS_META_COUNT_MAX" "length LM \<le> ATMOS_META_COUNT_MAX"
    and "metadata_headers E c w rq0 = Some stored" "req_headers rq0 = []"
    and "AtmosGetUserMetaRequest_init E oid = Some rq" "cstring oid"
    and "\<forall>sent base body blocks. transfers E c sent (AtmosGetUserMetaResponse_init E) base body blocks \<longrightarrow>
       http_code base = 200 \<and> rs_headers base = req_headers stored"
  shows "\<exists>rq' rs' p. AtmosClient_get_user_meta E c (rq, AtmosGetUserMetaResponse_init E) = Some (rq', rs') \<and>
     sub_of rs' = Some (GetUserMeta_response p) \<and>
     arr_holds metadata_pair (um_meta p) (um_meta_count p) M \<and>
     arr_holds metadata_pair (um_listable_metadata p) (um_listable_meta_count p) LM \<and>
     answers_signed E c rq' (AtmosGetUserMetaResponse_init E) (s_base rs')"
proof -
  note lib = rest_library_okD[OF assms(3)]
  let ?u = "cl_enable_utf8_metadata c" and ?rs = "AtmosGetUserMetaResponse_init E"
  have esc: "?u \<noteq> 0 \<longrightarrow> escape_total E" using assms(6) curl_codec_escape by blast
  have stored: "req_headers stored = write_lines E ?u M LM A"
    using metadata_headers_lines[OF assms(1) esc assms(7), of rq0] assms(12,13) by (auto simp: req_headers_add_headers[OF lib(1)])
  have fit: "\<forall>p \<in> set M \<union> set LM. meta_pair_clean E ?u p \<and> meta_fits p"
    using metadata_pairs_fit[of "w_meta w" "w_meta_count w" M] metadata_pairs_fit[of "w_listable_meta w" "w_listable_meta_count w" LM]
      assms(7-9) by (auto simp: write_contents_def)
  obtain rq1 where rq1: "user_meta_prepare E c rq = Some rq1" "sendable rq1"
    using get_user_meta_request[OF lib(1) assms(14,15)] by blast
  let ?xs = "[(AtmosFilter_set_get_user_meta_headers E, user_meta_prepare E, Some),
        (AtmosFilter_parse_get_user_meta_response E, \<lambda>c. Some, on_success (user_meta_answer E))]"
  have halves: "\<forall>x \<in> set ?xs. halves_of x" by auto
  have prepared: "foldM (\<lambda>rq x. fst (snd x) c rq) rq (rev ?xs) = Some rq1" using rq1(1) by simp
  have server: "\<forall>sent base body blocks. transfers E c sent ?rs base body blocks \<longrightarrow>
      http_code base = 200 \<and> rs_headers base = write_lines E ?u M LM A"
    using assms(16) stored by simp
  obtain rq' base where base: "http_code base = 200" "rs_headers base = write_lines E ?u M LM A"
    "execute E c (map fst ?xs) (rq, ?rs) = foldM (\<lambda>st fin. fin st) (rq', ?rs\<lparr>s_base := base\<rparr>) (map (snd \<circ> snd) ?xs)"
    "answers_signed E c rq' ?rs base"
    using execute_answered[OF assms(1-3,5) halves prepared rq1(2) server] by blast
  have room: "length M \<le> length (replicate ATMOS_META_COUNT_MAX zero_metadata)" "length LM \<le> length (replicate ATMOS_META_COUNT_MAX zero_metadata)"
    and wf: "\<forall>m \<in> set (replicate ATMOS_META_COUNT_MAX zero_metadata) \<union> set (replicate ATMOS_META_COUNT_MAX zero_metadata). wf_metadata m"
    using assms(10,11) by simp_all
  from parse_written_headers[OF assms(4,6) fit base(2) room wf]
  obtain st lst where st: "AtmosUtil_parse_user_meta_headers E base (replicate ATMOS_META_COUNT_MAX zero_metadata, 0)
       (replicate ATMOS_META_COUNT_MAX zero_metadata, 0) = Some (st, lst)" "user_inv st M" "user_inv lst LM" by blast
  then obtain rs' p where rs': "user_meta_answer E (?rs\<lparr>s_base := base\<rparr>) = Some rs'" "sub_of rs' = Some (GetUserMeta_response p)"
    "um_meta p = fst st" "um_meta_count p = snd st" "um_listable_metadata p = fst lst" "um_listable_meta_count p = snd lst"
    by (auto simp: user_meta_answer_def AtmosGetUserMetaResponse_init_def set_response_class_def AtmosResponse_init_def
        zero_user_meta_response_part_def sub_of_def)
  then have "AtmosClient_get_user_meta E c (rq, ?rs) = Some (rq', rs')"
    using base(1,3) by (simp add: AtmosClient_get_user_meta_def on_success_def)
  moreover have "s_base rs' = base" using rs'(1) by (auto simp: user_meta_answer_def dest: upd_sub_base)
  ultimately show ?thesis using rs'(2-6) st(2,3) base(4) by (auto simp: user_inv_def)
qed

text \<open>A server that answers with the header of the sample request.\<close>

abbreviation echo_env :: env where
  "echo_env \<equiv> answering_env 200 [''x-emc-meta: color=red'']"

theorem stored_metadata_read_back_witness:
  "\<exists>rq' rs' p. AtmosClient_get_user_meta echo_env sample_client (the (AtmosGetUserMetaRequest_init echo_env ''4d77''), AtmosGetUserMetaResponse_init echo_env) = Some (rq', rs') \<and>
     sub_of rs' = Some (GetUserMeta_response p) \<and>
     arr_holds metadata_pair (um_meta p) (um_meta_count p) [(''color'', ''red'')] \<and>
     arr_holds metadata_pair (um_listable_metadata p) (um_listable_meta_count p) []"
proof -
  note lib = rest_library_okD[OF answering_env_ok(3)[of 200 "[''x-emc-meta: color=red'']"]]
  let ?rq0 = "rest_request echo_env ''/rest/objects'' HTTP_POST"
  let ?stored = "add_headers echo_env ?rq0 (write_lines echo_env (cl_enable_utf8_metadata sample_client) [(''color'', ''red'')] [] [])"
  have u: "cl_enable_utf8_metadata sample_client = 0" by (simp add: sample_client_def)
  have c: "client_ok echo_env sample_client" using answering_env_ok(4) by (simp add: client_ok_def sample_client_def)
  have l: "write_lines echo_env (cl_enable_utf8_metadata sample_client) [(''color'', ''red'')] [] [] = [''x-emc-meta: color=red'']"
    by (simp add: u write_lines_def metadata_lines_def metadata_header_line_def metadata_pieces_def plain_pieces_def meta_char_ok_def
        acl_header_lines_def acl_users_def acl_groups_def literals meta_pair_ok_def)
  have m: "metadata_headers echo_env sample_client sample_write_part ?rq0 = Some ?stored"
    by (rule metadata_headers_lines[OF answering_env_ok(1) _ sample_write_contents]) (simp add: u)
  obtain rq where rq: "AtmosGetUserMetaRequest_init echo_env ''4d77'' = Some rq"
    using strncpy_zeros[of ATMOS_OID_LENGTH "''4d77''"]
    by (auto simp: AtmosGetUserMetaRequest_init_def AtmosGetUserMetaRequest_common_init_def upd_user_meta_def upd_meta_part_def
        set_meta_oid_def set_class_def upd_base_def zero_meta_request_part_def)
  have look: "response_lookup_ok echo_env" by (simp add: response_lookup_ok_def answering_env_def answering_def list_env_def)
  have wf: "\<forall>m \<in> set (w_meta sample_write_part) \<union> set (w_listable_meta sample_write_part). wf_metadata m"
    by (auto simp: sample_write_part_def wf_metadata_def zero_write_part_def zero_metadata_def)
  have clean: "\<forall>p \<in> set [(''color'', ''red'')] \<union> set []. meta_pair_clean echo_env (cl_enable_utf8_metadata sample_client) p"
    by (simp add: u meta_pair_clean_def meta_pair_ok_def meta_char_ok_def meta_text_def ATMOS_SYSTEM_META_NAMES_def literals)
  have h: "req_headers ?rq0 = []" by (simp add: rest_request_simps[OF lib(1)])
  have server: "\<forall>sent base body blocks. transfers echo_env sample_client sent (AtmosGetUserMetaResponse_init echo_env) base body blocks \<longrightarrow>
       http_code base = 200 \<and> rs_headers base = req_headers ?stored"
  proof (intro allI impI)
    fix sent base body blocks
    assume "transfers echo_env sample_client sent (AtmosGetUserMetaResponse_init echo_env) base body blocks"
    from transfers_base_unique[OF transfers_answering_env this]
    show "http_code base = 200 \<and> rs_headers base = req_headers ?stored" by (simp add: l add_header_ok[OF lib(1)] h)
  qed
  from stored_metadata_read_back[OF answering_env_ok(1-3) look c disjI2[OF u] sample_write_contents wf clean _ _ m h rq _ server]
  show ?thesis by (simp add: rq) blast
qed

end
