(* ===== verification/Acl_Laws.thy ===== *)
theory Acl_Laws
  imports Metadata_Laws
begin

text \<open>
  Access control lists over the whole way: from the array of a write request over its headers to
  the server, and from the headers of the server's answer into the array of a response.
\<close>

text \<open>What the answer step makes of the headers of a written ACL.\<close>

lemma acl_answer_written:
  assumes "response_lookup_ok E" "rs_headers (s_base rs) = acl_header_lines L" "\<forall>e \<in> set L. acl_entry_clean e \<and> cstring (fst e)"
    and "length L \<le> ATMOS_ACL_COUNT_MAX" "sub_of rs = Some (GetAcl_response zero_acl_response_part)"
  shows "\<exists>rs' p. acl_answer E rs = Some rs' \<and> sub_of rs' = Some (GetAcl_response p) \<and>
     arr_holds acl_entry_view (ga_acl p) (ga_acl_count p) (acl_users L @ acl_groups L)"
proof -
  obtain a where a: "s_atmos rs = Some (a, GetAcl_response zero_acl_response_part)" using assms(5) by (auto simp: sub_of_def)
  obtain st where st: "AtmosUtil_parse_acl_headers E (s_base rs) (replicate ATMOS_ACL_COUNT_MAX zero_acl_entry, 0) = Some st"
    "acl_inv st (acl_users L @ acl_groups L)"
    using parse_shown_acl[OF shows_acl_lines[OF assms(1-3)] assms(3) acl_inv_zero[of ATMOS_ACL_COUNT_MAX]] assms(4)
    unfolding length_replicate by blast
  show ?thesis
  proof (cases "RestResponse_get_header_value E (s_base rs) ATMOS_HEADER_USER_ACL = None \<and>
      RestResponse_get_header_value E (s_base rs) ATMOS_HEADER_GROUP_ACL = None")
    case True
    then have "acl_users L = []" "acl_groups L = []"
      using assms(1) lookup_acl_lines[of L] assms(3) by (simp_all add: response_lookup_ok_def assms(2) split: if_splits)
    then show ?thesis using True assms(5) by (simp add: acl_answer_def zero_acl_response_part_def arr_holds_def)
  next
    case False
    then have "acl_answer E rs = Some (rs\<lparr>s_atmos := Some (a, GetAcl_response (zero_acl_response_part\<lparr>ga_acl := fst st, ga_acl_count := snd st\<rparr>))\<rparr>)"
      using a st(1) False by (auto simp: acl_answer_def zero_acl_response_part_def)
    then show ?thesis using st(2) by (simp add: sub_of_def acl_inv_def)
  qed
qed

text \<open>
  C18: Access control survives the way to the server and back: if the server answers \<open>AtmosClient_get_acl\<close> with the headers
  that the array of a write request was turned into, the operation signs and sends its request and returns, and the array of the response
  holds the same principals and permissions: the user entries in order, then those of the group \<open>other\<close>.
\<close>

theorem stored_acl_read_back:
  assumes "mem_ok E" "base64_ok E" "rest_library_ok E hs" "response_lookup_ok E" "client_ok E c" "cstring oid"
    and "arr_holds acl_entry_view acl n L" "\<forall>e \<in> set L. acl_entry_clean e" "length L \<le> ATMOS_ACL_COUNT_MAX"
    and "AtmosUtil_set_acl_header E acl n rq0 = Some stored" "req_headers rq0 = []"
    and "\<forall>sent base body blocks. transfers E c sent (AtmosGetAclResponse_init E) base body blocks \<longrightarrow>
       http_code base = 200 \<and> rs_headers base = req_headers stored"
  shows "\<exists>rq' rs' p. AtmosClient_get_acl E c oid (AtmosGetAclResponse_init E) = Some rs' \<and> http_code (s_base rs') = 200 \<and>
     sub_of rs' = Some (GetAcl_response p) \<and>
     arr_holds acl_entry_view (ga_acl p) (ga_acl_count p) (acl_users L @ acl_groups L) \<and>
     answers_signed E c rq' (AtmosGetAclResponse_init E) (s_base rs')"
proof -
  note lib = rest_library_okD[OF assms(3)]
  let ?rs = "AtmosGetAclResponse_init E"
  let ?rq = "rest_request E (snprintf_text (ATMOS_OID_LENGTH + 64) (''/rest/objects/'' @ oid @ ''?acl'')) HTTP_GET"
  have stored: "req_headers stored = acl_header_lines L"
    using set_acl_header_lines[OF assms(1,7), of rq0] assms(10,11) by (auto simp: req_headers_add_headers[OF lib(1)])
  have rq: "sendable ?rq"
    using assms(6) by (simp add: sendable_def rest_request_simps[OF lib(1)] snprintf_text_def cstring_take)
  have halves: "\<forall>x \<in> set [(AtmosFilter_parse_get_acl_response E, \<lambda>c. Some, on_success (acl_answer E))]. halves_of x" by auto
  have server: "\<forall>sent base body blocks. transfers E c sent ?rs base body blocks \<longrightarrow> http_code base = 200 \<and> rs_headers base = acl_header_lines L"
    using assms(12) stored by simp
  obtain rq' base where base: "http_code base = 200" "rs_headers base = acl_header_lines L"
    "execute E c [AtmosFilter_parse_get_acl_response E] (?rq, ?rs) = on_success (acl_answer E) (rq', ?rs\<lparr>s_base := base\<rparr>)"
    "answers_signed E c rq' ?rs base"
    using execute_answered[OF assms(1-3,5) halves _ rq server, of ?rq] by auto
  have sub: "sub_of (?rs\<lparr>s_base := base\<rparr>) = Some (GetAcl_response zero_acl_response_part)"
    by (simp add: AtmosGetAclResponse_init_def set_response_class_def AtmosResponse_init_def sub_of_def)
  obtain rs' p where rs': "acl_answer E (?rs\<lparr>s_base := base\<rparr>) = Some rs'" "sub_of rs' = Some (GetAcl_response p)"
    "arr_holds acl_entry_view (ga_acl p) (ga_acl_count p) (acl_users L @ acl_groups L)"
    using acl_answer_written[OF assms(4) _ _ assms(9) sub] base(2) assms(8) acl_view_cstring[OF assms(7)] by auto
  then have "AtmosClient_get_acl E c oid ?rs = Some rs'"
    using base(1,3) by (simp add: AtmosClient_get_acl_def execute_plain_def on_success_def)
  moreover have "s_base rs' = base" using rs'(1) by (auto simp: acl_answer_def dest: upd_sub_base split: if_splits)
  ultimately show ?thesis using rs'(2,3) base(1,4) by blast
qed

definition acl_headers :: "string list" where
  "acl_headers = [''x-emc-useracl: alice=FULL_CONTROL, bob=NONE'', ''x-emc-groupacl: other=READ'']"

theorem stored_acl_read_back_witness:
  "\<exists>rs' p. AtmosClient_get_acl (answering_env 200 acl_headers) sample_client ''4d77'' (AtmosGetAclResponse_init (answering_env 200 acl_headers)) = Some rs' \<and>
     sub_of rs' = Some (GetAcl_response p) \<and>
     arr_holds acl_entry_view (ga_acl p) (ga_acl_count p)
       [(''alice'', ATMOS_USER, ATMOS_PERM_FULL), (''bob'', ATMOS_USER, ATMOS_PERM_NONE), (''other'', ATMOS_GROUP, ATMOS_PERM_READ)]"
proof -
  let ?E = "answering_env 200 acl_headers"
  note lib = rest_library_okD[OF answering_env_ok(3)[of 200 acl_headers]]
  let ?rq0 = "rest_request ?E ''/rest/objects'' HTTP_POST"
  let ?stored = "add_headers ?E ?rq0 (acl_header_lines sample_acl_list)"
  have c: "client_ok ?E sample_client" using answering_env_ok(4) by (simp add: client_ok_def sample_client_def)
  have look: "response_lookup_ok ?E" by (simp add: response_lookup_ok_def answering_env_def answering_def list_env_def)
  have lines: "acl_header_lines sample_acl_list = acl_headers"
    by (simp add: acl_headers_def acl_header_lines_def acl_users_def acl_groups_def acl_line_def acl_text_def sample_acl_list_def literals)
  have clean: "\<forall>e \<in> set sample_acl_list. acl_entry_clean e" by (simp add: sample_acl_list_def acl_entry_clean_def)
  have parts: "acl_users sample_acl_list @ acl_groups sample_acl_list =
      [(''alice'', ATMOS_USER, ATMOS_PERM_FULL), (''bob'', ATMOS_USER, ATMOS_PERM_NONE), (''other'', ATMOS_GROUP, ATMOS_PERM_READ)]"
    by (simp add: acl_users_def acl_groups_def sample_acl_list_def literals)
  have stored: "AtmosUtil_set_acl_header ?E sample_acl 3 ?rq0 = Some ?stored"
    by (rule set_acl_header_lines[OF answering_env_ok(1) sample_acl_holds])
  have h: "req_headers ?rq0 = []" by (simp add: rest_request_simps[OF lib(1)])
  have oid: "cstring ''4d77''" and n: "length sample_acl_list \<le> ATMOS_ACL_COUNT_MAX" by (simp_all add: sample_acl_list_def)
  have server: "\<forall>sent base body blocks. transfers ?E sample_client sent (AtmosGetAclResponse_init ?E) base body blocks \<longrightarrow>
       http_code base = 200 \<and> rs_headers base = req_headers ?stored"
  proof (intro allI impI)
    fix sent base body blocks
    assume "transfers ?E sample_client sent (AtmosGetAclResponse_init ?E) base body blocks"
    from transfers_base_unique[OF transfers_answering_env this]
    show "http_code base = 200 \<and> rs_headers base = req_headers ?stored" by (simp add: lines req_headers_add_headers[OF lib(1)] h)
  qed
  from stored_acl_read_back[OF answering_env_ok(1-3) look c oid sample_acl_holds clean n stored h server]
  show ?thesis unfolding parts by blast
qed

end
