(* ===== verification/System_Laws.thy ===== *)
theory System_Laws
  imports Header_Parsers
begin

text \<open>
  What the system metadata of an answer mean: the fields of \<open>AtmosSystemMetadata\<close> after the
  entries of a header, or of a listing, have been stored one by one.
\<close>

text \<open>The text fields with their arrays and the size of each.\<close>

definition system_texts :: "(string \<times> (AtmosSystemMetadata \<Rightarrow> buffer) \<times> nat) list" where
  "system_texts = [(ATMOS_SYSTEM_META_UID, sm_uid, ATMOS_UID_MAX), (ATMOS_SYSTEM_META_GID, sm_gid, ATMOS_UID_MAX),
     (ATMOS_SYSTEM_META_OBJECTID, sm_object_id, ATMOS_OID_LENGTH), (ATMOS_SYSTEM_META_OBJNAME, sm_objname, ATMOS_PATH_MAX),
     (ATMOS_SYSTEM_META_POLICYNAME, sm_policyname, ATMOS_UID_MAX),
     (ATMOS_SYSTEM_META_WSCHECKSUM, sm_wschecksum, ATMOS_CHECKSUM_MAX)]"

definition wf_system :: "AtmosSystemMetadata \<Rightarrow> bool" where
  "wf_system sm \<longleftrightarrow> (\<forall>(f, sel, k) \<in> set system_texts. length (sel sm) = k)"

definition system_times :: "(string \<times> (AtmosSystemMetadata \<Rightarrow> int)) list" where
  "system_times = [(ATMOS_SYSTEM_META_ATIME, sm_atime), (ATMOS_SYSTEM_META_CTIME, sm_ctime),
     (ATMOS_SYSTEM_META_ITIME, sm_itime), (ATMOS_SYSTEM_META_MTIME, sm_mtime)]"

text \<open>The time of a value that is not empty and fits the local array of the parser.\<close>

definition xml_time :: "env \<Rightarrow> string \<Rightarrow> int" where
  "xml_time E v = (case strptime_FTZ (butlast v @ ''GMT'') of None \<Rightarrow> 0
     | Some t \<Rightarrow> mktime E t - (if have_tm_gmtoff E then 0 else tz_west E))"

definition system_entry_ok :: "string \<times> string \<Rightarrow> bool" where
  "system_entry_ok e \<longleftrightarrow> cstring (snd e) \<and> (fst e \<in> fst ` set system_times \<longrightarrow> snd e \<noteq> [] \<and> length (snd e) \<le> 252)"

text \<open>The object name is the only field that may be encoded.\<close>

definition field_text :: "env \<Rightarrow> int \<Rightarrow> string \<times> string \<Rightarrow> string" where
  "field_text E utf8 e = (if fst e = ATMOS_SYSTEM_META_OBJNAME then unescaped E utf8 (snd e) else snd e)"

text \<open>The type of an object is one of two texts; any other value of the answer is passed over.\<close>

definition object_types :: "string list" where
  "object_types = [ATMOS_TYPE_DIRECTORY, ATMOS_TYPE_REGULAR]"

text \<open>What one entry does to the fields: there is one equation for each field of the structure.\<close>

definition entry_stored :: "env \<Rightarrow> int \<Rightarrow> string \<times> string \<Rightarrow> AtmosSystemMetadata \<Rightarrow> AtmosSystemMetadata \<Rightarrow> bool" where
  "entry_stored E utf8 e sm sm' \<longleftrightarrow> wf_system sm' \<and>
     (\<forall>(f, sel, k) \<in> set system_texts. c_str (sel sm') = (if fst e = f then Some (take (k - 1) (field_text E utf8 e)) else c_str (sel sm))) \<and>
     (\<forall>(f, sel) \<in> set system_times. sel sm' = (if fst e = f then xml_time E (snd e) else sel sm)) \<and>
     sm_size sm' = (if fst e = ATMOS_SYSTEM_META_SIZE then strtoll (snd e) else sm_size sm) \<and>
     sm_nlink sm' = (if fst e = ATMOS_SYSTEM_META_NLINK then to_int32 (strtoll (snd e)) else sm_nlink sm) \<and>
     sm_type sm' = (if fst e = ATMOS_SYSTEM_META_TYPE \<and> snd e \<in> set object_types then Some (snd e) else sm_type sm)"

lemma copied:
  assumes "cstring v" "length d = k" "0 < k" "k \<le> 2 ^ 64"
  shows "\<exists>b. AtmosUtil_strlcpy d v k = Some b \<and> length b = k \<and> c_str b = Some (take (k - 1) v)"
proof -
  have "min (length v) (k - 1) < length d" using assms(2,3) by simp
  then obtain b where "AtmosUtil_strlcpy d v k = Some b" using AtmosUtil_strlcpy_Some[OF assms(3,4)] by blast
  then show ?thesis using AtmosUtil_strlcpy_c_str[OF assms(3,4,1)] AtmosUtil_strlcpy_length assms(2) by auto
qed

lemma set_system_meta_entry_stores:
  assumes "wf_system sm" "system_entry_ok e" "unescape_total E \<or> utf8 = 0"
  shows "\<exists>sm'. AtmosUtil_set_system_meta_entry E sm (fst e) (snd e) utf8 = Some sm' \<and> entry_stored E utf8 e sm sm'"
proof -
  obtain n v where e: "e = (n, v)" by (cases e)
  have v: "cstring v" using assms(2) by (simp add: system_entry_ok_def e)
  note wf = assms(1)[unfolded wf_system_def system_texts_def, simplified]
  note defs = AtmosUtil_set_system_meta_entry_def entry_stored_def wf_system_def system_texts_def system_times_def field_text_def
    object_types_def e
  consider (time) "n \<in> fst ` set system_times" | (objname) "n = ATMOS_SYSTEM_META_OBJNAME"
    | (plain) "n \<in> {ATMOS_SYSTEM_META_UID, ATMOS_SYSTEM_META_GID, ATMOS_SYSTEM_META_OBJECTID, ATMOS_SYSTEM_META_POLICYNAME, ATMOS_SYSTEM_META_WSCHECKSUM}"
    | (number) "n \<in> {ATMOS_SYSTEM_META_SIZE, ATMOS_SYSTEM_META_NLINK, ATMOS_SYSTEM_META_TYPE}"
    | (other) "n \<notin> set ATMOS_SYSTEM_META_NAMES"
    by (auto simp: ATMOS_SYSTEM_META_NAMES_def system_times_def)
  then show ?thesis
  proof cases
    case time
    then have t: "AtmosUtil_parse_xml_datetime E v = Some (xml_time E v)"
      using parse_xml_datetime_text[OF v, of E] assms(2) by (auto simp: system_entry_ok_def e xml_time_def split: option.split)
    from time consider "n = ATMOS_SYSTEM_META_ATIME" | "n = ATMOS_SYSTEM_META_CTIME" | "n = ATMOS_SYSTEM_META_ITIME" | "n = ATMOS_SYSTEM_META_MTIME"
      by (auto simp: system_times_def)
    then show ?thesis by cases (use t wf in \<open>simp_all add: defs literals\<close>)
  next
    case objname
    have "min (length (unescaped E utf8 v)) (ATMOS_PATH_MAX - 1) < length (sm_objname sm)" using wf by simp
    from strlcpy_utf8_ok[OF assms(3) v _ _ this] obtain b where "AtmosUtil_strlcpy_utf8 E (sm_objname sm) v ATMOS_PATH_MAX utf8 = Some b"
      "length b = ATMOS_PATH_MAX" "c_str b = Some (take (ATMOS_PATH_MAX - 1) (unescaped E utf8 v))" using wf by auto
    then show ?thesis using objname wf unfolding defs by (auto simp: literals)
  next
    case plain
    then consider "n = ATMOS_SYSTEM_META_UID" | "n = ATMOS_SYSTEM_META_GID" | "n = ATMOS_SYSTEM_META_OBJECTID" | "n = ATMOS_SYSTEM_META_POLICYNAME" | "n = ATMOS_SYSTEM_META_WSCHECKSUM" by auto
    then show ?thesis
    proof cases
      case 1 then show ?thesis using copied[OF v, of "sm_uid sm" ATMOS_UID_MAX] wf unfolding defs by (auto simp: literals)
    next
      case 2 then show ?thesis using copied[OF v, of "sm_gid sm" ATMOS_UID_MAX] wf unfolding defs by (auto simp: literals)
    next
      case 3 then show ?thesis using copied[OF v, of "sm_object_id sm" ATMOS_OID_LENGTH] wf unfolding defs by (auto simp: literals)
    next
      case 4 then show ?thesis using copied[OF v, of "sm_policyname sm" ATMOS_UID_MAX] wf unfolding defs by (auto simp: literals)
    next
      case 5 then show ?thesis using copied[OF v, of "sm_wschecksum sm" ATMOS_CHECKSUM_MAX] wf unfolding defs by (auto simp: literals)
    qed
  next
    case number
    then consider "n = ATMOS_SYSTEM_META_SIZE" | "n = ATMOS_SYSTEM_META_NLINK" | "n = ATMOS_SYSTEM_META_TYPE" by auto
    then show ?thesis by cases (use wf in \<open>simp_all add: defs literals\<close>)
  next
    case other
    then show ?thesis using set_system_meta_entry_other[OF other, of E sm v utf8] wf
      by (auto simp: defs ATMOS_SYSTEM_META_NAMES_def)
  qed
qed

section \<open>All entries of a header\<close>

text \<open>The values an answer gives a name, in order; the last one wins.\<close>

definition values_of :: "string \<Rightarrow> (string \<times> string) list \<Rightarrow> string list" where
  "values_of n es = map snd (filter (\<lambda>e. fst e = n) es)"

definition last_or :: "'a \<Rightarrow> 'a list \<Rightarrow> 'a" where
  "last_or old xs = (if xs = [] then old else last xs)"

lemma last_or_simps [simp]: "last_or old [] = old" "last_or old (xs @ [x]) = x"
  by (simp_all add: last_or_def)

lemma values_of_simps [simp]:
  "values_of n [] = []" "values_of n (es @ [e]) = (if fst e = n then values_of n es @ [snd e] else values_of n es)"
  by (simp_all add: values_of_def)

definition system_read :: "env \<Rightarrow> int \<Rightarrow> (string \<times> string) list \<Rightarrow> AtmosSystemMetadata \<Rightarrow> AtmosSystemMetadata \<Rightarrow> bool" where
  "system_read E utf8 es sm sm' \<longleftrightarrow> wf_system sm' \<and>
     (\<forall>(f, sel, k) \<in> set system_texts. c_str (sel sm') =
        last_or (c_str (sel sm)) (map (\<lambda>v. Some (take (k - 1) (field_text E utf8 (f, v)))) (values_of f es))) \<and>
     (\<forall>(f, sel) \<in> set system_times. sel sm' = last_or (sel sm) (map (xml_time E) (values_of f es))) \<and>
     sm_size sm' = last_or (sm_size sm) (map strtoll (values_of ATMOS_SYSTEM_META_SIZE es)) \<and>
     sm_nlink sm' = last_or (sm_nlink sm) (map (\<lambda>v. to_int32 (strtoll v)) (values_of ATMOS_SYSTEM_META_NLINK es)) \<and>
     sm_type sm' = last_or (sm_type sm) (map Some (filter (\<lambda>v. v \<in> set object_types) (values_of ATMOS_SYSTEM_META_TYPE es)))"

lemma system_read_snoc:
  assumes "system_read E utf8 es sm s1" "entry_stored E utf8 e s1 s2"
  shows "system_read E utf8 (es @ [e]) sm s2"
proof -
  obtain n v where e: "e = (n, v)" by (cases e)
  have "c_str (sel s2) = last_or (c_str (sel sm)) (map (\<lambda>v. Some (take (k - 1) (field_text E utf8 (f, v)))) (values_of f (es @ [e])))"
    if "(f, sel, k) \<in> set system_texts" for f sel k
    using bspec[OF conjunct1[OF conjunct2[OF assms(1)[unfolded system_read_def]]] that]
      bspec[OF conjunct1[OF conjunct2[OF assms(2)[unfolded entry_stored_def]]] that] by (simp add: e)
  moreover have "sel s2 = last_or (sel sm) (map (xml_time E) (values_of f (es @ [e])))" if "(f, sel) \<in> set system_times" for f sel
    using bspec[OF conjunct1[OF conjunct2[OF conjunct2[OF assms(1)[unfolded system_read_def]]]] that]
      bspec[OF conjunct1[OF conjunct2[OF conjunct2[OF assms(2)[unfolded entry_stored_def]]]] that] by (simp add: e)
  moreover have "wf_system s2" "sm_size s2 = last_or (sm_size sm) (map strtoll (values_of ATMOS_SYSTEM_META_SIZE (es @ [e])))"
    "sm_nlink s2 = last_or (sm_nlink sm) (map (\<lambda>v. to_int32 (strtoll v)) (values_of ATMOS_SYSTEM_META_NLINK (es @ [e])))"
    "sm_type s2 = last_or (sm_type sm) (map Some (filter (\<lambda>v. v \<in> set object_types) (values_of ATMOS_SYSTEM_META_TYPE (es @ [e]))))"
    using assms by (simp_all add: system_read_def entry_stored_def e)
  ultimately show ?thesis unfolding system_read_def by blast
qed

lemma system_entries_read:
  assumes "wf_system sm" "\<forall>e \<in> set es. system_entry_ok e" "unescape_total E \<or> utf8 = 0"
  shows "\<exists>sm'. foldM (\<lambda>sm e. AtmosUtil_set_system_meta_entry E sm (fst e) (snd e) utf8) sm es = Some sm' \<and> system_read E utf8 es sm sm'"
  using assms(2)
proof (induction es rule: rev_induct)
  case Nil
  then show ?case using assms(1) by (auto simp: system_read_def)
next
  case (snoc e es)
  then obtain s1 where s1: "foldM (\<lambda>sm e. AtmosUtil_set_system_meta_entry E sm (fst e) (snd e) utf8) sm es = Some s1"
    "system_read E utf8 es sm s1" by auto
  moreover have "wf_system s1" using s1(2) by (simp add: system_read_def)
  moreover have "system_entry_ok e" using snoc.prems by simp
  ultimately obtain s2 where "AtmosUtil_set_system_meta_entry E s1 (fst e) (snd e) utf8 = Some s2" "entry_stored E utf8 e s1 s2"
    using set_system_meta_entry_stores[OF _ _ assms(3)] by blast
  then show ?case using s1(1) system_read_snoc[OF s1(2)] by simp
qed

text \<open>
  C15: The system metadata of an answer are read completely: for every header whose entries fit the parser's local arrays
  and whose times are not empty, the parser returns, and in the result every text field holds the last value the
  header gives it, cut at the size of its array and terminated, the times, the size and the link count are those the last values say, the type
  is the last one the header gives that is a directory or a regular object (other values do not touch it), and
  fields the header does not name are as they were. These are all fields of the structure.
\<close>

theorem system_metadata_read:
  assumes "RestResponse_get_header_value E response ATMOS_HEADER_META = Some value" "cstring value" "wf_system sm"
    and "\<forall>p \<in> set (split_on CHR '','' value). system_piece_fits p \<and> system_entry_ok (entry_parts p)"
    and "unescape_total E \<or> utf8_flag E response = 0"
  shows "\<exists>sm'. AtmosUtil_parse_system_meta_header E response sm = Some sm' \<and>
     system_read E (utf8_flag E response) (map entry_parts (split_on CHR '','' value)) sm sm'"
  using system_entries_read[OF assms(3) _ assms(5), of "map entry_parts (split_on CHR '','' value)"] assms(1,4)
    system_meta_loop_pieces[OF assms(2), of E "utf8_flag E response" sm]
  by (auto simp: AtmosUtil_parse_system_meta_header_def foldM_map)

theorem system_metadata_read_witness:
  "\<exists>sm'. AtmosUtil_parse_system_meta_header list_env
       ((RestResponse_init list_env)\<lparr>rs_headers := [''x-emc-meta: uid=first, size=12, type=directory, uid=user1, type=link'']\<rparr>) zero_system_metadata = Some sm' \<and>
     c_str (sm_uid sm') = Some ''user1'' \<and> c_str (sm_gid sm') = Some [] \<and> sm_size sm' = 12 \<and> sm_atime sm' = 0 \<and> sm_type sm' = Some ATMOS_TYPE_DIRECTORY"
proof -
  let ?r = "(RestResponse_init list_env)\<lparr>rs_headers := [''x-emc-meta: uid=first, size=12, type=directory, uid=user1, type=link'']\<rparr>"
  let ?v = "''uid=first, size=12, type=directory, uid=user1, type=link''"
  have h: "RestResponse_get_header_value list_env ?r ATMOS_HEADER_META = Some ?v" "utf8_flag list_env ?r = 0"
    by code_simp+
  have es: "map entry_parts (split_on CHR '','' ?v) = [(''uid'', ''first''), (''size'', ''12''), (''type'', ''directory''), (''uid'', ''user1''), (''type'', ''link'')]"
    by code_simp
  have "\<forall>p \<in> set (split_on CHR '','' ?v). system_piece_fits p \<and> system_entry_ok (entry_parts p)" by code_simp
  moreover have "wf_system zero_system_metadata" by (simp add: wf_system_def system_texts_def zero_system_metadata_def)
  moreover have "cstring ?v" by (simp add: cdefs)
  ultimately obtain sm' where sm': "AtmosUtil_parse_system_meta_header list_env ?r zero_system_metadata = Some sm'"
    "system_read list_env 0 [(''uid'', ''first''), (''size'', ''12''), (''type'', ''directory''), (''uid'', ''user1''), (''type'', ''link'')] zero_system_metadata sm'"
    using system_metadata_read[OF h(1), of zero_system_metadata] h(2) unfolding es by auto
  have "strtoll ''12'' = 12" by code_simp
  then have "c_str (sm_uid sm') = Some ''user1'' \<and> c_str (sm_gid sm') = Some [] \<and> sm_size sm' = 12 \<and> sm_atime sm' = 0 \<and> sm_type sm' = Some ATMOS_TYPE_DIRECTORY"
    using sm'(2) by (simp add: system_read_def system_texts_def system_times_def values_of_def last_or_def field_text_def literals object_types_def
        zero_system_metadata_def)
  then show ?thesis using sm'(1) by blast
qed

end
