(* ===== verification/Part_Laws.thy ===== *)
theory Part_Laws
  imports Listing_Laws
begin

text \<open>
  Objects sent and read in parts: the checksum that continues over the parts of an upload, and
  the ranges of partial reads and updates.
\<close>

section \<open>One checksum object over several requests\<close>

text \<open>
  A program that uploads an object in parts hands the same checksum object to the create request
  and to the update requests after it; each request is run through the filter in turn.
\<close>

definition request_checksum :: "request \<Rightarrow> AtmosChecksum option" where
  "request_checksum rq = (case r_sub rq of Write_request w sub \<Rightarrow> w_checksum w | _ \<Rightarrow> None)"

fun send_parts :: "env \<Rightarrow> AtmosClient \<Rightarrow> AtmosChecksum \<Rightarrow> (request \<times> response) list \<Rightarrow>
    ((request \<times> response) list \<times> AtmosChecksum) option" where
  "send_parts E c ck [] = Some ([], ck)"
| "send_parts E c ck ((rq, rs) # parts) = do {
     (rq, rs) \<leftarrow> AtmosFilter_set_write_headers E c None (put_checksum ck rq, rs);
     ck \<leftarrow> request_checksum rq;
     (sent, ck) \<leftarrow> send_parts E c ck parts;
     Some ((rq, rs) # sent, ck)
   }"

text \<open>A part with its bytes, whose own headers do not hold a checksum already.\<close>

definition part_ok :: "env \<Rightarrow> AtmosClient \<Rightarrow> request \<Rightarrow> string \<Rightarrow> bool" where
  "part_ok E c rq bytes \<longleftrightarrow> (\<exists>w sub M LM A body. r_sub rq = Write_request w sub \<and> write_contents w M LM A \<and>
     RestRequest_get_header_value E (r_base (contents_sent E c rq M LM A)) ATMOS_HEADER_WSCHECKSUM = None \<and>
     rq_body (r_base rq) = Some body \<and> carries body bytes)"

lemma r_base_add_headers: "r_base r = r_base r' \<Longrightarrow> r_base (add_headers E r hs) = r_base (add_headers E r' hs)"
  by (induction hs arbitrary: r r') (simp_all add: add_header_def upd_base_def)

lemma r_base_put_checksum [simp]: "r_base (put_checksum ck rq) = r_base rq"
  by (simp add: put_checksum_def split: request_sub.split)

lemma write_contents_checksum: "write_contents (w\<lparr>w_checksum := x\<rparr>) M LM A = write_contents w M LM A"
  by (simp add: write_contents_def)

lemma AtmosChecksum_update_mode: "ck_mode (AtmosChecksum_update E ck bytes) = ck_mode ck"
  by (simp add: AtmosChecksum_update_def split: option.split)

lemma request_checksum_put: "r_sub rq = Write_request w sub \<Longrightarrow> request_checksum (add_header E (put_checksum ck rq) h) = Some ck"
  by (simp add: request_checksum_def put_checksum_def)

lemma send_part:
  assumes "mem_ok E" "rest_client_ok E" "digest_ok E" "cl_enable_utf8_metadata c \<noteq> 0 \<longrightarrow> escape_total E"
    and "ck_mode ck = ATMOS_WSCHECKSUM" "checksum_inv ck" "part_ok E c rq bytes"
  shows "\<exists>rq'. AtmosFilter_set_write_headers E c None (put_checksum ck rq, rs) = Some (rq', rs) \<and>
     request_checksum rq' = Some (AtmosChecksum_update E ck bytes) \<and>
     last (req_headers rq') = ATMOS_HEADER_WSCHECKSUM @ '': '' @ checksum_text E (AtmosChecksum_update E ck bytes)"
proof -
  obtain w sub M LM A body where p: "r_sub rq = Write_request w sub" "write_contents w M LM A"
    "RestRequest_get_header_value E (r_base (contents_sent E c rq M LM A)) ATMOS_HEADER_WSCHECKSUM = None"
    "rq_body (r_base rq) = Some body" "carries body bytes" using assms(7) by (auto simp: part_ok_def)
  let ?rq = "put_checksum ck rq" and ?w = "w\<lparr>w_checksum := Some ck\<rparr>" and ?ck = "AtmosChecksum_update E ck bytes"
  have sub: "r_sub ?rq = Write_request ?w sub" using p(1) by (simp add: put_checksum_def)
  have b: "r_base (contents_sent E c ?rq M LM A) = r_base (contents_sent E c rq M LM A)"
    using r_base_add_headers[of ?rq rq] by (simp add: body_type_lines_def)
  have "write_contents ?w M LM A" using p(2) by (simp add: write_contents_checksum)
  from set_write_headers_wschecksum[OF assms(1-4) sub this _ assms(5,6), of body bytes None rs] p(3-5)
  have "AtmosFilter_set_write_headers E c None (?rq, rs) =
      Some (add_header E (put_checksum ?ck (contents_sent E c ?rq M LM A)) (ATMOS_HEADER_WSCHECKSUM @ '': '' @ checksum_text E ?ck), rs)"
    unfolding b by simp
  moreover have "request_checksum (add_header E (put_checksum ?ck (contents_sent E c ?rq M LM A)) h) = Some ?ck" for h
    by (rule request_checksum_put[of _ ?w sub]) (simp add: sub)
  moreover have "last (req_headers (add_header E r h)) = h" for r h by (simp add: add_header_ok[OF assms(2)])
  ultimately show ?thesis by blast
qed

lemma send_parts_continue:
  assumes "mem_ok E" "rest_client_ok E" "digest_ok E" "cl_enable_utf8_metadata c \<noteq> 0 \<longrightarrow> escape_total E"
    and "ck_mode ck = ATMOS_WSCHECKSUM" "checksum_inv ck"
    and "list_all2 (\<lambda>(rq, rs) bytes. part_ok E c rq bytes) parts pieces"
  shows "\<exists>sent. send_parts E c ck parts = Some (sent, AtmosChecksum_update E ck (concat pieces)) \<and>
     length sent = length parts \<and>
     (\<forall>k < length parts. snd (sent ! k) = snd (parts ! k) \<and> last (req_headers (fst (sent ! k))) =
        ATMOS_HEADER_WSCHECKSUM @ '': '' @ checksum_text E (AtmosChecksum_update E ck (concat (take (Suc k) pieces))))"
  using assms(7,5,6)
proof (induction arbitrary: ck rule: list_all2_induct)
  case Nil
  then show ?case by (simp add: update_nothing[OF assms(3)])
next
  case (Cons part parts bytes pieces)
  obtain rq rs where part: "part = (rq, rs)" by (cases part)
  let ?ck = "AtmosChecksum_update E ck bytes"
  obtain rq' where 1: "AtmosFilter_set_write_headers E c None (put_checksum ck rq, rs) = Some (rq', rs)"
    "request_checksum rq' = Some ?ck" "last (req_headers rq') = ATMOS_HEADER_WSCHECKSUM @ '': '' @ checksum_text E ?ck"
    using send_part[OF assms(1-4) Cons.prems] Cons.hyps(1) part by blast
  have ck: "ck_mode ?ck = ATMOS_WSCHECKSUM" "checksum_inv ?ck"
    using Cons.prems checksum_inv_update by (simp_all add: AtmosChecksum_update_mode)
  from Cons.IH[OF this] obtain sent where 2: "send_parts E c ?ck parts = Some (sent, AtmosChecksum_update E ?ck (concat pieces))"
    "length sent = length parts"
    "\<And>k. k < length parts \<Longrightarrow> snd (sent ! k) = snd (parts ! k) \<and> last (req_headers (fst (sent ! k))) =
        ATMOS_HEADER_WSCHECKSUM @ '': '' @ checksum_text E (AtmosChecksum_update E ?ck (concat (take (Suc k) pieces)))" by blast
  show ?case
  proof (intro exI[of _ "(rq', rs) # sent"] conjI allI impI)
    fix k assume "k < length (part # parts)"
    then show "snd (((rq', rs) # sent) ! k) = snd ((part # parts) ! k)"
      "last (req_headers (fst (((rq', rs) # sent) ! k))) =
        ATMOS_HEADER_WSCHECKSUM @ '': '' @ checksum_text E (AtmosChecksum_update E ck (concat (take (Suc k) (bytes # pieces))))"
      using 2(3) 1(3) part by (cases k; simp add: update_append[OF assms(3)])+
  qed (simp_all add: part 1(1,2) 2(1,2) update_append[OF assms(3)])
qed

text \<open>
  C4: An object uploaded in parts with one \<open>wschecksum\<close> object: whatever the requests hold besides, and
  whether their bodies are arrays or files, every part is sent, and the last header of the \<open>k\<close>-th request names the algorithm, the number of bytes of the
  object up to and with this part, and the digest of all of these bytes.
\<close>

theorem wschecksum_covers_object:
  assumes "mem_ok E" "rest_client_ok E" "digest_ok E" "cl_enable_utf8_metadata c \<noteq> 0 \<longrightarrow> escape_total E"
    and "AtmosChecksum_init E ATMOS_WSCHECKSUM alg = Some ck"
    and "list_all2 (\<lambda>(rq, rs) bytes. part_ok E c rq bytes) parts pieces" "length (concat pieces) < 2 ^ 63"
  shows "\<exists>sent. send_parts E c ck parts = Some (sent, AtmosChecksum_update E ck (concat pieces)) \<and>
     length sent = length parts \<and>
     (\<forall>k < length parts. snd (sent ! k) = snd (parts ! k) \<and>
        (let bytes = concat (take (Suc k) pieces) in last (req_headers (fst (sent ! k))) =
          ''x-emc-wschecksum: '' @ algorithm_name alg @ ''/'' @ show_int (int (length bytes)) @ ''/'' @
          hex_text (the (digest_final E alg (digest_update E alg (the (digest_init E alg)) bytes)))))"
proof -
  have ck: "ck_mode ck = ATMOS_WSCHECKSUM" "ck_alg ck = alg" "ck_offset ck = 0" "ck_internal_state ck = Some (the (digest_init E alg))"
    "checksum_inv ck"
    using assms(3,5) checksum_inv_init[OF assms(3,5)]
    by (auto simp: AtmosChecksum_init_def digest_ok_def bind_eq_Some_conv split: if_splits option.splits)
  have header: "ATMOS_HEADER_WSCHECKSUM @ '': '' @ checksum_text E (AtmosChecksum_update E ck bytes) =
      ''x-emc-wschecksum: '' @ algorithm_name alg @ ''/'' @ show_int (int (length bytes)) @ ''/'' @
      hex_text (the (digest_final E alg (digest_update E alg (the (digest_init E alg)) bytes)))"
    if "length bytes < 2 ^ 63" for bytes
    using ck to_int64_id[of "int (length bytes)"] that
    by (simp add: checksum_text_def checksum_hex_def AtmosChecksum_update_def literals)
  have len: "length (concat (take (Suc k) pieces)) < 2 ^ 63" for k
    using assms(7) append_take_drop_id[of "Suc k" pieces] by (metis concat_append le_add1 le_less_trans length_append)
  show ?thesis
    using send_parts_continue[OF assms(1-4) ck(1,5) assms(6)] by (simp only: header[OF len] Let_def)
qed

definition sample_part :: "RestRequestBody \<Rightarrow> request" where
  "sample_part body = upd_base (\<lambda>b. b\<lparr>rq_body := Some body\<rparr>) sample_write_request"

lemma sample_part_ok:
  assumes "carries body bytes"
  shows "part_ok list_env sample_client (sample_part body) bytes"
proof -
  have r: "r_sub (sample_part body) = Write_request sample_write_part Write_only" "rq_body (r_base (sample_part body)) = Some body"
    "req_headers (sample_part body) = []"
    by (simp_all add: sample_part_def sample_write_request_def new_request_def list_env_def)
  have "cl_enable_utf8_metadata sample_client = 0" by (simp add: sample_client_def)
  moreover have "write_lines list_env 0 [(''color'', ''red'')] [] [] = [''x-emc-meta: color=red'']" by code_simp
  moreover have "lookup_header [''x-emc-meta: color=red''] ATMOS_HEADER_WSCHECKSUM = None" by code_simp
  ultimately have "RestRequest_get_header_value list_env
      (r_base (contents_sent list_env sample_client (sample_part body) [(''color'', ''red'')] [] [])) ATMOS_HEADER_WSCHECKSUM = None"
    using lookup_ok_list_env(2) r unfolding request_lookup_ok_def body_type_lines_def
    by (simp only: req_headers_add_headers[OF rest_client_ok_list_env]) simp
  then show ?thesis unfolding part_ok_def using r sample_write_contents assms by blast
qed

text \<open>The first part from memory, the second from a file that is read from its sixth byte on.\<close>

abbreviation hello_body :: RestRequestBody where
  "hello_body \<equiv> \<lparr>rb_body = ''hello '', rb_file_body = None, rb_data_size = 6\<rparr>"

abbreviation world_body :: RestRequestBody where
  "world_body \<equiv> \<lparr>rb_body = [], rb_file_body = Some \<lparr>f_bytes = ''hello world'', f_pos = 6, f_seekable = True\<rparr>, rb_data_size = 5\<rparr>"

theorem wschecksum_covers_object_witness:
  "\<exists>sent. send_parts list_env sample_client sample_checksum
       [(sample_part hello_body, AtmosCreateObjectResponse_init list_env), (sample_part world_body, AtmosResponse_init list_env Plain_response)] =
         Some (sent, AtmosChecksum_update list_env sample_checksum ''hello world'') \<and>
     last (req_headers (fst (sent ! 0))) = ''x-emc-wschecksum: md5/6/'' @ hex_text (''hello '' @ replicate 10 NUL) \<and>
     last (req_headers (fst (sent ! 1))) = ''x-emc-wschecksum: md5/11/'' @ hex_text (''hello world'' @ replicate 5 NUL)"
proof -
  let ?parts = "[(sample_part hello_body, AtmosCreateObjectResponse_init list_env), (sample_part world_body, AtmosResponse_init list_env Plain_response)]"
  have "carries hello_body ''hello ''" by (simp add: carries_def body_bytes_def to_uint64_def)
  moreover have "carries world_body ''world''" by (simp add: carries_def)
  ultimately have p: "list_all2 (\<lambda>(rq, rs) bytes. part_ok list_env sample_client rq bytes) ?parts [''hello '', ''world'']"
    using sample_part_ok by simp
  have i: "AtmosChecksum_init list_env ATMOS_WSCHECKSUM ATMOS_ALG_MD5 = Some sample_checksum"
    by (simp add: AtmosChecksum_init_def list_env_def sample_checksum_def algorithm_name_def)
  have u: "cl_enable_utf8_metadata sample_client \<noteq> 0 \<longrightarrow> escape_total list_env" by (simp add: sample_client_def)
  have n: "show_int 6 = ''6''" "show_int 11 = ''11''" by (simp_all add: show_int_def show_nat.simps char_code)
  have d: "the (digest_final list_env ATMOS_ALG_MD5 (digest_update list_env ATMOS_ALG_MD5 (the (digest_init list_env ATMOS_ALG_MD5)) bytes)) =
      take 16 (bytes @ replicate 20 NUL)" for bytes by (simp add: list_env_def)
  from wschecksum_covers_object[OF mem_ok_list_env rest_client_ok_list_env digest_ok_list_env u i p]
  obtain sent where s: "send_parts list_env sample_client sample_checksum ?parts =
      Some (sent, AtmosChecksum_update list_env sample_checksum ''hello world'')"
    and k: "\<And>k. k < 2 \<Longrightarrow> (let bytes = concat (take (Suc k) [''hello '', ''world'']) in last (req_headers (fst (sent ! k))) =
          ''x-emc-wschecksum: '' @ algorithm_name ATMOS_ALG_MD5 @ ''/'' @ show_int (int (length bytes)) @ ''/'' @
          hex_text (take 16 (bytes @ replicate 20 NUL)))" unfolding d by auto
  show ?thesis using s k[of 0] k[of 1] by (intro exI[of _ sent] conjI) (simp_all add: n algorithm_name_def ATMOS_CHECKSUM_ALG_MD5_def del: send_parts.simps)
qed

section \<open>Ranges\<close>

lemma range_last_ok: "0 \<le> offset \<Longrightarrow> 0 < sz \<Longrightarrow> offset + sz < 2 ^ 63 \<Longrightarrow> range_last offset sz = Some (offset + sz - 1)"
  using to_int64_id[of "offset + sz"] to_int64_id[of "offset + sz - 1"] by (simp add: range_last_def)

definition range_header :: "env \<Rightarrow> int \<Rightarrow> int \<Rightarrow> string" where
  "range_header E i j = HTTP_HEADER_RANGE E @ '': Bytes='' @ show_int i @ ''-'' @ show_int j"

lemma add_range_header_full:
  assumes "length (HTTP_HEADER_RANGE E) \<le> 64" "0 \<le> i" "i < 2 ^ 63" "0 \<le> j" "j < 2 ^ 63"
  shows "add_range_header E i j rq = add_header E rq (range_header E i j)"
proof -
  have "length (show_int i) \<le> Suc 19" "length (show_int j) \<le> Suc 19"
    by (rule show_int_length; use assms in simp)+
  then have "snprintf_text ATMOS_SIMPLE_HEADER_MAX (range_header E i j) = range_header E i j"
    using assms(1) by (intro snprintf_text_id) (simp add: range_header_def)
  then show ?thesis using assms(2,4) by (simp add: add_range_header_def range_text_def range_header_def)
qed

text \<open>
  C40: A part of an object that is asked for by offset and a positive size is the part that the request names on the wire: the filters
  of reads and of updates add the header \<open>Range: Bytes=first-last\<close> with the \<open>size\<close> bytes from \<open>offset\<close>
  on, uncut, and pass the request on; with UTF-8 metadata enabled a read has the header that says so behind it, and an
  update is the same with and without it.
\<close>

theorem range_sent:
  assumes "length (HTTP_HEADER_RANGE E) \<le> 64" "0 \<le> offset" "0 < sz" "offset + sz < 2 ^ 63"
  shows "(r_sub rq = Read_request p \<longrightarrow>
      Option.bind (AtmosReadObjectRequest_set_range_offset_size rq offset sz) (\<lambda>rq. AtmosFilter_set_read_object_headers E c nxt (rq, rs)) =
      call_next nxt (add_headers E (rq\<lparr>r_sub := Read_request (p\<lparr>rd_range_start := offset, rd_range_end := offset + sz - 1\<rparr>)\<rparr>)
        ([range_header E offset (offset + sz - 1)] @ (if cl_enable_utf8_metadata c \<noteq> 0 then [utf8_header] else [])), rs)) \<and>
    (r_sub rq = Write_request w (Update_sub u) \<longrightarrow>
      Option.bind (AtmosUpdateObjectRequest_set_range_offset_size rq offset sz) (\<lambda>rq. AtmosFilter_update_object E c nxt (rq, rs)) =
      call_next nxt (add_header E (rq\<lparr>r_sub := Write_request w (Update_sub (u\<lparr>up_range_start := offset, up_range_end := offset + sz - 1\<rparr>))\<rparr>)
        (range_header E offset (offset + sz - 1)), rs))"
  using add_range_header_full[OF assms(1,2), of "offset + sz - 1"] range_last_ok[OF assms(2-4)] assms(2-4)
  by (simp add: AtmosReadObjectRequest_set_range_offset_size_def AtmosUpdateObjectRequest_set_range_offset_size_def
      upd_read_def upd_update_def AtmosFilter_set_read_object_headers_def AtmosFilter_update_object_def Let_def)

theorem range_sent_witness:
  "Option.bind (AtmosReadObjectRequest_set_range_offset_size \<lparr>r_base = RestRequest_init list_env ''/rest/objects/1'' HTTP_GET,
       r_sub = Read_request zero_read_part\<rparr> 10 5) (\<lambda>rq. AtmosFilter_set_read_object_headers list_env sample_client None (rq, AtmosResponse_init list_env Plain_response)) =
     Some (add_header list_env \<lparr>r_base = RestRequest_init list_env ''/rest/objects/1'' HTTP_GET,
       r_sub = Read_request (zero_read_part\<lparr>rd_range_start := 10, rd_range_end := 14\<rparr>)\<rparr> ''Range: Bytes=10-14'', AtmosResponse_init list_env Plain_response)"
proof -
  have r: "range_header list_env 10 14 = ''Range: Bytes=10-14''" "length (HTTP_HEADER_RANGE list_env) \<le> 64"
    by (simp_all add: range_header_def list_env_def show_int_def show_nat.simps char_code)
  have u: "cl_enable_utf8_metadata sample_client = 0" by (simp add: sample_client_def)
  show ?thesis
    using range_sent[OF r(2), of 10 5 "\<lparr>r_base = RestRequest_init list_env ''/rest/objects/1'' HTTP_GET,
        r_sub = Read_request zero_read_part\<rparr>" zero_read_part sample_client None "AtmosResponse_init list_env Plain_response" undefined undefined]
    by (simp add: r(1) u)
qed

end
