(* ===== verification/Read_Laws.thy ===== *)
theory Read_Laws
  imports Acl_Laws System_Laws Part_Laws
begin

text \<open>
  Reading an object: the system metadata, user metadata and ACL that the headers of the server's answer
  carry next to its content, in the structure of the caller's response.
\<close>

section \<open>What the headers of an answer show\<close>

text \<open>
  System and user metadata share a header: each parser takes its own entries from it. A value of
  the system metadata is never encoded, but in UTF-8 mode the object name is.
\<close>

definition system_entry :: "string \<times> string \<Rightarrow> string" where
  "system_entry e = fst e @ ''='' @ snd e"

definition system_entry_shown :: "string \<times> string \<Rightarrow> bool" where
  "system_entry_shown e \<longleftrightarrow> fst e \<in> set ATMOS_SYSTEM_META_NAMES \<and> system_entry_ok e \<and> length (snd e) < ATMOS_META_VALUE_MAX \<and>
     CHR '','' \<notin> set (snd e) \<and> (snd e = [] \<or> hd (snd e) \<noteq> CHR '' '')"

definition metadata_value :: "env \<Rightarrow> int \<Rightarrow> (string \<times> string) list \<Rightarrow> (string \<times> string) list \<Rightarrow> string" where
  "metadata_value E utf8 S M = join_with '','' (map system_entry S @ map (encoded_entry E utf8) M)"

record stored_object =
  so_system :: "(string \<times> string) list"
  so_meta :: "(string \<times> string) list"
  so_listable :: "(string \<times> string) list"
  so_acl :: "acl_view list"

definition object_ok :: "env \<Rightarrow> int \<Rightarrow> stored_object \<Rightarrow> bool" where
  "object_ok E utf8 x \<longleftrightarrow> (\<forall>e \<in> set (so_system x). system_entry_shown e) \<and>
     (\<forall>p \<in> set (so_meta x) \<union> set (so_listable x). meta_pair_clean E utf8 p \<and> meta_fits p) \<and>
     (\<forall>e \<in> set (so_acl x). acl_entry_clean e \<and> cstring (fst e)) \<and>
     length (so_meta x) \<le> ATMOS_META_COUNT_MAX \<and> length (so_listable x) \<le> ATMOS_META_COUNT_MAX \<and>
     length (so_acl x) \<le> ATMOS_ACL_COUNT_MAX"

definition shows_object :: "env \<Rightarrow> RestResponse \<Rightarrow> stored_object \<Rightarrow> bool" where
  "shows_object E base x \<longleftrightarrow>
     RestResponse_get_header_value E base ATMOS_HEADER_META =
       (if so_system x = [] \<and> so_meta x = [] then None else Some (metadata_value E (utf8_flag E base) (so_system x) (so_meta x))) \<and>
     RestResponse_get_header_value E base ATMOS_HEADER_LISTABLE_META =
       (if so_listable x = [] then None else Some (metadata_value E (utf8_flag E base) [] (so_listable x))) \<and>
     shows_acl E base (so_acl x)"

text \<open>What the caller sees of it.\<close>

definition holds_object :: "env \<Rightarrow> int \<Rightarrow> read_response_part \<Rightarrow> stored_object \<Rightarrow> bool" where
  "holds_object E utf8 p x \<longleftrightarrow> system_read E utf8 (so_system x) zero_system_metadata (rr_system_metadata p) \<and>
     arr_holds metadata_pair (rr_meta p) (rr_meta_count p) (so_meta x) \<and>
     arr_holds metadata_pair (rr_listable_metadata p) (rr_listable_meta_count p) (so_listable x) \<and>
     arr_holds acl_entry_view (rr_acl p) (rr_acl_count p) (acl_users (so_acl x) @ acl_groups (so_acl x))"

section \<open>Sharing the metadata header\<close>

lemma system_names:
  assumes "n \<in> set ATMOS_SYSTEM_META_NAMES"
  shows "CHR ''='' \<notin> set n" "CHR '','' \<notin> set n" "hd n \<noteq> CHR '' ''" "length n < 20" "cstring n"
  using assms by (auto simp: ATMOS_SYSTEM_META_NAMES_def literals)

lemma system_entry_parts:
  assumes "system_entry_shown e"
  shows "entry_parts (system_entry e) = e" "CHR '','' \<notin> set (system_entry e)" "cstring (system_entry e)"
    "system_piece_fits (system_entry e)"
proof -
  have n: "fst e \<in> set ATMOS_SYSTEM_META_NAMES" and v: "snd e = [] \<or> hd (snd e) \<noteq> CHR '' ''" "CHR '','' \<notin> set (snd e)"
    "cstring (snd e)" "length (snd e) < ATMOS_META_VALUE_MAX"
    using assms by (auto simp: system_entry_shown_def system_entry_ok_def)
  show parts: "entry_parts (system_entry e) = e"
    using entry_parts_pair[of "fst e" "snd e"] system_names(1,3)[OF n] v(1) by (simp add: system_entry_def)
  show "CHR '','' \<notin> set (system_entry e)" "cstring (system_entry e)"
    using system_names(2,5)[OF n] v(2,3) by (simp_all add: system_entry_def)
  show "system_piece_fits (system_entry e)"
    using system_names(4)[OF n] v(4) by (simp add: system_piece_fits_def entry_fits_def parts) (simp add: system_entry_def)
qed

lemma metadata_pieces_split:
  assumes "curl_codec_ok E \<or> utf8 = 0" "\<forall>e \<in> set S. system_entry_shown e" "\<forall>p \<in> set M. meta_pair_clean E utf8 p \<and> meta_fits p"
    and "S \<noteq> [] \<or> M \<noteq> []"
  shows "split_on CHR '','' (metadata_value E utf8 S M) = map system_entry S @ map (encoded_entry E utf8) M"
    "cstring (metadata_value E utf8 S M)"
proof -
  let ?xs = "map system_entry S @ map (encoded_entry E utf8) M"
  have "CHR '','' \<notin> set (encoded_entry E utf8 p) \<and> cstring (encoded_entry E utf8 p)" if "p \<in> set M" for p
    using encoded_entry_parse(3,4)[OF assms(1), of "fst p" "snd p"] that assms(3) by (simp add: meta_fits_def)
  moreover have "CHR '','' \<notin> set (system_entry e) \<and> cstring (system_entry e)" if "e \<in> set S" for e
    using system_entry_parts(2,3) that assms(2) by blast
  ultimately have p: "CHR '','' \<notin> set x \<and> cstring x" if "x \<in> set ?xs" for x using that by auto
  show "split_on CHR '','' (metadata_value E utf8 S M) = ?xs"
    unfolding metadata_value_def by (rule split_on_join) (use assms(4) p in auto)
  show "cstring (metadata_value E utf8 S M)"
    unfolding metadata_value_def by (rule cstring_join_with) (use p in auto)
qed

text \<open>The user metadata: the system entries are passed over.\<close>

lemma parse_shared_user_meta:
  assumes "curl_codec_ok E \<or> utf8 = 0" "\<forall>e \<in> set S. system_entry_shown e" "\<forall>p \<in> set M. meta_pair_clean E utf8 p \<and> meta_fits p"
    and "\<forall>m \<in> set meta0. wf_metadata m" "length M \<le> length meta0"
  shows "\<exists>st. (case (if S = [] \<and> M = [] then None else Some (metadata_value E utf8 S M)) of None \<Rightarrow> Some (meta0, 0)
      | Some v \<Rightarrow> AtmosUtil_parse_meta_header_string E utf8 v (meta0, 0)) = Some st \<and> user_inv st M"
proof (cases "S = [] \<and> M = []")
  case True
  then show ?thesis using assms(4) by (auto simp: user_inv_def)
next
  case False
  then have "S \<noteq> [] \<or> M \<noteq> []" by blast
  note split = metadata_pieces_split[OF assms(1-3) this]
  have sys: "user_piece_fits E utf8 (system_entry e) \<and> user_meta_of E utf8 (system_entry e) = []" if "e \<in> set S" for e
  proof -
    have e: "system_entry_shown e" using assms(2) that by blast
    then show ?thesis using system_entry_parts(1,4)[OF e]
      by (cases e) (simp add: user_piece_fits_def user_meta_of_def system_piece_fits_def system_entry_shown_def)
  qed
  have usr: "user_piece_fits E utf8 (encoded_entry E utf8 p) \<and> user_meta_of E utf8 (encoded_entry E utf8 p) = [p]" if "p \<in> set M" for p
    using encoded_entry_parse(1,2)[OF assms(1), of "fst p" "snd p"] that assms(3) by (simp add: meta_fits_def)
  have fits: "\<forall>p \<in> set (split_on CHR '','' (metadata_value E utf8 S M)). user_piece_fits E utf8 p"
    unfolding split using sys usr by auto
  have "map (user_meta_of E utf8) (map system_entry S) = map (\<lambda>e. []) S" "map (user_meta_of E utf8) (map (encoded_entry E utf8) M) = map (\<lambda>p. [p]) M"
    using sys usr by simp_all
  then have l: "user_meta_list E utf8 (metadata_value E utf8 S M) = M"
    unfolding user_meta_list_def split map_append concat_append by (simp only: concat_map_singleton list.map_ident) simp
  have "unescape_total E \<or> utf8 = 0" using assms(1) by (auto simp: curl_codec_ok_def)
  from parse_meta_header_string_list[OF this split(2) fits, of "(meta0, 0)" "[]"] assms(4,5) l False show ?thesis
    by (auto simp: user_inv_def)
qed

text \<open>The system metadata: entries with other names change nothing.\<close>

lemma system_fields_named:
  "(f, sel, k) \<in> set system_texts \<Longrightarrow> f \<in> set ATMOS_SYSTEM_META_NAMES"
  "(f, sel') \<in> set system_times \<Longrightarrow> f \<in> set ATMOS_SYSTEM_META_NAMES"
  "ATMOS_SYSTEM_META_SIZE \<in> set ATMOS_SYSTEM_META_NAMES" "ATMOS_SYSTEM_META_NLINK \<in> set ATMOS_SYSTEM_META_NAMES"
  "ATMOS_SYSTEM_META_TYPE \<in> set ATMOS_SYSTEM_META_NAMES"
  by (auto simp: system_texts_def system_times_def ATMOS_SYSTEM_META_NAMES_def)

lemma system_read_other:
  assumes "system_read E utf8 (S @ R) sm sm'" "\<forall>e \<in> set R. fst e \<notin> set ATMOS_SYSTEM_META_NAMES"
  shows "system_read E utf8 S sm sm'"
proof -
  have v: "values_of f (S @ R) = values_of f S" if "f \<in> set ATMOS_SYSTEM_META_NAMES" for f
    using assms(2) that by (auto simp: values_of_def filter_empty_conv)
  have "c_str (sel sm') = last_or (c_str (sel sm)) (map (\<lambda>v. Some (take (k - 1) (field_text E utf8 (f, v)))) (values_of f S))"
    if "(f, sel, k) \<in> set system_texts" for f sel k
    using bspec[OF conjunct1[OF conjunct2[OF assms(1)[unfolded system_read_def]]] that] v[OF system_fields_named(1)[OF that]] by simp
  moreover have "sel sm' = last_or (sel sm) (map (xml_time E) (values_of f S))" if "(f, sel) \<in> set system_times" for f sel
    using bspec[OF conjunct1[OF conjunct2[OF conjunct2[OF assms(1)[unfolded system_read_def]]]] that] v[OF system_fields_named(2)[OF that]]
    by simp
  moreover have "wf_system sm'" "sm_size sm' = last_or (sm_size sm) (map strtoll (values_of ATMOS_SYSTEM_META_SIZE S))"
    "sm_nlink sm' = last_or (sm_nlink sm) (map (\<lambda>v. to_int32 (strtoll v)) (values_of ATMOS_SYSTEM_META_NLINK S))"
    "sm_type sm' = last_or (sm_type sm) (map Some (filter (\<lambda>v. v \<in> set object_types) (values_of ATMOS_SYSTEM_META_TYPE S)))"
    using assms(1) v[OF system_fields_named(3)] v[OF system_fields_named(4)] v[OF system_fields_named(5)] by (simp_all add: system_read_def)
  ultimately show ?thesis unfolding system_read_def by blast
qed

lemma encoded_entry_other:
  assumes "curl_codec_ok E \<or> utf8 = 0" "meta_pair_clean E utf8 p \<and> meta_fits p"
  shows "system_piece_fits (encoded_entry E utf8 p) \<and> fst (entry_parts (encoded_entry E utf8 p)) \<notin> set ATMOS_SYSTEM_META_NAMES \<and>
     system_entry_ok (entry_parts (encoded_entry E utf8 p))"
proof -
  have e: "user_piece_fits E utf8 (encoded_entry E utf8 p)" "user_meta_of E utf8 (encoded_entry E utf8 p) = [p]" "cstring (encoded_entry E utf8 p)"
    using encoded_entry_parse[OF assms(1), of "fst p" "snd p"] assms(2) by (simp_all add: meta_fits_def)
  have n: "fst (entry_parts (encoded_entry E utf8 p)) \<notin> set ATMOS_SYSTEM_META_NAMES"
    using e(2) by (auto simp: user_meta_of_def split: prod.splits if_splits)
  moreover have "fst ` set system_times \<subseteq> set ATMOS_SYSTEM_META_NAMES" by (auto dest: system_fields_named(2))
  ultimately show ?thesis using e(1,3) entry_parts_cstring[OF e(3)]
    by (auto simp: system_entry_ok_def system_piece_fits_def user_piece_fits_def)
qed

lemma parse_shared_system_meta:
  assumes "curl_codec_ok E \<or> utf8_flag E base = 0" "\<forall>e \<in> set S. system_entry_shown e"
    and "\<forall>p \<in> set M. meta_pair_clean E (utf8_flag E base) p \<and> meta_fits p" "wf_system sm"
    and "RestResponse_get_header_value E base ATMOS_HEADER_META =
       (if S = [] \<and> M = [] then None else Some (metadata_value E (utf8_flag E base) S M))"
  shows "\<exists>sm'. AtmosUtil_parse_system_meta_header E base sm = Some sm' \<and> system_read E (utf8_flag E base) S sm sm'"
proof (cases "S = [] \<and> M = []")
  case True
  then show ?thesis using assms(4,5) by (simp add: AtmosUtil_parse_system_meta_header_def system_read_def values_of_def)
next
  case False
  then have "S \<noteq> [] \<or> M \<noteq> []" by blast
  let ?u = "utf8_flag E base" and ?R = "map (\<lambda>p. entry_parts (encoded_entry E (utf8_flag E base) p)) M"
  note split = metadata_pieces_split[OF assms(1-3) \<open>S \<noteq> [] \<or> M \<noteq> []\<close>]
  have other: "\<forall>e \<in> set ?R. fst e \<notin> set ATMOS_SYSTEM_META_NAMES \<and> system_entry_ok e"
    using encoded_entry_other[OF assms(1)] assms(3) by simp
  have "map entry_parts (map system_entry S) = S" using system_entry_parts(1) assms(2) by (simp add: map_idI)
  then have es: "map entry_parts (split_on CHR '','' (metadata_value E ?u S M)) = S @ ?R" unfolding split by simp
  have "\<forall>p \<in> set (split_on CHR '','' (metadata_value E ?u S M)). system_piece_fits p"
    unfolding split using system_entry_parts(4) assms(2,3) encoded_entry_other[OF assms(1)] by auto
  from system_meta_loop_pieces[OF split(2) this, of E ?u sm]
  have "AtmosUtil_parse_system_meta_header E base sm = foldM (\<lambda>sm e. AtmosUtil_set_system_meta_entry E sm (fst e) (snd e) ?u) sm (S @ ?R)"
    using assms(5) False unfolding es[symmetric] foldM_map by (auto simp: AtmosUtil_parse_system_meta_header_def)
  moreover have "\<forall>e \<in> set (S @ ?R). system_entry_ok e" using other assms(2) by (auto simp: system_entry_shown_def)
  moreover have "unescape_total E \<or> ?u = 0" using assms(1) by (auto simp: curl_codec_ok_def)
  ultimately obtain sm' where "AtmosUtil_parse_system_meta_header E base sm = Some sm'" "system_read E ?u (S @ ?R) sm sm'"
    using system_entries_read[OF assms(4), of "S @ ?R" E ?u] by auto
  then show ?thesis using system_read_other[of E ?u S ?R] other by blast
qed

section \<open>Reading an object\<close>

lemma read_headers_shown:
  assumes "curl_codec_ok E \<or> utf8_flag E base = 0" "object_ok E (utf8_flag E base) x" "shows_object E base x"
  shows "\<exists>p. read_headers E base zero_read_response_part = Some p \<and> holds_object E (utf8_flag E base) p x"
proof -
  let ?u = "utf8_flag E base" and ?z = "replicate ATMOS_META_COUNT_MAX zero_metadata"
  note ok = assms(2)[unfolded object_ok_def] and sh = assms(3)[unfolded shows_object_def]
  have "wf_system zero_system_metadata" by (simp add: wf_system_def system_texts_def zero_system_metadata_def)
  then obtain sm where sm: "AtmosUtil_parse_system_meta_header E base zero_system_metadata = Some sm"
    "system_read E ?u (so_system x) zero_system_metadata sm"
    using parse_shared_system_meta[OF assms(1), of "so_system x" "so_meta x" zero_system_metadata] ok sh by auto
  have z: "\<forall>m \<in> set ?z. wf_metadata m" by simp
  obtain st where st: "(case RestResponse_get_header_value E base ATMOS_HEADER_META of None \<Rightarrow> Some (?z, 0)
      | Some v \<Rightarrow> AtmosUtil_parse_meta_header_string E ?u v (?z, 0)) = Some st" "user_inv st (so_meta x)"
    using parse_shared_user_meta[OF assms(1), of "so_system x" "so_meta x" ?z] ok sh z by auto
  obtain lst where lst: "(case RestResponse_get_header_value E base ATMOS_HEADER_LISTABLE_META of None \<Rightarrow> Some (?z, 0)
      | Some v \<Rightarrow> AtmosUtil_parse_meta_header_string E ?u v (?z, 0)) = Some lst" "user_inv lst (so_listable x)"
    using parse_shared_user_meta[OF assms(1), of "[]" "so_listable x" ?z] ok sh z by auto
  obtain a where a: "AtmosUtil_parse_acl_headers E base (replicate ATMOS_ACL_COUNT_MAX zero_acl_entry, 0) = Some a"
    "acl_inv a (acl_users (so_acl x) @ acl_groups (so_acl x))"
    using parse_shown_acl[OF _ _ acl_inv_zero[of ATMOS_ACL_COUNT_MAX], of E base "so_acl x"] ok sh by auto
  show ?thesis using sm st lst a
    by (simp add: read_headers_def AtmosUtil_parse_user_meta_headers_def zero_read_response_part_def holds_object_def user_inv_def acl_inv_def)
qed

text \<open>The request with its range, as the filter sends it on.\<close>

lemma good_range_line:
  assumes "cstring (HTTP_HEADER_RANGE E)" "length (HTTP_HEADER_RANGE E) \<le> 64" "range_text E i j = Some t"
  shows "good_line (snprintf_text ATMOS_SIMPLE_HEADER_MAX t)"
proof -
  obtain v where "t = HTTP_HEADER_RANGE E @ CHR '':'' # v" "cstring v"
    using assms(3) by (auto simp: range_text_def split: if_splits)
  then show ?thesis using good_line_snprintf[OF assms(1), of v ATMOS_SIMPLE_HEADER_MAX] assms(2) by simp
qed

lemma read_request_prepared:
  assumes "rest_client_ok E" "cstring (HTTP_HEADER_RANGE E)" "length (HTTP_HEADER_RANGE E) \<le> 64" "r_sub rq = Read_request rd"
    and "sendable rq"
  shows "\<exists>rq1. read_prepare E c rq = Some rq1 \<and> sendable rq1"
proof -
  have u: "good_line utf8_header" by (simp add: good_line_def utf8_header_def)
  show ?thesis using good_range_line[OF assms(2,3), of "rd_range_start rd" "rd_range_end rd"] u assms(5)
    by (auto simp: read_prepare_def Let_def assms(4) add_range_header_def sendable_add_header[OF assms(1)] split: option.splits)
qed

text \<open>
  C8: Reading an object brings everything of it to the caller: any read request, with any range, is sent signed, and when the
  server answers with the object, the operation returns; the response then has the content as the server sent it, and its
  arrays hold exactly the user metadata, the listable metadata (decoded when the answer is in UTF-8 mode) and the ACL entries, users
  before groups, in order, while every system field, the type of the object included, has the value the answer gives it. System and user metadata share one header, and neither
  parser takes an entry of the other.
\<close>

theorem object_read:
  assumes "mem_ok E" "base64_ok E" "rest_library_ok E hs" "client_ok E c"
    and "cstring (HTTP_HEADER_RANGE E)" "length (HTTP_HEADER_RANGE E) \<le> 64" "r_sub rq = Read_request rd"
    and "sendable rq"
    and "\<forall>sent base body blocks. transfers E c sent (AtmosReadObjectResponse_init E Read_response) base body blocks \<longrightarrow>
       http_code base = 200 \<and> rs_body base = content \<and> shows_object E base x \<and> object_ok E (utf8_flag E base) x \<and>
       (curl_codec_ok E \<or> utf8_flag E base = 0)"
  shows "\<exists>rq' rs' p. AtmosClient_read_object E c (rq, AtmosReadObjectResponse_init E Read_response) = Some (rq', rs') \<and>
     http_code (s_base rs') = 200 \<and> rs_body (s_base rs') = content \<and>
     sub_of rs' = Some (Read_response p) \<and> holds_object E (utf8_flag E (s_base rs')) p x \<and>
     answers_signed E c rq' (AtmosReadObjectResponse_init E Read_response) (s_base rs')"
proof -
  let ?rs = "AtmosReadObjectResponse_init E Read_response"
  let ?xs = "[(AtmosFilter_set_read_object_headers E, read_prepare E, Some),
     (AtmosFilter_parse_read_object_response E, \<lambda>c. Some, on_success (read_sub E))] :: halves list"
  obtain rq1 where rq1: "read_prepare E c rq = Some rq1" "sendable rq1"
    using read_request_prepared[OF rest_library_okD(1)[OF assms(3)] assms(5-8)] by blast
  have halves: "\<forall>x \<in> set ?xs. halves_of x" by auto
  have prepared: "foldM (\<lambda>rq x. fst (snd x) c rq) rq (rev ?xs) = Some rq1" using rq1(1) by simp
  obtain rq' base where base: "http_code base = 200" "rs_body base = content \<and> shows_object E base x \<and>
      object_ok E (utf8_flag E base) x \<and> (curl_codec_ok E \<or> utf8_flag E base = 0)"
    "execute E c (map fst ?xs) (rq, ?rs) = foldM (\<lambda>st fin. fin st) (rq', ?rs\<lparr>s_base := base\<rparr>) (map (snd \<circ> snd) ?xs)"
    "answers_signed E c rq' ?rs base"
    using execute_answered[OF assms(1-4) halves prepared rq1(2) assms(9)] by blast
  obtain p where p: "read_headers E base zero_read_response_part = Some p" "holds_object E (utf8_flag E base) p x"
    using read_headers_shown[of E base x] base(2) by blast
  obtain a where a: "s_atmos ?rs = Some (a, Read_response zero_read_response_part)"
    by (simp add: AtmosReadObjectResponse_init_def set_response_class_def AtmosResponse_init_def)
  have "read_sub E (?rs\<lparr>s_base := base\<rparr>) = Some (?rs\<lparr>s_base := base, s_atmos := Some (a, Read_response p)\<rparr>)"
    using a p(1) by (simp add: read_sub_def upd_read_response_def)
  then have "AtmosClient_read_object E c (rq, ?rs) = Some (rq', ?rs\<lparr>s_base := base, s_atmos := Some (a, Read_response p)\<rparr>)"
    using base(1,3) by (simp add: AtmosClient_read_object_def on_success_def)
  then show ?thesis using p(2) base(1,2,4) by (auto simp: sub_of_def)
qed

definition sample_object :: stored_object where
  "sample_object = \<lparr>so_system = [(''size'', ''12''), (''type'', ''regular''), (''uid'', ''alice'')], so_meta = [(''color'', ''red'')], so_listable = [(''album'', ''2012'')],
     so_acl = [(''alice'', ATMOS_USER, ATMOS_PERM_FULL), (''other'', ATMOS_GROUP, ATMOS_PERM_READ)]\<rparr>"

definition object_headers :: "string list" where
  "object_headers = [''x-emc-meta: size=12,type=regular,uid=alice,color=red'', ''x-emc-listable-meta: album=2012'',
     ''x-emc-useracl: alice=FULL_CONTROL'', ''x-emc-groupacl: other=READ'']"

lemma sample_object_ok: "object_ok E 0 sample_object"
  by (simp add: object_ok_def sample_object_def system_entry_shown_def ATMOS_SYSTEM_META_NAMES_def system_entry_ok_def system_times_def
      meta_pair_clean_def meta_pair_ok_def meta_char_ok_def meta_text_def meta_fits_def acl_entry_clean_def literals)

lemma sample_object_shown:
  assumes "\<And>n. RestResponse_get_header_value E base n = lookup_header object_headers n"
  shows "shows_object E base sample_object" "utf8_flag E base = 0"
proof -
  have l: "lookup_header object_headers ATMOS_HEADER_META = Some ''size=12,type=regular,uid=alice,color=red''"
    "lookup_header object_headers ATMOS_HEADER_LISTABLE_META = Some ''album=2012''"
    "lookup_header object_headers ATMOS_HEADER_USER_ACL = Some ''alice=FULL_CONTROL''"
    "lookup_header object_headers ATMOS_HEADER_GROUP_ACL = Some ''other=READ''"
    "lookup_header object_headers ATMOS_HEADER_UTF8 = None" by code_simp+
  show u: "utf8_flag E base = 0" by (simp add: utf8_flag_def assms l(5))
  have "shows_acl E base (so_acl sample_object)"
    unfolding shows_acl_def assms l
    by (simp add: sample_object_def acl_users_def acl_groups_def acl_text_def literals)
  then show "shows_object E base sample_object"
    unfolding shows_object_def u assms l
    by (simp add: sample_object_def metadata_value_def system_entry_def encoded_entry_def meta_text_def)
qed

definition sample_read_request :: request where
  "sample_read_request = \<lparr>r_base = RestRequest_init list_env ''/rest/objects/1'' HTTP_GET,
     r_sub = Read_request (zero_read_part\<lparr>rd_range_start := 10, rd_range_end := 14\<rparr>)\<rparr>"

theorem object_read_witness:
  "\<exists>rq' rs' p. AtmosClient_read_object (answering_env 200 object_headers) sample_client
       (sample_read_request, AtmosReadObjectResponse_init (answering_env 200 object_headers) Read_response) = Some (rq', rs') \<and>
     sub_of rs' = Some (Read_response p) \<and> arr_holds metadata_pair (rr_meta p) (rr_meta_count p) [(''color'', ''red'')] \<and>
     sm_size (rr_system_metadata p) = 12 \<and> c_str (sm_uid (rr_system_metadata p)) = Some ''alice'' \<and> sm_type (rr_system_metadata p) = Some ATMOS_TYPE_REGULAR"
proof -
  let ?E = "answering_env 200 object_headers"
  let ?rs = "AtmosReadObjectResponse_init ?E Read_response"
  note lib = rest_library_okD[OF answering_env_ok(3)[of 200 object_headers]]
  have c: "client_ok ?E sample_client" using answering_env_ok(4) by (simp add: client_ok_def sample_client_def)
  have range: "cstring (HTTP_HEADER_RANGE ?E)" "length (HTTP_HEADER_RANGE ?E) \<le> 64" by (simp_all add: answering_env_def answering_def list_env_def)
  have rq: "r_sub sample_read_request = Read_request (zero_read_part\<lparr>rd_range_start := 10, rd_range_end := 14\<rparr>)"
    "sendable sample_read_request" by (simp_all add: sample_read_request_def sendable_def list_env_def)
  have server: "\<forall>sent base body blocks. transfers ?E sample_client sent ?rs base body blocks \<longrightarrow>
      http_code base = 200 \<and> rs_body base = rs_body (s_base ?rs) \<and> shows_object ?E base sample_object \<and>
      object_ok ?E (utf8_flag ?E base) sample_object \<and> (curl_codec_ok ?E \<or> utf8_flag ?E base = 0)"
  proof (intro allI impI)
    fix sent base body blocks
    assume "transfers ?E sample_client sent ?rs base body blocks"
    from transfers_base_unique[OF transfers_answering_env this]
    have b: "base = (s_base ?rs)\<lparr>http_code := 200, rs_headers := object_headers\<rparr>" by simp
    then have "RestResponse_get_header_value ?E base n = lookup_header object_headers n" for n by (simp add: answering_env_def answering_def list_env_def)
    from sample_object_shown[OF this] sample_object_ok
    show "http_code base = 200 \<and> rs_body base = rs_body (s_base ?rs) \<and> shows_object ?E base sample_object \<and>
      object_ok ?E (utf8_flag ?E base) sample_object \<and> (curl_codec_ok ?E \<or> utf8_flag ?E base = 0)" by (simp add: b)
  qed
  from object_read[OF answering_env_ok(1-3) c range rq server]
  obtain rq' rs' p where r: "AtmosClient_read_object ?E sample_client (sample_read_request, ?rs) = Some (rq', rs')"
    "sub_of rs' = Some (Read_response p)" "holds_object ?E (utf8_flag ?E (s_base rs')) p sample_object"
    by (elim exE conjE) (rule that)
  have "strtoll ''12'' = 12" by code_simp
  then have "sm_size (rr_system_metadata p) = 12 \<and> c_str (sm_uid (rr_system_metadata p)) = Some ''alice'' \<and> sm_type (rr_system_metadata p) = Some ATMOS_TYPE_REGULAR"
    using r(3) by (simp add: holds_object_def sample_object_def system_read_def system_texts_def values_of_def last_or_def field_text_def literals object_types_def)
  moreover have "arr_holds metadata_pair (rr_meta p) (rr_meta_count p) [(''color'', ''red'')]"
    using r(3) by (simp add: holds_object_def sample_object_def)
  ultimately show ?thesis using r(1,2) by (intro exI[of _ rq'] exI[of _ rs'] exI[of _ p]) simp
qed

end
