(* ===== verification/Answer_Laws.thy ===== *)
theory Answer_Laws
  imports Listing_Laws
begin

text \<open>
  What is read from the bodies of answers: the error document of a failed request, and the
  metadata of the entries in an XML listing.
\<close>

section \<open>Error documents\<close>

text \<open>
  One call of the read callback: a block of at most the buffer's size, never past the content
  length. The sizes of \<open>xml_ok\<close> are those an \<open>int\<close> argument can have.
\<close>

definition xml_ok :: "env \<Rightarrow> bool" where
  "xml_ok E \<longleftrightarrow> (\<forall>n. 0 < xml_read_size E n \<and> xml_read_size E n < 2 ^ 31)"

definition to_read :: "XMLFileParseData \<Rightarrow> nat" where
  "to_read data = nat (xf_content_length data - xf_bytes_read data)"

definition xml_data_ok :: "XMLFileParseData \<Rightarrow> bool" where
  "xml_data_ok data \<longleftrightarrow> 0 \<le> xf_bytes_read data \<and> xf_bytes_read data \<le> xf_content_length data \<and> xf_content_length data < 2 ^ 64 \<and>
     xf_bytes_read data + int (length (f_bytes (xf_f data)) - f_pos (xf_f data)) < 2 ^ 63"

lemma file_read_xml_step:
  assumes "xml_data_ok data" "len < 2 ^ 31"
  shows "fst (AtmosFilter_file_read_xml data len) = fst (fread (min len (to_read data)) (xf_f data))"
    "snd (AtmosFilter_file_read_xml data len) =
       data\<lparr>xf_f := snd (fread (min len (to_read data)) (xf_f data)),
            xf_bytes_read := xf_bytes_read data + int (length (fst (fread (min len (to_read data)) (xf_f data))))\<rparr>"
proof -
  let ?n = "if to_uint64 (int len + xf_bytes_read data) > xf_content_length data
      then to_uint64 (xf_content_length data - xf_bytes_read data) else int len"
  have r: "0 \<le> xf_bytes_read data" "xf_bytes_read data \<le> xf_content_length data" "xf_content_length data < 2 ^ 64"
    "xf_bytes_read data + int (length (f_bytes (xf_f data)) - f_pos (xf_f data)) < 2 ^ 63"
    using assms(1) by (auto simp: xml_data_ok_def)
  have "to_uint64 (int len + xf_bytes_read data) = int len + xf_bytes_read data"
    using r assms(2) by (intro to_uint64_id) auto
  moreover have "to_uint64 (xf_content_length data - xf_bytes_read data) = xf_content_length data - xf_bytes_read data"
    using r by (intro to_uint64_id) auto
  ultimately have n: "nat ?n = min len (to_read data)" by (auto simp: to_read_def min_def)
  have "length (fst (fread m (xf_f data))) \<le> length (f_bytes (xf_f data)) - f_pos (xf_f data)" for m
    by (simp add: fread_def Let_def)
  then have bytes: "to_uint64 (xf_bytes_read data + int (length (fst (fread m (xf_f data))))) =
      xf_bytes_read data + int (length (fst (fread m (xf_f data))))" for m
    using r by (intro to_uint64_id) (auto intro: order.strict_trans1[OF _ order.strict_trans[OF r(4)]])
  have "AtmosFilter_file_read_xml data len = (fst (fread (nat ?n) (xf_f data)),
      data\<lparr>xf_f := snd (fread (nat ?n) (xf_f data)),
        xf_bytes_read := to_uint64 (xf_bytes_read data + int (length (fst (fread (nat ?n) (xf_f data)))))\<rparr>)"
    unfolding AtmosFilter_file_read_xml_def Let_def case_prod_beta by (rule refl)
  then show "fst (AtmosFilter_file_read_xml data len) = fst (fread (min len (to_read data)) (xf_f data))"
    "snd (AtmosFilter_file_read_xml data len) =
       data\<lparr>xf_f := snd (fread (min len (to_read data)) (xf_f data)),
            xf_bytes_read := xf_bytes_read data + int (length (fst (fread (min len (to_read data)) (xf_f data))))\<rparr>"
    unfolding n bytes by simp_all
qed

lemma read_xml_io_all:
  assumes "xml_ok E" "xml_data_ok data"
  shows "fst (read_xml_io E data n) = fst (fread (to_read data) (xf_f data)) \<and>
     xf_f (snd (read_xml_io E data n)) = snd (fread (to_read data) (xf_f data))"
  using assms(2)
proof (induction "length (f_bytes (xf_f data)) - f_pos (xf_f data)" arbitrary: data n rule: less_induct)
  case less
  define len where "len = xml_read_size E n"
  have len: "0 < len" "len < 2 ^ 31" using assms(1) by (auto simp: xml_ok_def len_def)
  obtain b f1 where b: "fread (min len (to_read data)) (xf_f data) = (b, f1)" by (cases "fread (min len (to_read data)) (xf_f data)")
  define data1 where "data1 = data\<lparr>xf_f := f1, xf_bytes_read := xf_bytes_read data + int (length b)\<rparr>"
  have step: "AtmosFilter_file_read_xml data len = (b, data1)"
    using file_read_xml_step[OF less.prems len(2)] by (intro prod_eqI) (simp_all add: b data1_def)
  have bs: "b = take (min len (to_read data)) (drop (f_pos (xf_f data)) (f_bytes (xf_f data)))"
    "f1 = (xf_f data)\<lparr>f_pos := f_pos (xf_f data) + length b\<rparr>" using b by (auto simp: fread_def Let_def)
  show ?case
  proof (cases "b = []")
    case True
    then have "fread (to_read data) (xf_f data) = ([], f1)" using bs len(1) by (auto simp: fread_def Let_def min_def split: if_splits)
    have "read_xml_io E data n = ([], data1)"
      by (subst read_xml_io.simps) (use True step in \<open>simp add: len_def case_prod_beta\<close>)
    with True \<open>fread (to_read data) (xf_f data) = ([], f1)\<close> show ?thesis by (simp add: data1_def)
  next
    case False
    have le: "length b \<le> to_read data" "length b \<le> length (f_bytes (xf_f data)) - f_pos (xf_f data)" unfolding bs by simp_all
    have rest: "to_read data1 = to_read data - length b" using less.prems le(1) by (simp add: to_read_def data1_def xml_data_ok_def)
    have "0 < length b" using False by simp
    then have smaller: "length (f_bytes (xf_f data1)) - f_pos (xf_f data1) < length (f_bytes (xf_f data)) - f_pos (xf_f data)"
      using le(2) by (simp add: data1_def bs(2) del: length_greater_0_conv)
    have "xml_data_ok data1" using less.prems le
      by (auto simp: xml_data_ok_def data1_def to_read_def bs(2))
    from less.hyps[OF smaller this] have IH: "fst (read_xml_io E data1 (Suc n)) = fst (fread (to_read data1) f1) \<and>
        xf_f (snd (read_xml_io E data1 (Suc n))) = snd (fread (to_read data1) f1)"
      by (simp add: data1_def)
    have whole: "fread (to_read data) (xf_f data) = (b @ fst (fread (to_read data1) f1), snd (fread (to_read data1) f1))"
      using fread_split[OF min.cobounded2 b] rest by simp
    have "read_xml_io E data n = (b @ fst (read_xml_io E data1 (Suc n)), snd (read_xml_io E data1 (Suc n)))"
      by (subst read_xml_io.simps) (use False step in \<open>simp add: len_def case_prod_beta\<close>)
    then show ?thesis using IH by (simp add: whole)
  qed
qed

text \<open>
  C38: Reading the error document of an answer that was stored in a file comes to an end and takes exactly the answer: whatever buffer
  sizes the XML parser chooses, the callback hands it the bytes from the start of the answer in the file up to its content
  length (or to the end of the file), and leaves the file right behind them.
\<close>

theorem error_document_file:
  assumes "xml_ok E" "rs_file_body r = Some f" "length (f_bytes f) < 2 ^ 63"
    and "fseeko f (rs_file_body_start_pos r) = (rc, f0)"
    and "fread (nat (to_uint64 (rs_content_length r))) f0 = (answer, f1)"
  shows "error_document E r = Some (xml_parse E answer, r\<lparr>rs_file_body := Some f1\<rparr>)"
proof -
  let ?d = "\<lparr>xf_f = f0, xf_content_length = to_uint64 (rs_content_length r), xf_bytes_read = 0\<rparr>"
  have "f_bytes f0 = f_bytes f" using assms(4) by (auto simp: fseeko_def split: if_splits)
  then have "xml_data_ok ?d" using assms(3) by (simp add: xml_data_ok_def to_uint64_def)
  from read_xml_io_all[OF assms(1) this, of 0] have "fst (read_xml_io E ?d 0) = answer" "xf_f (snd (read_xml_io E ?d 0)) = f1"
    using assms(5) by (simp_all add: to_read_def)
  then show ?thesis using assms(2,4) by (simp add: error_document_def case_prod_beta)
qed

theorem error_document_file_witness:
  "error_document list_env ((RestResponse_init list_env)\<lparr>rs_file_body := Some \<lparr>f_bytes = ''old<Error/>more'', f_pos = 11, f_seekable = True\<rparr>,
       rs_file_body_start_pos := 3, rs_content_length := 8\<rparr>) =
   Some (xml_parse list_env ''<Error/>'',
     (RestResponse_init list_env)\<lparr>rs_file_body := Some \<lparr>f_bytes = ''old<Error/>more'', f_pos = 11, f_seekable = True\<rparr>,
       rs_file_body_start_pos := 3, rs_content_length := 8\<rparr>)"
proof -
  let ?f = "\<lambda>p. \<lparr>f_bytes = ''old<Error/>more'', f_pos = p, f_seekable = True\<rparr>"
  let ?r = "(RestResponse_init list_env)\<lparr>rs_file_body := Some (?f 11), rs_file_body_start_pos := 3, rs_content_length := 8\<rparr>"
  have "fseeko (?f 11) (rs_file_body_start_pos ?r) = (0, ?f 3)" by (simp add: fseeko_def)
  moreover have "fread (nat (to_uint64 (rs_content_length ?r))) (?f 3) = (''<Error/>'', ?f 11)"
    by (simp add: fread_def Let_def to_uint64_def)
  moreover have "xml_ok list_env" by (simp add: xml_ok_def list_env_def)
  ultimately show ?thesis using error_document_file[of list_env ?r "?f 11" 0 "?f 3"] by simp
qed

text \<open>
  C16: The error a failed request is answered with reaches the caller: for every status above 399 and every verb whose
  error answers have a document, the code and the message of an \<open>Error\<close> document are in the response, the message as a C string in the
  caller's array, and nothing else of the response changes; other answers are passed on untouched.
\<close>

theorem api_error_recorded:
  assumes "s_atmos rs = Some (a, sub)" "length (atmos_error_message a) = ATMOS_ERROR_MAX"
    and "error_document E (s_base rs) = Some (Some root, base)" "xn_name root = ''Error''"
    and "AtmosUtil_select_single_node_value E root ''/Error/Code'' False = Some (show_int code)" "- (2 ^ 31) \<le> code" "code < 2 ^ 31"
    and "AtmosUtil_select_single_node_value E root ''/Error/Message'' False = Some message"
    and "cstring message" "length message < ATMOS_ERROR_MAX"
  shows "\<exists>b. c_str b = Some message \<and>
     AtmosFilter_parse_atmos_error E c (Some (\<lambda>st. Some (rq, rs))) (rq0, rs0) =
       Some (rq, if http_code (s_base rs) \<le> 399 \<or> rq_method (r_base rq) \<in> {HTTP_DELETE, HTTP_PUT, HTTP_HEAD} then rs
                 else \<lparr>s_base = base, s_atmos = Some (\<lparr>atmos_error = code, atmos_error_message = b\<rparr>, sub)\<rparr>)"
proof -
  obtain b where b: "strcpy (atmos_error_message a) message = Some b" using strcpy_ok assms(2,10) by metis
  have "to_int32 (strtoll (show_int code)) = code"
    using strtoll_show_int[of code] assms(6,7) by (simp add: to_int32_def)
  then have "parse_error_document E root (rs\<lparr>s_base := base\<rparr>) =
      Some \<lparr>s_base = base, s_atmos = Some (\<lparr>atmos_error = code, atmos_error_message = b\<rparr>, sub)\<rparr>"
    using assms(1,4,5,8) b by (simp add: parse_error_document_def ATMOS_ERROR_ROOT_NODE_def ATMOS_ERROR_CODE_XPATH_def
        ATMOS_ERROR_MESSAGE_XPATH_def set_value_def upd_atmos_def)
  then show ?thesis using assms(3) strcpy_c_str[OF assms(9) b]
    by (intro exI[of _ b]) (auto simp: AtmosFilter_parse_atmos_error_def parse_error_response_def)
qed

definition error_env :: env where
  "error_env = list_env\<lparr>xmlXPathEval := \<lambda>root cos path.
     Some (if path = ''/Error/Code'' then [XmlNode True ''Code'' (Some ''1003'') []]
           else if path = ''/Error/Message'' then [XmlNode True ''Message'' (Some ''not found'') []] else [])\<rparr>"

theorem api_error_recorded_witness:
  "\<exists>b rs sub. c_str b = Some ''not found'' \<and> http_code (s_base rs) = 404 \<and>
     AtmosFilter_parse_atmos_error error_env sample_client (Some (\<lambda>st. Some (rest_request error_env ''/rest/service'' HTTP_GET, rs)))
       (rest_request error_env ''/rest/service'' HTTP_GET, rs) =
       Some (rest_request error_env ''/rest/service'' HTTP_GET,
         \<lparr>s_base = s_base rs, s_atmos = Some (\<lparr>atmos_error = 1003, atmos_error_message = b\<rparr>, sub)\<rparr>)"
proof -
  let ?base = "(RestResponse_init list_env)\<lparr>http_code := 404, rs_body := ''<Error/>'', rs_content_length := 8\<rparr>"
  let ?a = "\<lparr>atmos_error = 0, atmos_error_message = zeros ATMOS_ERROR_MAX\<rparr>"
  let ?rs = "\<lparr>s_base = ?base, s_atmos = Some (?a, GetAcl_response zero_acl_response_part)\<rparr>"
  have doc: "error_document error_env (s_base ?rs) = Some (Some (XmlNode True ''Error'' (Some []) []), ?base)"
    by (simp add: error_document_def xmlReadMemory_def error_env_def list_env_def to_int32_def)
  have v: "AtmosUtil_select_single_node_value error_env (XmlNode True ''Error'' (Some []) []) ''/Error/Code'' False = Some (show_int 1003)"
    "AtmosUtil_select_single_node_value error_env (XmlNode True ''Error'' (Some []) []) ''/Error/Message'' False = Some ''not found''"
    by (simp_all add: AtmosUtil_select_single_node_value_def AtmosUtil_select_nodes_def error_env_def show_int_def) (code_simp)
  have g: "rq_method (r_base (rest_request error_env ''/rest/service'' HTTP_GET)) = HTTP_GET"
    by (simp add: rest_request_def error_env_def list_env_def)
  from api_error_recorded[of ?rs ?a "GetAcl_response zero_acl_response_part" error_env _ ?base 1003 "''not found''" sample_client
      "rest_request error_env ''/rest/service'' HTTP_GET"  "rest_request error_env ''/rest/service'' HTTP_GET" ?rs, OF _ _ doc _ v(1) _ _ v(2)]
  obtain b where "c_str b = Some ''not found''" "AtmosFilter_parse_atmos_error error_env sample_client (Some (\<lambda>st. Some (rest_request error_env ''/rest/service'' HTTP_GET, ?rs)))
       (rest_request error_env ''/rest/service'' HTTP_GET, ?rs) =
       Some (rest_request error_env ''/rest/service'' HTTP_GET,
         \<lparr>s_base = ?base, s_atmos = Some (\<lparr>atmos_error = 1003, atmos_error_message = b\<rparr>, GetAcl_response zero_acl_response_part)\<rparr>)"
    by (auto simp: g cdefs)
  then show ?thesis by (intro exI[of _ b] exI[of _ ?rs]) auto
qed

section \<open>User metadata in a listing\<close>

text \<open>
  What a \<open>Metadata\<close> element says: the last \<open>Name\<close>, \<open>Value\<close> and \<open>Listable\<close> with a content,
  names and values cut at the size of their arrays.
\<close>

definition field_values :: "string \<Rightarrow> xml_node list \<Rightarrow> string list" where
  "field_values f cs = List.map_filter (\<lambda>c. if xn_element c \<and> xn_name c = f then xn_content c else None) cs"

primrec final :: "'a \<Rightarrow> 'a list \<Rightarrow> 'a" where
  "final s [] = s"
| "final s (x # xs) = final x xs"

definition meta_field :: "string \<Rightarrow> xml_node \<Rightarrow> string" where
  "meta_field f m = final [] (field_values f (xn_children m))"

definition cut_entry :: "xml_node \<Rightarrow> string \<times> string" where
  "cut_entry m = (take ATMOS_META_NAME_MAX (meta_field DIR_NODE_NAME m), take ATMOS_META_VALUE_MAX (meta_field DIR_NODE_VALUE m))"

definition meta_elements :: "bool \<Rightarrow> xml_node list \<Rightarrow> xml_node list" where
  "meta_elements listable cs = filter (\<lambda>c. xn_element c \<and> xn_name c = DIR_NODE_METADATA \<and>
     (meta_field DIR_NODE_LISTABLE c = ''true'') = listable) cs"

definition texts_ok :: "xml_node list \<Rightarrow> bool" where
  "texts_ok cs \<longleftrightarrow> (\<forall>c \<in> set cs. \<forall>v. xn_content c = Some v \<longrightarrow> cstring v)"

definition meta_bufs_ok :: "buffer \<times> buffer \<Rightarrow> bool" where
  "meta_bufs_ok bufs \<longleftrightarrow> length (fst bufs) = ATMOS_META_NAME_MAX \<and> length (snd bufs) = ATMOS_META_VALUE_MAX"

lemma buffer_text_NUL [simp]: "buffer_text (NUL # b) = []"
  by (simp add: buffer_text_def)

lemma strncpy_text:
  assumes "cstring s" "length b = n"
  shows "\<exists>b'. strncpy b s n = Some b' \<and> length b' = n \<and> buffer_text b' = take n s"
proof -
  have "takeWhile (\<lambda>c. c \<noteq> NUL) (take n (s @ replicate n NUL)) = take n s"
  proof (cases "n \<le> length s")
    case True
    have "NUL \<notin> set (take n s)" using assms(1) in_set_takeD[of NUL n s] by (auto simp: cdefs)
    then show ?thesis using True by (simp add: takeWhile_neq_notin)
  next
    case False
    then obtain m where "n - length s = Suc m" by (metis Suc_diff_Suc not_le)
    moreover have "min n (n - length s) = n - length s" by simp
    ultimately show ?thesis using False assms(1) by (simp add: cdefs del: replicate_Suc) (simp add: cdefs)
  qed
  moreover have "length (take n (s @ replicate n NUL)) = n" by simp
  ultimately show ?thesis using assms(2) by (auto simp: strncpy_def buf_write_def buffer_text_def simp del: take_append length_take)
qed

lemma buffer_text_props: "length (buffer_text b) \<le> length b" "cstring (buffer_text b)"
  by (auto simp: buffer_text_def length_takeWhile_le cdefs dest: set_takeWhileD)

lemma field_values_simps [simp]:
  "field_values f [] = []"
  "\<not> xn_element c \<or> xn_name c \<noteq> f \<or> xn_content c = None \<Longrightarrow> field_values f (c # cs) = field_values f cs"
  "xn_element c \<Longrightarrow> xn_name c = f \<Longrightarrow> xn_content c = Some v \<Longrightarrow> field_values f (c # cs) = v # field_values f cs"
  by (auto simp: field_values_def List.map_filter_simps)

lemma dir_names_distinct [simp]:
  "DIR_NODE_NAME \<noteq> DIR_NODE_VALUE" "DIR_NODE_VALUE \<noteq> DIR_NODE_NAME" "DIR_NODE_NAME \<noteq> DIR_NODE_LISTABLE"
  "DIR_NODE_LISTABLE \<noteq> DIR_NODE_NAME" "DIR_NODE_VALUE \<noteq> DIR_NODE_LISTABLE" "DIR_NODE_LISTABLE \<noteq> DIR_NODE_VALUE"
  by (simp_all add: dir_nodes)

lemma parse_meta_children:
  assumes "texts_ok cs" "meta_bufs_ok (n, v)"
    and "buffer_text n = take ATMOS_META_NAME_MAX sn" "buffer_text v = take ATMOS_META_VALUE_MAX sv" "l = (if sl = ''true'' then 1 else 0)"
  shows "\<exists>n' v'. foldM parse_meta_child (n, v, l) cs =
        Some (n', v', if final sl (field_values DIR_NODE_LISTABLE cs) = ''true'' then 1 else 0) \<and> meta_bufs_ok (n', v') \<and>
     buffer_text n' = take ATMOS_META_NAME_MAX (final sn (field_values DIR_NODE_NAME cs)) \<and>
     buffer_text v' = take ATMOS_META_VALUE_MAX (final sv (field_values DIR_NODE_VALUE cs))"
  using assms
proof (induction cs arbitrary: n v l sn sv sl)
  case Nil then show ?case by simp
next
  case (Cons c cs)
  have cs: "texts_ok cs" and c: "\<And>x. xn_content c = Some x \<Longrightarrow> cstring x" using Cons.prems(1) by (simp_all add: texts_ok_def)
  have len: "length n = ATMOS_META_NAME_MAX" "length v = ATMOS_META_VALUE_MAX" using Cons.prems(2) by (simp_all add: meta_bufs_ok_def)
  show ?case
  proof (cases "xn_content c")
    case None
    then have "parse_meta_child (n, v, l) c = Some (n, v, l)" by (simp add: parse_meta_child_def)
    then show ?thesis using Cons.IH[OF cs Cons.prems(2-5)] None by simp
  next
    case (Some x)
    note x = c[OF Some]
    consider "\<not> xn_element c \<or> xn_name c \<notin> {DIR_NODE_NAME, DIR_NODE_VALUE, DIR_NODE_LISTABLE}"
      | "xn_element c" "xn_name c = DIR_NODE_NAME" | "xn_element c" "xn_name c = DIR_NODE_VALUE"
      | "xn_element c" "xn_name c = DIR_NODE_LISTABLE" by auto
    then show ?thesis
    proof cases
      case 1
      then have "parse_meta_child (n, v, l) c = Some (n, v, l)" by (auto simp: parse_meta_child_def)
      then show ?thesis using Cons.IH[OF cs Cons.prems(2-5)] 1 by auto
    next
      case 2
      obtain n' where n': "strncpy n x ATMOS_META_NAME_MAX = Some n'" "length n' = ATMOS_META_NAME_MAX"
        "buffer_text n' = take ATMOS_META_NAME_MAX x" using strncpy_text[OF x len(1)] by blast
      have "meta_bufs_ok (n', v)" using n'(2) len by (simp add: meta_bufs_ok_def)
      from Cons.IH[OF cs this n'(3) Cons.prems(4,5)] show ?thesis using 2 Some n'(1) by (simp add: parse_meta_child_def)
    next
      case 3
      obtain v' where v': "strncpy v x ATMOS_META_VALUE_MAX = Some v'" "length v' = ATMOS_META_VALUE_MAX"
        "buffer_text v' = take ATMOS_META_VALUE_MAX x" using strncpy_text[OF x len(2)] by blast
      have "meta_bufs_ok (n, v')" using v'(2) len by (simp add: meta_bufs_ok_def)
      from Cons.IH[OF cs this Cons.prems(3) v'(3) Cons.prems(5)] show ?thesis using 3 Some v'(1) by (simp add: parse_meta_child_def)
    next
      case 4
      then have "parse_meta_child (n, v, l) c = Some (n, v, if x = ''true'' then 1 else 0)"
        using Some by (auto simp: parse_meta_child_def)
      then show ?thesis using Cons.IH[OF cs Cons.prems(2-4) refl, of x] 4 Some by simp
    qed
  qed
qed

lemma parse_meta_entry_result:
  assumes "texts_ok (xn_children m)" "meta_bufs_ok bufs"
  shows "\<exists>n v. parse_meta_entry bufs 0 m = Some (n, v, if meta_field DIR_NODE_LISTABLE m = ''true'' then 1 else 0) \<and>
     meta_bufs_ok (n, v) \<and> (buffer_text n, buffer_text v) = cut_entry m"
proof -
  obtain n v where b: "bufs = (n, v)" by (cases bufs)
  have len: "length n = ATMOS_META_NAME_MAX" "length v = ATMOS_META_VALUE_MAX" using assms(2) by (simp_all add: meta_bufs_ok_def b)
  then obtain n' v' where set0: "buf_set n 0 NUL = Some n'" "buf_set v 0 NUL = Some v'" "buffer_text n' = []" "buffer_text v' = []"
    by (cases n; cases v) (auto simp: buf_set_def)
  moreover have "meta_bufs_ok (n', v')" using set0(1,2) len by (auto simp: meta_bufs_ok_def dest: buf_set_length)
  ultimately show ?thesis using parse_meta_children[OF assms(1), of n' v' "[]" "[]" 0 "[]"]
    by (auto simp: parse_meta_entry_def b AtmosUtil_parse_meta_def meta_field_def cut_entry_def)
qed

text \<open>The elements a pass looks at, and how it goes from one to the next.\<close>

definition texts_deep :: "xml_node list \<Rightarrow> bool" where
  "texts_deep cs \<longleftrightarrow> (\<forall>c \<in> set cs. texts_ok (xn_children c))"

lemma meta_elements_simps [simp]:
  "meta_elements l [] = []"
  "\<not> (xn_element c \<and> xn_name c = DIR_NODE_METADATA) \<Longrightarrow> meta_elements l (c # cs) = meta_elements l cs"
  "xn_element c \<Longrightarrow> xn_name c = DIR_NODE_METADATA \<Longrightarrow> meta_elements l (c # cs) =
     (if (meta_field DIR_NODE_LISTABLE c = ''true'') = l then c # meta_elements l cs else meta_elements l cs)"
  by (auto simp: meta_elements_def)

lemma count_pass:
  assumes "texts_deep cs" "meta_bufs_ok bufs"
  shows "\<exists>bufs'. meta_bufs_ok bufs' \<and> foldM count_meta_child (bufs, r, l) cs =
     Some (bufs', r + length (meta_elements False cs), l + length (meta_elements True cs))"
  using assms
proof (induction cs arbitrary: bufs r l)
  case Nil then show ?case by (cases bufs) simp
next
  case (Cons c cs)
  have cs: "texts_deep cs" and c: "texts_ok (xn_children c)" using Cons.prems(1) by (simp_all add: texts_deep_def)
  show ?case
  proof (cases "xn_element c \<and> xn_name c = DIR_NODE_METADATA")
    case False
    then have "count_meta_child (bufs, r, l) c = Some (bufs, r, l)" by (auto simp: count_meta_child_def)
    then show ?thesis using Cons.IH[OF cs Cons.prems(2)] False by simp
  next
    case True
    obtain n v where e: "parse_meta_entry bufs 0 c = Some (n, v, if meta_field DIR_NODE_LISTABLE c = ''true'' then 1 else 0)"
      "meta_bufs_ok (n, v)" using parse_meta_entry_result[OF c Cons.prems(2)] by blast
    show ?thesis
      using Cons.IH[OF cs e(2), of r "Suc l"] Cons.IH[OF cs e(2), of "Suc r" l] True e(1) by (auto simp: count_meta_child_def)
  qed
qed

definition stored_pair :: "AtmosMetadata \<Rightarrow> (string \<times> string) option" where
  "stored_pair m = Some (buffer_text (md_name m), buffer_text (md_value m))"

text \<open>An array of \<open>k\<close> entries whose first ones hold \<open>M\<close>.\<close>

definition stored :: "AtmosMetadata list \<Rightarrow> nat \<Rightarrow> (string \<times> string) list \<Rightarrow> bool" where
  "stored meta k M \<longleftrightarrow> length meta = k \<and> (\<forall>m \<in> set meta. wf_metadata m) \<and> arr_holds stored_pair meta (int (length M)) M"

lemma store_meta_stored:
  assumes "stored meta k M" "length M < k" "meta_bufs_ok (n, v)"
  shows "\<exists>meta'. store_meta meta (length M) (n, v) = Some meta' \<and> stored meta' k (M @ [(buffer_text n, buffer_text v)])"
proof -
  let ?m = "meta ! length M" and ?i = "length M"
  have i: "?i < length meta" and wf: "\<forall>m \<in> set meta. wf_metadata m" using assms(1,2) by (simp_all add: stored_def)
  then have len: "length (md_name ?m) = ATMOS_META_NAME_MAX" "length (md_value ?m) = ATMOS_META_VALUE_MAX"
    using nth_mem[OF i] by (auto simp: wf_metadata_def)
  obtain n' where n': "strncpy (md_name ?m) (buffer_text n) ATMOS_META_NAME_MAX = Some n'" "length n' = ATMOS_META_NAME_MAX"
    "buffer_text n' = take ATMOS_META_NAME_MAX (buffer_text n)" using strncpy_text[OF buffer_text_props(2) len(1)] by blast
  obtain v' where v': "strncpy (md_value ?m) (buffer_text v) ATMOS_META_VALUE_MAX = Some v'" "length v' = ATMOS_META_VALUE_MAX"
    "buffer_text v' = take ATMOS_META_VALUE_MAX (buffer_text v)" using strncpy_text[OF buffer_text_props(2) len(2)] by blast
  have t: "take ATMOS_META_NAME_MAX (buffer_text n) = buffer_text n" "take ATMOS_META_VALUE_MAX (buffer_text v) = buffer_text v"
    using buffer_text_props(1)[of n] buffer_text_props(1)[of v] assms(3) by (simp_all add: meta_bufs_ok_def)
  let ?x = "?m\<lparr>md_name := n', md_value := v'\<rparr>"
  have set: "arr_set meta (int ?i) ?x = Some (meta[?i := ?x])" using i by (simp add: arr_set_nat)
  have "arr_holds stored_pair (meta[?i := ?x]) (int ?i + 1) (M @ [(buffer_text n, buffer_text v)])"
    by (rule arr_holds_snoc[OF _ set]) (use assms(1) n'(3) v'(3) t in \<open>simp_all add: stored_def stored_pair_def\<close>)
  moreover have "\<forall>m \<in> set (meta[?i := ?x]). wf_metadata m"
    using wf n'(2) v'(2) set_update_subset_insert[of meta ?i ?x] by (auto simp: wf_metadata_def)
  ultimately have "stored (meta[?i := ?x]) k (M @ [(buffer_text n, buffer_text v)])"
    using assms(1) by (simp add: stored_def add.commute)
  then show ?thesis using n'(1) v'(1) set i by (simp add: store_meta_def arr_get_nat)
qed

lemma copy_pass:
  assumes "texts_deep cs" "meta_bufs_ok bufs" "stored meta k M" "stored listable kl L"
    and "length M + length (meta_elements False cs) \<le> k" "length L + length (meta_elements True cs) \<le> kl"
  shows "\<exists>bufs' meta' listable' r l. foldM copy_meta_child (bufs, (meta, length M), (listable, length L)) cs =
       Some (bufs', (meta', r), (listable', l)) \<and>
     stored meta' k (M @ map cut_entry (meta_elements False cs)) \<and> stored listable' kl (L @ map cut_entry (meta_elements True cs))"
  using assms
proof (induction cs arbitrary: bufs meta M listable L)
  case Nil then show ?case by simp
next
  case (Cons c cs)
  have cs: "texts_deep cs" and c: "texts_ok (xn_children c)" using Cons.prems(1) by (simp_all add: texts_deep_def)
  show ?case
  proof (cases "xn_element c \<and> xn_name c = DIR_NODE_METADATA")
    case False
    then have "copy_meta_child (bufs, (meta, length M), (listable, length L)) c = Some (bufs, (meta, length M), (listable, length L))"
      by (auto simp: copy_meta_child_def)
    then show ?thesis using Cons.IH[OF cs Cons.prems(2-4)] Cons.prems(5,6) False by simp
  next
    case True
    obtain n v where e: "parse_meta_entry bufs 0 c = Some (n, v, if meta_field DIR_NODE_LISTABLE c = ''true'' then 1 else 0)"
      "meta_bufs_ok (n, v)" "(buffer_text n, buffer_text v) = cut_entry c" using parse_meta_entry_result[OF c Cons.prems(2)] by blast
    show ?thesis
    proof (cases "meta_field DIR_NODE_LISTABLE c = ''true''")
      case listable: True
      then have "length L < kl" using Cons.prems(6) True by simp
      from store_meta_stored[OF Cons.prems(4) this e(2)]
      obtain a where a: "store_meta listable (length L) (n, v) = Some a" "stored a kl (L @ [cut_entry c])" unfolding e(3) by blast
      from Cons.IH[OF cs e(2) Cons.prems(3) a(2)] show ?thesis
        using Cons.prems(5,6) True listable a(1) e(1) by (simp add: copy_meta_child_def)
    next
      case regular: False
      then have "length M < k" using Cons.prems(5) True by simp
      from store_meta_stored[OF Cons.prems(3) this e(2)]
      obtain a where a: "store_meta meta (length M) (n, v) = Some a" "stored a k (M @ [cut_entry c])" unfolding e(3) by blast
      from Cons.IH[OF cs e(2) a(2) Cons.prems(4)] show ?thesis
        using Cons.prems(5,6) True regular a(1) e(1) by (simp add: copy_meta_child_def)
    qed
  qed
qed

text \<open>
  C37: The user metadata of a listing entry is read completely and never past its arrays: the first pass counts exactly what the
  second one stores, so that each of the two arrays that are allocated has one element per \<open>Metadata\<close> element of
  its kind, in document order, with the texts of the element cut at the sizes of the name and value arrays.
\<close>

theorem usermeta_two_passes:
  assumes "mem_ok E" "texts_deep (xn_children usermeta)"
  shows "\<exists>meta listable. AtmosObjectMetadata_parse_usermeta E AtmosObjectMetadata_init usermeta = Some
       (AtmosObjectMetadata_init\<lparr>
          om_meta := meta, om_meta_count := int (length (meta_elements False (xn_children usermeta))),
          om_listable_meta := listable, om_listable_meta_count := int (length (meta_elements True (xn_children usermeta)))\<rparr>) \<and>
     stored meta (length (meta_elements False (xn_children usermeta))) (map cut_entry (meta_elements False (xn_children usermeta))) \<and>
     stored listable (length (meta_elements True (xn_children usermeta))) (map cut_entry (meta_elements True (xn_children usermeta)))"
proof -
  let ?cs = "xn_children usermeta"
  let ?r = "length (meta_elements False ?cs)" and ?l = "length (meta_elements True ?cs)"
  have "meta_bufs_ok (meta_buffers E)" by (simp add: meta_bufs_ok_def meta_buffers_def)
  from count_pass[OF assms(2) this, of 0 0]
  obtain bufs where bufs: "meta_bufs_ok bufs" "foldM count_meta_child (meta_buffers E, 0, 0) ?cs = Some (bufs, ?r, ?l)" by auto
  have z: "stored (replicate n zero_metadata) n []" for n by (simp add: stored_def)
  from copy_pass[OF assms(2) bufs(1) z[of ?r] z[of ?l]]
  obtain bufs' meta listable r l where "foldM copy_meta_child (bufs, (replicate ?r zero_metadata, 0), (replicate ?l zero_metadata, 0)) ?cs =
      Some (bufs', (meta, r), (listable, l))"
    and stored: "stored meta ?r (map cut_entry (meta_elements False ?cs))" "stored listable ?l (map cut_entry (meta_elements True ?cs))"
    by auto
  then have "AtmosObjectMetadata_parse_usermeta E AtmosObjectMetadata_init usermeta = Some
       (AtmosObjectMetadata_init\<lparr>om_meta := meta, om_meta_count := int ?r, om_listable_meta := listable, om_listable_meta_count := int ?l\<rparr>)"
    using assms(1) bufs(2) by (cases "?r = 0"; cases "?l = 0")
      (simp_all add: AtmosObjectMetadata_parse_usermeta_def calloc_meta_def mem_ok_def AtmosObjectMetadata_init_def)
  then show ?thesis using stored by blast
qed

definition sample_meta_node :: "string \<Rightarrow> string \<Rightarrow> string \<Rightarrow> xml_node" where
  "sample_meta_node n v l = XmlNode True ''Metadata'' None
     [XmlNode True ''Name'' (Some n) [], XmlNode True ''Value'' (Some v) [], XmlNode True ''Listable'' (Some l) []]"

theorem usermeta_two_passes_witness:
  "\<exists>meta listable. AtmosObjectMetadata_parse_usermeta list_env AtmosObjectMetadata_init
       (XmlNode True ''UserMetadataList'' None [sample_meta_node ''color'' ''red'' ''false'', sample_meta_node ''tag'' ''x'' ''true'']) = Some
       (AtmosObjectMetadata_init\<lparr>om_meta := meta, om_meta_count := 1, om_listable_meta := listable, om_listable_meta_count := 1\<rparr>) \<and>
     stored meta 1 [(''color'', ''red'')] \<and> stored listable 1 [(''tag'', ''x'')]"
proof -
  let ?u = "XmlNode True ''UserMetadataList'' None [sample_meta_node ''color'' ''red'' ''false'', sample_meta_node ''tag'' ''x'' ''true'']"
  have "texts_deep (xn_children ?u)" by (simp add: texts_deep_def texts_ok_def sample_meta_node_def cdefs)
  moreover have "meta_elements False (xn_children ?u) = [sample_meta_node ''color'' ''red'' ''false'']"
    "meta_elements True (xn_children ?u) = [sample_meta_node ''tag'' ''x'' ''true'']"
    "cut_entry (sample_meta_node ''color'' ''red'' ''false'') = (''color'', ''red'')"
    "cut_entry (sample_meta_node ''tag'' ''x'' ''true'') = (''tag'', ''x'')"
    by (simp_all add: meta_elements_def meta_field_def field_values_def List.map_filter_simps sample_meta_node_def cut_entry_def dir_nodes)
  ultimately show ?thesis using usermeta_two_passes[OF mem_ok_list_env, of ?u] by simp
qed

end
