(* ===== verification/Entry_Metadata.thy ===== *)
theory Entry_Metadata
  imports Answer_Laws System_Laws
begin

text \<open>
  The metadata of the entries of a listing: \<open>AtmosObjectMetadata\<close> after the children of an entry's node have been read, for
  the entries of directories and of object listings alike.
\<close>

section \<open>What the node of an entry says\<close>

text \<open>The pairs of its \<open>SystemMetadataList\<close> and of its \<open>UserMetadataList\<close>, in document order.\<close>

definition is_list :: "string \<Rightarrow> xml_node \<Rightarrow> bool" where
  "is_list name c \<longleftrightarrow> xn_element c \<and> xn_name c = name"

definition field_pair :: "xml_node \<Rightarrow> string \<times> string" where
  "field_pair m = (meta_field DIR_NODE_NAME m, meta_field DIR_NODE_VALUE m)"

definition list_pairs :: "xml_node \<Rightarrow> (string \<times> string) list" where
  "list_pairs c = map field_pair (filter (is_list DIR_NODE_METADATA) (xn_children c))"

definition system_pairs :: "xml_node list \<Rightarrow> (string \<times> string) list" where
  "system_pairs cs = concat (map list_pairs (filter (is_list DIR_NODE_SYSTEM_METADATA_LIST) cs))"

definition user_lists :: "xml_node list \<Rightarrow> xml_node list" where
  "user_lists cs = filter (is_list DIR_NODE_USER_METADATA_LIST) cs"

definition user_pairs :: "bool \<Rightarrow> xml_node list \<Rightarrow> (string \<times> string) list" where
  "user_pairs listable cs = concat (map (\<lambda>c. map cut_entry (meta_elements listable (xn_children c))) (user_lists cs))"

text \<open>
  The metadata as the node has them: the system fields have the last values it gives them, and the two arrays hold
  the user metadata, cut at the sizes of the name and value arrays. (A second \<open>UserMetadataList\<close> would replace the first; the service
  sends at most one.)
\<close>

definition metadata_shown :: "env \<Rightarrow> xml_node list \<Rightarrow> AtmosObjectMetadata \<Rightarrow> bool" where
  "metadata_shown E cs m \<longleftrightarrow> system_read E 0 (system_pairs cs) zero_system_metadata (om_system_metadata m) \<and>
     (length (user_lists cs) \<le> 1 \<longrightarrow>
        arr_holds stored_pair (om_meta m) (om_meta_count m) (user_pairs False cs) \<and>
        arr_holds stored_pair (om_listable_meta m) (om_listable_meta_count m) (user_pairs True cs))"

section \<open>Reading it\<close>

definition wf_object :: "AtmosObjectMetadata \<Rightarrow> bool" where
  "wf_object m \<longleftrightarrow> wf_system (om_system_metadata m) \<and> (\<forall>x \<in> set (om_meta m) \<union> set (om_listable_meta m). wf_metadata x)"

lemma parse_usermeta_total:
  assumes "mem_ok E" "texts_deep (xn_children usermeta)" "wf_object self"
  shows "\<exists>m. AtmosObjectMetadata_parse_usermeta E self usermeta = Some m \<and> wf_object m \<and>
     om_system_metadata m = om_system_metadata self \<and>
     (om_meta_count self = 0 \<longrightarrow>
        arr_holds stored_pair (om_meta m) (om_meta_count m) (map cut_entry (meta_elements False (xn_children usermeta)))) \<and>
     (om_listable_meta_count self = 0 \<longrightarrow>
        arr_holds stored_pair (om_listable_meta m) (om_listable_meta_count m) (map cut_entry (meta_elements True (xn_children usermeta))))"
proof -
  let ?cs = "xn_children usermeta"
  let ?r = "length (meta_elements False ?cs)" and ?l = "length (meta_elements True ?cs)"
  define M where "M = (if 0 < ?r then replicate ?r zero_metadata else om_meta self)"
  define L where "L = (if 0 < ?l then replicate ?l zero_metadata else om_listable_meta self)"
  have "meta_bufs_ok (meta_buffers E)" by (simp add: meta_bufs_ok_def meta_buffers_def)
  from count_pass[OF assms(2) this, of 0 0]
  obtain bufs where bufs: "meta_bufs_ok bufs" "foldM count_meta_child (meta_buffers E, 0, 0) ?cs = Some (bufs, ?r, ?l)" by auto
  have "stored M (length M) []" "stored L (length L) []" "?r \<le> length M" "?l \<le> length L"
    using assms(3) by (auto simp: stored_def wf_object_def M_def L_def)
  with copy_pass[OF assms(2) bufs(1), of M "length M" "[]" L "length L" "[]"]
  obtain bufs' meta listable r l where c: "foldM copy_meta_child (bufs, (M, 0), (L, 0)) ?cs = Some (bufs', (meta, r), (listable, l))"
    and wf: "stored meta (length M) (map cut_entry (meta_elements False ?cs))" "stored listable (length L) (map cut_entry (meta_elements True ?cs))"
    unfolding list.size(3) append_Nil add_0 by blast
  define self' where "self' = (if 0 < ?r then self\<lparr>om_meta := M, om_meta_count := int ?r\<rparr> else self)"
  define self'' where "self'' = (if 0 < ?l then self'\<lparr>om_listable_meta := L, om_listable_meta_count := int ?l\<rparr> else self')"
  have s: "om_meta self'' = M" "om_listable_meta self'' = L" "om_system_metadata self'' = om_system_metadata self"
    by (simp_all add: self'_def self''_def M_def L_def)
  have 1: "(if 0 < ?r then do { meta \<leftarrow> calloc_meta E ?r; Some (self\<lparr>om_meta := meta, om_meta_count := int ?r\<rparr>) } else Some self) = Some self'"
    using assms(1) by (simp add: self'_def calloc_meta_def mem_ok_def M_def)
  have 2: "(if 0 < ?l then do { meta \<leftarrow> calloc_meta E ?l; Some (self'\<lparr>om_listable_meta := meta, om_listable_meta_count := int ?l\<rparr>) }
      else Some self') = Some self''"
    using assms(1) by (simp add: self''_def calloc_meta_def mem_ok_def L_def)
  have "AtmosObjectMetadata_parse_usermeta E self usermeta = Some (self''\<lparr>om_meta := meta, om_listable_meta := listable\<rparr>)"
    unfolding AtmosObjectMetadata_parse_usermeta_def bufs(2) bind.bind_lunit prod.case 1 2 s(1,2) c ..
  moreover have "wf_object (self''\<lparr>om_meta := meta, om_listable_meta := listable\<rparr>)"
    using assms(3) wf s(3) by (auto simp: wf_object_def stored_def)
  moreover have "om_meta_count self = 0 \<Longrightarrow> om_meta_count self'' = int ?r" "om_listable_meta_count self = 0 \<Longrightarrow> om_listable_meta_count self'' = int ?l"
    by (auto simp: self'_def self''_def)
  ultimately show ?thesis using wf s(3)
    by (intro exI[of _ "self''\<lparr>om_meta := meta, om_listable_meta := listable\<rparr>"]) (simp add: stored_def)
qed

text \<open>A \<open>SystemMetadataList\<close> whose names and values fit their arrays, and whose times are not empty.\<close>

definition system_list_ok :: "xml_node \<Rightarrow> bool" where
  "system_list_ok sysmeta \<longleftrightarrow> (\<forall>m \<in> set (xn_children sysmeta). texts_ok (xn_children m) \<and>
     (xn_element m \<and> xn_name m = DIR_NODE_METADATA \<longrightarrow>
       length (meta_field DIR_NODE_NAME m) < ATMOS_META_NAME_MAX \<and> length (meta_field DIR_NODE_VALUE m) < ATMOS_META_VALUE_MAX \<and>
       system_entry_ok (meta_field DIR_NODE_NAME m, meta_field DIR_NODE_VALUE m)))"

lemma buffer_text_c_str: "length (buffer_text b) < length b \<Longrightarrow> c_str b = Some (buffer_text b)"
  by (cases "NUL \<in> set b") (simp_all add: buffer_text_def c_str_def takeWhile_neq_notin)

definition store_pair :: "env \<Rightarrow> AtmosSystemMetadata \<Rightarrow> string \<times> string \<Rightarrow> AtmosSystemMetadata option" where
  "store_pair E sm e = AtmosUtil_set_system_meta_entry E sm (fst e) (snd e) 0"

lemma parse_system_meta_total:
  assumes "system_list_ok sysmeta" "wf_object self"
  shows "\<exists>m. AtmosObjectMetadata_parse_system_meta E self sysmeta = Some m \<and> wf_object m \<and>
     foldM (store_pair E) (om_system_metadata self) (list_pairs sysmeta) = Some (om_system_metadata m) \<and>
     m = self\<lparr>om_system_metadata := om_system_metadata m\<rparr>"
proof -
  define step where "step = (\<lambda>(self :: AtmosObjectMetadata, bufs) child.
         if xn_element child \<and> strcmp DIR_NODE_METADATA (xn_name child) = 0 then do {
           (name, val, listable) \<leftarrow> parse_meta_entry bufs 0 child;
           n \<leftarrow> c_str name;
           v \<leftarrow> c_str val;
           sm \<leftarrow> AtmosUtil_set_system_meta_entry E (om_system_metadata self) n v 0;
           Some (self\<lparr>om_system_metadata := sm\<rparr>, (name, val))
         } else Some (self, bufs))"
  have "\<exists>m bufs'. foldM step (self, bufs) cs = Some (m, bufs') \<and> wf_object m \<and>
      foldM (store_pair E) (om_system_metadata self) (map field_pair (filter (is_list DIR_NODE_METADATA) cs)) = Some (om_system_metadata m) \<and>
      m = self\<lparr>om_system_metadata := om_system_metadata m\<rparr>"
    if "set cs \<subseteq> set (xn_children sysmeta)" "wf_object self" "meta_bufs_ok bufs" for cs self bufs
    using that
  proof (induction cs arbitrary: self bufs)
    case Nil
    then show ?case by simp
  next
    case (Cons c cs)
    note ok = assms(1)[unfolded system_list_ok_def, rule_format, of c]
    show ?case
    proof (cases "xn_element c \<and> xn_name c = DIR_NODE_METADATA")
      case False
      then have "step (self, bufs) c = Some (self, bufs)" by (auto simp: step_def)
      moreover have "\<not> is_list DIR_NODE_METADATA c" using False by (simp add: is_list_def)
      ultimately show ?thesis using Cons by simp
    next
      case True
      obtain n v where e: "parse_meta_entry bufs 0 c = Some (n, v, if meta_field DIR_NODE_LISTABLE c = ''true'' then 1 else 0)"
        "meta_bufs_ok (n, v)" "(buffer_text n, buffer_text v) = cut_entry c"
        using parse_meta_entry_result[OF _ Cons.prems(3), of c] ok Cons.prems(1) by auto
      then have t: "buffer_text n = meta_field DIR_NODE_NAME c" "buffer_text v = meta_field DIR_NODE_VALUE c"
        "length n = ATMOS_META_NAME_MAX" "length v = ATMOS_META_VALUE_MAX"
        using ok Cons.prems(1) True by (auto simp: cut_entry_def meta_bufs_ok_def)
      then have cs: "c_str n = Some (meta_field DIR_NODE_NAME c)" "c_str v = Some (meta_field DIR_NODE_VALUE c)"
        using buffer_text_c_str[of n] buffer_text_c_str[of v] ok Cons.prems(1) True by auto
      obtain sm where sm: "AtmosUtil_set_system_meta_entry E (om_system_metadata self) (meta_field DIR_NODE_NAME c) (meta_field DIR_NODE_VALUE c) 0 = Some sm"
        "wf_system sm"
        using set_system_meta_entry_stores[of "om_system_metadata self" "(meta_field DIR_NODE_NAME c, meta_field DIR_NODE_VALUE c)" E 0]
          ok Cons.prems(1,2) True by (auto simp: wf_object_def entry_stored_def)
      have "step (self, bufs) c = Some (self\<lparr>om_system_metadata := sm\<rparr>, (n, v))"
        using True e(1) cs sm(1) by (simp add: step_def)
      moreover have "wf_object (self\<lparr>om_system_metadata := sm\<rparr>)" using Cons.prems(2) sm(2) by (simp add: wf_object_def)
      moreover have "store_pair E (om_system_metadata self) (field_pair c) = Some sm" using sm(1) by (simp add: store_pair_def field_pair_def)
      ultimately show ?thesis using Cons.IH[of "self\<lparr>om_system_metadata := sm\<rparr>" "(n, v)"] Cons.prems(1) e(2) True
        by (auto simp: is_list_def)
    qed
  qed
  from this[OF subset_refl assms(2), of "meta_buffers E"] show ?thesis
    by (auto simp: AtmosObjectMetadata_parse_system_meta_def step_def meta_bufs_ok_def meta_buffers_def list_pairs_def)
qed

section \<open>The metadata after some of the children\<close>

definition metadata_state :: "env \<Rightarrow> xml_node list \<Rightarrow> AtmosObjectMetadata \<Rightarrow> bool" where
  "metadata_state E cs m \<longleftrightarrow> wf_object m \<and> foldM (store_pair E) zero_system_metadata (system_pairs cs) = Some (om_system_metadata m) \<and>
     (length (user_lists cs) \<le> 1 \<longrightarrow>
        arr_holds stored_pair (om_meta m) (om_meta_count m) (user_pairs False cs) \<and>
        arr_holds stored_pair (om_listable_meta m) (om_listable_meta_count m) (user_pairs True cs))"

definition entry_child_ok :: "xml_node \<Rightarrow> bool" where
  "entry_child_ok c \<longleftrightarrow> (\<forall>v. xn_content c = Some v \<longrightarrow> cstring v) \<and>
     (xn_name c = DIR_NODE_SYSTEM_METADATA_LIST \<longrightarrow> system_list_ok c) \<and>
     (xn_name c = DIR_NODE_USER_METADATA_LIST \<longrightarrow> texts_deep (xn_children c))"

lemma metadata_state_init: "metadata_state E [] AtmosObjectMetadata_init"
  by (simp add: metadata_state_def wf_object_def AtmosObjectMetadata_init_def wf_system_def system_texts_def zero_system_metadata_def
      system_pairs_def user_lists_def user_pairs_def arr_holds_def)

lemma metadata_state_other:
  assumes "metadata_state E cs m" "\<not> is_list DIR_NODE_SYSTEM_METADATA_LIST c" "\<not> is_list DIR_NODE_USER_METADATA_LIST c"
  shows "metadata_state E (cs @ [c]) m"
  using assms by (simp add: metadata_state_def system_pairs_def user_lists_def user_pairs_def)

lemma metadata_state_system:
  assumes "metadata_state E cs m" "is_list DIR_NODE_SYSTEM_METADATA_LIST c" "entry_child_ok c"
  shows "\<exists>m'. AtmosObjectMetadata_parse_system_meta E m c = Some m' \<and> metadata_state E (cs @ [c]) m'"
proof -
  have c: "system_list_ok c" "\<not> is_list DIR_NODE_USER_METADATA_LIST c"
    using assms(2,3) by (auto simp: entry_child_ok_def is_list_def dir_nodes)
  have wf: "wf_object m" using assms(1) by (simp add: metadata_state_def)
  obtain m' where m': "AtmosObjectMetadata_parse_system_meta E m c = Some m'" "wf_object m'"
    "foldM (store_pair E) (om_system_metadata m) (list_pairs c) = Some (om_system_metadata m')"
    "m' = m\<lparr>om_system_metadata := om_system_metadata m'\<rparr>"
    using parse_system_meta_total[OF c(1) wf] by blast
  have u: "user_lists (cs @ [c]) = user_lists cs" "user_pairs l (cs @ [c]) = user_pairs l cs" for l
    using c(2) by (simp_all add: user_lists_def user_pairs_def)
  have f: "om_meta m' = om_meta m" "om_meta_count m' = om_meta_count m" "om_listable_meta m' = om_listable_meta m"
    "om_listable_meta_count m' = om_listable_meta_count m" by (subst m'(4), simp)+
  have "system_pairs (cs @ [c]) = system_pairs cs @ list_pairs c" using assms(2) by (simp add: system_pairs_def)
  then have "metadata_state E (cs @ [c]) m'" using assms(1) m'(2,3) u f by (simp add: metadata_state_def foldM_append)
  then show ?thesis using m'(1) by blast
qed

lemma metadata_state_user:
  assumes "mem_ok E" "metadata_state E cs m" "is_list DIR_NODE_USER_METADATA_LIST c" "entry_child_ok c"
  shows "\<exists>m'. AtmosObjectMetadata_parse_usermeta E m c = Some m' \<and> metadata_state E (cs @ [c]) m'"
proof -
  have c: "texts_deep (xn_children c)" "\<not> is_list DIR_NODE_SYSTEM_METADATA_LIST c"
    using assms(3,4) by (auto simp: entry_child_ok_def is_list_def dir_nodes)
  have wf: "wf_object m" using assms(2) by (simp add: metadata_state_def)
  let ?holds = "\<lambda>l xs n. arr_holds stored_pair xs n (map cut_entry (meta_elements l (xn_children c)))"
  obtain m' where m': "AtmosObjectMetadata_parse_usermeta E m c = Some m'" "wf_object m'" "om_system_metadata m' = om_system_metadata m"
    "om_meta_count m = 0 \<longrightarrow> ?holds False (om_meta m') (om_meta_count m')"
    "om_listable_meta_count m = 0 \<longrightarrow> ?holds True (om_listable_meta m') (om_listable_meta_count m')"
    using parse_usermeta_total[OF assms(1) c(1) wf] by blast
  have s: "system_pairs (cs @ [c]) = system_pairs cs" using c(2) by (simp add: system_pairs_def)
  have l: "length (user_lists (cs @ [c])) = Suc (length (user_lists cs))" using assms(3) by (simp add: user_lists_def)
  have first: "user_pairs l (cs @ [c]) = map cut_entry (meta_elements l (xn_children c))" "user_pairs l cs = []" if "user_lists cs = []" for l
    using assms(3) that by (simp_all add: user_pairs_def user_lists_def)
  have "om_meta_count m = 0" "om_listable_meta_count m = 0" if "user_lists cs = []"
    using assms(2) first(2)[OF that] that by (simp_all add: metadata_state_def arr_holds_def)
  then have "metadata_state E (cs @ [c]) m'" using assms(2) m'(2-5) s l first(1) by (auto simp: metadata_state_def)
  then show ?thesis using m'(1) by blast
qed

text \<open>After all children, the metadata are those of the node.\<close>

lemma metadata_state_shown:
  assumes "metadata_state E cs m" "\<forall>c \<in> set cs. entry_child_ok c"
  shows "metadata_shown E cs m"
proof -
  have "system_entry_ok e" if "e \<in> set (list_pairs c)" "c \<in> set cs" "is_list DIR_NODE_SYSTEM_METADATA_LIST c" for e c
    using that assms(2) by (auto simp: list_pairs_def field_pair_def entry_child_ok_def system_list_ok_def is_list_def)
  then have "\<forall>e \<in> set (system_pairs cs). system_entry_ok e" by (auto simp: system_pairs_def)
  moreover have "wf_system zero_system_metadata" by (simp add: wf_system_def system_texts_def zero_system_metadata_def)
  ultimately obtain sm where "foldM (store_pair E) zero_system_metadata (system_pairs cs) = Some sm"
    "system_read E 0 (system_pairs cs) zero_system_metadata sm"
    using system_entries_read[of zero_system_metadata "system_pairs cs" E 0] by (auto simp: store_pair_def[abs_def])
  then show ?thesis using assms(1) by (auto simp: metadata_state_def metadata_shown_def)
qed

end
