(* ===== verification/Directory_Laws.thy ===== *)
theory Directory_Laws
  imports Entry_Metadata
begin

text \<open>
  The listing of a directory: from the nodes of the XML answer to the entries of the caller's
  response, with the metadata of each entry.
\<close>

section \<open>Entries\<close>

text \<open>What a caller sees of an entry, and what the node of the answer says.\<close>

definition entry_view :: "AtmosDirectoryEntry \<Rightarrow> string \<times> string option \<times> string" where
  "entry_view e = (buffer_text (de_object_id e), de_type e, buffer_text (de_filename e))"

definition node_type :: "xml_node list \<Rightarrow> string option" where
  "node_type cs = final None (map Some (filter (\<lambda>v. v \<in> {ATMOS_TYPE_DIRECTORY, ATMOS_TYPE_REGULAR}) (field_values DIR_NODE_FILE_TYPE cs)))"

definition node_view :: "xml_node \<Rightarrow> string \<times> string option \<times> string" where
  "node_view m = (take ATMOS_OID_LENGTH (meta_field DIR_NODE_OBJECT_ID m), node_type (xn_children m),
     take ATMOS_PATH_MAX (meta_field DIR_NODE_FILE_NAME m))"

text \<open>The entry after some children, for the values of the children before.\<close>

definition entry_state :: "env \<Rightarrow> AtmosDirectoryEntry \<Rightarrow> xml_node list \<Rightarrow> bool" where
  "entry_state E e cs \<longleftrightarrow> metadata_state E cs (de_parent e) \<and> length (de_object_id e) = ATMOS_OID_LENGTH \<and> length (de_filename e) = ATMOS_PATH_MAX \<and>
     entry_view e = (take ATMOS_OID_LENGTH (final [] (field_values DIR_NODE_OBJECT_ID cs)), node_type cs,
       take ATMOS_PATH_MAX (final [] (field_values DIR_NODE_FILE_NAME cs)))"

lemma final_append: "final s (xs @ ys) = final (final s xs) ys"
  by (induction xs arbitrary: s) auto

lemma field_values_append: "field_values f (xs @ ys) = field_values f xs @ field_values f ys"
  by (simp add: field_values_def List.map_filter_def)

text \<open>The parsers of entries go over the children of a node and keep a state; this is their induction.\<close>

lemma foldM_children:
  assumes "state init []" "\<And>e cs c. state e cs \<Longrightarrow> ok c \<Longrightarrow> \<exists>e'. step e c = Some e' \<and> state e' (cs @ [c])" "\<forall>c \<in> set cs. ok c"
  shows "\<exists>e. foldM step init cs = Some e \<and> state e cs"
  using assms(3)
proof (induction cs rule: rev_induct)
  case Nil then show ?case using assms(1) by simp
next
  case (snoc c cs)
  then obtain e where "foldM step init cs = Some e" "state e cs" by auto
  then show ?case using assms(2)[of e cs c] snoc.prems by auto
qed

lemma parse_directory_entry_child_step:
  assumes "mem_ok E" "entry_state E e cs" "entry_child_ok c"
  shows "\<exists>e'. parse_directory_entry_child E e c = Some e' \<and> entry_state E e' (cs @ [c])"
proof -
  have len: "length (de_object_id e) = ATMOS_OID_LENGTH" "length (de_filename e) = ATMOS_PATH_MAX"
    and meta: "metadata_state E cs (de_parent e)" using assms(2) by (simp_all add: entry_state_def)
  have cont: "\<And>v. xn_content c = Some v \<Longrightarrow> cstring v" using assms(3) by (simp add: entry_child_ok_def)
  note defs = parse_directory_entry_child_def entry_state_def entry_view_def node_type_def field_values_append final_append
  have other: "metadata_state E (cs @ [c]) (de_parent e)"
    if "\<not> (xn_element c \<and> xn_name c \<in> {DIR_NODE_SYSTEM_METADATA_LIST, DIR_NODE_USER_METADATA_LIST})"
    using metadata_state_other[OF meta, of c] that by (auto simp: is_list_def)
  consider (skip) "\<not> xn_element c \<or> xn_name c \<notin> {DIR_NODE_OBJECT_ID, DIR_NODE_FILE_TYPE, DIR_NODE_FILE_NAME,
      DIR_NODE_SYSTEM_METADATA_LIST, DIR_NODE_USER_METADATA_LIST}"
    | (empty) "xn_element c" "xn_name c \<in> {DIR_NODE_OBJECT_ID, DIR_NODE_FILE_TYPE, DIR_NODE_FILE_NAME}" "xn_content c = None"
    | (oid) v where "xn_element c" "xn_name c = DIR_NODE_OBJECT_ID" "xn_content c = Some v"
    | (type) v where "xn_element c" "xn_name c = DIR_NODE_FILE_TYPE" "xn_content c = Some v"
    | (name) v where "xn_element c" "xn_name c = DIR_NODE_FILE_NAME" "xn_content c = Some v"
    | (system) "is_list DIR_NODE_SYSTEM_METADATA_LIST c" | (user) "is_list DIR_NODE_USER_METADATA_LIST c"
    unfolding is_list_def by (cases "xn_content c") auto
  then show ?thesis
  proof cases
    case skip then show ?thesis using assms(2) other by (auto simp: defs)
  next
    case empty
    then have "metadata_state E (cs @ [c]) (de_parent e)" by (intro other) (auto simp: dir_nodes)
    with empty show ?thesis using assms(2) by (auto simp: defs)
  next
    case oid
    then have "metadata_state E (cs @ [c]) (de_parent e)" by (intro other) (simp add: dir_nodes)
    with oid strncpy_text[OF cont len(1)] show ?thesis using assms(2) by (fastforce simp: defs dir_nodes)
  next
    case type
    then have "metadata_state E (cs @ [c]) (de_parent e)" by (intro other) (simp add: dir_nodes)
    with type show ?thesis using assms(2)
      by (cases "v = ATMOS_TYPE_DIRECTORY"; cases "v = ATMOS_TYPE_REGULAR") (simp_all add: defs dir_nodes)
  next
    case name
    then have "metadata_state E (cs @ [c]) (de_parent e)" by (intro other) (simp add: dir_nodes)
    with name strncpy_text[OF cont len(2)] show ?thesis using assms(2) by (fastforce simp: defs dir_nodes)
  next
    case system
    with metadata_state_system[OF meta _ assms(3)] obtain m where
      "AtmosObjectMetadata_parse_system_meta E (de_parent e) c = Some m" "metadata_state E (cs @ [c]) m" by blast
    then show ?thesis using assms(2) system by (simp add: defs is_list_def dir_nodes)
  next
    case user
    with metadata_state_user[OF assms(1) meta _ assms(3)] obtain m where
      "AtmosObjectMetadata_parse_usermeta E (de_parent e) c = Some m" "metadata_state E (cs @ [c]) m" by blast
    then show ?thesis using assms(2) user by (simp add: defs is_list_def dir_nodes)
  qed
qed

lemma entry_state_init: "entry_state E AtmosDirectoryEntry_init []"
  using metadata_state_init[of E]
  by (simp add: entry_state_def AtmosDirectoryEntry_init_def entry_view_def node_type_def buffer_text_def zeros_def)

text \<open>An entry of the response against its node in the answer.\<close>

definition entry_shown :: "env \<Rightarrow> xml_node \<Rightarrow> AtmosDirectoryEntry \<Rightarrow> bool" where
  "entry_shown E n e \<longleftrightarrow> entry_view e = node_view n \<and> metadata_shown E (xn_children n) (de_parent e)"

lemma parse_entry_view:
  assumes "mem_ok E" "\<forall>c \<in> set (xn_children m). entry_child_ok c"
  shows "\<exists>e. AtmosDirectoryEntry_parse_entry E AtmosDirectoryEntry_init m = Some e \<and> entry_shown E m e"
proof -
  obtain e where "foldM (parse_directory_entry_child E) AtmosDirectoryEntry_init (xn_children m) = Some e" "entry_state E e (xn_children m)"
    using foldM_children[where state = "entry_state E" and step = "parse_directory_entry_child E" and ok = entry_child_ok,
        OF entry_state_init _ assms(2)] parse_directory_entry_child_step[OF assms(1)] by blast
  then show ?thesis using metadata_state_shown[OF _ assms(2), of E "de_parent e"]
    by (auto simp: AtmosDirectoryEntry_parse_entry_def entry_state_def node_view_def meta_field_def entry_shown_def)
qed

lemma parse_entries_all:
  assumes "alloc_ok E (length nodes * sizeof E struct)" "\<forall>n \<in> set nodes. \<exists>e. parse init n = Some e \<and> R n e"
  shows "\<exists>es. parse_entries E struct init parse nodes = Some es \<and> list_all2 R nodes es"
proof -
  have "\<exists>es. foldM (\<lambda>es node. do { e \<leftarrow> parse init node; Some (es @ [e]) }) acc ns = Some (acc @ es) \<and> list_all2 R ns es"
    if "set ns \<subseteq> set nodes" for acc ns using that
  proof (induction ns arbitrary: acc)
    case (Cons n ns)
    then obtain e where e: "parse init n = Some e" "R n e" using assms(2) by auto
    then show ?case using Cons.IH[of "acc @ [e]"] Cons.prems by fastforce
  qed simp
  from this[OF subset_refl, of "[]"] show ?thesis using assms(1) by (simp add: parse_entries_def)
qed

lemma parse_entries_map:
  assumes "alloc_ok E (length nodes * sizeof E struct)" "\<forall>n \<in> set nodes. \<exists>e. parse init n = Some e \<and> view e = spec n"
  shows "\<exists>es. parse_entries E struct init parse nodes = Some es \<and> map view es = map spec nodes"
proof -
  obtain es where "parse_entries E struct init parse nodes = Some es" "list_all2 (\<lambda>n e. view e = spec n) nodes es"
    using parse_entries_all[where R = "\<lambda>n e. view e = spec n" and parse = parse and init = init, OF assms(1)] assms(2) by blast
  moreover from this(2) have "map view es = map spec nodes" by induction simp_all
  ultimately show ?thesis by blast
qed

lemma AtmosListDirectoryResponse_parse_entries:
  assumes "mem_ok E" "xmlReadMemory E xml n = Some (Some doc)" "AtmosUtil_count_nodes E doc ''//cos:DirectoryList'' True > 0"
    and "xmlXPathEval E doc True ''//cos:DirectoryEntry'' = Some nodes" "nodes \<noteq> []"
    and "\<forall>n \<in> set nodes. \<forall>c \<in> set (xn_children n). entry_child_ok c"
  shows "\<exists>es. AtmosListDirectoryResponse_parse E d xml n = Some (d\<lparr>dl_entries := es, dl_entry_count := int (length nodes)\<rparr>) \<and>
     list_all2 (entry_shown E) nodes es"
proof -
  have "alloc_ok E (length nodes * sizeof E ''AtmosDirectoryEntry'')" using assms(1) by (simp add: mem_ok_def)
  moreover have "\<forall>m \<in> set nodes. \<exists>e. AtmosDirectoryEntry_parse_entry E AtmosDirectoryEntry_init m = Some e \<and> entry_shown E m e"
    using parse_entry_view[OF assms(1)] assms(6) by blast
  ultimately obtain es where "parse_entries E ''AtmosDirectoryEntry'' AtmosDirectoryEntry_init (AtmosDirectoryEntry_parse_entry E) nodes = Some es"
    "list_all2 (entry_shown E) nodes es"
    using parse_entries_all[where parse = "AtmosDirectoryEntry_parse_entry E" and init = AtmosDirectoryEntry_init and R = "entry_shown E"] by blast
  moreover have "select_entries E xml n ''//cos:DirectoryList'' ''//cos:DirectoryEntry'' = Some (Some nodes)"
    using assms(2-5) by (simp add: select_entries_def AtmosUtil_select_nodes_def)
  ultimately show ?thesis by (auto simp: AtmosListDirectoryResponse_parse_def)
qed

lemma entries_shown_views: "list_all2 (entry_shown E) nodes es \<Longrightarrow> map entry_view es = map node_view nodes"
  by (induction rule: list_all2_induct) (simp_all add: entry_shown_def)

text \<open>
  The filter alone, behind any next filter: the entries in the caller's response are those of the answer, one for each in document
  order, the count is theirs, and the token is that of the answer.
\<close>

lemma directory_listing_read:
  assumes "mem_ok E" "list_directory_prepare E c rq = Some rq1" "nxt (rq1, rs0) = Some (rq2, rs)"
    and "http_code (s_base rs) \<le> 299" "sub_of rs = Some (ListDirectory_response rp d)"
    and "xmlReadMemory E (rs_body (s_base rs)) (rs_content_length (s_base rs)) = Some (Some doc)"
    and "AtmosUtil_count_nodes E doc ''//cos:DirectoryList'' True > 0"
    and "xmlXPathEval E doc True ''//cos:DirectoryEntry'' = Some nodes" "nodes \<noteq> []"
    and "\<forall>n \<in> set nodes. \<forall>c \<in> set (xn_children n). entry_child_ok c"
  shows "\<exists>es rs'. AtmosFilter_list_directory E c (Some nxt) (rq, rs0) = Some (rq2, rs') \<and> s_base rs' = s_base rs \<and>
     sub_of rs' = Some (ListDirectory_response rp
       (d\<lparr>dl_entries := es, dl_entry_count := int (length nodes), dl_token := next_token E rs (dl_token d)\<rparr>)) \<and>
     map entry_view es = map node_view nodes"
proof -
  obtain a where s: "s_atmos rs = Some (a, ListDirectory_response rp d)" using assms(5) by (auto simp: sub_of_def)
  obtain es where es: "AtmosListDirectoryResponse_parse E d (rs_body (s_base rs)) (rs_content_length (s_base rs)) =
      Some (d\<lparr>dl_entries := es, dl_entry_count := int (length nodes)\<rparr>)" "map entry_view es = map node_view nodes"
    using AtmosListDirectoryResponse_parse_entries[OF assms(1,6-10)] entries_shown_views by blast
  have "AtmosFilter_list_directory E c (Some nxt) (rq, rs0) = on_success (directory_answer E) (rq2, rs)"
    using assms(2,3) by (simp add: list_directory.sandwiches)
  then show ?thesis using assms(4) s es by (auto simp: on_success_def directory_answer_def sub_of_def)
qed

definition sample_entry_node :: "string \<Rightarrow> string \<Rightarrow> string \<Rightarrow> xml_node" where
  "sample_entry_node i t f = XmlNode True ''DirectoryEntry'' None
     [XmlNode True ''ObjectID'' (Some i) [], XmlNode True ''FileType'' (Some t) [], XmlNode True ''Filename'' (Some f) [],
      XmlNode True ''SystemMetadataList'' None [sample_meta_node ''size'' ''12'' ''false'']]"

definition directory_env :: env where
  "directory_env = list_env\<lparr>xmlXPathEval := \<lambda>root cos path.
     Some (if path = ''//cos:DirectoryEntry'' then [sample_entry_node ''4ee696e4a11f549604f0b753'' ''directory'' ''photos'',
             sample_entry_node ''4ee696e4a11f549604f0b754'' ''regular'' ''a.txt'']
           else if path = ''//cos:DirectoryList'' then [root] else [])\<rparr>"

end
