(* ===== verification/Version_Laws.thy ===== *)
theory Version_Laws
  imports Directory_Laws Create_Laws
begin

text \<open>
  Listing the versions of an object: from the nodes of the server's answer to the array of the
  caller's response.
\<close>

section \<open>Versions and their nodes\<close>

lemmas version_nodes = VER_NODE_OID_def VER_NODE_VER_NUM_def VER_NODE_ITIME_def

text \<open>A version as the server knows it: object ID, number and time of its creation in UTC.\<close>

type_synonym version = "string \<times> int \<times> tm"

definition version_ok :: "version \<Rightarrow> bool" where
  "version_ok v \<longleftrightarrow> (case v of (oid, k, t) \<Rightarrow>
     cstring oid \<and> length oid < ATMOS_OID_LENGTH \<and> - (2 ^ 31) \<le> k \<and> k < 2 ^ 31 \<and> tm_ok t)"

definition shows_version :: "xml_node \<Rightarrow> version \<Rightarrow> bool" where
  "shows_version m v \<longleftrightarrow> (case v of (oid, k, t) \<Rightarrow>
     field_values VER_NODE_OID (xn_children m) = [oid] \<and> field_values VER_NODE_VER_NUM (xn_children m) = [show_int k] \<and>
     field_values VER_NODE_ITIME (xn_children m) = [iso_text t @ ''Z''])"

definition version_view :: "AtmosVersion \<Rightarrow> string option \<times> int \<times> int" where
  "version_view v = (c_str (av_object_id v), av_version_number v, av_itime v)"

definition version_entry :: "version \<Rightarrow> string option \<times> int \<times> int" where
  "version_entry v = (case v of (oid, k, t) \<Rightarrow> (Some oid, k, timegm t))"

text \<open>The entry after some of the children of its node.\<close>

definition version_state :: "env \<Rightarrow> AtmosVersion \<Rightarrow> xml_node list \<Rightarrow> bool" where
  "version_state E v cs \<longleftrightarrow> length (av_object_id v) = ATMOS_OID_LENGTH \<and>
     buffer_text (av_object_id v) = take ATMOS_OID_LENGTH (final [] (field_values VER_NODE_OID cs)) \<and>
     av_version_number v = final 0 (map (\<lambda>x. to_int32 (strtoll x)) (field_values VER_NODE_VER_NUM cs)) \<and>
     av_itime v = final 0 (map (xml_time E) (field_values VER_NODE_ITIME cs))"

definition version_child_ok :: "env \<Rightarrow> xml_node \<Rightarrow> bool" where
  "version_child_ok E c \<longleftrightarrow> (\<forall>x. xn_element c \<and> xn_content c = Some x \<longrightarrow>
     (xn_name c = VER_NODE_OID \<longrightarrow> cstring x) \<and>
     (xn_name c = VER_NODE_ITIME \<longrightarrow> AtmosUtil_parse_xml_datetime E x = Some (xml_time E x)))"

lemma parse_version_child_step:
  assumes "version_state E v cs" "version_child_ok E c"
  shows "\<exists>v'. parse_version_child E v c = Some v' \<and> version_state E v' (cs @ [c])"
proof -
  note defs = parse_version_child_def version_state_def field_values_append final_append
  consider (skip) "\<not> xn_element c \<or> xn_name c \<notin> {VER_NODE_OID, VER_NODE_VER_NUM, VER_NODE_ITIME} \<or> xn_content c = None"
    | (oid) x where "xn_element c" "xn_name c = VER_NODE_OID" "xn_content c = Some x"
    | (num) x where "xn_element c" "xn_name c = VER_NODE_VER_NUM" "xn_content c = Some x"
    | (time) x where "xn_element c" "xn_name c = VER_NODE_ITIME" "xn_content c = Some x"
    by (cases "xn_content c") auto
  then show ?thesis
  proof cases
    case skip
    then show ?thesis using assms(1) by (cases "xn_content c") (auto simp: defs)
  next
    case oid
    with assms(2) have "cstring x" by (simp add: version_child_ok_def)
    from strncpy_text[OF this, of "av_object_id v"] oid show ?thesis
      using assms(1) by (fastforce simp: defs version_nodes)
  next
    case num
    then show ?thesis using assms(1) by (simp add: defs version_nodes)
  next
    case time
    with assms(2) have "AtmosUtil_parse_xml_datetime E x = Some (xml_time E x)" by (simp add: version_child_ok_def)
    then show ?thesis using assms(1) time by (simp add: defs version_nodes)
  qed
qed

lemma parse_version_children:
  assumes "\<forall>c \<in> set cs. version_child_ok E c"
  shows "\<exists>v. foldM (parse_version_child E) AtmosVersion_init cs = Some v \<and> version_state E v cs"
  using assms
proof (induction cs rule: rev_induct)
  case Nil
  then show ?case by (simp add: version_state_def AtmosVersion_init_def buffer_text_def zeros_def)
next
  case (snoc c cs)
  then obtain v where "foldM (parse_version_child E) AtmosVersion_init cs = Some v" "version_state E v cs" by auto
  then show ?case using parse_version_child_step snoc.prems by auto
qed

text \<open>A node that shows a version is read as that version.\<close>

lemma field_valuesI:
  assumes "c \<in> set cs" "xn_element c" "xn_name c = f" "xn_content c = Some x"
  shows "x \<in> set (field_values f cs)"
  using assms by (force simp: field_values_def List.map_filter_def)

lemma parse_shown_version:
  assumes "have_tm_gmtoff E = mktime_uses_gmtoff E" "version_ok v" "shows_version m v"
  shows "\<exists>e. AtmosVersion_parse_entry E AtmosVersion_init m = Some e \<and> version_view e = version_entry v"
proof -
  obtain oid k t where v: "v = (oid, k, t)" by (cases v)
  note ok = assms(2)[unfolded version_ok_def v prod.case] and s = assms(3)[unfolded shows_version_def v prod.case]
  have time: "AtmosUtil_parse_xml_datetime E (iso_text t @ ''Z'') = Some (timegm t)"
    using parse_iso_datetime[of t "CHR ''Z''" E] ok assms(1) by (simp add: mktime_def)
  have xt: "xml_time E (iso_text t @ ''Z'') = timegm t"
    using parse_xml_datetime_text[of "iso_text t @ ''Z''" E] time by (simp add: xml_time_def split: option.splits)
  have "\<forall>c \<in> set (xn_children m). version_child_ok E c"
    using field_valuesI[of _ "xn_children m"] s ok time xt by (fastforce simp: version_child_ok_def)
  from parse_version_children[OF this] obtain e where e: "AtmosVersion_parse_entry E AtmosVersion_init m = Some e"
    "version_state E e (xn_children m)" by (auto simp: AtmosVersion_parse_entry_def)
  have "to_int32 (strtoll (show_int k)) = k" using strtoll_show_int[of k] ok by (simp add: to_int32_def)
  then have "version_view e = version_entry v"
    using e(2) s ok xt buffer_text_c_str[of "av_object_id e"] by (simp add: version_view_def version_entry_def version_state_def v)
  then show ?thesis using e(1) by blast
qed

section \<open>The answer\<close>

definition lists_versions :: "env \<Rightarrow> RestResponse \<Rightarrow> version list \<Rightarrow> bool" where
  "lists_versions E base vs \<longleftrightarrow> (\<exists>doc nodes. xmlReadMemory E (rs_body base) (rs_content_length base) = Some (Some doc) \<and>
     AtmosUtil_count_nodes E doc ''//cos:ListVersionsResponse'' True > 0 \<and>
     xmlXPathEval E doc True ''//cos:Ver'' = Some nodes \<and> list_all2 shows_version nodes vs)"

lemma parse_version_list:
  assumes "mem_ok E" "have_tm_gmtoff E = mktime_uses_gmtoff E" "\<forall>v \<in> set vs. version_ok v" "lists_versions E base vs"
    and "lv_versions d = []" "lv_version_count d = 0"
  shows "\<exists>es. AtmosListVersionsResponse_parse E d (rs_body base) (rs_content_length base) =
       Some (d\<lparr>lv_versions := es, lv_version_count := int (length vs)\<rparr>) \<and> map version_view es = map version_entry vs"
proof -
  obtain doc nodes where doc: "xmlReadMemory E (rs_body base) (rs_content_length base) = Some (Some doc)"
    "AtmosUtil_count_nodes E doc ''//cos:ListVersionsResponse'' True > 0" "xmlXPathEval E doc True ''//cos:Ver'' = Some nodes"
    and all: "list_all2 shows_version nodes vs"
    using assms(4) unfolding lists_versions_def by blast
  have len: "length nodes = length vs" using all by (rule list_all2_lengthD)
  show ?thesis
  proof (cases "vs = []")
    case True
    moreover have "d = d\<lparr>lv_versions := [], lv_version_count := 0\<rparr>" using assms(5,6) by simp
    ultimately show ?thesis using doc len
      by (simp add: AtmosListVersionsResponse_parse_def select_entries_def AtmosUtil_select_nodes_def)
  next
    case False
    let ?parse = "AtmosVersion_parse_entry E" and ?spec = "\<lambda>n. version_view (the (AtmosVersion_parse_entry E AtmosVersion_init n))"
    have parsed: "\<exists>e. ?parse AtmosVersion_init (nodes ! i) = Some e \<and> version_view e = version_entry (vs ! i)" if "i < length vs" for i
      using parse_shown_version[OF assms(2)] assms(3) list_all2_nthD2[OF all that] that by simp
    then have "\<forall>n \<in> set nodes. \<exists>e. ?parse AtmosVersion_init n = Some e \<and> version_view e = ?spec n"
      using len by (fastforce simp: in_set_conv_nth)
    moreover have "alloc_ok E (length nodes * sizeof E ''AtmosVersion'')" using assms(1) by (simp add: mem_ok_def)
    ultimately obtain es where es: "parse_entries E ''AtmosVersion'' AtmosVersion_init ?parse nodes = Some es"
      "map version_view es = map ?spec nodes"
      using parse_entries_map[where parse = ?parse and init = AtmosVersion_init and view = version_view and spec = ?spec] by blast
    moreover have "map ?spec nodes = map version_entry vs"
      using parsed len by (intro nth_equalityI) fastforce+
    moreover have "nodes \<noteq> []" using False len by auto
    ultimately have "AtmosListVersionsResponse_parse E d (rs_body base) (rs_content_length base) =
        Some (d\<lparr>lv_versions := es, lv_version_count := int (length vs)\<rparr>)" "map version_view es = map version_entry vs"
      using doc len by (simp_all add: AtmosListVersionsResponse_parse_def select_entries_def AtmosUtil_select_nodes_def)
    then show ?thesis by blast
  qed
qed

text \<open>A request for a page, as the pagination filter sends it on.\<close>

lemma page_request_prepared:
  assumes "rest_client_ok E" "r_sub rq = Paginated_request p sub" "c_str (pg_token p) = Some token" "sendable rq"
  shows "\<exists>rq1. pagination_prepare E rq = Some rq1 \<and> r_sub rq1 = r_sub rq \<and> sendable rq1"
proof -
  have "good_line (snprintf_text (ATMOS_TOKEN_MAX + 64) (ATMOS_HEADER_TOKEN @ '': '' @ token))"
    using good_line_snprintf[of ATMOS_HEADER_TOKEN "CHR '' '' # token" "ATMOS_TOKEN_MAX + 64"] c_str_cstring[OF assms(3)]
    by (simp add: literals)
  moreover have "good_line (snprintf_text (ATMOS_TOKEN_MAX + 64) (ATMOS_HEADER_LIMIT @ '': '' @ show_int l))" for l
    using good_line_snprintf[of ATMOS_HEADER_LIMIT "CHR '' '' # show_int l" "ATMOS_TOKEN_MAX + 64"] by (simp add: literals)
  ultimately show ?thesis using assms(3,4)
    by (auto simp: pagination_prepare_def assms(2) add_headers_append sendable_def add_header_ok[OF assms(1)])
qed

text \<open>
  C13: Listing the versions of an object works end to end: for every page that is asked for, the signed request goes out, and when the
  server answers with a list of versions (an empty one as well), the operation returns and the array of the response holds exactly
  these versions in order, each with its object ID, its number and the UTC time of its creation; the count is theirs, and the
  token of the next page is the one the server sent.
\<close>

theorem versions_listed:
  assumes "mem_ok E" "base64_ok E" "rest_library_ok E hs" "client_ok E c" "cstring oid"
    and "have_tm_gmtoff E = mktime_uses_gmtoff E" "\<forall>v \<in> set vs. version_ok v"
    and "rq = (AtmosListVersionsRequest_init E oid)\<lparr>r_sub := Paginated_request p (ListVersions_sub b)\<rparr>" "c_str (pg_token p) = Some token"
    and "\<forall>sent base body blocks. transfers E c sent (AtmosListVersionsResponse_init E) base body blocks \<longrightarrow>
       http_code base = 200 \<and> lists_versions E base vs"
  shows "\<exists>rq' rs' d. AtmosClient_list_versions E c (rq, AtmosListVersionsResponse_init E) = Some (rq', rs') \<and>
     sub_of rs' = Some (ListVersions_response d) \<and> lv_version_count d = int (length vs) \<and>
     map version_view (lv_versions d) = map version_entry vs \<and>
     lv_token d = RestResponse_get_header_value E (s_base rs') ATMOS_HEADER_TOKEN \<and>
     answers_signed E c rq' (AtmosListVersionsResponse_init E) (s_base rs')"
proof -
  let ?rs = "AtmosListVersionsResponse_init E"
  let ?xs = "[(AtmosFilter_list_versions E, \<lambda>c. Some, on_success (versions_answer E)),
     (AtmosFilter_set_pagination_headers E, \<lambda>c. pagination_prepare E, Some)] :: halves list"
  note lib = rest_library_okD(1)[OF assms(3)]
  have fresh: "sendable rq"
    using assms(5) by (simp add: sendable_def assms(8) AtmosListVersionsRequest_init_def set_class_def AtmosPaginatedRequest_init_def new_request_def
        rest_init[OF lib] snprintf_text_def cstring_take)
  obtain rq1 where rq1: "pagination_prepare E rq = Some rq1" "sendable rq1"
    using page_request_prepared[OF lib _ assms(9) fresh, of "ListVersions_sub b"] assms(8) by auto
  have halves: "\<forall>x \<in> set ?xs. halves_of x" by auto
  have prepared: "foldM (\<lambda>rq x. fst (snd x) c rq) rq (rev ?xs) = Some rq1" using rq1(1) by simp
  obtain rq' base where base: "http_code base = 200" "lists_versions E base vs"
    "execute E c (map fst ?xs) (rq, ?rs) = foldM (\<lambda>st fin. fin st) (rq', ?rs\<lparr>s_base := base\<rparr>) (map (snd \<circ> snd) ?xs)"
    "answers_signed E c rq' ?rs base"
    using execute_answered[OF assms(1-4) halves prepared rq1(2) assms(10)] by blast
  obtain es where es: "AtmosListVersionsResponse_parse E zero_list_versions_response_part (rs_body base) (rs_content_length base) =
      Some (zero_list_versions_response_part\<lparr>lv_versions := es, lv_version_count := int (length vs)\<rparr>)"
    "map version_view es = map version_entry vs"
    using parse_version_list[OF assms(1,6,7) base(2), of zero_list_versions_response_part] by (auto simp: zero_list_versions_response_part_def)
  obtain a where a: "s_atmos ?rs = Some (a, ListVersions_response zero_list_versions_response_part)"
    by (simp add: AtmosListVersionsResponse_init_def set_response_class_def AtmosResponse_init_def)
  let ?d = "zero_list_versions_response_part\<lparr>lv_versions := es, lv_version_count := int (length vs),
      lv_token := RestResponse_get_header_value E base ATMOS_HEADER_TOKEN\<rparr>"
  have "versions_answer E (?rs\<lparr>s_base := base\<rparr>) = Some (?rs\<lparr>s_base := base, s_atmos := Some (a, ListVersions_response ?d)\<rparr>)"
    using a es(1) by (simp add: versions_answer_def next_token_def zero_list_versions_response_part_def split: option.split)
  then have "AtmosClient_list_versions E c (rq, ?rs) = Some (rq', ?rs\<lparr>s_base := base, s_atmos := Some (a, ListVersions_response ?d)\<rparr>)"
    using base(1,3) by (simp add: AtmosClient_list_versions_def on_success_def)
  then show ?thesis using es(2) base(4) by (auto simp: sub_of_def)
qed

definition version_node :: "string \<Rightarrow> string \<Rightarrow> string \<Rightarrow> xml_node" where
  "version_node oid k itime = XmlNode True ''Ver'' None
     [XmlNode True ''VerNum'' (Some k) [], XmlNode False ''text'' (Some '' '') [], XmlNode True ''OID'' (Some oid) [],
      XmlNode True ''itime'' (Some itime) []]"

definition version_env :: env where
  "version_env = answering (\<lambda>b. b\<lparr>http_code := 200, rs_body := ''<list/>'', rs_content_length := 7\<rparr>) (list_env\<lparr>xmlXPathEval := \<lambda>root cos path.
     Some (if path = ''//cos:Ver'' then [version_node ''4ee696e4'' ''0'' ''2012-03-29T19:01:11Z'', version_node ''4ee696e5'' ''1'' ''2012-03-29T19:01:12Z'']
           else [root])\<rparr>)"

lemma version_env_ok:
  "mem_ok version_env" "base64_ok version_env" "rest_library_ok version_env (\<lambda>rq. [])" "client_ok version_env sample_client"
  using mem_ok_list_env base64_ok_list_env sample_client_ok
  by (simp_all add: version_env_def rest_library_ok_list_env answering_library_ok)

theorem versions_listed_witness:
  "\<exists>rq' rs' d. AtmosClient_list_versions version_env sample_client
       (AtmosListVersionsRequest_init version_env ''4ee696e3'', AtmosListVersionsResponse_init version_env) = Some (rq', rs') \<and>
     sub_of rs' = Some (ListVersions_response d) \<and> lv_version_count d = 2 \<and>
     map version_view (lv_versions d) = [(Some ''4ee696e4'', 0, 1333047671), (Some ''4ee696e5'', 1, 1333047672)]"
proof -
  let ?t = "\<lambda>s. \<lparr>tm_year = 2012, tm_mon = 3, tm_mday = 29, tm_hour = 19, tm_min = 1, tm_sec = s\<rparr>"
  let ?vs = "[(''4ee696e4'', 0, ?t 11), (''4ee696e5'', 1, ?t 12)] :: version list" and ?rs = "AtmosListVersionsResponse_init version_env"
  have texts: "iso_text (?t 11) @ ''Z'' = ''2012-03-29T19:01:11Z''" "iso_text (?t 12) @ ''Z'' = ''2012-03-29T19:01:12Z''"
    "timegm (?t 11) = 1333047671" "timegm (?t 12) = 1333047672" "show_int 0 = ''0''" "show_int 1 = ''1''"
    by code_simp+
  have ok: "\<forall>v \<in> set ?vs. version_ok v" by (simp add: version_ok_def tm_ok_def)
  have oid: "cstring ''4ee696e3''" by simp
  have nodes: "list_all2 shows_version [version_node ''4ee696e4'' ''0'' ''2012-03-29T19:01:11Z'', version_node ''4ee696e5'' ''1'' ''2012-03-29T19:01:12Z''] ?vs"
    unfolding list_all2_Cons list_all2_Nil shows_version_def prod.case texts
    by (simp add: version_node_def field_values_def List.map_filter_simps version_nodes)
  have zone: "have_tm_gmtoff version_env = mktime_uses_gmtoff version_env" by (simp add: version_env_def answering_def list_env_def)
  have rq: "AtmosListVersionsRequest_init version_env ''4ee696e3'' =
      (AtmosListVersionsRequest_init version_env ''4ee696e3'')\<lparr>r_sub := Paginated_request zero_page_part (ListVersions_sub (zeros ATMOS_OID_LENGTH))\<rparr>"
    by (simp add: AtmosListVersionsRequest_init_def set_class_def AtmosPaginatedRequest_init_def new_request_def)
  have token: "c_str (pg_token zero_page_part) = Some []" by (simp add: zero_page_part_def)
  have server: "\<forall>sent base body blocks. transfers version_env sample_client sent ?rs base body blocks \<longrightarrow>
      http_code base = 200 \<and> lists_versions version_env base ?vs"
  proof (intro allI impI)
    fix sent base body blocks
    assume "transfers version_env sample_client sent ?rs base body blocks"
    from answering_base[OF this[unfolded version_env_def]]
    have b: "base = (s_base ?rs)\<lparr>http_code := 200, rs_body := ''<list/>'', rs_content_length := 7\<rparr>" by (simp add: version_env_def)
    have "xmlReadMemory version_env ''<list/>'' 7 = Some (Some (XmlNode True ''Error'' (Some []) []))"
      by (simp add: xmlReadMemory_def version_env_def answering_def list_env_def to_int32_def)
    then have "lists_versions version_env base ?vs" unfolding lists_versions_def
      using nodes by (simp add: b AtmosUtil_count_nodes_def) (simp add: version_env_def answering_def)
    then show "http_code base = 200 \<and> lists_versions version_env base ?vs" by (simp add: b)
  qed
  from versions_listed[OF version_env_ok oid zone ok rq token server]
  obtain rq' rs' d where r: "AtmosClient_list_versions version_env sample_client (AtmosListVersionsRequest_init version_env ''4ee696e3'', ?rs) = Some (rq', rs')"
    "sub_of rs' = Some (ListVersions_response d)" "lv_version_count d = int (length ?vs)" "map version_view (lv_versions d) = map version_entry ?vs"
    by (elim exE conjE) (rule that)
  have "map version_entry ?vs = [(Some ''4ee696e4'', 0, 1333047671), (Some ''4ee696e5'', 1, 1333047672)]"
    by (simp only: list.map version_entry_def prod.case texts)
  with r show ?thesis by (intro exI[of _ rq'] exI[of _ rs'] exI[of _ d]) simp
qed

end
