(* ===== verification/Directory_Listing.thy ===== *)
theory Directory_Listing
  imports Read_Laws Version_Laws
begin

text \<open>
  The operation that lists a directory: three filters work together, for the headers of the directory object
  itself, the entries in the body, and the pages.
\<close>

section \<open>The request\<close>

text \<open>The header that limits the metadata of a listing to some tags.\<close>

lemma append_tag_text:
  assumes "utf8 \<noteq> 0 \<longrightarrow> escape_total E" "arr_holds c_str tags n L" "i < length L"
  shows "append_tag E utf8 tags hs i = AtmosUtil_cstring_append E hs (tag_text E utf8 (L ! i))" "cstring (tag_text E utf8 (L ! i))"
proof -
  have a: "length L \<le> length tags" "map c_str (take (length L) tags) = map Some L" using assms(2) by (auto simp: arr_holds_def)
  have t: "c_str (tags ! i) = Some (L ! i)" using arg_cong[OF a(2), of "\<lambda>xs. xs ! i"] assms(3) a(1) by simp
  note c = c_str_cstring[OF t]
  show "append_tag E utf8 tags hs i = AtmosUtil_cstring_append E hs (tag_text E utf8 (L ! i))" "cstring (tag_text E utf8 (L ! i))"
    using escape_cstring[OF _ c] t c a(1) assms(1,3) by (auto simp: append_tag_def arr_get_nat tag_text_def)
qed

lemma limit_tags_line:
  assumes "mem_ok E" "utf8 \<noteq> 0 \<longrightarrow> escape_total E" "arr_holds c_str tags n L" "cstring name"
  shows "limit_tags_header E utf8 name tags n rq =
     Some (if L = [] then rq else add_header E rq (name @ '': '' @ join_with '', '' (map (tag_text E utf8) L)))"
proof (cases L)
  case Nil
  then show ?thesis using assms(3) by (simp add: limit_tags_header_def arr_holds_def)
next
  case (Cons t ts)
  have n: "nat n = Suc (length ts)" "0 < n" using assms(3) Cons by (auto simp: arr_holds_def)
  note tag = append_tag_text[OF assms(2,3)]
  let ?T = "tag_text E utf8" and ?step = "\<lambda>hs i. do { hs \<leftarrow> AtmosUtil_cstring_append E hs '', ''; append_tag E utf8 tags hs i }"
  define ps where "ps = [name @ '': '', ?T t] @ concat (map (\<lambda>t. ['', '', ?T t]) ts)"
  have "foldM ?step hs [1..<nat n] = AtmosUtil_cstring_append_all E hs (concat (map (\<lambda>t. ['', '', ?T t]) ts))" for hs
  proof -
    have "[1..<nat n] = map Suc [0..<length ts]" by (simp add: n map_Suc_upt)
    then have "foldM ?step hs [1..<nat n] = foldM (\<lambda>hs i. ?step hs (Suc i)) hs [0..<length ts]" by (simp add: foldM_map)
    also have "\<dots> = foldM (\<lambda>hs i. AtmosUtil_cstring_append_all E hs ['', '', ?T (ts ! i)]) hs [0..<length ts]"
      by (rule foldM_cong[OF refl refl]) (use tag(1) Cons in simp)
    also have "\<dots> = AtmosUtil_cstring_append_all E hs (concat (map (\<lambda>i. ['', '', ?T (ts ! i)]) [0..<length ts]))" by (rule foldM_concat)
    also have "map (\<lambda>i. ['', '', ?T (ts ! i)]) [0..<length ts] = map (\<lambda>t. ['', '', ?T t]) ts"
      by (rule nth_equalityI) simp_all
    finally show ?thesis .
  qed
  then have "limit_tags_header E utf8 name tags n rq =
      do { hs \<leftarrow> AtmosUtil_cstring_append_all E empty_hstring ps; text \<leftarrow> hstring_text hs; Some (add_header E rq text) }"
    using tag(1)[of 0] n(2) Cons by (simp add: limit_tags_header_def ps_def bind_assoc)
  moreover have "\<forall>s \<in> set ps. cstring s"
    using tag(2)[of 0] tag(2)[of "Suc i" for i] assms(4) Cons by (auto simp: ps_def in_set_conv_nth[of _ ts])
  then obtain hs where "AtmosUtil_cstring_append_all E empty_hstring ps = Some hs" "hstring_text hs = Some (concat ps)"
    using append_all_text[OF assms(1), of ps] by (auto simp: ps_def)
  moreover have "concat (concat (map (\<lambda>t. ['', '', ?T t]) us)) = concat (map (\<lambda>t. '', '' @ ?T t) us)" for us
    by (induction us) simp_all
  then have "concat ps = name @ '': '' @ join_with '', '' (map ?T L)" by (simp add: ps_def Cons join_with_concat comp_def)
  ultimately show ?thesis using Cons by simp
qed

lemma good_limit_line:
  assumes "utf8 \<noteq> 0 \<longrightarrow> escape_total E" "arr_holds c_str tags n L" "cstring name"
  shows "good_line (name @ '': '' @ join_with '', '' (map (tag_text E utf8) L))"
proof -
  have "\<forall>s \<in> set (map (tag_text E utf8) L). cstring s" using append_tag_text(2)[OF assms(1,2)] by (auto simp: in_set_conv_nth)
  from cstring_join_with[OF _ this, of "'', ''"] show ?thesis using assms(3) by (simp add: good_line_def)
qed

lemma directory_request_prepared:
  assumes "rest_client_ok E" "mem_ok E" "cl_enable_utf8_metadata c \<noteq> 0 \<longrightarrow> escape_total E"
    and "r_sub rq = Paginated_request p (ListDirectory_sub l)" "sendable rq"
    and "arr_holds c_str (ld_user_tags l) (ld_user_tag_count l) U" "arr_holds c_str (ld_system_tags l) (ld_system_tag_count l) S"
  shows "\<exists>rq1. list_directory_prepare E c rq = Some rq1 \<and> sendable rq1"
proof -
  have u: "good_line utf8_header" "good_line include_meta_header" by (simp_all add: good_line_def utf8_header_def include_meta_header_def literals)
  have names: "cstring ATMOS_HEADER_USER_TAGS" "cstring ATMOS_HEADER_SYSTEM_TAGS" by (simp_all add: literals)
  note g = good_limit_line[OF assms(3,6) names(1)] good_limit_line[of 0 E, OF _ assms(7) names(2), simplified]
  note lim = limit_tags_line[OF assms(2,3,6) names(1)] limit_tags_line[OF assms(2) _ assms(7) names(2), of 0, simplified]
  note add = sendable_add_header[OF assms(1)]
  show ?thesis using assms(5) u g
    by (auto simp: list_directory_prepare_def assms(4) Let_def lim add)
qed

section \<open>The operation\<close>

text \<open>The answer of the server: the directory as an object in the headers, its entries in the body.\<close>

definition lists_directory :: "env \<Rightarrow> RestResponse \<Rightarrow> xml_node list \<Rightarrow> bool" where
  "lists_directory E base nodes \<longleftrightarrow> (\<exists>doc. xmlReadMemory E (rs_body base) (rs_content_length base) = Some (Some doc) \<and>
     AtmosUtil_count_nodes E doc ''//cos:DirectoryList'' True > 0 \<and> xmlXPathEval E doc True ''//cos:DirectoryEntry'' = Some nodes \<and>
     (\<forall>n \<in> set nodes. \<forall>c \<in> set (xn_children n). entry_child_ok c))"

lemma parse_directory_list:
  assumes "mem_ok E" "lists_directory E base nodes" "dl_entries d = []" "dl_entry_count d = 0"
  shows "\<exists>es. AtmosListDirectoryResponse_parse E d (rs_body base) (rs_content_length base) =
       Some (d\<lparr>dl_entries := es, dl_entry_count := int (length nodes)\<rparr>) \<and> list_all2 (entry_shown E) nodes es"
proof -
  obtain doc where doc: "xmlReadMemory E (rs_body base) (rs_content_length base) = Some (Some doc)"
    "AtmosUtil_count_nodes E doc ''//cos:DirectoryList'' True > 0" "xmlXPathEval E doc True ''//cos:DirectoryEntry'' = Some nodes"
    "\<forall>n \<in> set nodes. \<forall>c \<in> set (xn_children n). entry_child_ok c"
    using assms(2) unfolding lists_directory_def by blast
  show ?thesis
  proof (cases "nodes = []")
    case True
    moreover have "d = d\<lparr>dl_entries := [], dl_entry_count := 0\<rparr>" using assms(3,4) by simp
    ultimately show ?thesis using doc
      by (simp add: AtmosListDirectoryResponse_parse_def select_entries_def AtmosUtil_select_nodes_def)
  next
    case False
    then show ?thesis using AtmosListDirectoryResponse_parse_entries[OF assms(1) doc(1-3) _ doc(4)] by blast
  qed
qed

lemma directory_answer_shown:
  assumes "mem_ok E" "lists_directory E base nodes" "s_base rs = base"
    and "s_atmos rs = Some (a, ListDirectory_response rp zero_list_directory_response_part)"
  shows "\<exists>d. directory_answer E rs = Some (rs\<lparr>s_atmos := Some (a, ListDirectory_response rp d)\<rparr>) \<and>
     dl_entry_count d = int (length nodes) \<and> list_all2 (entry_shown E) nodes (dl_entries d) \<and>
     dl_token d = RestResponse_get_header_value E base ATMOS_HEADER_TOKEN"
proof -
  obtain es where es: "AtmosListDirectoryResponse_parse E zero_list_directory_response_part (rs_body base) (rs_content_length base) =
      Some (zero_list_directory_response_part\<lparr>dl_entries := es, dl_entry_count := int (length nodes)\<rparr>)" "list_all2 (entry_shown E) nodes es"
    using parse_directory_list[OF assms(1,2), of zero_list_directory_response_part] by (auto simp: zero_list_directory_response_part_def)
  then show ?thesis using assms(3,4)
    by (auto simp: directory_answer_def next_token_def zero_list_directory_response_part_def split: option.split)
qed

text \<open>
  C9: Listing a directory works end to end: for any page, with or without metadata and whatever tags they are limited to, the request goes
  out signed, and when the server answers with the directory, the operation returns; the entries in the response are then those of the
  answer, one for each in document order, with object ID, type and file name (cut at the sizes of their arrays) and with the system and user
  metadata the answer gives for each; the count is theirs and the token that of the next page, and the response also holds the
  metadata and the ACL of the directory itself.
\<close>

theorem directory_listed:
  assumes "mem_ok E" "base64_ok E" "rest_library_ok E hs" "client_ok E c" "cl_enable_utf8_metadata c \<noteq> 0 \<longrightarrow> escape_total E"
    and "r_sub rq = Paginated_request p (ListDirectory_sub l)" "c_str (pg_token p) = Some token" "sendable rq"
    and "arr_holds c_str (ld_user_tags l) (ld_user_tag_count l) U" "arr_holds c_str (ld_system_tags l) (ld_system_tag_count l) S"
    and "\<forall>sent base body blocks. transfers E c sent (AtmosListDirectoryResponse_init E) base body blocks \<longrightarrow>
       http_code base = 200 \<and> lists_directory E base nodes \<and> shows_object E base x \<and> object_ok E (utf8_flag E base) x \<and>
       (curl_codec_ok E \<or> utf8_flag E base = 0)"
  shows "\<exists>rq' rs' rp d. AtmosClient_list_directory E c (rq, AtmosListDirectoryResponse_init E) = Some (rq', rs') \<and>
     sub_of rs' = Some (ListDirectory_response rp d) \<and> holds_object E (utf8_flag E (s_base rs')) rp x \<and>
     dl_entry_count d = int (length nodes) \<and> list_all2 (entry_shown E) nodes (dl_entries d) \<and>
     dl_token d = RestResponse_get_header_value E (s_base rs') ATMOS_HEADER_TOKEN \<and>
     answers_signed E c rq' (AtmosListDirectoryResponse_init E) (s_base rs')"
proof -
  note lib = rest_library_okD(1)[OF assms(3)]
  let ?rs = "AtmosListDirectoryResponse_init E"
  let ?xs = "[(AtmosFilter_parse_read_object_response E, \<lambda>c. Some, on_success (read_sub E)),
     (AtmosFilter_list_directory E, list_directory_prepare E, on_success (directory_answer E)),
     (AtmosFilter_set_pagination_headers E, \<lambda>c. pagination_prepare E, Some)] :: halves list"
  obtain rq0 where rq0: "pagination_prepare E rq = Some rq0" "r_sub rq0 = r_sub rq" "sendable rq0"
    using page_request_prepared[OF lib assms(6,7,8)] by blast
  obtain rq1 where rq1: "list_directory_prepare E c rq0 = Some rq1" "sendable rq1"
    using directory_request_prepared[OF lib assms(1,5) _ rq0(3) assms(9,10)] rq0(2) assms(6) by auto
  have halves: "\<forall>x \<in> set ?xs. halves_of x" by auto
  have prepared: "foldM (\<lambda>rq x. fst (snd x) c rq) rq (rev ?xs) = Some rq1" using rq0(1) rq1(1) by simp
  obtain rq' base where base: "http_code base = 200" "lists_directory E base nodes \<and> shows_object E base x \<and>
      object_ok E (utf8_flag E base) x \<and> (curl_codec_ok E \<or> utf8_flag E base = 0)"
    "execute E c (map fst ?xs) (rq, ?rs) = foldM (\<lambda>st fin. fin st) (rq', ?rs\<lparr>s_base := base\<rparr>) (map (snd \<circ> snd) ?xs)"
    "answers_signed E c rq' ?rs base"
    using execute_answered[OF assms(1-4) halves prepared rq1(2) assms(11)] by blast
  obtain rp where rp: "read_headers E base zero_read_response_part = Some rp" "holds_object E (utf8_flag E base) rp x"
    using read_headers_shown[of E base x] base(2) by blast
  obtain a where a: "s_atmos ?rs = Some (a, ListDirectory_response zero_read_response_part zero_list_directory_response_part)"
    by (simp add: AtmosListDirectoryResponse_init_def AtmosReadObjectResponse_init_def set_response_class_def AtmosResponse_init_def)
  let ?rs1 = "?rs\<lparr>s_base := base, s_atmos := Some (a, ListDirectory_response rp zero_list_directory_response_part)\<rparr>"
  have read: "read_sub E (?rs\<lparr>s_base := base\<rparr>) = Some ?rs1" using a rp(1) by (simp add: read_sub_def upd_read_response_def)
  obtain d where d: "directory_answer E ?rs1 = Some (?rs1\<lparr>s_atmos := Some (a, ListDirectory_response rp d)\<rparr>)"
    "dl_entry_count d = int (length nodes)" "list_all2 (entry_shown E) nodes (dl_entries d)"
    "dl_token d = RestResponse_get_header_value E base ATMOS_HEADER_TOKEN"
    using directory_answer_shown[OF assms(1), of base nodes ?rs1 a rp] base(2) by auto
  have "AtmosClient_list_directory E c (rq, ?rs) = Some (rq', ?rs1\<lparr>s_atmos := Some (a, ListDirectory_response rp d)\<rparr>)"
    using base(1,3) read d(1) by (simp add: AtmosClient_list_directory_def on_success_def)
  then show ?thesis using rp(2) d(2-4) base(4) by (auto simp: sub_of_def)
qed

text \<open>An environment whose server answers with a directory of two entries.\<close>

definition listing_env :: env where
  "listing_env = answering (\<lambda>b. b\<lparr>http_code := 200, rs_headers := object_headers, rs_body := ''<list/>'', rs_content_length := 7\<rparr>) directory_env"

lemma listing_env_ok:
  "mem_ok listing_env" "base64_ok listing_env" "rest_library_ok listing_env (\<lambda>rq. [])" "client_ok listing_env sample_client"
  using mem_ok_list_env base64_ok_list_env sample_client_ok
  by (simp_all add: listing_env_def directory_env_def rest_library_ok_list_env answering_library_ok)

theorem directory_listed_witness:
  "\<exists>rq' rs' rp d. AtmosClient_list_directory listing_env sample_client
       (the (the (AtmosListDirectoryRequest_init listing_env ''/photos/'')), AtmosListDirectoryResponse_init listing_env) = Some (rq', rs') \<and>
     sub_of rs' = Some (ListDirectory_response rp d) \<and> dl_entry_count d = 2 \<and>
     map entry_view (dl_entries d) =
       [(''4ee696e4a11f549604f0b753'', Some ''directory'', ''photos''), (''4ee696e4a11f549604f0b754'', Some ''regular'', ''a.txt'')] \<and>
     arr_holds metadata_pair (rr_meta rp) (rr_meta_count rp) [(''color'', ''red'')]"
proof -
  let ?E = listing_env and ?rs = "AtmosListDirectoryResponse_init listing_env"
    and ?rq = "the (the (AtmosListDirectoryRequest_init listing_env ''/photos/''))"
  let ?nodes = "[sample_entry_node ''4ee696e4a11f549604f0b753'' ''directory'' ''photos'',
             sample_entry_node ''4ee696e4a11f549604f0b754'' ''regular'' ''a.txt'']"
  have v: "map node_view ?nodes = [(''4ee696e4a11f549604f0b753'', Some ''directory'', ''photos''), (''4ee696e4a11f549604f0b754'', Some ''regular'', ''a.txt'')]"
    by (simp add: node_view_def sample_entry_node_def meta_field_def field_values_def List.map_filter_simps node_type_def dir_nodes literals)
  have nodes: "\<forall>n \<in> set ?nodes. \<forall>c \<in> set (xn_children n). entry_child_ok c"
    by (simp add: sample_entry_node_def entry_child_ok_def system_list_ok_def sample_meta_node_def texts_ok_def meta_field_def
        field_values_def List.map_filter_simps system_entry_ok_def system_times_def dir_nodes literals)
  have rq: "r_sub ?rq = Paginated_request zero_page_part (ListDirectory_sub zero_list_directory_part)" "sendable ?rq"
    by (simp_all add: AtmosListDirectoryRequest_init_def starts_with_slash_def ends_with_slash_def set_class_def
        AtmosPaginatedRequest_init_def new_request_def sendable_def Let_def listing_env_def answering_def directory_env_def list_env_def snprintf_text_def)
  have token: "c_str (pg_token zero_page_part) = Some []" by (simp add: zero_page_part_def)
  have tags: "arr_holds c_str (ld_user_tags zero_list_directory_part) (ld_user_tag_count zero_list_directory_part) []"
    "arr_holds c_str (ld_system_tags zero_list_directory_part) (ld_system_tag_count zero_list_directory_part) []"
    by (simp_all add: arr_holds_def zero_list_directory_part_def)
  have utf8: "cl_enable_utf8_metadata sample_client \<noteq> 0 \<longrightarrow> escape_total ?E" by (simp add: sample_client_def)
  have server: "\<forall>sent base body blocks. transfers ?E sample_client sent ?rs base body blocks \<longrightarrow>
      http_code base = 200 \<and> lists_directory ?E base ?nodes \<and> shows_object ?E base sample_object \<and>
      object_ok ?E (utf8_flag ?E base) sample_object \<and> (curl_codec_ok ?E \<or> utf8_flag ?E base = 0)"
  proof (intro allI impI)
    fix sent base body blocks
    assume "transfers ?E sample_client sent ?rs base body blocks"
    from answering_base[OF this[unfolded listing_env_def]]
    have b: "base = (s_base ?rs)\<lparr>http_code := 200, rs_headers := object_headers, rs_body := ''<list/>'', rs_content_length := 7\<rparr>" by (simp add: listing_env_def)
    then have "RestResponse_get_header_value ?E base n = lookup_header object_headers n" for n
      by (simp add: listing_env_def answering_def directory_env_def list_env_def)
    note shown = sample_object_shown[OF this]
    have "xmlReadMemory ?E ''<list/>'' 7 = Some (Some (XmlNode True ''Error'' (Some []) []))"
      by (simp add: xmlReadMemory_def listing_env_def answering_def directory_env_def list_env_def to_int32_def)
    then have "lists_directory ?E base ?nodes" unfolding lists_directory_def
      using nodes by (simp add: b AtmosUtil_count_nodes_def) (simp add: listing_env_def answering_def directory_env_def)
    then show "http_code base = 200 \<and> lists_directory ?E base ?nodes \<and> shows_object ?E base sample_object \<and>
      object_ok ?E (utf8_flag ?E base) sample_object \<and> (curl_codec_ok ?E \<or> utf8_flag ?E base = 0)"
      using shown sample_object_ok by (simp add: b)
  qed
  from directory_listed[OF listing_env_ok utf8 rq(1) token rq(2) tags server]
  obtain rq' rs' rp d where r: "AtmosClient_list_directory ?E sample_client (?rq, ?rs) = Some (rq', rs')"
    "sub_of rs' = Some (ListDirectory_response rp d)" "holds_object ?E (utf8_flag ?E (s_base rs')) rp sample_object"
    "dl_entry_count d = int (length ?nodes)" "list_all2 (entry_shown ?E) ?nodes (dl_entries d)"
    by (elim exE conjE) (rule that)
  note views = entries_shown_views[OF r(5), unfolded v]
  have "arr_holds metadata_pair (rr_meta rp) (rr_meta_count rp) [(''color'', ''red'')]"
    using r(3) by (simp add: holds_object_def sample_object_def)
  with r(1,2,4) views show ?thesis
    by (intro exI[of _ rq'] exI[of _ rs'] exI[of _ rp] exI[of _ d]) simp
qed

end
