(* ===== verification/Object_Listing.thy ===== *)
theory Object_Listing
  imports Directory_Listing
begin

text \<open>
  The operation that lists the objects under a tag: the tag and the limits of the metadata in the request, the entries with
  their metadata in the answer.
\<close>

section \<open>The request\<close>

lemma c_str_buffer_text: "c_str b = Some s \<Longrightarrow> buffer_text b = s"
  by (auto simp: c_str_def buffer_text_def split: if_splits)

lemma good_tags_line:
  assumes "utf8 \<noteq> 0 \<longrightarrow> escape_total E" "cstring tag"
  shows "good_line (tags_line E utf8 [tag])"
proof -
  obtain e where "utf8 \<noteq> 0 \<Longrightarrow> curl_easy_escape E tag = Some e \<and> cstring e" using assms unfolding escape_total_def by blast
  then show ?thesis using assms(2) by (cases "utf8 = 0") (auto simp: good_line_def tags_line_def tag_text_def)
qed

lemma objects_request_prepared:
  assumes "rest_client_ok E" "mem_ok E" "cl_enable_utf8_metadata c \<noteq> 0 \<longrightarrow> escape_total E"
    and "r_sub rq = Paginated_request p (ListObjects_sub l)" "c_str (lo_tag l) = Some tag" "length tag < ATMOS_META_NAME_MAX" "sendable rq"
    and "arr_holds c_str (lo_user_tags l) (lo_user_tag_count l) U" "arr_holds c_str (lo_system_tags l) (lo_system_tag_count l) S"
  shows "\<exists>rq1. list_objects_prepare E c rq = Some rq1 \<and> sendable rq1"
proof -
  let ?u = "cl_enable_utf8_metadata c"
  have u: "good_line utf8_header" "good_line include_meta_header" by (simp_all add: good_line_def utf8_header_def include_meta_header_def literals)
  have names: "cstring ATMOS_HEADER_USER_TAGS" "cstring ATMOS_HEADER_SYSTEM_TAGS" by (simp_all add: literals)
  note g = good_limit_line[OF assms(3,8) names(1)] good_limit_line[of 0 E, OF _ assms(9) names(2), simplified]
  note lim = limit_tags_line[OF assms(2,3,8) names(1)] limit_tags_line[OF assms(2) _ assms(9) names(2), of 0, simplified]
  note add = sendable_add_header[OF assms(1)]
  have cs: "cstring tag" by (rule c_str_cstring[OF assms(5)])
  obtain b where b: "strncpy (replicate ATMOS_META_NAME_MAX (junk E)) (buffer_text (lo_tag l)) ATMOS_META_NAME_MAX = Some b" "c_str b = Some tag"
    using strncpy_fits[OF cs assms(6), of "replicate ATMOS_META_NAME_MAX (junk E)"] c_str_buffer_text[OF assms(5)] by auto
  have "arr_holds c_str [b] 1 [tag]" using b(2) by (simp add: arr_holds_def)
  then have tags: "AtmosUtil_set_tags_header E rq [b] 1 ?u = Some (add_header E rq (tags_line E ?u [tag]))" for rq
    using set_tags_header_line[OF assms(2), of ?u] assms(3) by simp
  show ?thesis using assms(7) u g good_tags_line[OF assms(3) cs]
    by (auto simp: list_objects_prepare_def assms(4) Let_def lim add b(1) tags)
qed

section \<open>The entries of the answer\<close>

definition listing_state :: "env \<Rightarrow> AtmosObjectListing \<Rightarrow> xml_node list \<Rightarrow> bool" where
  "listing_state E e cs \<longleftrightarrow> metadata_state E cs (ol_parent e) \<and> length (ol_object_id e) = ATMOS_OID_LENGTH \<and>
     buffer_text (ol_object_id e) = take ATMOS_OID_LENGTH (final [] (field_values DIR_NODE_OBJECT_ID cs))"

lemma parse_object_listing_child_step:
  assumes "mem_ok E" "listing_state E e cs" "entry_child_ok c"
  shows "\<exists>e'. parse_object_listing_child E e c = Some e' \<and> listing_state E e' (cs @ [c])"
proof -
  have len: "length (ol_object_id e) = ATMOS_OID_LENGTH" and meta: "metadata_state E cs (ol_parent e)"
    using assms(2) by (simp_all add: listing_state_def)
  have cont: "\<And>v. xn_content c = Some v \<Longrightarrow> cstring v" using assms(3) by (simp add: entry_child_ok_def)
  note defs = parse_object_listing_child_def listing_state_def field_values_append final_append
  have other: "metadata_state E (cs @ [c]) (ol_parent e)"
    if "\<not> (xn_element c \<and> xn_name c \<in> {DIR_NODE_SYSTEM_METADATA_LIST, DIR_NODE_USER_METADATA_LIST})"
    using metadata_state_other[OF meta, of c] that by (auto simp: is_list_def)
  consider (skip) "\<not> xn_element c \<or> xn_name c \<notin> {DIR_NODE_OBJECT_ID, DIR_NODE_SYSTEM_METADATA_LIST, DIR_NODE_USER_METADATA_LIST}"
    | (empty) "xn_element c" "xn_name c = DIR_NODE_OBJECT_ID" "xn_content c = None"
    | (oid) v where "xn_element c" "xn_name c = DIR_NODE_OBJECT_ID" "xn_content c = Some v"
    | (system) "is_list DIR_NODE_SYSTEM_METADATA_LIST c" | (user) "is_list DIR_NODE_USER_METADATA_LIST c"
    unfolding is_list_def by (cases "xn_content c") auto
  then show ?thesis
  proof cases
    case skip then show ?thesis using assms(2) other by (auto simp: defs)
  next
    case empty
    then have "metadata_state E (cs @ [c]) (ol_parent e)" by (intro other) (simp add: dir_nodes)
    with empty show ?thesis using assms(2) by (simp add: defs)
  next
    case oid
    then have "metadata_state E (cs @ [c]) (ol_parent e)" by (intro other) (simp add: dir_nodes)
    with oid strncpy_text[OF cont len] show ?thesis using assms(2) by (fastforce simp: defs)
  next
    case system
    with metadata_state_system[OF meta _ assms(3)] obtain m where
      "AtmosObjectMetadata_parse_system_meta E (ol_parent e) c = Some m" "metadata_state E (cs @ [c]) m" by blast
    then show ?thesis using assms(2) system by (simp add: defs is_list_def dir_nodes)
  next
    case user
    with metadata_state_user[OF assms(1) meta _ assms(3)] obtain m where
      "AtmosObjectMetadata_parse_usermeta E (ol_parent e) c = Some m" "metadata_state E (cs @ [c]) m" by blast
    then show ?thesis using assms(2) user by (simp add: defs is_list_def dir_nodes)
  qed
qed

lemma listing_state_init: "listing_state E AtmosObjectListing_init []"
  using metadata_state_init[of E] by (simp add: listing_state_def AtmosObjectListing_init_def buffer_text_def zeros_def)

text \<open>An entry of the response against its node in the answer.\<close>

definition listing_shown :: "env \<Rightarrow> xml_node \<Rightarrow> AtmosObjectListing \<Rightarrow> bool" where
  "listing_shown E n e \<longleftrightarrow> buffer_text (ol_object_id e) = take ATMOS_OID_LENGTH (meta_field DIR_NODE_OBJECT_ID n) \<and>
     metadata_shown E (xn_children n) (ol_parent e)"

lemma parse_listing_shown:
  assumes "mem_ok E" "\<forall>c \<in> set (xn_children n). entry_child_ok c"
  shows "\<exists>e. AtmosObjectListing_parse_entry E AtmosObjectListing_init n = Some e \<and> listing_shown E n e"
proof -
  obtain e where "foldM (parse_object_listing_child E) AtmosObjectListing_init (xn_children n) = Some e" "listing_state E e (xn_children n)"
    using foldM_children[where state = "listing_state E" and step = "parse_object_listing_child E" and ok = entry_child_ok,
        OF listing_state_init _ assms(2)] parse_object_listing_child_step[OF assms(1)] by blast
  then show ?thesis using metadata_state_shown[OF _ assms(2), of E "ol_parent e"]
    by (auto simp: AtmosObjectListing_parse_entry_def listing_state_def meta_field_def listing_shown_def)
qed

text \<open>The answer: a list of objects in the body.\<close>

definition lists_objects :: "env \<Rightarrow> RestResponse \<Rightarrow> xml_node list \<Rightarrow> bool" where
  "lists_objects E base nodes \<longleftrightarrow> (\<exists>doc. xmlReadMemory E (rs_body base) (rs_content_length base) = Some (Some doc) \<and>
     AtmosUtil_count_nodes E doc ''//cos:ListObjectsResponse'' True > 0 \<and> xmlXPathEval E doc True ''//cos:Object'' = Some nodes \<and>
     (\<forall>n \<in> set nodes. \<forall>c \<in> set (xn_children n). entry_child_ok c))"

lemma parse_object_list:
  assumes "mem_ok E" "lists_objects E base nodes" "or_results d = []" "or_result_count d = 0"
  shows "\<exists>es. AtmosListObjectsResponse_parse E d (rs_body base) (rs_content_length base) =
       Some (d\<lparr>or_results := es, or_result_count := int (length nodes)\<rparr>) \<and> list_all2 (listing_shown E) nodes es"
proof -
  obtain doc where doc: "xmlReadMemory E (rs_body base) (rs_content_length base) = Some (Some doc)"
    "AtmosUtil_count_nodes E doc ''//cos:ListObjectsResponse'' True > 0" "xmlXPathEval E doc True ''//cos:Object'' = Some nodes"
    "\<forall>n \<in> set nodes. \<forall>c \<in> set (xn_children n). entry_child_ok c"
    using assms(2) unfolding lists_objects_def by blast
  show ?thesis
  proof (cases "nodes = []")
    case True
    moreover have "d = d\<lparr>or_results := [], or_result_count := 0\<rparr>" using assms(3,4) by simp
    ultimately show ?thesis using doc
      by (simp add: AtmosListObjectsResponse_parse_def select_entries_def AtmosUtil_select_nodes_def)
  next
    case False
    have "alloc_ok E (length nodes * sizeof E ''AtmosObjectListing'')" using assms(1) by (simp add: mem_ok_def)
    moreover have "\<forall>n \<in> set nodes. \<exists>e. AtmosObjectListing_parse_entry E AtmosObjectListing_init n = Some e \<and> listing_shown E n e"
      using parse_listing_shown[OF assms(1)] doc(4) by blast
    ultimately obtain es where "parse_entries E ''AtmosObjectListing'' AtmosObjectListing_init (AtmosObjectListing_parse_entry E) nodes = Some es"
      "list_all2 (listing_shown E) nodes es"
      using parse_entries_all[where parse = "AtmosObjectListing_parse_entry E" and init = AtmosObjectListing_init and R = "listing_shown E"] by blast
    then show ?thesis using doc False
      by (intro exI[of _ es]) (simp add: AtmosListObjectsResponse_parse_def select_entries_def AtmosUtil_select_nodes_def)
  qed
qed

section \<open>The operation\<close>

text \<open>
  C10: Listing the objects under a tag works end to end: for any page, any tag that fits its buffer, with or without metadata and whatever
  tags they are limited to, the request goes out signed, and when the server answers with a list of objects (an empty one as well), the
  operation returns; the array of the response then has one entry for each object of the answer, in order, with its object ID and the
  system and user metadata the answer gives for it, the count is theirs, and the token is that of the next page.
\<close>

theorem objects_listed:
  assumes "mem_ok E" "base64_ok E" "rest_library_ok E hs" "client_ok E c" "cl_enable_utf8_metadata c \<noteq> 0 \<longrightarrow> escape_total E"
    and "r_sub rq = Paginated_request p (ListObjects_sub l)" "c_str (pg_token p) = Some token" "sendable rq"
    and "c_str (lo_tag l) = Some tag" "length tag < ATMOS_META_NAME_MAX"
    and "arr_holds c_str (lo_user_tags l) (lo_user_tag_count l) U" "arr_holds c_str (lo_system_tags l) (lo_system_tag_count l) S"
    and "\<forall>sent base body blocks. transfers E c sent (AtmosListObjectsResponse_init E) base body blocks \<longrightarrow>
       http_code base = 200 \<and> lists_objects E base nodes"
  shows "\<exists>rq' rs' d. AtmosClient_list_objects E c (rq, AtmosListObjectsResponse_init E) = Some (rq', rs') \<and>
     sub_of rs' = Some (ListObjects_response d) \<and> or_result_count d = int (length nodes) \<and> list_all2 (listing_shown E) nodes (or_results d) \<and>
     or_token d = RestResponse_get_header_value E (s_base rs') ATMOS_HEADER_TOKEN \<and>
     answers_signed E c rq' (AtmosListObjectsResponse_init E) (s_base rs')"
proof -
  note lib = rest_library_okD(1)[OF assms(3)]
  let ?rs = "AtmosListObjectsResponse_init E"
  let ?xs = "[(AtmosFilter_list_objects E, list_objects_prepare E, on_success (objects_answer E)),
     (AtmosFilter_set_pagination_headers E, \<lambda>c. pagination_prepare E, Some)] :: halves list"
  obtain rq0 where rq0: "pagination_prepare E rq = Some rq0" "r_sub rq0 = r_sub rq" "sendable rq0"
    using page_request_prepared[OF lib assms(6,7,8)] by blast
  obtain rq1 where rq1: "list_objects_prepare E c rq0 = Some rq1" "sendable rq1"
    using objects_request_prepared[OF lib assms(1,5) _ assms(9,10) rq0(3) assms(11,12)] rq0(2) assms(6) by auto
  have halves: "\<forall>x \<in> set ?xs. halves_of x" by auto
  have prepared: "foldM (\<lambda>rq x. fst (snd x) c rq) rq (rev ?xs) = Some rq1" using rq0(1) rq1(1) by simp
  obtain rq' base where base: "http_code base = 200" "lists_objects E base nodes"
    "execute E c (map fst ?xs) (rq, ?rs) = foldM (\<lambda>st fin. fin st) (rq', ?rs\<lparr>s_base := base\<rparr>) (map (snd \<circ> snd) ?xs)"
    "answers_signed E c rq' ?rs base"
    using execute_answered[OF assms(1-4) halves prepared rq1(2) assms(13)] by blast
  obtain es where es: "AtmosListObjectsResponse_parse E zero_list_objects_response_part (rs_body base) (rs_content_length base) =
      Some (zero_list_objects_response_part\<lparr>or_results := es, or_result_count := int (length nodes)\<rparr>)" "list_all2 (listing_shown E) nodes es"
    using parse_object_list[OF assms(1) base(2), of zero_list_objects_response_part] by (auto simp: zero_list_objects_response_part_def)
  obtain a where a: "s_atmos ?rs = Some (a, ListObjects_response zero_list_objects_response_part)"
    by (simp add: AtmosListObjectsResponse_init_def set_response_class_def AtmosResponse_init_def)
  let ?d = "zero_list_objects_response_part\<lparr>or_results := es, or_result_count := int (length nodes),
      or_token := RestResponse_get_header_value E base ATMOS_HEADER_TOKEN\<rparr>"
  have "objects_answer E (?rs\<lparr>s_base := base\<rparr>) = Some (?rs\<lparr>s_base := base, s_atmos := Some (a, ListObjects_response ?d)\<rparr>)"
    using a es(1) by (simp add: objects_answer_def next_token_def zero_list_objects_response_part_def split: option.split)
  then have "AtmosClient_list_objects E c (rq, ?rs) = Some (rq', ?rs\<lparr>s_base := base, s_atmos := Some (a, ListObjects_response ?d)\<rparr>)"
    using base(1,3) by (simp add: AtmosClient_list_objects_def on_success_def)
  then show ?thesis using es(2) base(4) by (auto simp: sub_of_def)
qed

text \<open>A server with one tagged object.\<close>

definition sample_object_node :: xml_node where
  "sample_object_node = XmlNode True ''Object'' None
     [XmlNode True ''ObjectID'' (Some ''4ee696e4'') [],
      XmlNode True ''SystemMetadataList'' None [sample_meta_node ''size'' ''12'' ''false''],
      XmlNode True ''UserMetadataList'' None [sample_meta_node ''color'' ''red'' ''false'', sample_meta_node ''photos'' ''2012'' ''true'']]"

definition objects_env :: env where
  "objects_env = answering (\<lambda>b. b\<lparr>http_code := 200, rs_body := ''<list/>'', rs_content_length := 7\<rparr>)
     (list_env\<lparr>xmlXPathEval := \<lambda>root cos path. Some (if path = ''//cos:Object'' then [sample_object_node] else [root])\<rparr>)"

lemma objects_env_ok:
  "mem_ok objects_env" "base64_ok objects_env" "rest_library_ok objects_env (\<lambda>rq. [])" "client_ok objects_env sample_client"
  using mem_ok_list_env base64_ok_list_env sample_client_ok
  by (simp_all add: objects_env_def rest_library_ok_list_env answering_library_ok)

definition sample_objects_request :: request where
  "sample_objects_request = \<lparr>r_base = RestRequest_init list_env ''/rest/objects'' HTTP_GET,
     r_sub = Paginated_request zero_page_part (ListObjects_sub (zero_list_objects_part\<lparr>lo_tag := ''photos'' @ NUL # zeros (ATMOS_PATH_MAX - 7)\<rparr>))\<rparr>"

theorem objects_listed_witness:
  "\<exists>rq' rs' d e. AtmosClient_list_objects objects_env sample_client (sample_objects_request, AtmosListObjectsResponse_init objects_env) = Some (rq', rs') \<and>
     sub_of rs' = Some (ListObjects_response d) \<and> or_results d = [e] \<and> buffer_text (ol_object_id e) = ''4ee696e4'' \<and>
     arr_holds stored_pair (om_listable_meta (ol_parent e)) (om_listable_meta_count (ol_parent e)) [(''photos'', ''2012'')] \<and>
     sm_size (om_system_metadata (ol_parent e)) = 12"
proof -
  let ?E = objects_env and ?rs = "AtmosListObjectsResponse_init objects_env"
  let ?l = "zero_list_objects_part\<lparr>lo_tag := ''photos'' @ NUL # zeros (ATMOS_PATH_MAX - 7)\<rparr>"
  have rq: "r_sub sample_objects_request = Paginated_request zero_page_part (ListObjects_sub ?l)" "sendable sample_objects_request"
    by (simp_all add: sample_objects_request_def sendable_def list_env_def)
  have page: "c_str (pg_token zero_page_part) = Some []" by (simp add: zero_page_part_def)
  have tag: "c_str (lo_tag ?l) = Some ''photos''" "length ''photos'' < ATMOS_META_NAME_MAX"
    using c_str_append_NUL[of "''photos''" "zeros (ATMOS_PATH_MAX - 7)"] by simp_all
  have none: "arr_holds c_str (lo_user_tags ?l) (lo_user_tag_count ?l) []" "arr_holds c_str (lo_system_tags ?l) (lo_system_tag_count ?l) []"
    by (simp_all add: arr_holds_def zero_list_objects_part_def)
  have utf8: "cl_enable_utf8_metadata sample_client \<noteq> 0 \<longrightarrow> escape_total ?E" by (simp add: sample_client_def)
  note node = sample_object_node_def sample_meta_node_def meta_field_def field_values_def List.map_filter_simps dir_nodes
  have ok: "\<forall>n \<in> set [sample_object_node]. \<forall>c \<in> set (xn_children n). entry_child_ok c"
    by (simp add: node entry_child_ok_def system_list_ok_def texts_ok_def texts_deep_def system_entry_ok_def system_times_def literals)
  have server: "\<forall>sent base body blocks. transfers ?E sample_client sent ?rs base body blocks \<longrightarrow>
      http_code base = 200 \<and> lists_objects ?E base [sample_object_node]"
  proof (intro allI impI)
    fix sent base body blocks
    assume "transfers ?E sample_client sent ?rs base body blocks"
    from answering_base[OF this[unfolded objects_env_def]]
    have b: "http_code base = 200" "rs_body base = ''<list/>''" "rs_content_length base = 7" by simp_all
    have "xmlReadMemory ?E ''<list/>'' 7 = Some (Some (XmlNode True ''Error'' (Some []) []))"
      by (simp add: xmlReadMemory_def objects_env_def answering_def list_env_def to_int32_def)
    then have "lists_objects ?E base [sample_object_node]" unfolding lists_objects_def
      using ok by (simp add: b AtmosUtil_count_nodes_def) (simp add: objects_env_def answering_def)
    then show "http_code base = 200 \<and> lists_objects ?E base [sample_object_node]" by (simp add: b)
  qed
  from objects_listed[OF objects_env_ok utf8 rq(1) page rq(2) tag none server]
  obtain rq' rs' d where r: "AtmosClient_list_objects ?E sample_client (sample_objects_request, ?rs) = Some (rq', rs')"
    "sub_of rs' = Some (ListObjects_response d)" "list_all2 (listing_shown ?E) [sample_object_node] (or_results d)"
    by (elim exE conjE) (rule that)
  then obtain e where e: "or_results d = [e]" "listing_shown ?E sample_object_node e" by (auto simp: list_all2_Cons1)
  have m: "metadata_shown ?E (xn_children sample_object_node) (ol_parent e)" "buffer_text (ol_object_id e) = ''4ee696e4''"
    using e(2) by (simp_all add: listing_shown_def) (simp add: node)
  have l: "length (user_lists (xn_children sample_object_node)) \<le> 1" "user_pairs True (xn_children sample_object_node) = [(''photos'', ''2012'')]"
    "system_pairs (xn_children sample_object_node) = [(''size'', ''12'')]"
    by (simp_all add: user_pairs_def user_lists_def is_list_def system_pairs_def list_pairs_def field_pair_def meta_elements_def cut_entry_def node)
  have "strtoll ''12'' = 12" by code_simp
  then have "sm_size (om_system_metadata (ol_parent e)) = 12"
    using m(1) l(3) by (simp add: metadata_shown_def system_read_def values_of_def last_or_def literals)
  moreover have "arr_holds stored_pair (om_listable_meta (ol_parent e)) (om_listable_meta_count (ol_parent e)) [(''photos'', ''2012'')]"
    using m(1) l(1,2) by (simp add: metadata_shown_def)
  ultimately show ?thesis using r(1,2) e(1) m(2) by blast
qed

end
