(* ===== verification/Tag_Laws.thy ===== *)
theory Tag_Laws
  imports Version_Laws
begin

text \<open>
  The operation that lists the tags objects are listed under: from the header of the answer, which may go over any
  number of tags, encoded or not, to the array of the caller's response.
\<close>

section \<open>Listable tags\<close>

text \<open>
  The tags a header lists: the pieces between commas without their leading spaces; a last piece
  that is blank does not count.
\<close>

definition strip_spaces :: "string \<Rightarrow> string" where
  "strip_spaces s = dropWhile (\<lambda>c. c = CHR '' '') s"

definition tag_pieces :: "string \<Rightarrow> string list" where
  "tag_pieces s = (let ps = map strip_spaces (split_on CHR '','' s) in if last ps = [] then butlast ps else ps)"

definition tag_value :: "env \<Rightarrow> bool \<Rightarrow> string \<Rightarrow> string" where
  "tag_value E utf8 p = (if utf8 then buffer_text (the (curl_easy_unescape E p)) else p)"

lemma tag_pieces_Nil [simp]: "tag_pieces [] = []"
  by (simp add: tag_pieces_def strip_spaces_def)

lemma tag_pieces_space: "tag_pieces (CHR '' '' # s) = tag_pieces s"
proof -
  obtain p ps where "split_on CHR '','' s = p # ps" using split_on_nonempty[of "CHR '',''" s] by (cases "split_on CHR '','' s") auto
  then show ?thesis by (simp add: tag_pieces_def strip_spaces_def)
qed

lemma tag_pieces_comma:
  assumes "CHR '','' \<notin> set p" "strip_spaces p = p"
  shows "tag_pieces (p @ CHR '','' # s) = p # tag_pieces s"
  using assms by (simp add: tag_pieces_def split_on_append Let_def)

lemma tag_pieces_single: "CHR '','' \<notin> set p \<Longrightarrow> strip_spaces p = p \<Longrightarrow> p \<noteq> [] \<Longrightarrow> tag_pieces p = [p]"
  by (simp add: tag_pieces_def split_on_notin)

lemma strip_spaces_Cons: "x \<noteq> CHR '' '' \<Longrightarrow> strip_spaces (x # xs) = x # xs"
  by (simp add: strip_spaces_def)

text \<open>One tag is decoded as a whole, unless it is empty.\<close>

lemma decode_tag_value:
  assumes "mem_ok E" "c = length p" "take c tag = p" "utf8 \<Longrightarrow> p \<noteq> [] \<and> curl_easy_unescape E p \<noteq> None"
  shows "decode_tag E utf8 tag c = Some (Some (tag_value E utf8 p))"
proof (cases utf8)
  case True
  then obtain d where "curl_easy_unescape E p = Some d" using assms(4) by blast
  then show ?thesis using assms True by (simp add: decode_tag_def tag_value_def mem_ok_def)
qed (use assms in \<open>simp add: decode_tag_def tag_value_def mem_ok_def\<close>)

lemma tags_loop_entry:
  assumes "mem_ok E" "tag = x # xs" "x \<noteq> CHR '' ''"
    and "decode_tag E utf8 tag (case strstr tag '','' of None \<Rightarrow> length tag | Some i \<Rightarrow> i) = Some entry"
  shows "\<exists>m. tags_loop E utf8 tag n tags = (case strstr tag '','' of
      None \<Rightarrow> Some (True, tags @ [entry]) | Some i \<Rightarrow> tags_loop E utf8 (drop (i + 1) tag) m (tags @ [entry]))"
proof -
  have "tags_loop E utf8 tag n tags =
      (case decode_tag E utf8 tag (case strstr tag '','' of None \<Rightarrow> length tag | Some i \<Rightarrow> i) of
         None \<Rightarrow> None
       | Some entry \<Rightarrow> (case strstr tag '','' of
           None \<Rightarrow> Some (True, tags @ [entry])
         | Some i \<Rightarrow> tags_loop E utf8 (drop (i + 1) tag) (if length tags + 1 > n then n + 100 else n) (tags @ [entry])))"
    unfolding assms(2) by (subst tags_loop.simps) (use assms(1,3) in \<open>simp add: Let_def mem_ok_def del: strstr.simps\<close>)
  then show ?thesis using assms(4) by auto
qed

lemma tags_loop_pieces:
  assumes "mem_ok E" "utf8 \<Longrightarrow> \<forall>p \<in> set (tag_pieces tag). p \<noteq> [] \<and> curl_easy_unescape E p \<noteq> None"
  shows "tags_loop E utf8 tag n tags = Some (True, tags @ map (\<lambda>p. Some (tag_value E utf8 p)) (tag_pieces tag))"
  using assms(2)
proof (induction "length tag" arbitrary: tag n tags rule: less_induct)
  case less
  show ?case
  proof (cases tag)
    case Nil then show ?thesis by (simp add: tags_loop.simps[of E utf8 "[]"])
  next
    case (Cons x xs)
    show ?thesis
    proof (cases "x = CHR '' ''")
      case True
      then show ?thesis using less.hyps[of xs n tags] less.prems Cons
        by (simp add: tags_loop.simps[of E utf8 "CHR '' '' # xs"] tag_pieces_space)
    next
      case space: False
      have stripped: "strip_spaces tag = tag" using space Cons by (simp add: strip_spaces_Cons)
      show ?thesis
      proof (cases "CHR '','' \<in> set tag")
        case False
        have "strstr tag '','' = None" using False by (simp add: strstr_char)
        moreover have "decode_tag E utf8 tag (length tag) = Some (Some (tag_value E utf8 tag))"
          by (rule decode_tag_value[OF assms(1)]) (use less.prems tag_pieces_single[OF False stripped] Cons in auto)
        ultimately show ?thesis
          using tags_loop_entry[OF assms(1) Cons space, of utf8] tag_pieces_single[OF False stripped] Cons by force
      next
        case True
        define p s where "p = takeWhile (\<lambda>c. c \<noteq> CHR '','') tag" and "s = drop (Suc (length p)) tag"
        have tag: "tag = p @ CHR '','' # s" unfolding p_def s_def by (rule split_at_first[OF True])
        have p: "CHR '','' \<notin> set p" unfolding p_def by (rule takeWhile_neq_set)
        have sp: "strip_spaces p = p" using tag space Cons by (cases p) (auto simp: strip_spaces_def)
        have pieces: "tag_pieces tag = p # tag_pieces s" unfolding tag by (rule tag_pieces_comma[OF p sp])
        have "strstr tag '','' = Some (length p)" using True by (simp add: strstr_char p_def)
        moreover have "decode_tag E utf8 tag (length p) = Some (Some (tag_value E utf8 p))"
          by (rule decode_tag_value[OF assms(1)]) (use less.prems pieces in \<open>auto simp: tag\<close>)
        moreover have "drop (length p + 1) tag = s" by (simp add: s_def)
        moreover have "tags_loop E utf8 s m ts = Some (True, ts @ map (\<lambda>p. Some (tag_value E utf8 p)) (tag_pieces s))" for m ts
          by (rule less.hyps) (use less.prems pieces in \<open>auto simp: tag\<close>)
        ultimately show ?thesis
          using tags_loop_entry[OF assms(1) Cons space, of utf8 "Some (tag_value E utf8 p)" n tags] by (auto simp: pieces)
      qed
    qed
  qed
qed

lemma tag_pieces_join:
  assumes "\<forall>q \<in> set ps. CHR '','' \<notin> set q \<and> strip_spaces q \<noteq> []"
  shows "tag_pieces (join_with '','' ps) = map strip_spaces ps"
proof (cases "ps = []")
  case False
  then have "split_on CHR '','' (join_with '','' ps) = ps" using assms by (intro split_on_join) auto
  moreover have "last (map strip_spaces ps) \<noteq> []" using False assms by (simp add: last_map)
  ultimately show ?thesis by (simp add: tag_pieces_def Let_def)
qed simp

section \<open>The answer\<close>

text \<open>
  What the server lists: tags that are not empty and, unless they are encoded, contain no comma and do not begin with a space; each may be
  preceded by spaces.
\<close>

definition tags_utf8 :: "env \<Rightarrow> RestResponse \<Rightarrow> bool" where
  "tags_utf8 E base \<longleftrightarrow> RestResponse_get_header_value E base ATMOS_HEADER_UTF8 = Some ''true''"

definition tag_ok :: "bool \<Rightarrow> string \<Rightarrow> bool" where
  "tag_ok utf8 t \<longleftrightarrow> cstring t \<and> t \<noteq> [] \<and> (\<not> utf8 \<longrightarrow> CHR '','' \<notin> set t \<and> hd t \<noteq> CHR '' '')"

definition shows_tag :: "env \<Rightarrow> bool \<Rightarrow> string \<Rightarrow> string \<Rightarrow> bool" where
  "shows_tag E utf8 q t \<longleftrightarrow> (\<exists>k. q = replicate k (CHR '' '') @ (if utf8 then the (curl_easy_escape E t) else t))"

definition shows_tags :: "env \<Rightarrow> RestResponse \<Rightarrow> string list \<Rightarrow> bool" where
  "shows_tags E base ts \<longleftrightarrow>
     (case RestResponse_get_header_value E base ATMOS_HEADER_LISTABLE_TAGS of
        None \<Rightarrow> ts = []
      | Some v \<Rightarrow> (\<exists>qs. v = join_with '','' qs \<and> list_all2 (shows_tag E (tags_utf8 E base)) qs ts))"

lemma strip_spaces_replicate: "e = [] \<or> hd e \<noteq> CHR '' '' \<Longrightarrow> strip_spaces (replicate k (CHR '' '') @ e) = e"
  by (induction k) (cases e, auto simp: strip_spaces_def)

lemma escape_nonempty:
  assumes "curl_codec_ok E" "cstring t" "t \<noteq> []"
  shows "\<exists>e. curl_easy_escape E t = Some e \<and> e \<noteq> [] \<and> curl_easy_unescape E e = Some t \<and> CHR '','' \<notin> set e \<and> hd e \<noteq> CHR '' ''"
proof -
  have "\<exists>e. curl_easy_unescape E e = Some [] \<and> length e \<le> 3 * length ([] :: string)"
    using assms(1) cstring_Nil unfolding curl_codec_ok_def by blast
  then have empty: "curl_easy_unescape E [] = Some []" by auto
  obtain e where e: "curl_easy_escape E t = Some e" "curl_easy_unescape E e = Some t"
    "\<forall>c \<in> set e. c \<noteq> CHR '','' \<and> c \<noteq> CHR ''='' \<and> c \<noteq> CHR '' ''"
    using assms(1,2) unfolding curl_codec_ok_def by blast
  have "e \<noteq> []" using e(2) empty assms(3) by (metis option.inject)
  with e(3) have "hd e \<noteq> CHR '' ''" "CHR '','' \<notin> set e" using hd_in_set[OF \<open>e \<noteq> []\<close>] by blast+
  with e(1,2) \<open>e \<noteq> []\<close> show ?thesis by simp
qed

lemma shown_tag_piece:
  assumes "curl_codec_ok E \<or> \<not> utf8" "tag_ok utf8 t" "shows_tag E utf8 q t"
  shows "CHR '','' \<notin> set q" "strip_spaces q \<noteq> []" "tag_value E utf8 (strip_spaces q) = t"
    "utf8 \<Longrightarrow> curl_easy_unescape E (strip_spaces q) \<noteq> None"
proof -
  define e where "e = (if utf8 then the (curl_easy_escape E t) else t)"
  have t: "cstring t" "t \<noteq> []" "\<not> utf8 \<Longrightarrow> CHR '','' \<notin> set t" "\<not> utf8 \<Longrightarrow> hd t \<noteq> CHR '' ''" using assms(2) by (auto simp: tag_ok_def)
  have e: "e \<noteq> []" "CHR '','' \<notin> set e" "hd e \<noteq> CHR '' ''" "utf8 \<Longrightarrow> curl_easy_unescape E e = Some t" "\<not> utf8 \<Longrightarrow> e = t"
    using escape_nonempty[of E t] assms(1) t by (auto simp: e_def)
  obtain k where q: "q = replicate k (CHR '' '') @ e" using assms(3) by (auto simp: shows_tag_def e_def)
  then have s: "strip_spaces q = e" using strip_spaces_replicate[of e k] e(3) by simp
  show "CHR '','' \<notin> set q" using e(2) by (auto simp: q)
  show "strip_spaces q \<noteq> []" "utf8 \<Longrightarrow> curl_easy_unescape E (strip_spaces q) \<noteq> None" using e(1,4) by (simp_all add: s)
  show "tag_value E utf8 (strip_spaces q) = t" using e(4,5) t(1) by (cases utf8) (auto simp: s tag_value_def buffer_text_def cdefs)
qed

lemma shown_tag_pieces:
  assumes "curl_codec_ok E \<or> \<not> utf8" "\<forall>t \<in> set ts. tag_ok utf8 t" "list_all2 (shows_tag E utf8) qs ts"
  shows "\<forall>q \<in> set qs. CHR '','' \<notin> set q \<and> strip_spaces q \<noteq> [] \<and> (utf8 \<longrightarrow> curl_easy_unescape E (strip_spaces q) \<noteq> None)"
    "map (\<lambda>q. Some (tag_value E utf8 (strip_spaces q))) qs = map Some ts"
  using assms(3,2) by (induction rule: list_all2_induct) (use shown_tag_piece[OF assms(1)] in auto)

lemma parse_piece_tags:
  assumes "mem_ok E" "RestResponse_get_header_value E (s_base rs) ATMOS_HEADER_LISTABLE_TAGS = Some (join_with '','' pieces)"
    and "utf8 = tags_utf8 E (s_base rs)"
    and "\<forall>q \<in> set pieces. CHR '','' \<notin> set q \<and> strip_spaces q \<noteq> [] \<and> (utf8 \<longrightarrow> curl_easy_unescape E (strip_spaces q) \<noteq> None)"
  shows "parse_listable_tags E rs t =
     Some (t\<lparr>gt_tags := map (\<lambda>q. Some (tag_value E utf8 (strip_spaces q))) pieces, gt_token := next_token E rs (gt_token t)\<rparr>)"
proof -
  have pieces: "tag_pieces (join_with '','' pieces) = map strip_spaces pieces" by (rule tag_pieces_join) (use assms(4) in blast)
  have "tags_loop E utf8 (join_with '','' pieces) 100 [] =
      Some (True, map (\<lambda>q. Some (tag_value E utf8 (strip_spaces q))) pieces)"
    using tags_loop_pieces[OF assms(1), of utf8 "join_with '','' pieces" 100 "[]"] assms(4) by (auto simp: pieces o_def)
  then show ?thesis using assms(1-3) by (simp add: parse_listable_tags_def mem_ok_def tags_utf8_def)
qed

lemma parse_shown_tags:
  assumes "mem_ok E" "curl_codec_ok E \<or> \<not> tags_utf8 E (s_base rs)" "\<forall>t \<in> set ts. tag_ok (tags_utf8 E (s_base rs)) t"
    and "shows_tags E (s_base rs) ts"
  shows "parse_listable_tags E rs t = Some (t\<lparr>gt_tags := map Some ts, gt_token := next_token E rs (gt_token t)\<rparr>)"
proof (cases "RestResponse_get_header_value E (s_base rs) ATMOS_HEADER_LISTABLE_TAGS")
  case None
  then show ?thesis using assms(4) by (simp add: shows_tags_def parse_listable_tags_def)
next
  case (Some v)
  then obtain qs where qs: "v = join_with '','' qs" "list_all2 (shows_tag E (tags_utf8 E (s_base rs))) qs ts"
    using assms(4) by (auto simp: shows_tags_def)
  note p = shown_tag_pieces[OF assms(2,3) qs(2)]
  show ?thesis using parse_piece_tags[OF assms(1) Some[unfolded qs(1)] refl p(1)] by (simp only: p(2))
qed

section \<open>The operation\<close>

lemma tags_request_prepared:
  assumes "rest_client_ok E" "r_sub rq = Paginated_request p (GetListableTags_sub parent)" "c_str parent = Some parent_text" "sendable rq"
  shows "\<exists>rq1. tags_prepare E c rq = Some rq1 \<and> r_sub rq1 = r_sub rq \<and> sendable rq1"
proof -
  have "good_line (snprintf_text (ATMOS_PATH_MAX + 12) (ATMOS_HEADER_TAGS @ '': '' @ parent_text))"
    using good_line_snprintf[of ATMOS_HEADER_TAGS "CHR '' '' # parent_text" "ATMOS_PATH_MAX + 12"] c_str_cstring[OF assms(3)]
    by (simp add: literals)
  moreover have "good_line utf8_header" by (simp add: good_line_def utf8_header_def)
  ultimately show ?thesis using assms(2-4) by (auto simp: tags_prepare_def Let_def sendable_add_header[OF assms(1)])
qed

text \<open>
  C11: Listing the listable tags works end to end: for any page and below any parent tag, the request goes out signed, and when the server
  answers with tags, the operation returns; the array of the response then holds exactly these tags in order (decoded when
  the answer is in UTF-8 mode, without the spaces the server put between them), however many they are, and the token is
  that of the next page.
\<close>

theorem listable_tags_listed:
  assumes "mem_ok E" "base64_ok E" "rest_library_ok E hs" "client_ok E c"
    and "r_sub rq = Paginated_request p (GetListableTags_sub parent)" "c_str parent = Some parent_text" "c_str (pg_token p) = Some token"
    and "sendable rq"
    and "\<forall>sent base body blocks. transfers E c sent (AtmosGetListableTagsResponse_init E) base body blocks \<longrightarrow>
       http_code base = 200 \<and> shows_tags E base ts \<and> (\<forall>t \<in> set ts. tag_ok (tags_utf8 E base) t) \<and> (curl_codec_ok E \<or> \<not> tags_utf8 E base)"
  shows "\<exists>rq' rs' t. AtmosClient_get_listable_tags E c (rq, AtmosGetListableTagsResponse_init E) = Some (rq', rs') \<and>
     sub_of rs' = Some (GetListableTags_response t) \<and> gt_tags t = map Some ts \<and>
     gt_token t = RestResponse_get_header_value E (s_base rs') ATMOS_HEADER_TOKEN \<and>
     answers_signed E c rq' (AtmosGetListableTagsResponse_init E) (s_base rs')"
proof -
  note lib = rest_library_okD(1)[OF assms(3)]
  let ?rs = "AtmosGetListableTagsResponse_init E"
  let ?xs = "[(AtmosFilter_set_pagination_headers E, \<lambda>c. pagination_prepare E, Some),
     (AtmosFilter_get_listable_tags E, tags_prepare E, on_success (tags_answer E))] :: halves list"
  obtain rq0 where rq0: "tags_prepare E c rq = Some rq0" "r_sub rq0 = r_sub rq" "sendable rq0"
    using tags_request_prepared[OF lib assms(5,6,8)] by blast
  obtain rq1 where rq1: "pagination_prepare E rq0 = Some rq1" "sendable rq1"
    using page_request_prepared[OF lib _ assms(7) rq0(3)] rq0(2) assms(5) by auto
  have halves: "\<forall>x \<in> set ?xs. halves_of x" by auto
  have prepared: "foldM (\<lambda>rq x. fst (snd x) c rq) rq (rev ?xs) = Some rq1" using rq0(1) rq1(1) by simp
  obtain rq' base where base: "http_code base = 200" "shows_tags E base ts \<and> (\<forall>t \<in> set ts. tag_ok (tags_utf8 E base) t) \<and>
      (curl_codec_ok E \<or> \<not> tags_utf8 E base)"
    "execute E c (map fst ?xs) (rq, ?rs) = foldM (\<lambda>st fin. fin st) (rq', ?rs\<lparr>s_base := base\<rparr>) (map (snd \<circ> snd) ?xs)"
    "answers_signed E c rq' ?rs base"
    using execute_answered[OF assms(1-4) halves prepared rq1(2) assms(9)] by blast
  obtain a where a: "s_atmos ?rs = Some (a, GetListableTags_response zero_tags_response_part)"
    by (simp add: AtmosGetListableTagsResponse_init_def set_response_class_def AtmosResponse_init_def)
  let ?t = "zero_tags_response_part\<lparr>gt_tags := map Some ts, gt_token := RestResponse_get_header_value E base ATMOS_HEADER_TOKEN\<rparr>"
  have "parse_listable_tags E (?rs\<lparr>s_base := base\<rparr>) zero_tags_response_part = Some ?t"
    using parse_shown_tags[OF assms(1), of "?rs\<lparr>s_base := base\<rparr>" ts] base(2)
    by (simp add: next_token_def zero_tags_response_part_def split: option.split)
  then have "tags_answer E (?rs\<lparr>s_base := base\<rparr>) = Some (?rs\<lparr>s_base := base, s_atmos := Some (a, GetListableTags_response ?t)\<rparr>)"
    using a by (simp add: tags_answer_def)
  then have "AtmosClient_get_listable_tags E c (rq, ?rs) = Some (rq', ?rs\<lparr>s_base := base, s_atmos := Some (a, GetListableTags_response ?t)\<rparr>)"
    using base(1,3) by (simp add: AtmosClient_get_listable_tags_def on_success_def)
  then show ?thesis using base(4) by (auto simp: sub_of_def)
qed

theorem listable_tags_listed_witness:
  "\<exists>rq' rs' t. AtmosClient_get_listable_tags (answering_env 200 [''x-emc-listable-tags: photos, two words'', ''x-emc-token: page2'']) sample_client
       (the (AtmosGetListableTagsRequest_init (answering_env 200 [''x-emc-listable-tags: photos, two words'', ''x-emc-token: page2'']) None),
        AtmosGetListableTagsResponse_init (answering_env 200 [''x-emc-listable-tags: photos, two words'', ''x-emc-token: page2''])) = Some (rq', rs') \<and>
     sub_of rs' = Some (GetListableTags_response t) \<and> gt_tags t = [Some ''photos'', Some ''two words'']"
proof -
  let ?lines = "[''x-emc-listable-tags: photos, two words'', ''x-emc-token: page2'']"
  let ?E = "answering_env 200 ?lines"
  let ?rq = "the (AtmosGetListableTagsRequest_init ?E None)" and ?rs = "AtmosGetListableTagsResponse_init ?E"
  have c: "client_ok ?E sample_client" using answering_env_ok(4) by (simp add: client_ok_def sample_client_def)
  have rq: "r_sub ?rq = Paginated_request zero_page_part (GetListableTags_sub (zeros ATMOS_PATH_MAX))" "sendable ?rq"
    by (simp_all add: AtmosGetListableTagsRequest_init_def AtmosPaginatedRequest_init_def new_request_def set_class_def sendable_def
        answering_env_def answering_def list_env_def)
  have texts: "c_str (zeros ATMOS_PATH_MAX) = Some []" "c_str (pg_token zero_page_part) = Some []" by (simp_all add: zero_page_part_def)
  have server: "\<forall>sent base body blocks. transfers ?E sample_client sent ?rs base body blocks \<longrightarrow>
      http_code base = 200 \<and> shows_tags ?E base [''photos'', ''two words''] \<and> (\<forall>t \<in> set [''photos'', ''two words'']. tag_ok (tags_utf8 ?E base) t) \<and>
      (curl_codec_ok ?E \<or> \<not> tags_utf8 ?E base)"
  proof (intro allI impI)
    fix sent base body blocks
    assume "transfers ?E sample_client sent ?rs base body blocks"
    from answering_base[OF this[unfolded answering_env_def]]
    have b: "http_code base = 200" "rs_headers base = ?lines" by simp_all
    have look: "RestResponse_get_header_value ?E base n = lookup_header ?lines n" for n
      using b(2) by (simp add: answering_env_def answering_def list_env_def)
    have l: "lookup_header ?lines ATMOS_HEADER_LISTABLE_TAGS = Some (join_with '','' [''photos'', '' two words''])"
      "lookup_header ?lines ATMOS_HEADER_UTF8 = None" by code_simp+
    have u: "\<not> tags_utf8 ?E base" by (simp add: tags_utf8_def look l)
    have "shows_tag ?E False ''photos'' ''photos''" "shows_tag ?E False '' two words'' ''two words''"
      unfolding shows_tag_def by (rule exI[of _ 0], simp) (rule exI[of _ 1], simp)
    then have "\<exists>qs. join_with '','' [''photos'', '' two words''] = join_with '','' qs \<and> list_all2 (shows_tag ?E False) qs [''photos'', ''two words'']"
      by (intro exI[of _ "[''photos'', '' two words'']"]) simp
    then have "shows_tags ?E base [''photos'', ''two words'']" unfolding shows_tags_def look l(1) option.case using u by (simp only:)
    then show "http_code base = 200 \<and> shows_tags ?E base [''photos'', ''two words''] \<and>
      (\<forall>t \<in> set [''photos'', ''two words'']. tag_ok (tags_utf8 ?E base) t) \<and> (curl_codec_ok ?E \<or> \<not> tags_utf8 ?E base)"
      using u by (simp add: b(1) tag_ok_def)
  qed
  from listable_tags_listed[OF answering_env_ok(1-3) c rq(1) texts rq(2) server]
  show ?thesis by (elim exE conjE) (intro exI conjI, assumption+, simp)
qed

end
