(* ===== verification/Info_Laws.thy ===== *)
theory Info_Laws
  imports Version_Laws
begin

text \<open>
  The information about an object: from the values of the server's answer to the structure of the
  caller's response, with the array of the replicas and the retention and expiration periods.
\<close>

section \<open>What the server knows\<close>

text \<open>A replica has an ID, a type, whether it is current, a location and a storage type.\<close>

type_synonym replica = "int \<times> string \<times> bool \<times> string \<times> string"

text \<open>A period is enabled or not and may have an end.\<close>

type_synonym period = "bool \<times> tm option"

record info =
  info_id :: string
  info_selection :: string
  info_replicas :: "replica list"
  info_retention :: period
  info_expiration :: period

definition fits :: "nat \<Rightarrow> string \<Rightarrow> bool" where
  "fits n s \<longleftrightarrow> cstring s \<and> length s < n"

definition replica_ok :: "replica \<Rightarrow> bool" where
  "replica_ok r \<longleftrightarrow> (case r of (i, ty, current, location, storage) \<Rightarrow> - (2 ^ 31) \<le> i \<and> i < 2 ^ 31 \<and> fits 16 ty \<and>
     fits ATMOS_SIMPLE_HEADER_MAX location \<and> fits ATMOS_SIMPLE_HEADER_MAX storage)"

definition info_ok :: "info \<Rightarrow> bool" where
  "info_ok x \<longleftrightarrow> fits ATMOS_OID_LENGTH (info_id x) \<and> fits ATMOS_SIMPLE_HEADER_MAX (info_selection x) \<and>
     (\<forall>r \<in> set (info_replicas x). replica_ok r) \<and> int (length (info_replicas x)) < 2 ^ 31 \<and>
     (\<forall>t. snd (info_retention x) = Some t \<or> snd (info_expiration x) = Some t \<longrightarrow> tm_ok t)"

text \<open>How an answer shows it.\<close>

definition boolean :: "bool \<Rightarrow> string" where
  "boolean b = (if b then ''true'' else ''false'')"

abbreviation node_text :: "env \<Rightarrow> xml_node \<Rightarrow> string \<Rightarrow> string option" where
  "node_text E doc path \<equiv> AtmosUtil_select_single_node_value E doc path True"

definition replica_field :: "nat \<Rightarrow> string \<Rightarrow> string" where
  "replica_field i field = ''//cos:replicas/cos:replica['' @ show_int (int i) @ '']/cos:'' @ field"

definition shows_replica :: "env \<Rightarrow> xml_node \<Rightarrow> nat \<Rightarrow> replica \<Rightarrow> bool" where
  "shows_replica E doc i r \<longleftrightarrow> (case r of (k, ty, current, location, storage) \<Rightarrow>
     node_text E doc (replica_field i ''id'') = Some (show_int k) \<and> node_text E doc (replica_field i ''type'') = Some ty \<and>
     node_text E doc (replica_field i ''current'') = Some (boolean current) \<and>
     node_text E doc (replica_field i ''location'') = Some location \<and> node_text E doc (replica_field i ''storageType'') = Some storage)"

definition shows_period :: "env \<Rightarrow> xml_node \<Rightarrow> string \<Rightarrow> period \<Rightarrow> bool" where
  "shows_period E doc name p \<longleftrightarrow>
     node_text E doc (''//cos:'' @ name @ ''/cos:enabled'') = Some (boolean (fst p)) \<and>
     (case snd p of
        None \<Rightarrow> node_text E doc (''//cos:'' @ name @ ''/cos:endAt'') \<in> {None, Some []}
      | Some t \<Rightarrow> node_text E doc (''//cos:'' @ name @ ''/cos:endAt'') = Some (iso_text t @ ''Z''))"

definition shows_info :: "env \<Rightarrow> xml_node \<Rightarrow> info \<Rightarrow> bool" where
  "shows_info E doc x \<longleftrightarrow> node_text E doc ''//cos:objectId'' = Some (info_id x) \<and>
     node_text E doc ''//cos:selection'' = Some (info_selection x) \<and>
     (\<exists>nodes. xmlXPathEval E doc True ''//cos:replicas/cos:replica'' = Some nodes \<and> length nodes = length (info_replicas x)) \<and>
     (\<forall>i < length (info_replicas x). shows_replica E doc (Suc i) (info_replicas x ! i)) \<and>
     shows_period E doc ''retention'' (info_retention x) \<and> shows_period E doc ''expiration'' (info_expiration x)"

section \<open>What the caller sees\<close>

definition replica_view :: "AtmosReplicaInfo \<Rightarrow> int \<times> string option \<times> int \<times> string option \<times> string option" where
  "replica_view r = (ri_id r, c_str (ri_type r), ri_current r, c_str (ri_location r), c_str (ri_storage_type r))"

definition replica_entry :: "replica \<Rightarrow> int \<times> string option \<times> int \<times> string option \<times> string option" where
  "replica_entry r = (case r of (k, ty, current, location, storage) \<Rightarrow> (k, Some ty, of_bool current, Some location, Some storage))"

definition period_entry :: "period \<Rightarrow> int \<times> int" where
  "period_entry p = (of_bool (fst p), case snd p of None \<Rightarrow> 0 | Some t \<Rightarrow> timegm t)"

definition holds_info :: "object_info_part \<Rightarrow> info \<Rightarrow> bool" where
  "holds_info p x \<longleftrightarrow> c_str (oi_object_id p) = Some (info_id x) \<and> c_str (oi_selection p) = Some (info_selection x) \<and>
     map replica_view (oi_replicas p) = map replica_entry (info_replicas x) \<and> oi_replica_count p = int (length (info_replicas x)) \<and>
     (oi_retention_enabled p, oi_retention_end p) = period_entry (info_retention x) \<and>
     (oi_expiration_enabled p, oi_expiration_end p) = period_entry (info_expiration x)"

section \<open>Replicas\<close>

lemma strncpy_holds:
  assumes "fits n s" "length b = n"
  shows "\<exists>b'. strncpy b s n = Some b' \<and> c_str b' = Some s"
proof -
  obtain b' where b': "strncpy b s n = Some b'" "length b' = n" "buffer_text b' = take n s"
    using strncpy_text[of s b n] assms by (auto simp: fits_def)
  then have "c_str b' = Some s" using buffer_text_c_str[of b'] assms(1) by (simp add: fits_def)
  then show ?thesis using b'(1) by blast
qed

lemma truth_boolean: "truth (boolean b) = of_bool b"
  by (simp add: truth_def boolean_def)

lemma replica_path_whole:
  assumes "int i < 2 ^ 31" "length field \<le> 20"
  shows "replica_path i field = replica_field i field"
proof -
  have "length (show_int (int i)) \<le> Suc 10" by (rule show_int_length) (use assms(1) in simp_all)
  then show ?thesis using assms(2) unfolding replica_path_def replica_field_def by (intro snprintf_text_id) simp
qed

lemma parse_replica_shown:
  assumes "replica_ok r" "shows_replica E doc (Suc i) r" "int (Suc i) < 2 ^ 31"
  shows "\<exists>e. parse_replica E doc i zero_replica_info = Some e \<and> replica_view e = replica_entry r"
proof -
  obtain k ty current location storage where r: "r = (k, ty, current, location, storage)" by (cases r)
  note ok = assms(1)[unfolded replica_ok_def r prod.case] and s = assms(2)[unfolded shows_replica_def r prod.case]
  have k: "to_int32 (strtoll (show_int k)) = k" using strtoll_show_int[of k] ok by (simp add: to_int32_def)
  obtain b1 where 1: "strncpy (zeros 16) ty 16 = Some b1" "c_str b1 = Some ty" using strncpy_holds[of 16 ty "zeros 16"] ok by auto
  obtain b2 where 2: "strncpy (zeros ATMOS_SIMPLE_HEADER_MAX) location ATMOS_SIMPLE_HEADER_MAX = Some b2" "c_str b2 = Some location"
    using strncpy_holds[of ATMOS_SIMPLE_HEADER_MAX location "zeros ATMOS_SIMPLE_HEADER_MAX"] ok by auto
  obtain b3 where 3: "strncpy (zeros ATMOS_SIMPLE_HEADER_MAX) storage ATMOS_SIMPLE_HEADER_MAX = Some b3" "c_str b3 = Some storage"
    using strncpy_holds[of ATMOS_SIMPLE_HEADER_MAX storage "zeros ATMOS_SIMPLE_HEADER_MAX"] ok by auto
  show ?thesis using replica_path_whole[OF assms(3)] s 1 2 3
    by (simp add: parse_replica_def set_value_def zero_replica_info_def Let_def replica_view_def replica_entry_def r k truth_boolean)
qed

text \<open>The loop that fills the array.\<close>

lemma fill_array:
  assumes "\<forall>i < n. \<exists>r. f i z = Some r \<and> P i r"
  shows "\<exists>rs. foldM (\<lambda>rs i. do { r \<leftarrow> arr_get rs (int i); r \<leftarrow> f i r; arr_set rs (int i) r }) (replicate n z) [0..<n] = Some rs \<and>
     length rs = n \<and> (\<forall>i < n. P i (rs ! i))"
proof -
  let ?step = "\<lambda>rs i. do { r \<leftarrow> arr_get rs (int i); r \<leftarrow> f i r; arr_set rs (int i) r }"
  have "\<exists>rs. foldM ?step (replicate n z) [0..<k] = Some rs \<and> length rs = n \<and> (\<forall>i < k. P i (rs ! i)) \<and> (\<forall>i. k \<le> i \<and> i < n \<longrightarrow> rs ! i = z)"
    if "k \<le> n" for k using that
  proof (induction k)
    case (Suc k)
    then obtain rs where rs: "foldM ?step (replicate n z) [0..<k] = Some rs" "length rs = n" "\<forall>i < k. P i (rs ! i)"
      "\<forall>i. k \<le> i \<and> i < n \<longrightarrow> rs ! i = z" by auto
    obtain r where r: "f k z = Some r" "P k r" using assms Suc.prems by (meson Suc_le_lessD)
    have "?step rs k = Some (rs[k := r])" using rs(2,4) r(1) Suc.prems by (simp add: arr_get_nat arr_set_nat)
    then show ?case using rs r(2) Suc.prems by (intro exI[of _ "rs[k := r]"]) (auto simp: nth_list_update less_Suc_eq)
  qed simp
  from this[of n] show ?thesis by auto
qed

lemma parse_replicas_shown:
  assumes "mem_ok E" "info_ok x" "shows_info E doc x" "oi_replicas p = []" "oi_replica_count p = 0"
  shows "\<exists>rs. parse_replicas E doc p = Some (p\<lparr>oi_replicas := rs, oi_replica_count := int (length (info_replicas x))\<rparr>) \<and>
     map replica_view rs = map replica_entry (info_replicas x)"
proof -
  let ?n = "length (info_replicas x)"
  obtain nodes where nodes: "xmlXPathEval E doc True ''//cos:replicas/cos:replica'' = Some nodes" "length nodes = ?n"
    using assms(3) unfolding shows_info_def by blast
  show ?thesis
  proof (cases "?n = 0")
    case True
    moreover have "p = p\<lparr>oi_replicas := [], oi_replica_count := 0\<rparr>" using assms(4,5) by simp
    ultimately show ?thesis using nodes by (simp add: parse_replicas_def AtmosUtil_select_nodes_def)
  next
    case False
    have "\<forall>i < ?n. \<exists>e. parse_replica E doc i zero_replica_info = Some e \<and> replica_view e = replica_entry (info_replicas x ! i)"
      using parse_replica_shown[of "info_replicas x ! i" E doc i for i] assms(2,3) by (auto simp: info_ok_def shows_info_def)
    from fill_array[where f = "parse_replica E doc" and z = zero_replica_info and
        P = "\<lambda>i e. replica_view e = replica_entry (info_replicas x ! i)", OF this] obtain rs where
      "foldM (\<lambda>rs i. do { r \<leftarrow> arr_get rs (int i); r \<leftarrow> parse_replica E doc i r; arr_set rs (int i) r })
         (replicate ?n zero_replica_info) [0..<?n] = Some rs"
      "length rs = ?n" "\<forall>i < ?n. replica_view (rs ! i) = replica_entry (info_replicas x ! i)" by blast
    moreover from this have "map replica_view rs = map replica_entry (info_replicas x)" by (intro nth_equalityI) simp_all
    moreover have "nodes \<noteq> []" "alloc_ok E (?n * sizeof E ''AtmosReplicaInfo'')" using False nodes(2) assms(1) by (auto simp: mem_ok_def)
    ultimately have "parse_replicas E doc p = Some (p\<lparr>oi_replicas := rs, oi_replica_count := int ?n\<rparr>)"
      "map replica_view rs = map replica_entry (info_replicas x)"
      using nodes by (simp_all add: parse_replicas_def AtmosUtil_select_nodes_def)
    then show ?thesis by blast
  qed
qed

section \<open>The answer\<close>

text \<open>The optional end of a period is read as its UTC time, a missing or empty one leaves 0.\<close>

lemma parse_end:
  assumes "have_tm_gmtoff E = mktime_uses_gmtoff E" "\<forall>t. snd q = Some t \<longrightarrow> tm_ok t" "shows_period E doc name q"
  shows "set_value (node_text E doc (''//cos:'' @ name @ ''/cos:endAt''))
      (\<lambda>v s. if length v > 0 then do { t \<leftarrow> AtmosUtil_parse_xml_datetime E v; Some (upd t s) } else Some s) self =
     Some (case snd q of None \<Rightarrow> self | Some t \<Rightarrow> upd (timegm t) self)"
proof (cases "snd q")
  case None
  then show ?thesis using assms(3) by (auto simp: shows_period_def set_value_def)
next
  case (Some t)
  have "AtmosUtil_parse_xml_datetime E (iso_text t @ ''Z'') = Some (timegm t)"
    using parse_iso_datetime[of t "CHR ''Z''" E] assms(1,2) Some by (simp add: mktime_def)
  then show ?thesis using assms(3) Some by (simp add: shows_period_def set_value_def)
qed

lemma parse_shown_info:
  assumes "mem_ok E" "have_tm_gmtoff E = mktime_uses_gmtoff E" "info_ok x" "shows_info E doc x"
    and "xmlReadMemory E xml n = Some (Some doc)"
  shows "\<exists>p. AtmosGetObjectInfoResponse_parse E zero_object_info_part xml n = Some p \<and> holds_info p x"
proof -
  note s = assms(4)[unfolded shows_info_def] and ok = assms(3)[unfolded info_ok_def]
  obtain b1 where 1: "strncpy (zeros ATMOS_OID_LENGTH) (info_id x) ATMOS_OID_LENGTH = Some b1" "c_str b1 = Some (info_id x)"
    using strncpy_holds[of ATMOS_OID_LENGTH "info_id x" "zeros ATMOS_OID_LENGTH"] ok by auto
  obtain b2 where 2: "strncpy (zeros ATMOS_SIMPLE_HEADER_MAX) (info_selection x) ATMOS_SIMPLE_HEADER_MAX = Some b2"
    "c_str b2 = Some (info_selection x)"
    using strncpy_holds[of ATMOS_SIMPLE_HEADER_MAX "info_selection x" "zeros ATMOS_SIMPLE_HEADER_MAX"] ok by auto
  let ?p = "zero_object_info_part\<lparr>oi_object_id := b1, oi_selection := b2\<rparr>"
  obtain rs where rs: "parse_replicas E doc ?p = Some (?p\<lparr>oi_replicas := rs, oi_replica_count := int (length (info_replicas x))\<rparr>)"
    "map replica_view rs = map replica_entry (info_replicas x)"
    using parse_replicas_shown[OF assms(1,3,4), of ?p] by (auto simp: zero_object_info_part_def)
  have p: "shows_period E doc ''retention'' (info_retention x)" "shows_period E doc ''expiration'' (info_expiration x)"
    and t: "\<forall>t. snd (info_retention x) = Some t \<longrightarrow> tm_ok t" "\<forall>t. snd (info_expiration x) = Some t \<longrightarrow> tm_ok t"
    using s ok by blast+
  have on: "node_text E doc ''//cos:retention/cos:enabled'' = Some (boolean (fst (info_retention x)))"
    "node_text E doc ''//cos:expiration/cos:enabled'' = Some (boolean (fst (info_expiration x)))"
    using p by (simp_all add: shows_period_def)
  note ends = parse_end[OF assms(2) t(1) p(1), where upd = "\<lambda>t s. s\<lparr>oi_retention_end := t\<rparr>", simplified]
    parse_end[OF assms(2) t(2) p(2), where upd = "\<lambda>t s. s\<lparr>oi_expiration_end := t\<rparr>", simplified]
  obtain p where p: "AtmosGetObjectInfoResponse_parse E zero_object_info_part xml n = Some p"
    "p = \<lparr>oi_object_id = b1, oi_selection = b2, oi_replicas = rs, oi_replica_count = int (length (info_replicas x)),
       oi_retention_enabled = of_bool (fst (info_retention x)), oi_retention_end = snd (period_entry (info_retention x)),
       oi_expiration_enabled = of_bool (fst (info_expiration x)), oi_expiration_end = snd (period_entry (info_expiration x))\<rparr>"
    using s 1(1) 2(1) rs(1) on
    by (cases "snd (info_retention x)"; cases "snd (info_expiration x)")
      (simp_all add: AtmosGetObjectInfoResponse_parse_def assms(5) Let_def ends set_value_def[of "Some v" for v] truth_boolean
        period_entry_def zero_object_info_part_def)
  moreover have "holds_info p x" using p(2) 1(2) 2(2) rs(2) by (simp add: holds_info_def) (simp add: period_entry_def)
  ultimately show ?thesis by blast
qed

section \<open>The operations\<close>

definition answers_info :: "env \<Rightarrow> RestResponse \<Rightarrow> info \<Rightarrow> bool" where
  "answers_info E base x \<longleftrightarrow>
     (\<exists>doc. xmlReadMemory E (rs_body base) (rs_content_length base) = Some (Some doc) \<and> shows_info E doc x)"

text \<open>The requests of the three operations.\<close>

lemma info_request:
  assumes "rest_client_ok E" "cstring key" "cstring pool"
    and "operation \<in> {AtmosClient_get_object_info E c key, AtmosClient_get_object_info_ns E c key,
       AtmosClient_get_object_info_keypool E c pool key}"
  shows "\<exists>rq. (\<forall>rs. operation rs = execute_plain E c [AtmosFilter_parse_get_info_response E] rq rs) \<and> sendable rq"
proof -
  have "good_line (pool_header pool)"
    using good_line_snprintf[of ATMOS_HEADER_POOL "CHR '' '' # pool" ATMOS_PATH_MAX] assms(3) by (simp add: pool_header_def literals)
  then have "sendable rq"
    if "rq \<in> {rest_request E (snprintf_text (ATMOS_OID_LENGTH + 64) (''/rest/objects/'' @ key @ ''?info'')) HTTP_GET,
        rest_request E (snprintf_text (ATMOS_PATH_MAX + 64) (''/rest/namespace'' @ key @ ''?info'')) HTTP_GET,
        add_header E (rest_request E (snprintf_text (ATMOS_PATH_MAX + 64) (''/rest/namespace/'' @ key @ ''?info'')) HTTP_GET) (pool_header pool)}" for rq
    using that assms(2) by (auto simp: sendable_def rest_request_simps[OF assms(1)] add_header_ok[OF assms(1)] snprintf_text_def intro!: cstring_take)
  moreover obtain rq where "rq \<in> {rest_request E (snprintf_text (ATMOS_OID_LENGTH + 64) (''/rest/objects/'' @ key @ ''?info'')) HTTP_GET,
        rest_request E (snprintf_text (ATMOS_PATH_MAX + 64) (''/rest/namespace'' @ key @ ''?info'')) HTTP_GET,
        add_header E (rest_request E (snprintf_text (ATMOS_PATH_MAX + 64) (''/rest/namespace/'' @ key @ ''?info'')) HTTP_GET) (pool_header pool)}"
    "\<forall>rs. operation rs = execute_plain E c [AtmosFilter_parse_get_info_response E] rq rs"
    using assms(4) unfolding AtmosClient_get_object_info_def[abs_def] AtmosClient_get_object_info_ns_def[abs_def]
      AtmosClient_get_object_info_keypool_def[abs_def] by blast
  ultimately show ?thesis by blast
qed

text \<open>
  C14: The information about an object reaches the caller, whether the object is named by its ID, its path or its key in a pool: when the
  signed request is sent and the server answers with it, the operation returns, and the structure of the response holds the object ID, the selection, all replicas
  in order with all their fields, and the retention and expiration periods with their ends in UTC (0 where there is none).
\<close>

theorem object_info_read:
  assumes "mem_ok E" "base64_ok E" "rest_library_ok E hs" "client_ok E c" "cstring key" "cstring pool"
    and "have_tm_gmtoff E = mktime_uses_gmtoff E" "info_ok x"
    and "operation \<in> {AtmosClient_get_object_info E c key, AtmosClient_get_object_info_ns E c key,
       AtmosClient_get_object_info_keypool E c pool key}"
    and "\<forall>sent base body blocks. transfers E c sent (AtmosGetObjectInfoResponse_init E) base body blocks \<longrightarrow>
       http_code base = 200 \<and> answers_info E base x"
  shows "\<exists>rq' rs p. operation (AtmosGetObjectInfoResponse_init E) = Some rs \<and> http_code (s_base rs) = 200 \<and>
     sub_of rs = Some (GetObjectInfo_response p) \<and> holds_info p x \<and> answers_signed E c rq' (AtmosGetObjectInfoResponse_init E) (s_base rs)"
proof -
  let ?rs = "AtmosGetObjectInfoResponse_init E"
  let ?xs = "[(AtmosFilter_parse_get_info_response E, \<lambda>c. Some, on_success (info_answer E))] :: halves list"
  obtain rq where rq: "\<forall>rs. operation rs = execute_plain E c [AtmosFilter_parse_get_info_response E] rq rs" "sendable rq"
    using info_request[OF rest_library_okD(1)[OF assms(3)] assms(5,6,9)] by blast
  have halves: "\<forall>x \<in> set ?xs. halves_of x" by auto
  have prepared: "foldM (\<lambda>rq x. fst (snd x) c rq) rq (rev ?xs) = Some rq" by simp
  obtain rq' base where base: "http_code base = 200" "answers_info E base x"
    "execute E c (map fst ?xs) (rq, ?rs) = foldM (\<lambda>st fin. fin st) (rq', ?rs\<lparr>s_base := base\<rparr>) (map (snd \<circ> snd) ?xs)"
    "answers_signed E c rq' ?rs base"
    using execute_answered[OF assms(1-4) halves prepared rq(2) assms(10)] by blast
  obtain p where p: "AtmosGetObjectInfoResponse_parse E zero_object_info_part (rs_body base) (rs_content_length base) = Some p" "holds_info p x"
    using base(2) parse_shown_info[OF assms(1,7,8)] unfolding answers_info_def by blast
  obtain a where a: "s_atmos ?rs = Some (a, GetObjectInfo_response zero_object_info_part)"
    by (simp add: AtmosGetObjectInfoResponse_init_def set_response_class_def AtmosResponse_init_def)
  then have "info_answer E (?rs\<lparr>s_base := base\<rparr>) = Some (?rs\<lparr>s_base := base, s_atmos := Some (a, GetObjectInfo_response p)\<rparr>)"
    using p(1) by (simp add: info_answer_def)
  then have "operation ?rs = Some (?rs\<lparr>s_base := base, s_atmos := Some (a, GetObjectInfo_response p)\<rparr>)"
    using base(1,3) rq(1) by (simp add: execute_plain_def on_success_def)
  then show ?thesis using p(2) base(1,4) by (auto simp: sub_of_def)
qed

text \<open>A server that knows one object with one replica.\<close>

definition sample_info :: info where
  "sample_info = \<lparr>info_id = ''4ee696e4'', info_selection = ''geographic'',
     info_replicas = [(3, ''sync'', True, ''Boston'', ''Normal'')],
     info_retention = (True, Some \<lparr>tm_year = 2012, tm_mon = 3, tm_mday = 29, tm_hour = 19, tm_min = 1, tm_sec = 11\<rparr>),
     info_expiration = (False, None)\<rparr>"

definition sample_answers :: "(string \<times> string) list" where
  "sample_answers = [(''//cos:objectId'', ''4ee696e4''), (''//cos:selection'', ''geographic''), (''//cos:replicas/cos:replica'', ''''),
     (''//cos:replicas/cos:replica[1]/cos:id'', ''3''), (''//cos:replicas/cos:replica[1]/cos:type'', ''sync''),
     (''//cos:replicas/cos:replica[1]/cos:current'', ''true''), (''//cos:replicas/cos:replica[1]/cos:location'', ''Boston''),
     (''//cos:replicas/cos:replica[1]/cos:storageType'', ''Normal''), (''//cos:retention/cos:enabled'', ''true''),
     (''//cos:retention/cos:endAt'', ''2012-03-29T19:01:11Z''), (''//cos:expiration/cos:enabled'', ''false''),
     (''//cos:expiration/cos:endAt'', '''')]"

definition info_env :: env where
  "info_env = answering (\<lambda>b. b\<lparr>http_code := 200, rs_body := ''<list/>'', rs_content_length := 7\<rparr>)
     (list_env\<lparr>xmlXPathEval := \<lambda>root cos path. map_option (\<lambda>v. [XmlNode True ''node'' (Some v) []]) (map_of sample_answers path)\<rparr>)"

lemma info_env_ok:
  "mem_ok info_env" "base64_ok info_env" "rest_library_ok info_env (\<lambda>rq. [])" "client_ok info_env sample_client"
  using mem_ok_list_env base64_ok_list_env sample_client_ok
  by (simp_all add: info_env_def rest_library_ok_list_env answering_library_ok)

lemma sample_texts:
  "node_text info_env doc path = map_of sample_answers path"
  by (cases "map_of sample_answers path") (simp_all add: AtmosUtil_select_single_node_value_def AtmosUtil_select_nodes_def info_env_def answering_def)

lemma sample_info_shown: "shows_info info_env doc sample_info"
proof -
  let ?t = "\<lparr>tm_year = 2012, tm_mon = 3, tm_mday = 29, tm_hour = 19, tm_min = 1, tm_sec = 11\<rparr>"
  have texts: "iso_text ?t @ ''Z'' = ''2012-03-29T19:01:11Z''" "show_int 3 = ''3''" "show_int 1 = ''1''" by code_simp+
  have nodes: "\<exists>nodes. xmlXPathEval info_env doc True ''//cos:replicas/cos:replica'' = Some nodes \<and> length nodes = 1"
    by (simp add: info_env_def answering_def sample_answers_def)
  have replica: "shows_replica info_env doc (Suc 0) (3, ''sync'', True, ''Boston'', ''Normal'')"
    by (simp add: shows_replica_def sample_texts replica_field_def texts boolean_def sample_answers_def)
  have retention: "shows_period info_env doc ''retention'' (True, Some ?t)"
    unfolding shows_period_def prod.sel option.case texts by (simp add: sample_texts boolean_def sample_answers_def)
  have expiration: "shows_period info_env doc ''expiration'' (False, None)"
    by (simp add: shows_period_def sample_texts boolean_def sample_answers_def)
  have top: "node_text info_env doc ''//cos:objectId'' = Some ''4ee696e4''" "node_text info_env doc ''//cos:selection'' = Some ''geographic''"
    by (simp_all add: sample_texts sample_answers_def)
  show ?thesis unfolding shows_info_def using top nodes replica retention expiration by (simp add: sample_info_def)
qed

theorem object_info_read_witness:
  "\<exists>rs p. AtmosClient_get_object_info info_env sample_client ''4ee696e4'' (AtmosGetObjectInfoResponse_init info_env) = Some rs \<and>
     sub_of rs = Some (GetObjectInfo_response p) \<and> oi_replica_count p = 1 \<and>
     map replica_view (oi_replicas p) = [(3, Some ''sync'', 1, Some ''Boston'', Some ''Normal'')] \<and>
     (oi_retention_enabled p, oi_retention_end p) = (1, 1333047671)"
proof -
  let ?t = "\<lparr>tm_year = 2012, tm_mon = 3, tm_mday = 29, tm_hour = 19, tm_min = 1, tm_sec = 11\<rparr>"
  let ?rs = "AtmosGetObjectInfoResponse_init info_env"
  have ok: "info_ok sample_info" by (simp add: info_ok_def sample_info_def fits_def replica_ok_def tm_ok_def)
  have zone: "have_tm_gmtoff info_env = mktime_uses_gmtoff info_env" by (simp add: info_env_def answering_def list_env_def)
  have key: "cstring ''4ee696e4''" by simp
  have server: "\<forall>sent base body blocks. transfers info_env sample_client sent ?rs base body blocks \<longrightarrow>
      http_code base = 200 \<and> answers_info info_env base sample_info"
  proof (intro allI impI)
    fix sent base body blocks
    assume "transfers info_env sample_client sent ?rs base body blocks"
    from answering_base[OF this[unfolded info_env_def]]
    have b: "base = (s_base ?rs)\<lparr>http_code := 200, rs_body := ''<list/>'', rs_content_length := 7\<rparr>" by (simp add: info_env_def)
    have "xmlReadMemory info_env ''<list/>'' 7 = Some (Some (XmlNode True ''Error'' (Some []) []))"
      by (simp add: xmlReadMemory_def info_env_def answering_def list_env_def to_int32_def)
    then show "http_code base = 200 \<and> answers_info info_env base sample_info"
      using sample_info_shown by (simp add: answers_info_def b)
  qed
  obtain rs p where r: "AtmosClient_get_object_info info_env sample_client ''4ee696e4'' ?rs = Some rs"
    "sub_of rs = Some (GetObjectInfo_response p)" "holds_info p sample_info"
    using object_info_read[OF info_env_ok key key zone ok insertI1 server] by blast
  have "timegm ?t = 1333047671" by code_simp
  then have "period_entry (info_retention sample_info) = (1, 1333047671)" by (simp add: period_entry_def sample_info_def)
  moreover have "map replica_entry (info_replicas sample_info) = [(3, Some ''sync'', 1, Some ''Boston'', Some ''Normal'')]"
    "length (info_replicas sample_info) = 1" by (simp_all add: sample_info_def replica_entry_def)
  ultimately show ?thesis using r by (intro exI[of _ rs] exI[of _ p]) (simp add: holds_info_def)
qed

end
