(* ===== verification/Token_Laws.thy ===== *)
theory Token_Laws
  imports Create_Laws
begin

text \<open>
  Creating an access token, end to end: the headers that say for what the token is and what its uploads will carry, the
  policy in the body, and the token ID that is cut out of the answer's location.
\<close>

section \<open>The request\<close>

text \<open>The part of a token request that is written like the contents of a write request.\<close>

definition token_contents :: "token_request_part \<Rightarrow> write_part" where
  "token_contents t = \<lparr>w_meta = tk_meta t, w_meta_count = tk_meta_count t, w_listable_meta = tk_listable_meta t,
     w_listable_meta_count = tk_listable_meta_count t, w_acl = tk_acl t, w_acl_count = tk_acl_count t, w_checksum = None\<rparr>"

text \<open>A token is for an object, or else for a path, or else for no object in particular.\<close>

definition target_lines :: "string \<Rightarrow> string \<Rightarrow> string list" where
  "target_lines oid path =
     (if oid \<noteq> [] then [snprintf_text ATMOS_SIMPLE_HEADER_MAX (ATMOS_HEADER_OBJECTID @ '': '' @ oid)]
      else if path \<noteq> [] then [snprintf_text ATMOS_SIMPLE_HEADER_MAX (ATMOS_HEADER_PATH @ '': '' @ path)] else [])"

lemma good_target_lines:
  assumes "cstring oid" "cstring path"
  shows "\<forall>h \<in> set (target_lines oid path). good_line h"
  using good_line_snprintf[of ATMOS_HEADER_OBJECTID "CHR '' '' # oid" ATMOS_SIMPLE_HEADER_MAX]
    good_line_snprintf[of ATMOS_HEADER_PATH "CHR '' '' # path" ATMOS_SIMPLE_HEADER_MAX] assms
  by (simp add: target_lines_def literals)

lemma token_headers_lines:
  assumes "mem_ok E" "cl_enable_utf8_metadata c \<noteq> 0 \<longrightarrow> escape_total E" "write_contents (token_contents t) M LM A"
    "c_str (tk_object_id t) = Some oid" "c_str (tk_path t) = Some path"
  shows "token_headers E c t rq = Some (add_headers E rq (target_lines oid path @ write_lines E (cl_enable_utf8_metadata c) M LM A))"
  using metadata_headers_lines[OF assms(1-3)] assms(4,5)
  by (simp add: token_headers_def target_lines_def token_contents_def add_headers_append)

text \<open>An array body replaces the body of a request and touches nothing else.\<close>

definition array_body_ok :: "env \<Rightarrow> bool" where
  "array_body_ok E \<longleftrightarrow> (\<forall>b d n ct. \<exists>body. RestRequest_set_array_body E b d n ct = b\<lparr>rq_body := Some body\<rparr> \<and>
     rb_body body = d \<and> rb_data_size body = int n)"

text \<open>
  The request of a token as it is handed on: with the headers of its contents, and either with the policy as its body or with the content type
  that keeps curl from choosing its own.
\<close>

definition carries_policy :: "env \<Rightarrow> string option \<Rightarrow> request \<Rightarrow> bool" where
  "carries_policy E policy rq \<longleftrightarrow>
     (case policy of
        None \<Rightarrow> content_type_header E ''text/xml'' \<in> set (req_headers rq)
      | Some p \<Rightarrow> (\<exists>text body. Atmos_policyType_marshal E p = Some text \<and> rq_body (r_base rq) = Some body \<and>
          rb_body body = text \<and> rb_data_size body = int (length text)))"

lemma sendable_add_headers:
  assumes "rest_client_ok E" "sendable rq" "\<forall>h \<in> set hs. good_line h"
  shows "sendable (add_headers E rq hs)"
  using assms(2,3) by (induction hs arbitrary: rq) (simp_all add: sendable_add_header[OF assms(1)])

lemma token_request_prepared:
  assumes "rest_client_ok E" "mem_ok E" "array_body_ok E" "cl_enable_utf8_metadata c \<noteq> 0 \<longrightarrow> escape_total E"
    and "r_sub rq = CreateAccessToken_request t" "c_str (tk_object_id t) = Some oid" "c_str (tk_path t) = Some path"
    and "write_contents (token_contents t) M LM A" "\<forall>p. tk_policy t = Some p \<longrightarrow> Atmos_policyType_marshal E p \<noteq> None"
    and "sendable rq" "cstring (HTTP_HEADER_CONTENT_TYPE E)"
  shows "\<exists>rq1. sendable rq1 \<and> r_sub rq1 = r_sub rq \<and> carries_policy E (tk_policy t) rq1 \<and>
     set (target_lines oid path @ write_lines E (cl_enable_utf8_metadata c) M LM A) \<subseteq> set (req_headers rq1) \<and>
     (\<forall>nxt rs. AtmosFilter_create_access_token E c nxt (rq, rs) = do { st \<leftarrow> call_next nxt (rq1, rs); on_success (token_from_location E) st })"
proof -
  let ?lines = "target_lines oid path @ write_lines E (cl_enable_utf8_metadata c) M LM A"
  let ?rq = "add_headers E rq ?lines"
  note add = req_headers_add_headers[OF assms(1)]
  have "\<forall>h \<in> set ?lines. good_line h"
    using good_target_lines[of oid path] c_str_cstring[OF assms(6)] c_str_cstring[OF assms(7)] good_write_lines[OF assms(4,8)] by auto
  from sendable_add_headers[OF assms(1,10) this] have s: "sendable ?rq" .
  note lines = token_headers_lines[OF assms(2,4,8,6,7), of rq]
  show ?thesis
  proof (cases "tk_policy t")
    case None
    have ct: "good_line (content_type_header E ''text/xml'')" using assms(11) by (simp add: good_line_def content_type_header_def)
    let ?rq1 = "add_header E ?rq (content_type_header E ''text/xml'')"
    have "carries_policy E (tk_policy t) ?rq1" "set ?lines \<subseteq> set (req_headers ?rq1)"
      using None by (auto simp: carries_policy_def add_header_ok[OF assms(1)] add)
    then show ?thesis using None assms(5) lines sendable_add_header[OF assms(1) s ct]
      by (intro exI[of _ ?rq1]) (simp add: AtmosFilter_create_access_token_def)
  next
    case (Some p)
    then obtain t0 where t0: "Atmos_policyType_marshal E p = Some t0" using assms(9) by auto
    obtain body where body: "RestRequest_set_array_body E (r_base ?rq) t0 (length t0) ''text/xml'' = (r_base ?rq)\<lparr>rq_body := Some body\<rparr>"
      "rb_body body = t0" "rb_data_size body = int (length t0)"
      using assms(3) unfolding array_body_ok_def by blast
    let ?rq1 = "upd_base (\<lambda>b. RestRequest_set_array_body E b t0 (length t0) ''text/xml'') ?rq"
    have "sendable ?rq1" using s by (simp add: sendable_def body(1))
    moreover have "carries_policy E (tk_policy t) ?rq1" using Some t0 body by (simp add: carries_policy_def)
    moreover have "set ?lines \<subseteq> set (req_headers ?rq1)" using body(1) by (auto simp: add)
    ultimately show ?thesis using Some assms(5) lines t0
      by (intro exI[of _ ?rq1]) (simp add: AtmosFilter_create_access_token_def)
  qed
qed

text \<open>
  A policy that the XML binding cannot write stops the operation: nothing behind the filter is called, so nothing is sent, and
  the response reports status 400 with the message of the code.
\<close>

lemma unserialisable_policy_stops:
  assumes "token_headers E c t rq = Some rq1" "r_sub rq = CreateAccessToken_request t" "tk_policy t = Some p" "Atmos_policyType_marshal E p = None"
    and "s_atmos rs = Some (a, sub)" "length (atmos_error_message a) = ATMOS_ERROR_MAX"
  shows "\<exists>b. AtmosFilter_create_access_token E c nxt (rq, rs) = Some (rq1, rs\<lparr>s_base := (s_base rs)\<lparr>http_code := 400\<rparr>,
     s_atmos := Some (a\<lparr>atmos_error := 0, atmos_error_message := b\<rparr>, sub)\<rparr>) \<and> c_str b = Some ''Could not serialize policy object!''"
proof -
  have "length ''Could not serialize policy object!'' < length (atmos_error_message a)" "cstring ''Could not serialize policy object!''"
    using assms(6) by simp_all
  then obtain b where "strcpy (atmos_error_message a) ''Could not serialize policy object!'' = Some b"
    "c_str b = Some ''Could not serialize policy object!''" using strcpy_ok strcpy_c_str by metis
  then show ?thesis using assms by (intro exI[of _ b]) (simp add: AtmosFilter_create_access_token_def policy_error_def upd_atmos_def)
qed

section \<open>The answer\<close>

definition token_created :: "env \<Rightarrow> RestResponse \<Rightarrow> string \<Rightarrow> bool" where
  "token_created E base token \<longleftrightarrow> http_code base = 201 \<and>
     RestResponse_get_header_value E base (HTTP_HEADER_LOCATION E) = Some (''/rest/accesstokens/'' @ token)"

lemma token_stored:
  assumes "token_created E base token" "cstring token" "length token < ATMOS_SIMPLE_HEADER_MAX"
    "s_atmos rs = Some (a, CreateAccessToken_response (zeros ATMOS_SIMPLE_HEADER_MAX))" "s_base rs = base"
  shows "\<exists>b. token_from_location E rs = Some (rs\<lparr>s_atmos := Some (a, CreateAccessToken_response b)\<rparr>) \<and> c_str b = Some token"
proof -
  have "strstr (''/rest/accesstokens/'' @ token) ATMOS_ACCESS_TOKEN_LOCATION_PREFIX = Some 0"
    by (simp add: strstr_zero ATMOS_ACCESS_TOKEN_LOCATION_PREFIX_def del: strstr.simps)
  moreover obtain b where "strncpy (zeros ATMOS_SIMPLE_HEADER_MAX) token ATMOS_SIMPLE_HEADER_MAX = Some b" "c_str b = Some token"
    using strncpy_fits[OF assms(2,3), of "zeros ATMOS_SIMPLE_HEADER_MAX"] by auto
  ultimately show ?thesis using assms
    by (intro exI[of _ b])
      (simp add: token_from_location_def token_created_def store_token_def upd_sub_def ATMOS_ACCESS_TOKEN_LOCATION_PREFIX_def del: strstr.simps)
qed

section \<open>The operation\<close>

text \<open>
  C12: Creating an access token works end to end: for an object, for a path or for neither, with any metadata and ACL for what is
  uploaded with it and with or without a policy, the request goes out signed; its headers name the target and
  have the lines of the metadata and ACL, its body is the policy as the XML binding writes it; and when the server answers 201 with
  the location of the token, the caller's response holds the token's ID as a C string.
\<close>

theorem access_token_created:
  assumes "mem_ok E" "base64_ok E" "rest_library_ok E hs" "client_ok E c" "cl_enable_utf8_metadata c \<noteq> 0 \<longrightarrow> escape_total E" "array_body_ok E"
    and "r_sub rq = CreateAccessToken_request t" "c_str (tk_object_id t) = Some oid" "c_str (tk_path t) = Some path"
    and "write_contents (token_contents t) M LM A" "\<forall>p. tk_policy t = Some p \<longrightarrow> Atmos_policyType_marshal E p \<noteq> None"
    and "sendable rq" "cstring (HTTP_HEADER_CONTENT_TYPE E)" "cstring token" "length token < ATMOS_SIMPLE_HEADER_MAX"
    and "\<forall>sent base body blocks. transfers E c sent (AtmosCreateAccessTokenResponse_init E) base body blocks \<longrightarrow> token_created E base token"
  shows "\<exists>sent base body blocks rs' b.
     AtmosClient_create_access_token E c (rq, AtmosCreateAccessTokenResponse_init E) = Some (upd_base (\<lambda>b. b\<lparr>rq_body := body\<rparr>) sent, rs') \<and>
     transfers E c sent (AtmosCreateAccessTokenResponse_init E) base body blocks \<and> signed E c sent \<and> carries_policy E (tk_policy t) sent \<and>
     set (target_lines oid path @ write_lines E (cl_enable_utf8_metadata c) M LM A) \<subseteq> set (req_headers sent) \<and>
     s_base rs' = base \<and> sub_of rs' = Some (CreateAccessToken_response b) \<and> c_str b = Some token"
proof -
  note lib = rest_library_okD[OF assms(3)]
  let ?rs = "AtmosCreateAccessTokenResponse_init E"
  obtain rq1 where rq1: "sendable rq1" "carries_policy E (tk_policy t) rq1"
    "set (target_lines oid path @ write_lines E (cl_enable_utf8_metadata c) M LM A) \<subseteq> set (req_headers rq1)"
    "\<And>nxt rs. AtmosFilter_create_access_token E c nxt (rq, rs) = do { st \<leftarrow> call_next nxt (rq1, rs); on_success (token_from_location E) st }"
    using token_request_prepared[OF lib(1) assms(1,6,5,7-13)] by blast
  obtain uid secret where c: "c_str (cl_uid c) = Some uid" "c_str (cl_secret c) = Some secret" and now: "\<bar>time_now E\<bar> < 2 ^ 63"
    using assms(4) by (auto simp: client_ok_def)
  obtain sent where sent: "outgoing E hs c rq1 = Some sent" using outgoing_sends[OF assms(1-3) now c sendableD(1,2)[OF rq1(1)]] by blast
  note f = outgoing_fields[OF lib(1) sent]
  obtain base body blocks where tr: "transfers E c sent ?rs base body blocks"
    using lib(5) unfolding transfers_always_def by blast
  then have answer: "token_created E base token" using assms(16) by blast
  have "send_default E hs c (rq1, ?rs) = Some (upd_base (\<lambda>b. b\<lparr>rq_body := body\<rparr>) sent, ?rs\<lparr>s_base := base\<rparr>)"
    by (rule send_created[OF sent tr]) (use answer f(2) sendableD(3)[OF rq1(1)] in \<open>simp_all add: feed_blocks_def token_created_def\<close>)
  moreover have "AtmosClient_create_access_token E c (rq, ?rs) =
      do { st \<leftarrow> send_default E hs c (rq1, ?rs); on_success (token_from_location E) st }"
    by (simp add: AtmosClient_create_access_token_def execute_chain[OF lib(2)] rq1(4) call_default[OF lib(4)])
  moreover obtain a where "s_atmos ?rs = Some (a, CreateAccessToken_response (zeros ATMOS_SIMPLE_HEADER_MAX))"
    by (simp add: AtmosCreateAccessTokenResponse_init_def set_response_class_def AtmosResponse_init_def)
  then obtain b where b: "token_from_location E (?rs\<lparr>s_base := base\<rparr>) = Some (?rs\<lparr>s_base := base, s_atmos := Some (a, CreateAccessToken_response b)\<rparr>)"
    "c_str b = Some token"
    using token_stored[OF answer assms(14,15), of "?rs\<lparr>s_base := base\<rparr>" a] by auto
  ultimately have "AtmosClient_create_access_token E c (rq, ?rs) = Some (upd_base (\<lambda>b. b\<lparr>rq_body := body\<rparr>) sent,
      ?rs\<lparr>s_base := base, s_atmos := Some (a, CreateAccessToken_response b)\<rparr>)"
    using answer by (simp add: on_success_def token_created_def)
  moreover have "carries_policy E (tk_policy t) sent"
    using rq1(2) f(3,5) by (auto simp: carries_policy_def prefix_def split: option.splits)
  moreover have "set (target_lines oid path @ write_lines E (cl_enable_utf8_metadata c) M LM A) \<subseteq> set (req_headers sent)"
    using rq1(3) f(5) by (auto simp: prefix_def)
  ultimately show ?thesis using tr f(4) b(2) 
    by (intro exI[of _ sent] exI[of _ base] exI[of _ body] exI[of _ blocks] exI[of _ b]
        exI[of _ "?rs\<lparr>s_base := base, s_atmos := Some (a, CreateAccessToken_response b)\<rparr>"] conjI) (simp_all add: sub_of_def)
qed

definition sample_token_part :: token_request_part where
  "sample_token_part = zero_token_request_part\<lparr>tk_path := ''/photos/'' @ NUL # zeros (ATMOS_PATH_MAX - 9), tk_policy := Some ''<policy/>''\<rparr>"

theorem access_token_created_witness:
  "\<exists>rq' rs' b. AtmosClient_create_access_token (answering_env 201 [''Location: /rest/accesstokens/token1'']) sample_client
       ((AtmosCreateAccessTokenRequest_init (answering_env 201 [''Location: /rest/accesstokens/token1'']))\<lparr>r_sub := CreateAccessToken_request sample_token_part\<rparr>,
        AtmosCreateAccessTokenResponse_init (answering_env 201 [''Location: /rest/accesstokens/token1''])) = Some (rq', rs') \<and>
     sub_of rs' = Some (CreateAccessToken_response b) \<and> c_str b = Some ''token1''"
proof -
  let ?lines = "[''Location: /rest/accesstokens/token1'']"
  let ?E = "answering_env 201 ?lines"
  let ?rq = "(AtmosCreateAccessTokenRequest_init ?E)\<lparr>r_sub := CreateAccessToken_request sample_token_part\<rparr>"
    and ?rs = "AtmosCreateAccessTokenResponse_init ?E"
  note env = answering_env_def answering_def list_env_def
  have c: "client_ok ?E sample_client" using answering_env_ok(4) by (simp add: client_ok_def sample_client_def)
  have utf8: "cl_enable_utf8_metadata sample_client \<noteq> 0 \<longrightarrow> escape_total ?E" by (simp add: sample_client_def)
  have array: "array_body_ok ?E" unfolding array_body_ok_def
    by (intro allI, rule exI[of _ "\<lparr>rb_body = d, rb_file_body = None, rb_data_size = int n\<rparr>" for d n]) (simp add: env)
  have t: "c_str (tk_object_id sample_token_part) = Some []" "c_str (tk_path sample_token_part) = Some ''/photos/''"
    "write_contents (token_contents sample_token_part) [] [] []"
    by (simp_all add: sample_token_part_def zero_token_request_part_def write_contents_def token_contents_def arr_holds_def c_str_append_NUL[of "''/photos/''", simplified])
  have policy: "\<forall>p. tk_policy sample_token_part = Some p \<longrightarrow> Atmos_policyType_marshal ?E p \<noteq> None" by (simp add: env)
  have rq: "r_sub ?rq = CreateAccessToken_request sample_token_part" "sendable ?rq"
    by (simp_all add: AtmosCreateAccessTokenRequest_init_def AtmosCreateAccessTokenRequest_init_common_def set_class_def sendable_def
        rest_request_simps[OF rest_library_okD(1)[OF answering_env_ok(3)]])
  have ct: "cstring (HTTP_HEADER_CONTENT_TYPE ?E)" by (simp add: env)
  have server: "\<forall>sent base body blocks. transfers ?E sample_client sent ?rs base body blocks \<longrightarrow> token_created ?E base ''token1''"
  proof (intro allI impI)
    fix sent base body blocks
    assume "transfers ?E sample_client sent ?rs base body blocks"
    from answering_base[OF this[unfolded answering_env_def]]
    have b: "http_code base = 201" "rs_headers base = ?lines" by simp_all
    have "lookup_header ?lines ''Location'' = Some ''/rest/accesstokens/token1''" by code_simp
    then show "token_created ?E base ''token1''" using b by (simp add: token_created_def env del: lookup_header.simps)
  qed
  from access_token_created[OF answering_env_ok(1-3) c utf8 array rq(1) t policy rq(2) ct _ _ server]
  show ?thesis by fastforce
qed

end
