(* ===== verification/Request_Types.thy ===== *)
theory Request_Types
  imports Requests
begin

text \<open>
  The write requests as a state machine: a constructor makes an object, and the program, the
  filters and the transfer change it step by step. Every object that can be reached this way is
  well formed and keeps its class.
\<close>

section \<open>Well-formed write requests\<close>

text \<open>Arrays have their declared sizes, counts stay within them, and a checksum object is one that \<open>AtmosChecksum_init\<close> made.\<close>

definition wf_array :: "('a \<Rightarrow> bool) \<Rightarrow> nat \<Rightarrow> 'a list \<Rightarrow> int \<Rightarrow> bool" where
  "wf_array ok N xs n \<longleftrightarrow> length xs = N \<and> (\<forall>x \<in> set xs. ok x) \<and> 0 \<le> n \<and> n \<le> int N"

definition wf_write_part :: "write_part \<Rightarrow> bool" where
  "wf_write_part w \<longleftrightarrow>
     wf_array wf_metadata ATMOS_META_COUNT_MAX (w_meta w) (w_meta_count w) \<and>
     wf_array wf_metadata ATMOS_META_COUNT_MAX (w_listable_meta w) (w_listable_meta_count w) \<and>
     wf_array wf_acl_entry ATMOS_ACL_COUNT_MAX (w_acl w) (w_acl_count w) \<and>
     (\<forall>c. w_checksum w = Some c \<longrightarrow> checksum_inv c)"

text \<open>The class name of an object says which structure it has.\<close>

fun wf_write_sub :: "string \<Rightarrow> write_sub \<Rightarrow> bool" where
  "wf_write_sub cls Write_only \<longleftrightarrow> cls = ''AtmosWriteObjectRequest''"
| "wf_write_sub cls (Create_sub c) \<longleftrightarrow> cls = ''AtmosCreateObjectRequest'' \<and>
     length (cr_path c) = ATMOS_PATH_MAX \<and> length (cr_pool c) = ATMOS_PATH_MAX"
| "wf_write_sub cls (Update_sub u) \<longleftrightarrow> cls = ''AtmosUpdateObjectRequest'' \<and>
     length (up_object_id u) = ATMOS_UID_MAX \<and> length (up_path u) = ATMOS_PATH_MAX \<and> length (up_pool u) = ATMOS_PATH_MAX"
| "wf_write_sub cls (SetUserMeta_sub u) \<longleftrightarrow> cls = ''AtmosSetUserMetaRequest'' \<and>
     length (su_object_id u) = ATMOS_UID_MAX \<and> length (su_path u) = ATMOS_PATH_MAX \<and> length (su_pool u) = ATMOS_PATH_MAX"

definition wf_write_request :: "request \<Rightarrow> bool" where
  "wf_write_request r \<longleftrightarrow> (\<exists>w sub. r_sub r = Write_request w sub \<and> wf_write_part w \<and> wf_write_sub (rq_class_name (r_base r)) sub)"

lemma wf_write_requestI:
  "r_sub r = Write_request w sub \<Longrightarrow> wf_write_part w \<Longrightarrow> wf_write_sub (rq_class_name (r_base r)) sub \<Longrightarrow> wf_write_request r"
  by (auto simp: wf_write_request_def)

lemma wf_zero_write_part [simp]: "wf_write_part zero_write_part"
  by (simp add: wf_write_part_def wf_array_def zero_write_part_def)

lemma wf_array_set:
  assumes "wf_array ok N xs n" "arr_set xs n x = Some ys" "ok x"
  shows "wf_array ok N ys (n + 1)"
proof -
  have ys: "ys = xs[nat n := x]" "n < int N" using assms(1,2) by (auto simp: arr_set_def wf_array_def split: if_splits)
  then show ?thesis using assms(1,3) set_update_subset_insert[of xs "nat n" x] by (auto simp: wf_array_def)
qed

lemma wf_array_get: "wf_array ok N xs n \<Longrightarrow> arr_get xs n = Some x \<Longrightarrow> ok x"
  by (auto simp: arr_get_def wf_array_def split: if_splits)

section \<open>The life of a write request\<close>

inductive constructed :: "env \<Rightarrow> request \<Rightarrow> bool" for E where
  create: "constructed E (AtmosCreateObjectRequest_init E)"
| create_ns: "AtmosCreateObjectRequest_init_ns E path = Some (Some r) \<Longrightarrow> constructed E r"
| create_keypool: "AtmosCreateObjectRequest_init_keypool E pool key = Some r \<Longrightarrow> constructed E r"
| update: "AtmosUpdateObjectRequest_init E object_id = Some r \<Longrightarrow> constructed E r"
| update_ns: "AtmosUpdateObjectRequest_init_ns E path = Some (Some r) \<Longrightarrow> constructed E r"
| update_keypool: "AtmosUpdateObjectRequest_init_keypool E pool key = Some r \<Longrightarrow> constructed E r"
| set_user_meta: "AtmosSetUserMetaRequest_init E object_id = Some r \<Longrightarrow> constructed E r"
| set_user_meta_ns: "AtmosSetUserMetaRequest_init_ns E path = Some (Some r) \<Longrightarrow> constructed E r"
| set_user_meta_keypool: "AtmosSetUserMetaRequest_init_keypool E pool key = Some r \<Longrightarrow> constructed E r"

text \<open>
  The steps: the operations of the classes, the caller's assignment of a checksum object, the
  headers the filters add, and the blocks the transfer hands to the file filter.
\<close>

inductive write_step :: "env \<Rightarrow> request \<Rightarrow> request \<Rightarrow> bool" for E where
  metadata: "AtmosWriteObjectRequest_add_metadata r name value listable = Some r' \<Longrightarrow> write_step E r r'"
| acl: "AtmosWriteObjectRequest_add_acl r p type perm = Some r' \<Longrightarrow> write_step E r r'"
| range: "AtmosUpdateObjectRequest_set_range r range_start range_end = Some r' \<Longrightarrow> write_step E r r'"
| range_offset: "AtmosUpdateObjectRequest_set_range_offset_size r offset sz = Some r' \<Longrightarrow> write_step E r r'"
| checksum: "r_sub r = Write_request w sub \<Longrightarrow> AtmosChecksum_init E mode alg = Some c \<Longrightarrow>
    write_step E r (r\<lparr>r_sub := Write_request (w\<lparr>w_checksum := Some c\<rparr>) sub\<rparr>)"
| header: "write_step E r (add_header E r h)"
| block: "AtmosWriteObjectRequest_checksum_filter E r data = Some (k, r') \<Longrightarrow> write_step E r r'"

lemma push_metadata_wf:
  assumes "wf_array wf_metadata N meta n" "push_metadata meta n name value = Some (meta', n')"
  shows "wf_array wf_metadata N meta' n'"
proof -
  obtain m nb vb where m: "arr_get meta n = Some m" "strncpy (md_name m) name ATMOS_META_NAME_MAX = Some nb"
    "strncpy (md_value m) value ATMOS_META_VALUE_MAX = Some vb"
    "arr_set meta n (m\<lparr>md_name := nb, md_value := vb\<rparr>) = Some meta'" "n' = n + 1"
    using assms(2) by (auto simp: push_metadata_def bind_eq_Some_conv)
  have "wf_metadata (m\<lparr>md_name := nb, md_value := vb\<rparr>)"
    using wf_array_get[OF assms(1) m(1)] strncpy_length[OF m(2)] strncpy_length[OF m(3)] by (simp add: wf_metadata_def)
  from wf_array_set[OF assms(1) m(4) this] show ?thesis by (simp add: m(5))
qed

lemma constructed_wf:
  assumes "rest_client_ok E" "constructed E r"
  shows "wf_write_request r"
  using assms(2)
proof cases
  case create
  then show ?thesis
    by (intro wf_write_requestI) (auto simp: AtmosCreateObjectRequest_init_def AtmosCreateObjectRequest_common_init_def
      AtmosWriteObjectRequest_init_def new_request_def set_class_def upd_base_def junk_create_part_def)
qed (auto intro!: wf_write_requestI simp: AtmosCreateObjectRequest_init_ns_def AtmosCreateObjectRequest_init_keypool_def AtmosUpdateObjectRequest_init_def
    AtmosUpdateObjectRequest_init_ns_def AtmosUpdateObjectRequest_init_keypool_def AtmosSetUserMetaRequest_init_def
    AtmosSetUserMetaRequest_init_ns_def AtmosSetUserMetaRequest_init_keypool_def AtmosCreateObjectRequest_common_init_def
    AtmosUpdateObjectRequest_init_common_def AtmosSetUserMetaRequest_init_common_def upd_update_def upd_set_user_meta_def
    AtmosWriteObjectRequest_init_def new_request_def set_class_def upd_base_def junk_create_part_def zero_update_part_def
    zero_set_user_meta_part_def bind_eq_Some_conv add_header_def rest_add_header[OF assms(1)] clen split: if_splits)

lemma write_step_wf:
  assumes "rest_client_ok E" "write_step E r r'" "wf_write_request r" "digest_ok E"
  shows "wf_write_request r' \<and> rq_class_name (r_base r') = rq_class_name (r_base r)"
proof -
  obtain w sub where r: "r_sub r = Write_request w sub" "wf_write_part w" "wf_write_sub (rq_class_name (r_base r)) sub"
    using assms(3) by (auto simp: wf_write_request_def)
  from assms(2) show ?thesis
  proof cases
    case metadata then show ?thesis using r
      by (auto intro!: wf_write_requestI simp: AtmosWriteObjectRequest_add_metadata_def bind_eq_Some_conv wf_write_part_def
          dest: push_metadata_wf split: if_splits)
  next
    case (acl p type perm)
    then obtain a b acl' where a: "arr_get (w_acl w) (w_acl_count w) = Some a" "strcpy (principal a) p = Some b"
      "arr_set (w_acl w) (w_acl_count w) (a\<lparr>permission := perm, acl_type := type, principal := b\<rparr>) = Some acl'"
      "r' = r\<lparr>r_sub := Write_request (w\<lparr>w_acl := acl', w_acl_count := w_acl_count w + 1\<rparr>) sub\<rparr>"
      using r(1) by (auto simp: AtmosWriteObjectRequest_add_acl_def bind_eq_Some_conv)
    have acl: "wf_array wf_acl_entry ATMOS_ACL_COUNT_MAX (w_acl w) (w_acl_count w)" using r(2) by (simp add: wf_write_part_def)
    have "wf_acl_entry (a\<lparr>permission := perm, acl_type := type, principal := b\<rparr>)"
      using wf_array_get[OF acl a(1)] strcpy_at_length[OF a(2)] by (simp add: wf_acl_entry_def)
    from wf_array_set[OF acl a(3) this] show ?thesis using r by (auto intro!: wf_write_requestI simp: a(4) wf_write_part_def)
  next
    case range then show ?thesis using r
      by (auto intro!: wf_write_requestI simp: AtmosUpdateObjectRequest_set_range_def upd_update_def split: write_sub.splits)
  next
    case range_offset then show ?thesis using r
      by (auto intro!: wf_write_requestI simp: AtmosUpdateObjectRequest_set_range_offset_size_def upd_update_def bind_eq_Some_conv
          split: write_sub.splits)
  next
    case checksum then show ?thesis using r
      by (auto intro!: wf_write_requestI simp: wf_write_part_def dest: checksum_inv_init[OF assms(4)])
  next
    case header then show ?thesis using r
      by (auto intro!: wf_write_requestI simp: add_header_def upd_base_def rest_add_header[OF assms(1)])
  next
    case block then show ?thesis using r checksum_inv_update
      by (auto intro!: wf_write_requestI simp: AtmosWriteObjectRequest_checksum_filter_def wf_write_part_def split: option.splits)
  qed
qed

text \<open>
  C36: Write requests are type-safe: whatever a program does with an object made by one of the nine constructors of the create,
  update and set-metadata classes (adding metadata and ACL entries, setting a range or a checksum, sending it), as
  long as it stays defined the object keeps its class, the structure that goes with its class name, the sizes of all its
  arrays, and counts that lie within them.
\<close>

theorem write_requests_well_typed:
  assumes "rest_client_ok E" "digest_ok E" "constructed E r" "(write_step E)\<^sup>*\<^sup>* r r'"
  shows "wf_write_request r' \<and> rq_class_name (r_base r') = rq_class_name (r_base r)"
  using assms(4)
proof (induction rule: rtranclp_induct)
  case base then show ?case using constructed_wf[OF assms(1,3)] by simp
next
  case (step s t) then show ?case using write_step_wf[OF assms(1) step.hyps(2) _ assms(2)] by simp
qed

theorem write_requests_well_typed_witness:
  "\<exists>r. AtmosWriteObjectRequest_add_metadata (AtmosCreateObjectRequest_init list_env) ''color'' ''red'' 0 = Some r \<and>
     wf_write_request (add_header list_env r ''x-emc-uid:me'') \<and> rq_class_name (r_base r) = ''AtmosCreateObjectRequest''"
proof -
  let ?r = "AtmosCreateObjectRequest_init list_env"
  have "holds_meta ?r []" by (simp add: empty_write_request_holds create_init_empty)
  from meta_field.add_ok[OF this, of "(''color'', ''red'')"]
  obtain r where r: "AtmosWriteObjectRequest_add_metadata ?r ''color'' ''red'' 0 = Some r" by (auto simp: meta_fits_def cdefs)
  have s: "write_step list_env ?r r" using r by (rule write_step.metadata)
  have "(write_step list_env)\<^sup>*\<^sup>* ?r (add_header list_env r ''x-emc-uid:me'')"
    using s write_step.header by (meson rtranclp.rtrancl_into_rtrancl rtranclp.rtrancl_refl)
  from write_requests_well_typed[OF rest_client_ok_list_env digest_ok_list_env constructed.create this]
    write_requests_well_typed[OF rest_client_ok_list_env digest_ok_list_env constructed.create, of r] s
  have "wf_write_request (add_header list_env r ''x-emc-uid:me'')" "rq_class_name (r_base r) = rq_class_name (r_base ?r)" by auto
  moreover have "rq_class_name (r_base ?r) = ''AtmosCreateObjectRequest''"
    by (simp add: AtmosCreateObjectRequest_init_def AtmosCreateObjectRequest_common_init_def set_class_def upd_base_def)
  ultimately show ?thesis using r by auto
qed

end
