(* ===== verification/Logging.thy ===== *)
theory Logging
  imports Calendar
begin

text \<open>
  The line that \<open>AtmosUtil_log\<close> writes to the error stream for the macros \<open>ATMOS_DEBUG\<close>, \<open>ATMOS_WARN\<close> and \<open>ATMOS_ERROR\<close>, from the message
  its format and arguments make. Nothing in the library reads it back, so the other theories leave the calls out.
\<close>

section \<open>The line of a log\<close>

text \<open>\<open>ctime_r\<close>: the local time (of a zone without summer time, \<open>tz_west\<close> seconds west of UTC) and a newline.\<close>

definition pad_left :: "nat \<Rightarrow> string \<Rightarrow> string" where
  "pad_left n s = replicate (n - length s) CHR '' '' @ s"

definition ctime_text :: "env \<Rightarrow> int \<Rightarrow> string" where
  "ctime_text E t =
     (let l = t - tz_west E; d = gmtime l in
      day_name (weekday l) @ '' '' @ month_name (tm_mon d) @ pad_left 3 (show_int (tm_mday d)) @ '' '' @
      pad2 (tm_hour d) @ '':'' @ pad2 (tm_min d) @ '':'' @ pad2 (tm_sec d) @ '' '' @ show_int (tm_year d) @ [CHR 0x0A])"

definition AtmosUtil_log :: "env \<Rightarrow> string \<Rightarrow> string \<Rightarrow> int \<Rightarrow> string \<Rightarrow> string option" where
  "AtmosUtil_log E level file line message = do {
     msg \<leftarrow> snprintf (replicate 1024 (junk E)) 1024 message;
     stime \<leftarrow> strcpy (replicate 255 (junk E)) (ctime_text E (time_now E));
     s \<leftarrow> c_str stime;
     stime \<leftarrow> (if length s = 0 then None else buf_set stime (length s - 1) NUL);
     s \<leftarrow> c_str stime;
     m \<leftarrow> c_str msg;
     Some (s @ '' - '' @ level @ '' '' @ file @ '':'' @ show_int line @ '': '' @ m)
   }"

text \<open>The macros name the level; file and line are those of the call.\<close>

definition ATMOS_DEBUG :: "env \<Rightarrow> string \<Rightarrow> int \<Rightarrow> string \<Rightarrow> string option" where
  "ATMOS_DEBUG E file line message = AtmosUtil_log E ''DEBUG'' file line message"

definition ATMOS_WARN :: "env \<Rightarrow> string \<Rightarrow> int \<Rightarrow> string \<Rightarrow> string option" where
  "ATMOS_WARN E file line message = AtmosUtil_log E ''WARN'' file line message"

definition ATMOS_ERROR :: "env \<Rightarrow> string \<Rightarrow> int \<Rightarrow> string \<Rightarrow> string option" where
  "ATMOS_ERROR E file line message = AtmosUtil_log E ''ERROR'' file line message"

lemma ctime_example: "ctime_text (list_env\<lparr>tz_west := 18000\<rparr>) 1212683899 = ''Thu Jun  5 11:38:19 2008'' @ [CHR 0x0A]"
  by code_simp

section \<open>Every message is logged\<close>

lemma cstring_ctime: "cstring (ctime_text E t)"
proof -
  let ?l = "t - tz_west E"
  have c: "calendar_date (gmtime ?l)" using gmtime_correct by blast
  have "cstring (day_name (weekday ?l))"
    unfolding day_name_def by (rule cstring_nth) (simp_all add: weekday_def nat_less_iff)
  moreover have "cstring (month_name (tm_mon (gmtime ?l)))"
    unfolding month_name_def by (rule cstring_nth) (use c in \<open>simp_all add: calendar_date_def nat_less_iff\<close>)
  moreover have "cstring (replicate n CHR '' '')" for n by (simp add: cdefs)
  ultimately show ?thesis by (simp add: ctime_text_def Let_def pad_left_def pad2_def)
qed

lemma length_ctime:
  assumes "\<bar>t - tz_west E\<bar> < 2 ^ 63"
  shows "length (ctime_text E t) \<le> 50" "ctime_text E t \<noteq> []"
proof -
  let ?l = "t - tz_west E"
  have c: "calendar_date (gmtime ?l)" using gmtime_correct by blast
  have "length (show_int (tm_year (gmtime ?l))) \<le> Suc 19" by (rule show_int_length[OF gmtime_year[OF assms]]) simp
  moreover have "length (day_name (weekday ?l)) \<le> 3" by (rule day_name_length) (simp_all add: weekday_def)
  moreover have "length (month_name (tm_mon (gmtime ?l))) \<le> 3" using month_name_length c by (simp add: calendar_date_def)
  moreover have "length (show_int (tm_mday (gmtime ?l))) \<le> 2" using c by (intro show_int_small) (simp_all add: calendar_date_def)
  moreover have "length (pad2 (tm_hour (gmtime ?l))) \<le> 2" "length (pad2 (tm_min (gmtime ?l))) \<le> 2" "length (pad2 (tm_sec (gmtime ?l))) \<le> 2"
    using pad2_length c by (simp_all add: calendar_date_def)
  ultimately show "length (ctime_text E t) \<le> 50" by (simp add: ctime_text_def Let_def pad_left_def)
  show "ctime_text E t \<noteq> []" by (simp add: ctime_text_def Let_def)
qed

text \<open>
  For every time and every message, the arrays are large enough: the line has the local time without its newline, level, file and line, and the
  message, of which at most 1023 bytes are printed.
\<close>

lemma log_line:
  assumes "\<bar>time_now E - tz_west E\<bar> < 2 ^ 63" "cstring message"
  shows "AtmosUtil_log E level file line message =
     Some (butlast (ctime_text E (time_now E)) @ '' - '' @ level @ '' '' @ file @ '':'' @ show_int line @ '': '' @ snprintf_text 1024 message)"
proof -
  let ?t = "ctime_text E (time_now E)"
  have t: "cstring ?t" "length ?t \<le> 50" "?t \<noteq> []" by (rule cstring_ctime) (rule length_ctime[OF assms(1)])+
  define r where "r = drop (Suc (length ?t)) (replicate 255 (junk E))"
  have stime: "strcpy (replicate 255 (junk E)) ?t = Some (?t @ NUL # r)"
    using t(2) by (simp add: strcpy_at_def buf_write_def r_def)
  obtain u c where u: "?t = u @ [c]" using t(3) by (cases ?t rule: rev_cases) auto
  have "buf_set (?t @ NUL # r) (length ?t - 1) NUL = Some (u @ NUL # NUL # r)" by (simp add: u buf_set_def)
  moreover have "cstring u" "length ?t \<noteq> 0" using t(1,3) by (simp_all add: u)
  moreover obtain b where "snprintf (replicate 1024 (junk E)) 1024 message = Some b" "c_str b = Some (snprintf_text 1024 message)"
    using snprintf_c_str[OF _ _ assms(2), of 1024 "replicate 1024 (junk E)"] by (auto simp: bind_eq_Some_conv)
  moreover have "c_str (u @ c # NUL # r) = Some (u @ [c])" using c_str_append_NUL[of "u @ [c]" r] t(1) by (simp add: u)
  ultimately show ?thesis using stime by (simp add: AtmosUtil_log_def u)
qed

end
