(* ===== verification/Spec2Isabelle.thy ===== *)
theory Spec2Isabelle
  imports Object_Listing Tag_Laws Info_Laws Token_Laws Request_Types Logging
begin

text \<open>
  A model of the Atmos C client library (\<open>src/lib\<close>) and theorems about it.

  \<^bold>\<open>The program.\<close> The library talks to an Atmos object store over HTTP. A caller initialises a request
  object (\<open>AtmosCreateObjectRequest_init\<close> and its kin), fills it in (metadata, ACL entries, tags, a range, a
  checksum object, a body), initialises a response object and calls an operation of
  \<open>atmos_client.c\<close>. The operation builds a chain of filters, which the REST library
  (\<open>rest-client-c\<close>, not part of this repository) runs: every filter gets request and response,
  changes the request, calls the next filter and then looks at the response. The default filters
  (\<open>AtmosClient_add_default_filters\<close>) read error documents, add date, user and content headers, sign the
  request and send it; in front of them each operation puts the filters of its own request and response classes.

  \<^bold>\<open>Conventions of the model.\<close> Every C function is a HOL function with its name. A function that can
  run into undefined behaviour (a write outside of an array, an unterminated string that is read,
  \<open>NULL\<close> that is dereferenced, signed overflow) returns an option, and \<open>None\<close> is that behaviour; so a theorem that says
  \<open>= Some ...\<close> states that the code returns and is safe on that input. A result that may
  be \<open>NULL\<close> is an option inside. A character array is a \<open>buffer\<close>, the list of all its bytes; a string that
  is only read is the list of the bytes before its terminator (\<open>c_str\<close>). Integers are \<open>int\<close> or \<open>nat\<close>, with
  \<open>to_int32\<close>, \<open>to_int64\<close>, \<open>to_uint64\<close> where the code converts or wraps; the \<open>unsigned int\<close> indexes of
  \<open>AtmosUtil_normalize_whitespace\<close> are natural numbers, which is the same for strings of less than \<open>2^32\<close> bytes. Objects are passed in and
  returned updated. The structures inherit by their first member: a \<open>request\<close> is the \<open>RestRequest\<close> it begins
  with and a constructor for the rest, a \<open>response\<close> likewise. All loops are total functions:
  those over a header consume it (measure: its length), those over arrays count up to a bound,
  and the file loops stop at the end of the file or at the content length; no fuel is used.

  \<^bold>\<open>Parameters.\<close> What is not under \<open>src/\<close> is one record of functions, \<open>env\<close>, the first argument
  \<open>E\<close> of the definitions (\<open>Platform\<close>): allocation, the clock and the time zone, the REST library, curl's
  percent-encoding, OpenSSL's digests, HMAC and base64, libxml2 with XPath, and the XML binding generated from
  the policy schema at build time. What theorems rely on is a named hypothesis there:
    \<^item> \<open>mem_ok\<close>: allocations succeed (only where a theorem says so; \<open>appends_without_memory\<close> does not need it);
    \<^item> \<open>rest_client_ok\<close>, \<open>rest_chain_ok\<close>, \<open>request_lookup_ok\<close>, \<open>response_lookup_ok\<close>, \<open>content_headers_ok\<close>,
      \<open>file_filter_ok\<close>, \<open>array_body_ok\<close>, \<open>transfers\<close>, \<open>rest_library_ok\<close>: the documented behaviour of the REST library;
    \<^item> \<open>digest_ok\<close>, \<open>base64_ok\<close>, \<open>curl_codec_ok\<close>, \<open>escape_total\<close>, \<open>unescape_total\<close>, \<open>xml_ok\<close>: that of the other libraries.
  \<open>list_env\<close> is a concrete environment that satisfies all of them; the witnesses evaluate the theorems there.

  \<^bold>\<open>The theories of the model.\<close>
    \<^item> \<open>Prelude\<close>: iteration in the option monad, splitting and joining of strings, lemma collections;
      \<open>C_Runtime\<close>: \<open>string.h\<close>, \<open>ctype.h\<close>, \<open>stdlib.h\<close>, \<open>stdio.h\<close> over buffers, as far as used.
    \<^item> \<open>Atmos_Types\<close>: the constants and structures of the header files; \<open>Platform\<close>: the parameters.
    \<^item> \<open>String_Builder\<close>, \<open>Header_Text\<close>, \<open>Datetime\<close>, \<open>Header_Writers\<close>, \<open>Header_Parsers\<close>: \<open>atmos_util.c\<close>. The growing
      strings of \<open>AtmosUtil_cstring_append\<close> are pairs of block and size; the in-place loops work on buffers by index.
    \<^item> \<open>Checksum\<close>: \<open>AtmosChecksum\<close> of \<open>atmos_common.c\<close>. \<open>Requests\<close>, \<open>Read_Requests\<close>, \<open>Responses\<close>: constructors, destructors and
      modifiers of the classes in \<open>atmos_common.c\<close>, \<open>atmos_create.c\<close>, \<open>atmos_update.c\<close>, \<open>atmos_read.c\<close>,
      \<open>atmos_versions.c\<close>, \<open>atmos_access_tokens.c\<close>, \<open>atmos_service_info.c\<close>.
    \<^item> \<open>Signing\<close>: canonicalisation, signatures and shareable URLs (\<open>atmos_client.c\<close>). \<open>Xml_Parsers\<close>: the parsers of
      listings, versions, metadata and object information. \<open>Filters\<close>: every \<open>AtmosFilter_*\<close> function, as a
      function of the next filter. \<open>Client\<close>: the client object and all operations of \<open>atmos_client.c\<close>. \<open>Logging\<close>: the line that
      \<open>AtmosUtil_log\<close> prints.

  \<^bold>\<open>The interfaces.\<close> The contracts that components rely on are locales, each interpreted on the model's own
  definitions: \<open>string_builder\<close> (appending concatenates; for \<open>AtmosUtil_cstring_append\<close>), \<open>comma_list\<close> (loops over
  comma-separated headers; for user metadata, system metadata and ACLs), \<open>array_field\<close> (adding to an array with a count;
  for metadata, ACL entries and tags of all request classes), \<open>accumulator\<close> (feeding bytes in pieces; for digests and checksum
  objects), \<open>header_filter\<close>, \<open>response_filter\<close>, \<open>success_filter\<close> and \<open>sandwich\<close> (what a filter may do before and after
  the next one; for the filters of \<open>Filters\<close>), with sublocales from the special filters to \<open>sandwich\<close>.

  \<^bold>\<open>What is proved.\<close>
    \<^item> Signing: the string to sign is the documented one (\<open>canonicalize_request_spec\<close>), does not depend on the order of
      headers, and only signed requests reach the transfer, for every chain that ends in the default filters
      (\<open>Client_Laws\<close>); \<open>AtmosUtil_normalize_whitespace\<close> implements a reference function; shareable URLs.
    \<^item> Operations end to end: \<open>AtmosClient_create_object\<close> returns the ID of the new object and a verifiable checksum
      (\<open>Create_Laws\<close>); an object is read with its content, system, user and listable metadata and ACL (\<open>Read_Laws\<close>), a directory with its
      entries and its own metadata (\<open>Directory_Listing\<close>); the versions of an object and the information about it arrive as the server has them
      (\<open>Version_Laws\<close>, \<open>Info_Laws\<close>), likewise the objects and the tags of a listing (\<open>Object_Listing\<close>, \<open>Tag_Laws\<close>); a new access token
      has the ID the server gave it (\<open>Token_Laws\<close>); stored metadata and ACLs are read back (\<open>Metadata_Laws\<close>, \<open>Acl_Laws\<close>); the operations that delete an object, a version or a
      token always return; an operation that reads leaves the result object alone when it fails (\<open>Client_Laws\<close>), and the error of the service is recorded (\<open>Answer_Laws\<close>).
    \<^item> Headers: what the writers print the parsers read back (\<open>Header_Round_Trips\<close>, \<open>Metadata_Laws\<close>); the headers of write requests in
      order, the checksum headers and their errors (\<open>Filter_Laws\<close>); the checksum that continues over the parts of an
      upload, and ranges (\<open>Part_Laws\<close>); system metadata, with an equation for every field of the structure (\<open>System_Laws\<close>).
    \<^item> XML answers: error documents from memory and from a file, the two passes over user metadata (\<open>Answer_Laws\<close>),
      the metadata of listed entries (\<open>Entry_Metadata\<close>) and the entries of directories
      (\<open>Directory_Laws\<close>).
    \<^item> Checksums refine the one-shot digest, and at every moment are those of the bytes they were given, with the offset counting them; their
      texts always fit; verification accepts exactly the right answers.
      Dates: \<open>gmtime\<close> gives the valid Gregorian date of a time and the \<open>Date\<close> header is that date as HTTP prescribes it (\<open>Calendar\<close>), timestamps are read as the UTC time they name (\<open>Datetime\<close>).
    \<^item> Requests: objects reached from a constructor by any sequence of operations are well typed (\<open>Request_Types\<close>); the
      bounds of arrays, paths and ranges, and where exceeding them is undefined (\<open>Requests\<close>, \<open>Read_Requests\<close>).

  \<^bold>\<open>Not modelled.\<close> The calls of the logging macros, which only print (the line they print is in \<open>Logging\<close>). The XML binding of token policies, which
  style sheets generate at build time: its functions are parameters. Releasing memory, except where a
  destructor changes fields that can be read again. The tests and build files. The header files otherwise only declare
  functions, which are modelled at their definitions.
\<close>

end
